(* ===== verification/Prelude.thy ===== *)
theory Prelude
  imports Complex_Main "HOL-Library.Word" "HOL-Library.Multiset"
begin

text \<open>
  What every component shares.

  \<^item> A Go call either returns a value or panics; a computation over a state \<open>'w\<close> is a
    function \<open>'w \<Rightarrow> 'a outcome \<times> 'w\<close>, sequenced by \<open>bnd\<close>, which stops at a panic.
    Errors that Go returns are ordinary values (sum types).
  \<^item> \<open>pres I m\<close>: the computation \<open>m\<close> keeps the invariant \<open>I\<close>, whether it returns or
    panics.  \<open>hoare P m Q E\<close>: a returned value satisfies \<open>Q\<close>, a panic ends in \<open>E\<close>.  Their rules are collected
    in \<open>pres\<close> and \<open>trip\<close>, so that the proof for a handler follows its text.
  \<^item> SQL tables are lists of rows in insertion order; \<open>upd_where\<close>, \<open>del_where\<close> and
    \<open>order_by\<close> are the UPDATE, DELETE and ORDER BY the statements use.
\<close>

named_theorems pres \<open>invariant preservation rules for computations\<close>
named_theorems trip \<open>rules for returned values\<close>
named_theorems go_defs \<open>definitions of the sequencing operators\<close>
named_theorems table \<open>facts about tables\<close>

section \<open>Computations that return or panic\<close>

datatype 'a outcome = Val 'a | Panic

type_synonym ('w, 'a) prog = "'w \<Rightarrow> 'a outcome \<times> 'w"

definition ret :: "'a \<Rightarrow> ('w, 'a) prog" where
  [go_defs]: "ret x w = (Val x, w)"

definition panic :: "('w, 'a) prog" where
  [go_defs]: "panic w = (Panic, w)"

definition bnd :: "('w, 'a) prog \<Rightarrow> ('a \<Rightarrow> ('w, 'b) prog) \<Rightarrow> ('w, 'b) prog" where
  [go_defs]: "bnd m f w = (case m w of (Val x, w') \<Rightarrow> f x w' | (Panic, w') \<Rightarrow> (Panic, w'))"

definition reads :: "('w \<Rightarrow> 'a) \<Rightarrow> ('w, 'a) prog" where
  [go_defs]: "reads g w = (Val (g w), w)"

definition writes :: "('w \<Rightarrow> 'w) \<Rightarrow> ('w, unit) prog" where
  [go_defs]: "writes g w = (Val (), g w)"

text \<open>A \<open>for\<close> loop over a slice; \<open>for_err\<close> returns at the first error, as
  \<open>if err := ...; err != nil { return err }\<close> does.\<close>

fun for_each :: "'a list \<Rightarrow> ('a \<Rightarrow> ('w, unit) prog) \<Rightarrow> ('w, unit) prog" where
  "for_each [] f = ret ()"
| "for_each (x # xs) f = bnd (f x) (\<lambda>_. for_each xs f)"

fun for_err :: "'a list \<Rightarrow> ('a \<Rightarrow> ('w, 'e + unit) prog) \<Rightarrow> ('w, 'e + unit) prog" where
  "for_err [] f = ret (Inr ())"
| "for_err (x # xs) f =
     bnd (f x) (\<lambda>r. case r of Inl e \<Rightarrow> ret (Inl e) | Inr _ \<Rightarrow> for_err xs f)"

lemma bnd_ret [simp]: "bnd (ret x) f = f x"
  by (rule ext) (simp add: go_defs)

lemma bnd_ret_right [simp]: "bnd m ret = m"
  by (rule ext) (simp add: go_defs split: prod.splits outcome.splits)

lemma bnd_assoc: "bnd (bnd m f) g = bnd m (\<lambda>x. bnd (f x) g)"
  by (rule ext) (simp add: go_defs split: prod.splits outcome.splits)

lemma bnd_panic [simp]: "bnd panic f = panic"
  by (rule ext) (simp add: go_defs)

lemma bnd_ValE:
  assumes "bnd m f w = (Val y, w'')"
  obtains x w' where "m w = (Val x, w')" and "f x w' = (Val y, w'')"
  using assms by (auto simp: bnd_def split: prod.splits outcome.splits)

section \<open>Invariant preservation\<close>

definition pres :: "('w \<Rightarrow> bool) \<Rightarrow> ('w, 'a) prog \<Rightarrow> bool" where
  "pres I m \<longleftrightarrow> (\<forall>w. I w \<longrightarrow> I (snd (m w)))"

lemma presI: "(\<And>w. I w \<Longrightarrow> I (snd (m w))) \<Longrightarrow> pres I m"
  by (simp add: pres_def)

lemma presD: "pres I m \<Longrightarrow> I w \<Longrightarrow> I (snd (m w))"
  by (simp add: pres_def)

lemma presE: "pres I m \<Longrightarrow> m w = (r, w') \<Longrightarrow> I w \<Longrightarrow> I w'"
  by (metis presD snd_conv)

lemma pres_ret [pres]: "pres I (ret x)"
  by (simp add: pres_def go_defs)

lemma pres_panic [pres]: "pres I panic"
  by (simp add: pres_def go_defs)

lemma pres_reads [pres]: "pres I (reads g)"
  by (simp add: pres_def go_defs)

lemma pres_writes: "(\<And>w. I w \<Longrightarrow> I (g w)) \<Longrightarrow> pres I (writes g)"
  by (simp add: pres_def go_defs)

lemma pres_bnd [pres]: "pres I m \<Longrightarrow> (\<And>x. pres I (f x)) \<Longrightarrow> pres I (bnd m f)"
  by (fastforce simp: pres_def bnd_def split: prod.split outcome.split)

text \<open>The continuation only needs to be considered on the values the first part returns.\<close>

lemma pres_bnd_val:
  "pres I m \<Longrightarrow> (\<And>x w w'. I w \<Longrightarrow> m w = (Val x, w') \<Longrightarrow> pres I (f x)) \<Longrightarrow> pres I (bnd m f)"
  by (fastforce simp: pres_def bnd_def split: prod.split outcome.split)

lemma pres_if [pres]: "(b \<Longrightarrow> pres I m) \<Longrightarrow> (\<not> b \<Longrightarrow> pres I n) \<Longrightarrow> pres I (if b then m else n)"
  by simp

lemma pres_case_option [pres]:
  "(x = None \<Longrightarrow> pres I m) \<Longrightarrow> (\<And>y. x = Some y \<Longrightarrow> pres I (f y)) \<Longrightarrow>
   pres I (case x of None \<Rightarrow> m | Some y \<Rightarrow> f y)"
  by (cases x) auto

lemma pres_case_sum [pres]:
  "(\<And>y. x = Inl y \<Longrightarrow> pres I (f y)) \<Longrightarrow> (\<And>y. x = Inr y \<Longrightarrow> pres I (g y)) \<Longrightarrow>
   pres I (case x of Inl y \<Rightarrow> f y | Inr y \<Rightarrow> g y)"
  by (cases x) auto

lemma pres_case_prod [pres]:
  "(\<And>a b. x = (a, b) \<Longrightarrow> pres I (f a b)) \<Longrightarrow> pres I (case x of (a, b) \<Rightarrow> f a b)"
  by (cases x) auto

lemma pres_case_list [pres]:
  "(x = [] \<Longrightarrow> pres I m) \<Longrightarrow> (\<And>y ys. x = y # ys \<Longrightarrow> pres I (f y ys)) \<Longrightarrow>
   pres I (case x of [] \<Rightarrow> m | y # ys \<Rightarrow> f y ys)"
  by (cases x) auto

lemma pres_Let [pres]: "pres I (f x) \<Longrightarrow> pres I (let y = x in f y)"
  by simp

lemma pres_for_each [pres]: "(\<And>x. pres I (f x)) \<Longrightarrow> pres I (for_each xs f)"
  by (induction xs) (auto intro: pres)

lemma pres_for_err [pres]: "(\<And>x. pres I (f x)) \<Longrightarrow> pres I (for_err xs f)"
  by (induction xs) (auto intro!: pres)

lemma pres_conj: "pres I m \<Longrightarrow> pres J m \<Longrightarrow> pres (\<lambda>w. I w \<and> J w) m"
  by (simp add: pres_def)

section \<open>Hoare triples\<close>

text \<open>\<open>hoare P m Q E\<close>: from a state satisfying \<open>P\<close>, a returned value and the state then satisfy
  \<open>Q\<close>, and the state after a panic satisfies \<open>E\<close>.\<close>

definition hoare ::
    "('w \<Rightarrow> bool) \<Rightarrow> ('w, 'a) prog \<Rightarrow> ('a \<Rightarrow> 'w \<Rightarrow> bool) \<Rightarrow> ('w \<Rightarrow> bool) \<Rightarrow> bool" where
  "hoare P m Q E \<longleftrightarrow> (\<forall>w. P w \<longrightarrow> (case m w of (Val x, w') \<Rightarrow> Q x w' | (Panic, w') \<Rightarrow> E w'))"

lemma hoareI:
  "(\<And>w x w'. P w \<Longrightarrow> m w = (Val x, w') \<Longrightarrow> Q x w') \<Longrightarrow>
   (\<And>w w'. P w \<Longrightarrow> m w = (Panic, w') \<Longrightarrow> E w') \<Longrightarrow> hoare P m Q E"
  by (simp add: hoare_def split: prod.split outcome.split)

lemma hoareD: "hoare P m Q E \<Longrightarrow> P w \<Longrightarrow> m w = (Val x, w') \<Longrightarrow> Q x w'"
  by (fastforce simp: hoare_def)

lemma hoareD_panic: "hoare P m Q E \<Longrightarrow> P w \<Longrightarrow> m w = (Panic, w') \<Longrightarrow> E w'"
  by (fastforce simp: hoare_def)

lemma hoare_pres: "hoare I m (\<lambda>_. I) I \<longleftrightarrow> pres I m"
proof -
  have "(case p of (Val x, w') \<Rightarrow> I w' | (Panic, w') \<Rightarrow> I w') = I (snd p)" for p :: "'b outcome \<times> 'a"
    by (simp split: prod.split outcome.split)
  then show ?thesis by (simp add: hoare_def pres_def)
qed

lemma hoare_ret [trip]: "(\<And>w. P w \<Longrightarrow> Q x w) \<Longrightarrow> hoare P (ret x) Q E"
  by (simp add: hoare_def go_defs)

lemma hoare_panic [trip]: "(\<And>w. P w \<Longrightarrow> E w) \<Longrightarrow> hoare P panic Q E"
  by (simp add: hoare_def go_defs)

lemma hoare_bnd [trip]:
  "hoare P m R E \<Longrightarrow> (\<And>x. hoare (R x) (f x) Q E) \<Longrightarrow> hoare P (bnd m f) Q E"
  by (fastforce simp: hoare_def bnd_def split: prod.splits outcome.splits)

lemma hoare_if [trip]:
  "(b \<Longrightarrow> hoare P m Q E) \<Longrightarrow> (\<not> b \<Longrightarrow> hoare P n Q E) \<Longrightarrow> hoare P (if b then m else n) Q E"
  by simp

lemma hoare_case_option [trip]:
  "(x = None \<Longrightarrow> hoare P m Q E) \<Longrightarrow> (\<And>y. x = Some y \<Longrightarrow> hoare P (f y) Q E) \<Longrightarrow>
   hoare P (case x of None \<Rightarrow> m | Some y \<Rightarrow> f y) Q E"
  by (cases x) auto

lemma hoare_case_sum [trip]:
  "(\<And>y. x = Inl y \<Longrightarrow> hoare P (f y) Q E) \<Longrightarrow> (\<And>y. x = Inr y \<Longrightarrow> hoare P (g y) Q E) \<Longrightarrow>
   hoare P (case x of Inl y \<Rightarrow> f y | Inr y \<Rightarrow> g y) Q E"
  by (cases x) auto

lemma hoare_case_list [trip]:
  "(x = [] \<Longrightarrow> hoare P m Q E) \<Longrightarrow> (\<And>y ys. x = y # ys \<Longrightarrow> hoare P (f y ys) Q E) \<Longrightarrow>
   hoare P (case x of [] \<Rightarrow> m | y # ys \<Rightarrow> f y ys) Q E"
  by (cases x) auto

lemma hoare_conseq:
  "hoare P m Q E \<Longrightarrow> (\<And>w. P' w \<Longrightarrow> P w) \<Longrightarrow> (\<And>x w. Q x w \<Longrightarrow> Q' x w) \<Longrightarrow> (\<And>w. E w \<Longrightarrow> E' w) \<Longrightarrow>
   hoare P' m Q' E'"
  by (fastforce simp: hoare_def split: prod.splits outcome.splits)

lemma hoare_conj:
  assumes "hoare P m Q E" and "hoare P' m Q' E'"
  shows "hoare (\<lambda>w. P w \<and> P' w) m (\<lambda>x w. Q x w \<and> Q' x w) (\<lambda>w. E w \<and> E' w)"
  using hoareD [OF assms(1)] hoareD [OF assms(2)] hoareD_panic [OF assms(1)] hoareD_panic [OF assms(2)]
  by (intro hoareI) auto

lemma hoare_pure:
  assumes "hoare P m Q E" and "hoare P m (\<lambda>x _. R x) E'"
    and "\<And>x. R x \<Longrightarrow> hoare (Q x) (f x) Q' E"
  shows "hoare P (bnd m f) Q' E"
proof (rule hoare_bnd)
  show "hoare P m (\<lambda>x w. Q x w \<and> R x) E"
    using hoare_conj [OF assms(1,2)] by (rule hoare_conseq) auto
  show "hoare (\<lambda>w. Q x w \<and> R x) (f x) Q' E" for x
    using assms(3) [of x] by (cases "R x") (auto simp: hoare_def)
qed

lemma hoare_keep: "pres I m \<Longrightarrow> (\<And>w. I w \<Longrightarrow> E w) \<Longrightarrow> hoare I m (\<lambda>_. I) E"
  using hoare_pres [of I m] by (auto intro: hoare_conseq)

lemma pres_for_each_set:
  "(\<And>x. x \<in> set xs \<Longrightarrow> pres I (f x)) \<Longrightarrow> pres I (for_each xs f)"
  by (induction xs) (auto intro: pres)

section \<open>Tables\<close>

definition upd_where :: "('a \<Rightarrow> bool) \<Rightarrow> ('a \<Rightarrow> 'a) \<Rightarrow> 'a list \<Rightarrow> 'a list" where
  "upd_where p f rows = map (\<lambda>r. if p r then f r else r) rows"

definition del_where :: "('a \<Rightarrow> bool) \<Rightarrow> 'a list \<Rightarrow> 'a list" where
  "del_where p rows = filter (\<lambda>r. \<not> p r) rows"

definition count_where :: "('a \<Rightarrow> bool) \<Rightarrow> 'a list \<Rightarrow> nat" where
  "count_where p rows = length (filter p rows)"

definition order_by :: "('a \<Rightarrow> int) \<Rightarrow> 'a list \<Rightarrow> 'a list" where
  "order_by k rows = sort_key k rows"

definition order_by_desc :: "('a \<Rightarrow> int) \<Rightarrow> 'a list \<Rightarrow> 'a list" where
  "order_by_desc k rows = sort_key (\<lambda>r. - k r) rows"

definition unique_on :: "('a \<Rightarrow> 'k) \<Rightarrow> 'a list \<Rightarrow> bool" where
  "unique_on k rows \<longleftrightarrow> distinct (map k rows)"

lemma upd_where_Nil [simp]: "upd_where p f [] = []"
  by (simp add: upd_where_def)

lemma upd_where_Cons [simp]:
  "upd_where p f (r # rs) = (if p r then f r else r) # upd_where p f rs"
  by (simp add: upd_where_def)

lemma length_upd_where [simp]: "length (upd_where p f rows) = length rows"
  by (simp add: upd_where_def)

lemma in_upd_where [table]:
  "r \<in> set (upd_where p f rows) \<longleftrightarrow> (\<exists>q \<in> set rows. r = (if p q then f q else q))"
  by (auto simp: upd_where_def)

lemma map_upd_where [table]:
  assumes "\<And>r. p r \<Longrightarrow> k (f r) = k r"
  shows "map k (upd_where p f rows) = map k rows"
  using assms by (simp add: upd_where_def)

lemma upd_where_id: "(\<And>r. r \<in> set rows \<Longrightarrow> \<not> p r) \<Longrightarrow> upd_where p f rows = rows"
  by (induction rows) auto

lemma in_del_where [table, simp]: "r \<in> set (del_where p rows) \<longleftrightarrow> r \<in> set rows \<and> \<not> p r"
  by (simp add: del_where_def)

lemma del_where_id: "(\<And>r. r \<in> set rows \<Longrightarrow> \<not> p r) \<Longrightarrow> del_where p rows = rows"
  by (simp add: del_where_def)

lemma set_order_by [simp]: "set (order_by k rows) = set rows"
  by (simp add: order_by_def)

lemma set_order_by_desc [simp]: "set (order_by_desc k rows) = set rows"
  by (simp add: order_by_desc_def)

lemma length_order_by [simp]: "length (order_by k rows) = length rows"
  by (simp add: order_by_def)

lemma sorted_order_by: "sorted (map k (order_by k rows))"
  by (simp add: order_by_def)

lemma sorted_order_by_desc: "sorted (rev (map k (order_by_desc k rows)))"
proof -
  have "sorted (map (\<lambda>r. - k r) (sort_key (\<lambda>r. - k r) rows))"
    by (rule sorted_sort_key)
  then have "sorted_wrt (\<lambda>x y. k y \<le> k x) (order_by_desc k rows)"
    by (simp add: order_by_desc_def sorted_map)
  then show ?thesis
    by (simp add: sorted_wrt_rev sorted_wrt_map)
qed

lemma unique_on_Nil [simp]: "unique_on k []"
  by (simp add: unique_on_def)

lemma unique_on_snoc [table]:
  "unique_on k (rows @ [r]) \<longleftrightarrow> unique_on k rows \<and> k r \<notin> k ` set rows"
  by (auto simp: unique_on_def)

lemma unique_on_upd [table]:
  "(\<And>r. p r \<Longrightarrow> k (f r) = k r) \<Longrightarrow> unique_on k (upd_where p f rows) = unique_on k rows"
  by (simp add: unique_on_def map_upd_where)

lemma unique_on_filter: "unique_on k rows \<Longrightarrow> unique_on k (filter p rows)"
  by (simp add: unique_on_def distinct_map_filter)

lemma unique_on_del: "unique_on k rows \<Longrightarrow> unique_on k (del_where p rows)"
  by (simp add: del_where_def unique_on_filter)

lemma unique_onD: "unique_on k rows \<Longrightarrow> a \<in> set rows \<Longrightarrow> b \<in> set rows \<Longrightarrow> k a = k b \<Longrightarrow> a = b"
  by (auto simp: unique_on_def distinct_map dest: inj_onD)

lemma find_SomeD: "find p rows = Some r \<Longrightarrow> r \<in> set rows \<and> p r"
  by (auto simp: find_Some_iff)

lemma find_unique:
  assumes "unique_on k rows" and "r \<in> set rows" and "k r = v"
  shows "find (\<lambda>q. k q = v) rows = Some r"
  using assms by (induction rows) (auto simp: unique_on_def)

lemma find_NoneD: "find p rows = None \<Longrightarrow> r \<in> set rows \<Longrightarrow> \<not> p r"
  by (simp add: find_None_iff)

lemma find_append: "find p (xs @ ys) = (case find p xs of None \<Rightarrow> find p ys | Some x \<Rightarrow> Some x)"
  by (induction xs) auto

lemma find_upd_same: "(\<And>x. p x \<Longrightarrow> p (f x)) \<Longrightarrow> find p (upd_where p f xs) = map_option f (find p xs)"
  by (induction xs) (auto simp: upd_where_def)

lemma find_upd_other:
  "(\<And>x. p x \<Longrightarrow> q (f x) = q x) \<Longrightarrow> (\<And>x. p x \<Longrightarrow> q x \<Longrightarrow> f x = x) \<Longrightarrow> find q (upd_where p f xs) = find q xs"
  by (induction xs) (auto simp: upd_where_def)

section \<open>Numbers\<close>

text \<open>\<open>fmt.Sprintf("%d", n)\<close>.\<close>

fun dec_digits :: "nat \<Rightarrow> string" where
  "dec_digits n = (if n < 10 then [char_of (48 + n)]
                   else dec_digits (n div 10) @ [char_of (48 + n mod 10)])"

declare dec_digits.simps [simp del]

definition dec_string_of_int :: "int \<Rightarrow> string" where
  "dec_string_of_int i = (if i < 0 then ''-'' @ dec_digits (nat (- i)) else dec_digits (nat i))"

text \<open>Counting per key and adding up.\<close>

lemma sum_count_groups:
  "distinct ks \<Longrightarrow> sum_list (map (\<lambda>k. count_where (\<lambda>x. f x = k \<and> P x) xs) ks) = count_where (\<lambda>x. f x \<in> set ks \<and> P x) xs"
proof (induction ks)
  case (Cons k ks)
  have "count_where (\<lambda>x. f x = k \<and> P x) xs + count_where (\<lambda>x. f x \<in> set ks \<and> P x) xs
      = count_where (\<lambda>x. f x \<in> set (k # ks) \<and> P x) xs"
    using Cons.prems unfolding count_where_def by (induction xs) auto
  with Cons show ?case by simp
qed (simp add: count_where_def)

text \<open>Go's \<open>int\<close> and \<open>time.Duration\<close> are 64 bits wide and wrap.\<close>

definition int64 :: "int \<Rightarrow> int" where
  "int64 x = (x + 2 ^ 63) mod 2 ^ 64 - 2 ^ 63"

definition in_int64 :: "int \<Rightarrow> bool" where
  "in_int64 x \<longleftrightarrow> - (2 ^ 63) \<le> x \<and> x < 2 ^ 63"

lemma int64_range: "in_int64 (int64 x)"
proof -
  have "0 \<le> (x + 2 ^ 63) mod 2 ^ 64" and "(x + 2 ^ 63) mod 2 ^ 64 < 2 ^ 64" by simp_all
  then show ?thesis by (simp add: in_int64_def int64_def)
qed

lemma int64_id: "in_int64 x \<Longrightarrow> int64 x = x"
  by (simp add: in_int64_def int64_def)

end
