(* ===== verification/Configuration.thy ===== *)
theory Configuration
  imports Prelude
begin

text \<open>
  \<open>backend/config/config.go\<close>: the settings read from the environment.  The environment is a
  function from names to values, empty when unset (\<open>os.Getenv\<close>, after \<open>godotenv.Load\<close> has added the
  entries of a \<open>.env\<close> file).  \<open>atoi\<close> is \<open>strconv.Atoi\<close>: an optional sign and decimal digits, in the
  range of a 64-bit integer.  An error of \<open>Validate\<close> is a constructor carrying the values its
  message shows.
\<close>

section \<open>Integers\<close>

definition is_digit :: "char \<Rightarrow> bool" where
  "is_digit c \<longleftrightarrow> 48 \<le> (of_char c :: int) \<and> (of_char c :: int) \<le> 57"

definition digits_value :: "string \<Rightarrow> int" where
  "digits_value s = foldl (\<lambda>n c. 10 * n + (of_char c - 48)) 0 s"

definition parse_digits :: "string \<Rightarrow> int option" where
  "parse_digits s = (if s \<noteq> [] \<and> list_all is_digit s then Some (digits_value s) else None)"

definition atoi :: "string \<Rightarrow> int option" where
  "atoi s =
     (let neg = (s \<noteq> [] \<and> hd s = CHR ''-'');
          digits = (if s \<noteq> [] \<and> (hd s = CHR ''-'' \<or> hd s = CHR ''+'') then tl s else s) in
      case parse_digits digits of
        None \<Rightarrow> None
      | Some n \<Rightarrow> let i = (if neg then - n else n) in if in_int64 i then Some i else None)"

section \<open>The settings\<close>

record config =
  cf_Port :: string
  cf_Env :: string
  cf_LogLevel :: string
  cf_DatabaseURL :: string
  cf_DBMaxConns :: int
  cf_DBMinConns :: int
  cf_RedisURL :: string
  cf_KafkaBootstrapServers :: string
  cf_KafkaAPIKey :: string
  cf_KafkaAPISecret :: string
  cf_ResendAPIKey :: string
  cf_ResendFromEmail :: string
  cf_FirebaseCredentialsJSON :: string
  cf_Fast2SMSAPIKey :: string
  cf_DefaultRateLimitPerMin :: int
  cf_DefaultGlobalCap :: int
  cf_DedupTTL :: int  \<comment> \<open>nanoseconds\<close>

datatype config_error =
    DatabaseURLRequired
  | BadEnv string
  | BadMaxConns int
  | BadMinConns int int
  | BadDedupTTL int
  | FromEmailRequired

definition getEnv :: "(string \<Rightarrow> string) \<Rightarrow> string \<Rightarrow> string \<Rightarrow> string" where
  "getEnv env key fallback = (if env key \<noteq> [] then env key else fallback)"

definition getEnvInt :: "(string \<Rightarrow> string) \<Rightarrow> string \<Rightarrow> int \<Rightarrow> int" where
  "getEnvInt env key fallback =
     (if env key \<noteq> [] then (case atoi (env key) of Some n \<Rightarrow> n | None \<Rightarrow> fallback) else fallback)"

definition hour :: int where
  "hour = 3600000000000"

definition Config_Validate :: "config \<Rightarrow> config_error option" where
  "Config_Validate c =
     (if cf_DatabaseURL c = [] then Some DatabaseURLRequired
      else if cf_Env c \<noteq> ''development'' \<and> cf_Env c \<noteq> ''production'' then Some (BadEnv (cf_Env c))
      else if cf_DBMaxConns c < 1 then Some (BadMaxConns (cf_DBMaxConns c))
      else if cf_DBMinConns c < 0 \<or> cf_DBMinConns c > cf_DBMaxConns c
      then Some (BadMinConns (cf_DBMaxConns c) (cf_DBMinConns c))
      else if cf_DedupTTL c \<le> 0 then Some (BadDedupTTL (cf_DedupTTL c))
      else if cf_ResendAPIKey c \<noteq> [] \<and> cf_ResendFromEmail c = [] then Some FromEmailRequired
      else None)"

definition Config_Load :: "(string \<Rightarrow> string) \<Rightarrow> config_error + config" where
  "Config_Load env =
     (let cfg = \<lparr>
        cf_Port = getEnv env ''PORT'' ''8080'',
        cf_Env = getEnv env ''APP_ENV'' ''development'',
        cf_LogLevel = getEnv env ''LOG_LEVEL'' [],
        cf_DatabaseURL = getEnv env ''DATABASE_URL'' [],
        cf_DBMaxConns = getEnvInt env ''DB_MAX_CONNS'' 10,
        cf_DBMinConns = getEnvInt env ''DB_MIN_CONNS'' 0,
        cf_RedisURL = getEnv env ''REDIS_URL'' [],
        cf_KafkaBootstrapServers = getEnv env ''KAFKA_BOOTSTRAP_SERVERS'' [],
        cf_KafkaAPIKey = getEnv env ''KAFKA_API_KEY'' [],
        cf_KafkaAPISecret = getEnv env ''KAFKA_API_SECRET'' [],
        cf_ResendAPIKey = getEnv env ''RESEND_API_KEY'' [],
        cf_ResendFromEmail = getEnv env ''RESEND_FROM_EMAIL'' [],
        cf_FirebaseCredentialsJSON = getEnv env ''FIREBASE_CREDENTIALS_JSON'' [],
        cf_Fast2SMSAPIKey = getEnv env ''FAST2SMS_API_KEY'' [],
        cf_DefaultRateLimitPerMin = getEnvInt env ''DEFAULT_RATE_LIMIT_PER_MIN'' 60,
        cf_DefaultGlobalCap = getEnvInt env ''DEFAULT_GLOBAL_CAP'' 300,
        cf_DedupTTL = int64 (getEnvInt env ''DEDUP_TTL_HOURS'' 24 * hour)\<rparr> in
      case Config_Validate cfg of Some e \<Rightarrow> Inl e | None \<Rightarrow> Inr cfg)"

section \<open>Printing and parsing integers\<close>

lemma digits_value_append: "digits_value (s @ [c]) = 10 * digits_value s + (of_char c - 48)"
  by (simp add: digits_value_def)

lemma dec_digits_parse: "list_all is_digit (dec_digits n) \<and> dec_digits n \<noteq> [] \<and> digits_value (dec_digits n) = int n"
proof (induction n rule: dec_digits.induct)
  case (1 n)
  have digit: "(of_char (char_of (48 + k) :: char) :: int) = 48 + int k" if "k < 10" for k :: nat
  proof -
    have "(of_char (char_of (48 + k) :: char) :: int) = int (of_char (char_of (48 + k) :: char))"
      by (simp only: of_nat_of_char)
    also have "\<dots> = 48 + int k" using that by (simp add: of_char_of)
    finally show ?thesis .
  qed
  show ?case
  proof (cases "n < 10")
    case True
    then show ?thesis
      by (subst (1 2 3) dec_digits.simps) (simp add: is_digit_def digit digits_value_def)
  next
    case False
    with 1 have ih: "list_all is_digit (dec_digits (n div 10))" "digits_value (dec_digits (n div 10)) = int (n div 10)"
      by auto
    have "n mod 10 < 10" and "n mod 10 \<le> 9" and "10 * int (n div 10) + int (n mod 10) = int n" by presburger+
    with False ih show ?thesis
      by (subst (1 2 3) dec_digits.simps) (simp add: digits_value_append is_digit_def digit)
  qed
qed

lemma parse_dec_digits: "parse_digits (dec_digits n) = Some (int n)"
  using dec_digits_parse [of n] by (simp add: parse_digits_def)

lemma dec_digits_head: "hd (dec_digits n) \<noteq> CHR ''-'' \<and> hd (dec_digits n) \<noteq> CHR ''+''"
proof -
  have "is_digit (hd (dec_digits n))"
    using dec_digits_parse [of n] by (cases "dec_digits n") auto
  then show ?thesis by (auto simp: is_digit_def)
qed

lemma atoi_range: "atoi s = Some i \<Longrightarrow> in_int64 i"
  by (auto simp: atoi_def Let_def split: option.splits if_splits)

lemma getEnvInt_range: "in_int64 d \<Longrightarrow> in_int64 (getEnvInt env key d)"
  by (auto simp: getEnvInt_def atoi_range split: option.split)

section \<open>Properties\<close>

text \<open>An integer setting written in decimal is read back exactly, whatever 64-bit value it
  has; only a value that is not a 64-bit decimal integer falls back to the default.\<close>

theorem getEnvInt_roundtrip:
  assumes "in_int64 i"
  shows "getEnvInt (env(key := dec_string_of_int i)) key fallback = i"
proof -
  have ne: "dec_digits n \<noteq> []" for n using dec_digits_parse by blast
  have "atoi (dec_string_of_int i) = Some i"
  proof (cases "i < 0")
    case True
    then show ?thesis using assms
      by (simp add: atoi_def dec_string_of_int_def parse_dec_digits)
  next
    case False
    then show ?thesis using assms dec_digits_head [of "nat i"] ne [of "nat i"]
      by (simp add: atoi_def dec_string_of_int_def parse_dec_digits)
  qed
  moreover have "dec_string_of_int i \<noteq> []" using ne by (simp add: dec_string_of_int_def)
  ultimately show ?thesis by (simp add: getEnvInt_def)
qed

theorem getEnvInt_roundtrip_witness:
  "getEnvInt ((\<lambda>_. [])(''DB_MAX_CONNS'' := dec_string_of_int (- 20))) ''DB_MAX_CONNS'' 10 = - 20"
  by (rule getEnvInt_roundtrip) (simp add: in_int64_def)

lemma duration_exact: "\<bar>n\<bar> \<le> 2562047 \<Longrightarrow> int64 (n * hour) = n * hour"
proof -
  assume "\<bar>n\<bar> \<le> 2562047"
  then have "- 2562047 \<le> n" and "n \<le> 2562047" by auto
  then have "in_int64 (n * hour)" by (simp add: in_int64_def hour_def)
  then show ?thesis by (rule int64_id)
qed

lemma Load_validates: "Config_Load env = Inr cfg \<Longrightarrow> Config_Validate cfg = None"
  by (auto simp: Config_Load_def Let_def split: option.splits)

text \<open>A configuration that loads has a database URL, one of the two environments, pool
  bounds with \<open>0 \<le> min \<le> max\<close> and \<open>1 \<le> max\<close>, a positive reservation window of a 64-bit number of
  nanoseconds, and a sender address whenever e-mail is enabled.\<close>

theorem loaded_config_ok:
  assumes "Config_Load env = Inr cfg"
  shows "cf_DatabaseURL cfg \<noteq> [] \<and> cf_Env cfg \<in> {''development'', ''production''}
    \<and> 1 \<le> cf_DBMaxConns cfg \<and> 0 \<le> cf_DBMinConns cfg \<and> cf_DBMinConns cfg \<le> cf_DBMaxConns cfg
    \<and> 0 < cf_DedupTTL cfg \<and> in_int64 (cf_DedupTTL cfg)
    \<and> (cf_ResendAPIKey cfg \<noteq> [] \<longrightarrow> cf_ResendFromEmail cfg \<noteq> [])
    \<and> (\<bar>getEnvInt env ''DEDUP_TTL_HOURS'' 24\<bar> \<le> 2562047 \<longrightarrow>
         cf_DedupTTL cfg = getEnvInt env ''DEDUP_TTL_HOURS'' 24 * hour)"
proof -
  have "cf_DedupTTL cfg = int64 (getEnvInt env ''DEDUP_TTL_HOURS'' 24 * hour)"
    using assms by (auto simp: Config_Load_def Let_def split: option.splits)
  then show ?thesis
    using Load_validates [OF assms] int64_range duration_exact
    by (auto simp: Config_Validate_def split: if_splits)
qed

definition demo_environment :: "string \<Rightarrow> string" where
  "demo_environment = (\<lambda>_. [])(''DATABASE_URL'' := ''postgres://db'', ''DEDUP_TTL_HOURS'' := ''48'')"

theorem loaded_config_ok_witness:
  "\<exists>cfg. Config_Load demo_environment = Inr cfg \<and> cf_DedupTTL cfg = 48 * hour \<and> cf_DBMaxConns cfg = 10"
proof -
  have "\<not> isl (Config_Load demo_environment)"
    and hours: "getEnvInt demo_environment ''DEDUP_TTL_HOURS'' 24 = 48"
    and max: "getEnvInt demo_environment ''DB_MAX_CONNS'' 10 = 10"
    by code_simp+
  then obtain cfg where load: "Config_Load demo_environment = Inr cfg"
    by (cases "Config_Load demo_environment") auto
  then have "cf_DBMaxConns cfg = 10"
    using max by (auto simp: Config_Load_def Let_def split: option.splits)
  with load loaded_config_ok [OF load] hours show ?thesis by auto
qed

text \<open>The number of hours is multiplied in 64 bits before it is validated, so a large value
  is accepted with an unrelated window: \<open>DEDUP_TTL_HOURS=5124096\<close> (585 years) reserves keys for
  about 25 minutes.\<close>

theorem dedup_ttl_wraps:
  assumes "Config_Load env = Inr cfg" and "env ''DEDUP_TTL_HOURS'' = ''5124096''"
  shows "cf_DedupTTL cfg = 1526290448384"
proof -
  have "getEnvInt env ''DEDUP_TTL_HOURS'' 24 = 5124096"
    using assms(2)
    by (simp add: getEnvInt_def atoi_def parse_digits_def is_digit_def digits_value_def in_int64_def)
  with assms(1) show ?thesis
    by (auto simp: Config_Load_def Let_def hour_def int64_def split: option.splits)
qed

theorem dedup_ttl_wraps_witness:
  "\<exists>cfg. Config_Load (demo_environment(''DEDUP_TTL_HOURS'' := ''5124096'')) = Inr cfg
     \<and> cf_DedupTTL cfg = 1526290448384"
proof -
  let ?env = "demo_environment(''DEDUP_TTL_HOURS'' := ''5124096'')"
  have "\<not> isl (Config_Load ?env)" by code_simp
  then obtain cfg where load: "Config_Load ?env = Inr cfg"
    by (cases "Config_Load ?env") auto
  with dedup_ttl_wraps [OF load] show ?thesis by auto
qed

end
