(* ===== verification/Domain.thy ===== *)
theory Domain
  imports Prelude
begin

text \<open>
  The entities of \<open>backend/internal/domain\<close> and the Kafka message of
  \<open>backend/internal/kafka/message.go\<close>.  Go's string types (\<open>Channel\<close>, \<open>Status\<close>,
  \<open>Priority\<close>) are strings here too: a value outside the declared constants is
  representable, as it is in the code.  A nullable pointer is an \<open>option\<close>.  Times are
  integers (nanoseconds since the epoch); a UUID is its 128 bits.
\<close>

type_synonym uuid = "128 word"
type_synonym time = int
type_synonym channel = string
type_synonym status = string
type_synonym priority = string

section \<open>Constants\<close>

definition ChannelEmail :: channel where "ChannelEmail = ''email''"
definition ChannelPush :: channel where "ChannelPush = ''push''"
definition ChannelSMS :: channel where "ChannelSMS = ''sms''"
definition ChannelInApp :: channel where "ChannelInApp = ''inapp''"

lemmas channel_defs = ChannelEmail_def ChannelPush_def ChannelSMS_def ChannelInApp_def

definition StatusPending :: status where "StatusPending = ''pending''"
definition StatusQueued :: status where "StatusQueued = ''queued''"
definition StatusQueuedRateLimited :: status where
  "StatusQueuedRateLimited = ''queued_rate_limited''"
definition StatusDelivered :: status where "StatusDelivered = ''delivered''"
definition StatusFailed :: status where "StatusFailed = ''failed''"

lemmas status_defs = StatusPending_def StatusQueued_def StatusQueuedRateLimited_def
  StatusDelivered_def StatusFailed_def

definition PriorityCritical :: priority where "PriorityCritical = ''critical''"
definition PriorityHigh :: priority where "PriorityHigh = ''high''"
definition PriorityNormal :: priority where "PriorityNormal = ''normal''"
definition PriorityLow :: priority where "PriorityLow = ''low''"

lemmas priority_defs = PriorityCritical_def PriorityHigh_def PriorityNormal_def PriorityLow_def

lemma channel_distinct [simp]:
  "distinct [ChannelEmail, ChannelPush, ChannelSMS, ChannelInApp]"
  "ChannelEmail \<noteq> ChannelPush" "ChannelEmail \<noteq> ChannelSMS" "ChannelEmail \<noteq> ChannelInApp"
  "ChannelPush \<noteq> ChannelSMS" "ChannelPush \<noteq> ChannelInApp" "ChannelSMS \<noteq> ChannelInApp"
  "ChannelPush \<noteq> ChannelEmail" "ChannelSMS \<noteq> ChannelEmail" "ChannelInApp \<noteq> ChannelEmail"
  "ChannelSMS \<noteq> ChannelPush" "ChannelInApp \<noteq> ChannelPush" "ChannelInApp \<noteq> ChannelSMS"
  by (simp_all add: channel_defs)

lemma status_distinct [simp]:
  "StatusPending \<noteq> StatusQueued" "StatusPending \<noteq> StatusQueuedRateLimited"
  "StatusPending \<noteq> StatusDelivered" "StatusPending \<noteq> StatusFailed"
  "StatusQueued \<noteq> StatusPending" "StatusQueued \<noteq> StatusQueuedRateLimited"
  "StatusQueued \<noteq> StatusDelivered" "StatusQueued \<noteq> StatusFailed"
  "StatusQueuedRateLimited \<noteq> StatusPending" "StatusQueuedRateLimited \<noteq> StatusQueued"
  "StatusQueuedRateLimited \<noteq> StatusDelivered" "StatusQueuedRateLimited \<noteq> StatusFailed"
  "StatusDelivered \<noteq> StatusPending" "StatusDelivered \<noteq> StatusQueued"
  "StatusDelivered \<noteq> StatusQueuedRateLimited" "StatusDelivered \<noteq> StatusFailed"
  "StatusFailed \<noteq> StatusPending" "StatusFailed \<noteq> StatusQueued"
  "StatusFailed \<noteq> StatusQueuedRateLimited" "StatusFailed \<noteq> StatusDelivered"
  by (simp_all add: status_defs)

lemma status_nonempty [simp]:
  "StatusPending \<noteq> []" "StatusQueued \<noteq> []" "StatusQueuedRateLimited \<noteq> []"
  "StatusDelivered \<noteq> []" "StatusFailed \<noteq> []"
  by (simp_all add: status_defs)

section \<open>JSON values\<close>

text \<open>
  \<open>map[string]any\<close> and the payloads exchanged with Kafka, Redis and WebSocket clients
  are JSON values; their text is not modelled.  A decoded number is a float64, a rational.
\<close>

datatype json =
    JNull
  | JBool bool
  | JNum rat
  | JString string
  | JArray "json list"
  | JObject "(string \<times> json) list"

type_synonym metadata = "(string \<times> json) list option"  \<comment> \<open>\<open>None\<close> is the nil map\<close>

section \<open>Entities\<close>

record notification =
  n_ID :: uuid
  n_TenantID :: uuid
  n_Channel :: channel
  n_Priority :: priority
  n_Status :: status
  n_RecipientID :: string
  n_RecipientEmail :: string
  n_RecipientPhone :: string
  n_RecipientToken :: string
  n_TemplateID :: "uuid option"
  n_Subject :: string
  n_Body :: string
  n_Metadata :: metadata
  n_IdempotencyKey :: string
  n_ScheduledAt :: "time option"
  n_CreatedAt :: time
  n_ExpiresAt :: time

record notification_delivery =
  d_ID :: uuid
  d_NotificationID :: uuid
  d_Channel :: channel
  d_Status :: status
  d_Attempts :: int
  d_ErrorMessage :: string
  d_DeliveredAt :: "time option"
  d_CreatedAt :: time

record scheduled_notification =
  s_ID :: uuid
  s_NotificationID :: uuid
  s_ScheduledAt :: time
  s_Fired :: bool
  s_CreatedAt :: time

record dlq_message =
  q_ID :: uuid
  q_NotificationID :: uuid
  q_Channel :: channel
  q_Error :: string
  q_Attempts :: int
  q_LastTriedAt :: time
  q_CreatedAt :: time

record notification_template =
  m_ID :: uuid
  m_TenantID :: uuid
  m_Name :: string
  m_Channel :: channel
  m_Subject :: string
  m_Body :: string
  m_CreatedAt :: time
  m_UpdatedAt :: time

record tenant =
  t_ID :: uuid
  t_Name :: string
  t_GlobalRateCap :: int
  t_CreatedAt :: time

record tenant_channel =
  tc_ID :: uuid
  tc_TenantID :: uuid
  tc_Channel :: channel
  tc_Enabled :: bool
  tc_CreatedAt :: time

record tenant_rate_limit =
  rl_ID :: uuid
  rl_TenantID :: uuid
  rl_Channel :: channel
  rl_MaxPerMin :: int
  rl_CreatedAt :: time

record api_key =
  k_ID :: uuid
  k_TenantID :: uuid
  k_KeyHash :: string
  k_CreatedAt :: time

record analytics_summary =
  TotalSent :: nat
  TotalDelivered :: nat
  TotalFailed :: nat

record channel_breakdown =
  b_Channel :: channel
  b_Sent :: nat
  b_Delivered :: nat
  b_Failed :: nat
  b_DeliveryRate :: rat

section \<open>Kafka topics and messages\<close>

definition TopicEmail :: string where "TopicEmail = ''notifyx.email''"
definition TopicPush :: string where "TopicPush = ''notifyx.push''"
definition TopicSMS :: string where "TopicSMS = ''notifyx.sms''"
definition TopicInApp :: string where "TopicInApp = ''notifyx.inapp''"
definition TopicDLQ :: string where "TopicDLQ = ''notifyx.dlq''"

lemmas topic_defs = TopicEmail_def TopicPush_def TopicSMS_def TopicInApp_def TopicDLQ_def

definition TopicForChannel :: "channel \<Rightarrow> string" where
  "TopicForChannel ch =
     (if ch = ChannelEmail then TopicEmail
      else if ch = ChannelPush then TopicPush
      else if ch = ChannelSMS then TopicSMS
      else if ch = ChannelInApp then TopicInApp
      else TopicDLQ)"

record message =
  msg_NotificationID :: uuid
  msg_DeliveryID :: uuid
  msg_TenantID :: uuid
  msg_Channel :: channel
  msg_Priority :: priority
  msg_RecipientID :: string
  msg_RecipientEmail :: string
  msg_RecipientPhone :: string
  msg_RecipientToken :: string
  msg_Subject :: string
  msg_Body :: string
  msg_Metadata :: metadata
  msg_LastError :: string

section \<open>Libraries outside the repository\<close>

text \<open>
  \<open>crypto/sha256\<close> with \<open>encoding/hex\<close>, and \<open>github.com/google/uuid\<close>'s \<open>String\<close> and
  \<open>Parse\<close>, are arguments of the definitions that call them.  So are \<open>time.Parse\<close> with the RFC 3339
  layout, the text of a time in JSON, the URL syntax check of \<open>net/url\<close>, the text \<open>encoding/json\<close> gives a value, and the cryptography of the FCM
  client: PEM blocks, PKCS #8 keys and the RSA signature of a digest.
\<close>

datatype pkcs8_key = RSAKey string | OtherKey

record libs =
  sha256hex :: "string \<Rightarrow> string"
  uuid_String :: "uuid \<Rightarrow> string"
  uuid_Parse :: "string \<Rightarrow> uuid option"
  time_Parse :: "string \<Rightarrow> time option"
  time_Text :: "time \<Rightarrow> string"
  url_parses :: "string \<Rightarrow> bool"
  json_text :: "json \<Rightarrow> string"
  pem_Decode :: "string \<Rightarrow> string option"
  parsePKCS8 :: "string \<Rightarrow> string + pkcs8_key"
  rsa_sign :: "string \<Rightarrow> string \<Rightarrow> string + string"

text \<open>What the code relies on: parsing a printed UUID gives it back.\<close>

locale uuid_library =
  fixes L :: libs
  assumes parse_string: "uuid_Parse L (uuid_String L u) = Some u"
begin

lemma string_inject: "uuid_String L u = uuid_String L v \<longleftrightarrow> u = v"
  by (metis option.inject parse_string)

end

text \<open>An instance: a UUID printed as its bits.\<close>

definition bit_chars :: "uuid \<Rightarrow> string" where
  "bit_chars u = map (\<lambda>i. if bit u i then CHR ''1'' else CHR ''0'') [0..<128]"

definition chars_bits :: "string \<Rightarrow> uuid option" where
  "chars_bits s =
     (if length s = 128 \<and> set s \<subseteq> {CHR ''0'', CHR ''1''}
      then Some (horner_sum of_bool 2 (map (\<lambda>c. c = CHR ''1'') s)) else None)"

definition bit_libs :: libs where
  "bit_libs = \<lparr>sha256hex = (\<lambda>s. s), uuid_String = bit_chars, uuid_Parse = chars_bits,
     time_Parse = (\<lambda>s. Some (int (length s) * 1000000000000)), time_Text = dec_string_of_int, url_parses = (\<lambda>_. True), json_text = (\<lambda>_. ''{}''),
     pem_Decode = Some, parsePKCS8 = (\<lambda>k. Inr (RSAKey k)), rsa_sign = (\<lambda>k d. Inr (k @ d))\<rparr>"

lemma chars_bits_bit_chars: "chars_bits (bit_chars u) = Some u"
proof -
  have "map (\<lambda>c. c = CHR ''1'') (bit_chars u) = map (bit u) [0..<128]"
    by (simp add: bit_chars_def)
  moreover have "horner_sum of_bool 2 (map (bit u) [0..<128]) = u"
    using take_bit_word_eq_self [of 128 u] by (simp add: horner_sum_bit_eq_take_bit)
  moreover have "length (bit_chars u) = 128" and "set (bit_chars u) \<subseteq> {CHR ''0'', CHR ''1''}"
    by (auto simp: bit_chars_def)
  ultimately show ?thesis
    by (simp only: chars_bits_def if_True simp_thms)
qed

interpretation bit_uuid: uuid_library bit_libs
  by unfold_locales (simp add: bit_libs_def chars_bits_bit_chars)

section \<open>Message encoding\<close>

text \<open>
  \<open>json.Marshal(msg)\<close> and \<open>json.Unmarshal\<close> on the struct tags of \<open>Message\<close>: an
  \<open>omitempty\<close> field is left out when it is the zero value (for a map: nil or empty);
  decoding matches object keys to the tags ignoring ASCII case, later keys overwrite
  earlier ones, \<open>null\<close> leaves a scalar as it is, and a value of another type is an error.
\<close>

definition omitempty :: "string \<Rightarrow> string \<Rightarrow> (string \<times> json) list" where
  "omitempty k v = (if v = [] then [] else [(k, JString v)])"

definition omitempty_map :: "string \<Rightarrow> metadata \<Rightarrow> (string \<times> json) list" where
  "omitempty_map k m = (case m of None \<Rightarrow> [] | Some [] \<Rightarrow> [] | Some kvs \<Rightarrow> [(k, JObject kvs)])"

definition Message_Marshal :: "libs \<Rightarrow> message \<Rightarrow> json" where
  "Message_Marshal L m = JObject (
     [(''notification_id'', JString (uuid_String L (msg_NotificationID m))),
      (''delivery_id'', JString (uuid_String L (msg_DeliveryID m))),
      (''tenant_id'', JString (uuid_String L (msg_TenantID m))),
      (''channel'', JString (msg_Channel m)),
      (''priority'', JString (msg_Priority m))] @
     omitempty ''recipient_id'' (msg_RecipientID m) @
     omitempty ''recipient_email'' (msg_RecipientEmail m) @
     omitempty ''recipient_phone'' (msg_RecipientPhone m) @
     omitempty ''recipient_token'' (msg_RecipientToken m) @
     omitempty ''subject'' (msg_Subject m) @
     [(''body'', JString (msg_Body m))] @
     omitempty_map ''metadata'' (msg_Metadata m) @
     omitempty ''last_error'' (msg_LastError m))"

definition zero_message :: message where
  "zero_message = \<lparr>msg_NotificationID = 0, msg_DeliveryID = 0, msg_TenantID = 0,
     msg_Channel = [], msg_Priority = [], msg_RecipientID = [], msg_RecipientEmail = [],
     msg_RecipientPhone = [], msg_RecipientToken = [], msg_Subject = [], msg_Body = [],
     msg_Metadata = None, msg_LastError = []\<rparr>"

definition to_lower :: "char \<Rightarrow> char" where
  "to_lower c = (let n = of_char c :: nat in if 65 \<le> n \<and> n \<le> 90 then char_of (n + 32) else c)"

text \<open>Decoding into a struct of strings, numbers and booleans, for the smaller payloads: the members
  of the object, and the value a field ends with (\<open>None\<close>: a type error).\<close>

definition members :: "json \<Rightarrow> (string \<times> json) list option" where
  "members j = (case j of JObject kvs \<Rightarrow> Some kvs | JNull \<Rightarrow> Some [] | _ \<Rightarrow> None)"

fun field :: "(json \<Rightarrow> 'a option) \<Rightarrow> string \<Rightarrow> 'a \<Rightarrow> (string \<times> json) list \<Rightarrow> 'a option" where
  "field dec tag x [] = Some x"
| "field dec tag x ((k, v) # kvs) =
     (if map to_lower k = tag \<and> v \<noteq> JNull
      then (case dec v of None \<Rightarrow> None | Some y \<Rightarrow> field dec tag y kvs)
      else field dec tag x kvs)"

definition json_string :: "json \<Rightarrow> string option" where
  "json_string v = (case v of JString s \<Rightarrow> Some s | _ \<Rightarrow> None)"

definition json_bool :: "json \<Rightarrow> bool option" where
  "json_bool v = (case v of JBool b \<Rightarrow> Some b | _ \<Rightarrow> None)"

text \<open>An integer literal within 64 bits.\<close>

definition json_int :: "json \<Rightarrow> int option" where
  "json_int v = (case v of JNum q \<Rightarrow> if q = of_int \<lfloor>q\<rfloor> \<and> in_int64 \<lfloor>q\<rfloor> then Some \<lfloor>q\<rfloor> else None | _ \<Rightarrow> None)"

definition json_strings :: "json \<Rightarrow> string list option" where
  "json_strings v = (case v of JArray vs \<Rightarrow> those (map (\<lambda>x. if x = JNull then Some [] else json_string x) vs)
     | _ \<Rightarrow> None)"

text \<open>Decoding one scalar into a field: \<open>None\<close> is an \<open>UnmarshalTypeError\<close> (or a failing
  \<open>UnmarshalText\<close>).\<close>

definition dec_string :: "json \<Rightarrow> (string \<Rightarrow> message) \<Rightarrow> message \<Rightarrow> message option" where
  "dec_string v f m =
     (case v of JString s \<Rightarrow> Some (f s) | JNull \<Rightarrow> Some m | _ \<Rightarrow> None)"

definition dec_uuid :: "libs \<Rightarrow> json \<Rightarrow> (uuid \<Rightarrow> message) \<Rightarrow> message \<Rightarrow> message option" where
  "dec_uuid L v f m =
     (case v of JString s \<Rightarrow> map_option f (uuid_Parse L s) | JNull \<Rightarrow> Some m | _ \<Rightarrow> None)"

definition dec_map :: "json \<Rightarrow> (metadata \<Rightarrow> message) \<Rightarrow> message option" where
  "dec_map v f =
     (case v of JObject kvs \<Rightarrow> Some (f (Some kvs)) | JNull \<Rightarrow> Some (f None) | _ \<Rightarrow> None)"

definition set_field :: "libs \<Rightarrow> string \<times> json \<Rightarrow> message \<Rightarrow> message option" where
  "set_field L kv m =
     (let k = map to_lower (fst kv); v = snd kv in
      if k = ''notification_id'' then dec_uuid L v (\<lambda>u. m\<lparr>msg_NotificationID := u\<rparr>) m
      else if k = ''delivery_id'' then dec_uuid L v (\<lambda>u. m\<lparr>msg_DeliveryID := u\<rparr>) m
      else if k = ''tenant_id'' then dec_uuid L v (\<lambda>u. m\<lparr>msg_TenantID := u\<rparr>) m
      else if k = ''channel'' then dec_string v (\<lambda>s. m\<lparr>msg_Channel := s\<rparr>) m
      else if k = ''priority'' then dec_string v (\<lambda>s. m\<lparr>msg_Priority := s\<rparr>) m
      else if k = ''recipient_id'' then dec_string v (\<lambda>s. m\<lparr>msg_RecipientID := s\<rparr>) m
      else if k = ''recipient_email'' then dec_string v (\<lambda>s. m\<lparr>msg_RecipientEmail := s\<rparr>) m
      else if k = ''recipient_phone'' then dec_string v (\<lambda>s. m\<lparr>msg_RecipientPhone := s\<rparr>) m
      else if k = ''recipient_token'' then dec_string v (\<lambda>s. m\<lparr>msg_RecipientToken := s\<rparr>) m
      else if k = ''subject'' then dec_string v (\<lambda>s. m\<lparr>msg_Subject := s\<rparr>) m
      else if k = ''body'' then dec_string v (\<lambda>s. m\<lparr>msg_Body := s\<rparr>) m
      else if k = ''metadata'' then dec_map v (\<lambda>x. m\<lparr>msg_Metadata := x\<rparr>)
      else if k = ''last_error'' then dec_string v (\<lambda>s. m\<lparr>msg_LastError := s\<rparr>) m
      else Some m)"

fun set_fields :: "libs \<Rightarrow> (string \<times> json) list \<Rightarrow> message \<Rightarrow> message option" where
  "set_fields L [] m = Some m"
| "set_fields L (kv # kvs) m = Option.bind (set_field L kv m) (set_fields L kvs)"

definition Message_Unmarshal :: "libs \<Rightarrow> json \<Rightarrow> message option" where
  "Message_Unmarshal L j =
     (case j of JObject kvs \<Rightarrow> set_fields L kvs zero_message
      | JNull \<Rightarrow> Some zero_message | _ \<Rightarrow> None)"

text \<open>The only value decoding does not restore: an empty, non-nil metadata map comes back
  as nil.\<close>

definition norm_metadata :: "metadata \<Rightarrow> metadata" where
  "norm_metadata md = (if md = Some [] then None else md)"

lemma set_fields_append:
  "set_fields L (xs @ ys) m = Option.bind (set_fields L xs m) (set_fields L ys)"
  by (induction xs arbitrary: m) (auto split: bind_splits)

lemma lower_tags [simp]:
  "map to_lower ''notification_id'' = ''notification_id''"
  "map to_lower ''delivery_id'' = ''delivery_id''"
  "map to_lower ''tenant_id'' = ''tenant_id''"
  "map to_lower ''channel'' = ''channel''"
  "map to_lower ''priority'' = ''priority''"
  "map to_lower ''recipient_id'' = ''recipient_id''"
  "map to_lower ''recipient_email'' = ''recipient_email''"
  "map to_lower ''recipient_phone'' = ''recipient_phone''"
  "map to_lower ''recipient_token'' = ''recipient_token''"
  "map to_lower ''subject'' = ''subject''"
  "map to_lower ''body'' = ''body''"
  "map to_lower ''metadata'' = ''metadata''"
  "map to_lower ''last_error'' = ''last_error''"
  by (simp_all add: to_lower_def)

lemma set_field_scalars [simp]:
  "set_field L (''channel'', JString s) m = Some (m\<lparr>msg_Channel := s\<rparr>)"
  "set_field L (''priority'', JString s) m = Some (m\<lparr>msg_Priority := s\<rparr>)"
  "set_field L (''recipient_id'', JString s) m = Some (m\<lparr>msg_RecipientID := s\<rparr>)"
  "set_field L (''recipient_email'', JString s) m = Some (m\<lparr>msg_RecipientEmail := s\<rparr>)"
  "set_field L (''recipient_phone'', JString s) m = Some (m\<lparr>msg_RecipientPhone := s\<rparr>)"
  "set_field L (''recipient_token'', JString s) m = Some (m\<lparr>msg_RecipientToken := s\<rparr>)"
  "set_field L (''subject'', JString s) m = Some (m\<lparr>msg_Subject := s\<rparr>)"
  "set_field L (''body'', JString s) m = Some (m\<lparr>msg_Body := s\<rparr>)"
  "set_field L (''last_error'', JString s) m = Some (m\<lparr>msg_LastError := s\<rparr>)"
  "set_field L (''metadata'', JObject kvs) m = Some (m\<lparr>msg_Metadata := Some kvs\<rparr>)"
  by (simp_all only: set_field_def lower_tags fst_conv snd_conv Let_def)
     (simp_all add: dec_string_def dec_map_def)

lemma set_field_uuids [simp]:
  "set_field L (''notification_id'', JString s) m
     = map_option (\<lambda>u. m\<lparr>msg_NotificationID := u\<rparr>) (uuid_Parse L s)"
  "set_field L (''delivery_id'', JString s) m
     = map_option (\<lambda>u. m\<lparr>msg_DeliveryID := u\<rparr>) (uuid_Parse L s)"
  "set_field L (''tenant_id'', JString s) m
     = map_option (\<lambda>u. m\<lparr>msg_TenantID := u\<rparr>) (uuid_Parse L s)"
  by (simp_all only: set_field_def lower_tags fst_conv snd_conv Let_def)
     (simp_all add: dec_uuid_def)

lemma set_fields_omitempty [simp]:
  "msg_RecipientID m = [] \<Longrightarrow>
     set_fields L (omitempty ''recipient_id'' s) m = Some (m\<lparr>msg_RecipientID := s\<rparr>)"
  "msg_RecipientEmail m = [] \<Longrightarrow>
     set_fields L (omitempty ''recipient_email'' s) m = Some (m\<lparr>msg_RecipientEmail := s\<rparr>)"
  "msg_RecipientPhone m = [] \<Longrightarrow>
     set_fields L (omitempty ''recipient_phone'' s) m = Some (m\<lparr>msg_RecipientPhone := s\<rparr>)"
  "msg_RecipientToken m = [] \<Longrightarrow>
     set_fields L (omitempty ''recipient_token'' s) m = Some (m\<lparr>msg_RecipientToken := s\<rparr>)"
  "msg_Subject m = [] \<Longrightarrow>
     set_fields L (omitempty ''subject'' s) m = Some (m\<lparr>msg_Subject := s\<rparr>)"
  "msg_LastError m = [] \<Longrightarrow>
     set_fields L (omitempty ''last_error'' s) m = Some (m\<lparr>msg_LastError := s\<rparr>)"
  by (simp_all add: omitempty_def)

lemma set_fields_omitempty_map [simp]:
  "msg_Metadata m = None \<Longrightarrow>
     set_fields L (omitempty_map ''metadata'' md) m = Some (m\<lparr>msg_Metadata := norm_metadata md\<rparr>)"
  by (auto simp: omitempty_map_def norm_metadata_def split: option.splits list.splits)

text \<open>Round trip, for any UUID library with \<open>Parse\<close> inverse to \<open>String\<close>.\<close>

context uuid_library
begin

lemma unmarshal_marshal:
  "Message_Unmarshal L (Message_Marshal L m)
     = Some (m\<lparr>msg_Metadata := norm_metadata (msg_Metadata m)\<rparr>)"
proof -
  have "set_fields L kvs zero_message = Some m' \<Longrightarrow>
      Message_Unmarshal L (JObject kvs) = Some m'" for kvs m'
    by (simp add: Message_Unmarshal_def)
  then show ?thesis
    unfolding Message_Marshal_def
    by (simp add: set_fields_append parse_string zero_message_def)
qed

end

end
