(* ===== verification/Tables.thy ===== *)
theory Tables
  imports Domain
begin

text \<open>
  The schema of \<open>backend/migrations/001_initial_schema.up.sql\<close>: one list of rows per
  table, and the statements the repositories run against them.  A nullable text column is
  the empty string when NULL (the code stores NULL exactly for the empty string, and reads
  NULL back as the empty string).  INSERT checks primary keys, UNIQUE constraints and
  foreign keys; DELETE cascades (or sets NULL) as the references declare.
  \<open>db_ok\<close> states what the schema guarantees; every statement keeps it.
\<close>

record db =
  tenants :: "tenant list"
  tenant_channels :: "tenant_channel list"
  tenant_rate_limits :: "tenant_rate_limit list"
  api_keys :: "api_key list"
  notification_templates :: "notification_template list"
  notifications :: "notification list"
  notification_deliveries :: "notification_delivery list"
  scheduled_notifications :: "scheduled_notification list"
  dlq_messages :: "dlq_message list"

definition empty_db :: db where
  "empty_db = \<lparr>tenants = [], tenant_channels = [], tenant_rate_limits = [], api_keys = [],
     notification_templates = [], notifications = [], notification_deliveries = [],
     scheduled_notifications = [], dlq_messages = []\<rparr>"

datatype pg_error =
    PgFailure            \<comment> \<open>connection, context or server error\<close>
  | UniqueViolation      \<comment> \<open>code 23505\<close>
  | ForeignKeyViolation  \<comment> \<open>code 23503\<close>
  | NoRows               \<comment> \<open>\<open>pgx.ErrNoRows\<close>\<close>

section \<open>Keys\<close>

abbreviation tenant_ids :: "db \<Rightarrow> uuid set" where
  "tenant_ids d \<equiv> t_ID ` set (tenants d)"

abbreviation template_ids :: "db \<Rightarrow> uuid set" where
  "template_ids d \<equiv> m_ID ` set (notification_templates d)"

abbreviation notification_ids :: "db \<Rightarrow> uuid set" where
  "notification_ids d \<equiv> n_ID ` set (notifications d)"

abbreviation idem_key :: "notification \<Rightarrow> uuid \<times> string" where
  "idem_key n \<equiv> (n_TenantID n, n_IdempotencyKey n)"

definition with_idem :: "notification list \<Rightarrow> notification list" where
  "with_idem ns = filter (\<lambda>n. n_IdempotencyKey n \<noteq> []) ns"

section \<open>What the schema guarantees\<close>

definition primary_keys_ok :: "db \<Rightarrow> bool" where
  "primary_keys_ok d \<longleftrightarrow>
     unique_on t_ID (tenants d) \<and> unique_on tc_ID (tenant_channels d) \<and>
     unique_on rl_ID (tenant_rate_limits d) \<and> unique_on k_ID (api_keys d) \<and>
     unique_on m_ID (notification_templates d) \<and> unique_on n_ID (notifications d) \<and>
     unique_on d_ID (notification_deliveries d) \<and>
     unique_on s_ID (scheduled_notifications d) \<and> unique_on q_ID (dlq_messages d)"

definition uniques_ok :: "db \<Rightarrow> bool" where
  "uniques_ok d \<longleftrightarrow>
     unique_on (\<lambda>r. (tc_TenantID r, tc_Channel r)) (tenant_channels d) \<and>
     unique_on (\<lambda>r. (rl_TenantID r, rl_Channel r)) (tenant_rate_limits d) \<and>
     unique_on k_KeyHash (api_keys d) \<and>
     unique_on (\<lambda>r. (m_TenantID r, m_Name r)) (notification_templates d) \<and>
     unique_on idem_key (with_idem (notifications d))"

definition references_ok :: "db \<Rightarrow> bool" where
  "references_ok d \<longleftrightarrow>
     tc_TenantID ` set (tenant_channels d) \<subseteq> tenant_ids d \<and>
     rl_TenantID ` set (tenant_rate_limits d) \<subseteq> tenant_ids d \<and>
     k_TenantID ` set (api_keys d) \<subseteq> tenant_ids d \<and>
     m_TenantID ` set (notification_templates d) \<subseteq> tenant_ids d \<and>
     n_TenantID ` set (notifications d) \<subseteq> tenant_ids d \<and>
     n_TemplateID ` set (notifications d) \<subseteq> insert None (Some ` template_ids d) \<and>
     d_NotificationID ` set (notification_deliveries d) \<subseteq> notification_ids d \<and>
     s_NotificationID ` set (scheduled_notifications d) \<subseteq> notification_ids d \<and>
     q_NotificationID ` set (dlq_messages d) \<subseteq> notification_ids d"

definition db_ok :: "db \<Rightarrow> bool" where
  "db_ok d \<longleftrightarrow> primary_keys_ok d \<and> uniques_ok d \<and> references_ok d"

lemmas db_ok_defs = db_ok_def primary_keys_ok_def uniques_ok_def references_ok_def

lemma db_ok_empty: "db_ok empty_db"
  by (simp add: db_ok_defs empty_db_def with_idem_def)

section \<open>Statements that write\<close>

text \<open>\<open>ins unique fk r f d\<close>: the INSERT of row \<open>r\<close>; the constraints are checked on the
  table before it, and a violation leaves it as it was.\<close>

definition ins :: "bool \<Rightarrow> bool \<Rightarrow> 'r \<Rightarrow> db \<Rightarrow> db \<Rightarrow> (pg_error + 'r) \<times> db" where
  "ins u fk r d' d =
     (if \<not> u then (Inl UniqueViolation, d) else if \<not> fk then (Inl ForeignKeyViolation, d)
      else (Inr r, d'))"

definition insert_tenant :: "tenant \<Rightarrow> db \<Rightarrow> (pg_error + tenant) \<times> db" where
  "insert_tenant r d =
     ins (t_ID r \<notin> tenant_ids d) True r (d\<lparr>tenants := tenants d @ [r]\<rparr>) d"

definition insert_api_key :: "api_key \<Rightarrow> db \<Rightarrow> (pg_error + api_key) \<times> db" where
  "insert_api_key r d =
     ins (k_ID r \<notin> k_ID ` set (api_keys d) \<and> k_KeyHash r \<notin> k_KeyHash ` set (api_keys d))
       (k_TenantID r \<in> tenant_ids d) r (d\<lparr>api_keys := api_keys d @ [r]\<rparr>) d"

definition insert_template ::
    "notification_template \<Rightarrow> db \<Rightarrow> (pg_error + notification_template) \<times> db" where
  "insert_template r d =
     ins (m_ID r \<notin> template_ids d \<and>
          (m_TenantID r, m_Name r) \<notin> (\<lambda>q. (m_TenantID q, m_Name q)) ` set (notification_templates d))
       (m_TenantID r \<in> tenant_ids d) r
       (d\<lparr>notification_templates := notification_templates d @ [r]\<rparr>) d"

definition insert_notification :: "notification \<Rightarrow> db \<Rightarrow> (pg_error + notification) \<times> db" where
  "insert_notification r d =
     ins (n_ID r \<notin> notification_ids d \<and>
          (n_IdempotencyKey r = [] \<or> idem_key r \<notin> idem_key ` set (notifications d)))
       (n_TenantID r \<in> tenant_ids d \<and>
        (case n_TemplateID r of None \<Rightarrow> True | Some m \<Rightarrow> m \<in> template_ids d)) r
       (d\<lparr>notifications := notifications d @ [r]\<rparr>) d"

definition insert_delivery ::
    "notification_delivery \<Rightarrow> db \<Rightarrow> (pg_error + notification_delivery) \<times> db" where
  "insert_delivery r d =
     ins (d_ID r \<notin> d_ID ` set (notification_deliveries d))
       (d_NotificationID r \<in> notification_ids d) r
       (d\<lparr>notification_deliveries := notification_deliveries d @ [r]\<rparr>) d"

definition insert_scheduled ::
    "scheduled_notification \<Rightarrow> db \<Rightarrow> (pg_error + scheduled_notification) \<times> db" where
  "insert_scheduled r d =
     ins (s_ID r \<notin> s_ID ` set (scheduled_notifications d))
       (s_NotificationID r \<in> notification_ids d) r
       (d\<lparr>scheduled_notifications := scheduled_notifications d @ [r]\<rparr>) d"

definition insert_dlq :: "dlq_message \<Rightarrow> db \<Rightarrow> (pg_error + dlq_message) \<times> db" where
  "insert_dlq r d =
     ins (q_ID r \<notin> q_ID ` set (dlq_messages d))
       (q_NotificationID r \<in> notification_ids d) r
       (d\<lparr>dlq_messages := dlq_messages d @ [r]\<rparr>) d"

text \<open>INSERT ... ON CONFLICT (tenant_id, channel) DO UPDATE.\<close>

definition upsert_channel :: "tenant_channel \<Rightarrow> db \<Rightarrow> (pg_error + tenant_channel) \<times> db" where
  "upsert_channel r d =
     (let same = (\<lambda>q. tc_TenantID q = tc_TenantID r \<and> tc_Channel q = tc_Channel r) in
      if \<exists>q \<in> set (tenant_channels d). same q
      then (Inr r, d\<lparr>tenant_channels :=
              upd_where same (\<lambda>q. q\<lparr>tc_Enabled := tc_Enabled r\<rparr>) (tenant_channels d)\<rparr>)
      else ins (tc_ID r \<notin> tc_ID ` set (tenant_channels d)) (tc_TenantID r \<in> tenant_ids d) r
             (d\<lparr>tenant_channels := tenant_channels d @ [r]\<rparr>) d)"

definition upsert_rate_limit ::
    "tenant_rate_limit \<Rightarrow> db \<Rightarrow> (pg_error + tenant_rate_limit) \<times> db" where
  "upsert_rate_limit r d =
     (let same = (\<lambda>q. rl_TenantID q = rl_TenantID r \<and> rl_Channel q = rl_Channel r) in
      if \<exists>q \<in> set (tenant_rate_limits d). same q
      then (Inr r, d\<lparr>tenant_rate_limits :=
              upd_where same (\<lambda>q. q\<lparr>rl_MaxPerMin := rl_MaxPerMin r\<rparr>) (tenant_rate_limits d)\<rparr>)
      else ins (rl_ID r \<notin> rl_ID ` set (tenant_rate_limits d)) (rl_TenantID r \<in> tenant_ids d) r
             (d\<lparr>tenant_rate_limits := tenant_rate_limits d @ [r]\<rparr>) d)"

text \<open>DELETE, with ON DELETE CASCADE and ON DELETE SET NULL.\<close>

definition delete_notifications :: "(notification \<Rightarrow> bool) \<Rightarrow> db \<Rightarrow> db" where
  "delete_notifications p d =
     (let gone = n_ID ` {n \<in> set (notifications d). p n} in
      d\<lparr>notifications := del_where p (notifications d),
        notification_deliveries :=
          del_where (\<lambda>r. d_NotificationID r \<in> gone) (notification_deliveries d),
        scheduled_notifications :=
          del_where (\<lambda>r. s_NotificationID r \<in> gone) (scheduled_notifications d),
        dlq_messages := del_where (\<lambda>r. q_NotificationID r \<in> gone) (dlq_messages d)\<rparr>)"

definition delete_templates :: "(notification_template \<Rightarrow> bool) \<Rightarrow> db \<Rightarrow> db" where
  "delete_templates p d =
     (let gone = m_ID ` {m \<in> set (notification_templates d). p m} in
      d\<lparr>notification_templates := del_where p (notification_templates d),
        notifications :=
          upd_where (\<lambda>n. n_TemplateID n \<in> Some ` gone) (\<lambda>n. n\<lparr>n_TemplateID := None\<rparr>)
            (notifications d)\<rparr>)"

definition delete_tenants :: "uuid \<Rightarrow> db \<Rightarrow> db" where
  "delete_tenants t d =
     (let d' = delete_templates (\<lambda>m. m_TenantID m = t)
                 (delete_notifications (\<lambda>n. n_TenantID n = t) d) in
      d'\<lparr>tenants := del_where (\<lambda>r. t_ID r = t) (tenants d'),
         tenant_channels := del_where (\<lambda>r. tc_TenantID r = t) (tenant_channels d'),
         tenant_rate_limits := del_where (\<lambda>r. rl_TenantID r = t) (tenant_rate_limits d'),
         api_keys := del_where (\<lambda>r. k_TenantID r = t) (api_keys d')\<rparr>)"

text \<open>UPDATE.  The rows it matches are counted by the command tag.\<close>

definition update_notifications ::
    "(notification \<Rightarrow> bool) \<Rightarrow> (notification \<Rightarrow> notification) \<Rightarrow> db \<Rightarrow> nat \<times> db" where
  "update_notifications p f d =
     (count_where p (notifications d), d\<lparr>notifications := upd_where p f (notifications d)\<rparr>)"

definition update_deliveries :: "(notification_delivery \<Rightarrow> bool) \<Rightarrow>
    (notification_delivery \<Rightarrow> notification_delivery) \<Rightarrow> db \<Rightarrow> nat \<times> db" where
  "update_deliveries p f d =
     (count_where p (notification_deliveries d),
      d\<lparr>notification_deliveries := upd_where p f (notification_deliveries d)\<rparr>)"

definition update_scheduled :: "(scheduled_notification \<Rightarrow> bool) \<Rightarrow>
    (scheduled_notification \<Rightarrow> scheduled_notification) \<Rightarrow> db \<Rightarrow> nat \<times> db" where
  "update_scheduled p f d =
     (count_where p (scheduled_notifications d),
      d\<lparr>scheduled_notifications := upd_where p f (scheduled_notifications d)\<rparr>)"

definition update_tenants :: "(tenant \<Rightarrow> bool) \<Rightarrow> (tenant \<Rightarrow> tenant) \<Rightarrow> db \<Rightarrow> nat \<times> db" where
  "update_tenants p f d =
     (count_where p (tenants d), d\<lparr>tenants := upd_where p f (tenants d)\<rparr>)"

text \<open>UPDATE of a template: the new name is checked against UNIQUE (tenant_id, name).\<close>

definition update_template :: "uuid \<Rightarrow> uuid \<Rightarrow> (notification_template \<Rightarrow> notification_template)
    \<Rightarrow> db \<Rightarrow> (pg_error + notification_template) \<times> db" where
  "update_template tid mid f d =
     (let p = (\<lambda>m. m_ID m = mid \<and> m_TenantID m = tid) in
      case find p (notification_templates d) of
        None \<Rightarrow> (Inl NoRows, d)
      | Some m \<Rightarrow>
          (if \<exists>q \<in> set (notification_templates d). \<not> p q \<and> m_TenantID q = tid \<and> m_Name q = m_Name (f m)
           then (Inl UniqueViolation, d)
           else (Inr (f m), d\<lparr>notification_templates :=
                   upd_where p f (notification_templates d)\<rparr>)))"

section \<open>Every statement keeps the schema's guarantees\<close>

lemma snd_ins: "snd (ins u fk r d' d) = (if u \<and> fk then d' else d)"
  by (simp add: ins_def)

lemma db_ok_insert_tenant: "db_ok d \<Longrightarrow> db_ok (snd (insert_tenant r d))"
  by (auto simp: insert_tenant_def snd_ins db_ok_defs unique_on_snoc)

lemma db_ok_insert_api_key: "db_ok d \<Longrightarrow> db_ok (snd (insert_api_key r d))"
  by (auto simp: insert_api_key_def snd_ins db_ok_defs unique_on_snoc)

lemma db_ok_insert_template: "db_ok d \<Longrightarrow> db_ok (snd (insert_template r d))"
  by (auto simp: insert_template_def snd_ins db_ok_defs unique_on_snoc)

lemma with_idem_snoc:
  "with_idem (ns @ [n]) = (if n_IdempotencyKey n = [] then with_idem ns else with_idem ns @ [n])"
  by (simp add: with_idem_def)

lemma db_ok_insert_notification: "db_ok d \<Longrightarrow> db_ok (snd (insert_notification r d))"
  by (auto simp: insert_notification_def snd_ins db_ok_defs unique_on_snoc with_idem_snoc
      with_idem_def split: option.splits)

lemma db_ok_insert_delivery: "db_ok d \<Longrightarrow> db_ok (snd (insert_delivery r d))"
  by (auto simp: insert_delivery_def snd_ins db_ok_defs unique_on_snoc)

lemma db_ok_insert_scheduled: "db_ok d \<Longrightarrow> db_ok (snd (insert_scheduled r d))"
  by (auto simp: insert_scheduled_def snd_ins db_ok_defs unique_on_snoc)

lemma db_ok_insert_dlq: "db_ok d \<Longrightarrow> db_ok (snd (insert_dlq r d))"
  by (auto simp: insert_dlq_def snd_ins db_ok_defs unique_on_snoc)

lemma image_upd_where:
  "(\<And>r. p r \<Longrightarrow> k (f r) = k r) \<Longrightarrow> k ` set (upd_where p f rows) = k ` set rows"
  by (metis list.set_map map_upd_where)

lemma db_ok_upsert_channel: "db_ok d \<Longrightarrow> db_ok (snd (upsert_channel r d))"
  by (auto simp: upsert_channel_def snd_ins db_ok_defs unique_on_snoc unique_on_upd Let_def
      image_upd_where)

lemma db_ok_upsert_rate_limit: "db_ok d \<Longrightarrow> db_ok (snd (upsert_rate_limit r d))"
  by (auto simp: upsert_rate_limit_def snd_ins db_ok_defs unique_on_snoc unique_on_upd Let_def
      image_upd_where)

lemma with_idem_del: "with_idem (del_where p ns) = del_where p (with_idem ns)"
  by (simp add: with_idem_def del_where_def conj_commute)

lemma with_idem_upd:
  "(\<And>n. p n \<Longrightarrow> n_IdempotencyKey (f n) = n_IdempotencyKey n) \<Longrightarrow>
   with_idem (upd_where p f ns) = upd_where p f (with_idem ns)"
  by (induction ns) (auto simp: with_idem_def)

text \<open>Deleting parents together with the rows that refer to them.\<close>

lemma references_del:
  assumes "f ` set rows \<subseteq> k ` set parents"
  shows "f ` set (del_where (\<lambda>r. f r \<in> k ` {n \<in> set parents. p n}) rows)
           \<subseteq> k ` set (del_where p parents)"
proof (rule image_subsetI)
  fix r
  assume "r \<in> set (del_where (\<lambda>r. f r \<in> k ` {n \<in> set parents. p n}) rows)"
  then have r: "r \<in> set rows" and ok: "f r \<notin> k ` {n \<in> set parents. p n}" by auto
  from r assms obtain n where "n \<in> set parents" and "f r = k n" by auto
  with ok have "\<not> p n" by auto
  with \<open>n \<in> set parents\<close> \<open>f r = k n\<close> show "f r \<in> k ` set (del_where p parents)" by simp
qed

lemma image_del: "f ` set rows \<subseteq> A \<Longrightarrow> f ` set (del_where p rows) \<subseteq> A"
  by auto

lemma references_del_eq:
  assumes "f ` set rows \<subseteq> k ` set parents"
  shows "f ` set (del_where (\<lambda>r. f r = v) rows) \<subseteq> k ` set (del_where (\<lambda>n. k n = v) parents)"
  using assms by (fastforce simp: image_iff)

lemma primary_keys_delete_notifications:
  "primary_keys_ok d \<Longrightarrow> primary_keys_ok (delete_notifications p d)"
  by (simp add: primary_keys_ok_def delete_notifications_def unique_on_del Let_def)

lemma uniques_delete_notifications: "uniques_ok d \<Longrightarrow> uniques_ok (delete_notifications p d)"
  by (simp add: uniques_ok_def delete_notifications_def unique_on_del with_idem_del Let_def)

lemma references_delete_notifications:
  assumes "references_ok d"
  shows "references_ok (delete_notifications p d)"
proof -
  show ?thesis
    using assms
    by (simp add: references_ok_def delete_notifications_def Let_def references_del image_del)
qed

lemma db_ok_delete_notifications: "db_ok d \<Longrightarrow> db_ok (delete_notifications p d)"
  by (simp add: db_ok_def primary_keys_delete_notifications uniques_delete_notifications
      references_delete_notifications)

lemma primary_keys_delete_templates:
  "primary_keys_ok d \<Longrightarrow> primary_keys_ok (delete_templates p d)"
  by (simp add: primary_keys_ok_def delete_templates_def unique_on_del unique_on_upd Let_def)

lemma uniques_delete_templates: "uniques_ok d \<Longrightarrow> uniques_ok (delete_templates p d)"
  by (simp add: uniques_ok_def delete_templates_def unique_on_del unique_on_upd with_idem_upd
      Let_def)

lemma references_delete_templates:
  assumes ok: "references_ok d"
  shows "references_ok (delete_templates p d)"
proof -
  let ?gone = "m_ID ` {m \<in> set (notification_templates d). p m}"
  let ?ns = "upd_where (\<lambda>n. n_TemplateID n \<in> Some ` ?gone) (\<lambda>n. n\<lparr>n_TemplateID := None\<rparr>)
    (notifications d)"
  have "n_TemplateID n \<in> insert None (Some ` m_ID ` set (del_where p (notification_templates d)))"
    if n: "n \<in> set ?ns" for n
  proof (cases "n_TemplateID n")
    case m: (Some m)
    from n obtain q where q: "q \<in> set (notifications d)"
      and n_q: "n = (if n_TemplateID q \<in> Some ` ?gone then q\<lparr>n_TemplateID := None\<rparr> else q)"
      by (auto simp: in_upd_where)
    have kept: "n_TemplateID q \<notin> Some ` ?gone" and "n_TemplateID q = Some m"
      using n_q m by (auto split: if_splits)
    have "n_TemplateID ` set (notifications d) \<subseteq> insert None (Some ` template_ids d)"
      using ok by (simp add: references_ok_def)
    with q kept \<open>n_TemplateID q = Some m\<close> have "m \<in> template_ids d" and gone: "m \<notin> ?gone"
      by fastforce+
    then obtain x where x: "x \<in> set (notification_templates d)" "m = m_ID x" by auto
    with gone have "\<not> p x" by auto
    with x m show ?thesis by simp
  qed simp
  then have "n_TemplateID ` set ?ns
      \<subseteq> insert None (Some ` m_ID ` set (del_where p (notification_templates d)))"
    by (rule image_subsetI)
  moreover have "m_TenantID ` set (del_where p (notification_templates d)) \<subseteq> tenant_ids d"
    using ok by (auto simp: references_ok_def)
  ultimately show ?thesis
    using ok by (simp add: references_ok_def delete_templates_def Let_def image_upd_where)
qed

lemma db_ok_delete_templates: "db_ok d \<Longrightarrow> db_ok (delete_templates p d)"
  by (simp add: db_ok_def primary_keys_delete_templates uniques_delete_templates
      references_delete_templates)

lemma delete_notifications_simps [simp]:
  "tenants (delete_notifications p d) = tenants d"
  "tenant_channels (delete_notifications p d) = tenant_channels d"
  "tenant_rate_limits (delete_notifications p d) = tenant_rate_limits d"
  "api_keys (delete_notifications p d) = api_keys d"
  "notification_templates (delete_notifications p d) = notification_templates d"
  "notifications (delete_notifications p d) = del_where p (notifications d)"
  by (simp_all add: delete_notifications_def Let_def)

lemma delete_templates_simps [simp]:
  "tenants (delete_templates p d) = tenants d"
  "tenant_channels (delete_templates p d) = tenant_channels d"
  "tenant_rate_limits (delete_templates p d) = tenant_rate_limits d"
  "api_keys (delete_templates p d) = api_keys d"
  "notification_templates (delete_templates p d) = del_where p (notification_templates d)"
  "notification_deliveries (delete_templates p d) = notification_deliveries d"
  "scheduled_notifications (delete_templates p d) = scheduled_notifications d"
  "dlq_messages (delete_templates p d) = dlq_messages d"
  by (simp_all add: delete_templates_def Let_def)

text \<open>Deleting a tenant: its children are gone first, so dropping its own row leaves no
  dangling reference.\<close>

lemma db_ok_delete_tenants:
  assumes "db_ok d"
  shows "db_ok (delete_tenants t d)"
proof -
  let ?d = "delete_templates (\<lambda>m. m_TenantID m = t) (delete_notifications (\<lambda>n. n_TenantID n = t) d)"
  have ok: "db_ok ?d"
    by (intro db_ok_delete_templates db_ok_delete_notifications assms)
  have old: "references_ok d" using assms by (simp add: db_ok_def)
  have "n_TenantID ` set (notifications ?d)
      = n_TenantID ` set (del_where (\<lambda>n. n_TenantID n = t) (notifications d))"
    by (simp add: delete_templates_def Let_def image_upd_where)
  also have "\<dots> \<subseteq> t_ID ` set (del_where (\<lambda>r. t_ID r = t) (tenants d))"
    using old by (intro references_del_eq) (simp add: references_ok_def)
  finally have ns: "n_TenantID ` set (notifications ?d)
      \<subseteq> t_ID ` set (del_where (\<lambda>r. t_ID r = t) (tenants d))" .
  have "primary_keys_ok (delete_tenants t d)" and "uniques_ok (delete_tenants t d)"
    using ok
    by (simp_all add: db_ok_def primary_keys_ok_def uniques_ok_def delete_tenants_def Let_def
        unique_on_del)
  moreover have "references_ok (delete_tenants t d)"
    using ok ns old
    by (simp add: db_ok_def references_ok_def delete_tenants_def Let_def references_del_eq)
  ultimately show ?thesis by (simp add: db_ok_def)
qed

lemma db_ok_update_notifications:
  assumes "db_ok d"
    and "\<And>n. n_ID (f n) = n_ID n" and "\<And>n. n_TenantID (f n) = n_TenantID n"
    and "\<And>n. n_TemplateID (f n) = n_TemplateID n"
    and "\<And>n. n_IdempotencyKey (f n) = n_IdempotencyKey n"
  shows "db_ok (snd (update_notifications p f d))"
  using assms
  by (simp add: update_notifications_def db_ok_defs unique_on_upd with_idem_upd image_upd_where)

lemma db_ok_update_deliveries:
  assumes "db_ok d" and "\<And>r. d_ID (f r) = d_ID r"
    and "\<And>r. d_NotificationID (f r) = d_NotificationID r"
  shows "db_ok (snd (update_deliveries p f d))"
  using assms by (simp add: update_deliveries_def db_ok_defs unique_on_upd image_upd_where)

lemma db_ok_update_scheduled:
  assumes "db_ok d" and "\<And>r. s_ID (f r) = s_ID r"
    and "\<And>r. s_NotificationID (f r) = s_NotificationID r"
  shows "db_ok (snd (update_scheduled p f d))"
  using assms by (simp add: update_scheduled_def db_ok_defs unique_on_upd image_upd_where)

lemma db_ok_update_tenants:
  assumes "db_ok d" and "\<And>r. t_ID (f r) = t_ID r"
  shows "db_ok (snd (update_tenants p f d))"
  using assms by (simp add: update_tenants_def db_ok_defs unique_on_upd image_upd_where)

lemma unique_on_upd_one:
  assumes k: "unique_on k rows" and one: "\<And>a b. a \<in> set rows \<Longrightarrow> b \<in> set rows \<Longrightarrow> p a \<Longrightarrow> p b \<Longrightarrow> a = b"
    and new: "\<And>a b. a \<in> set rows \<Longrightarrow> b \<in> set rows \<Longrightarrow> p a \<Longrightarrow> \<not> p b \<Longrightarrow> k b \<noteq> k (f a)"
  shows "unique_on k (upd_where p f rows)"
  unfolding unique_on_def distinct_conv_nth
proof (intro allI impI)
  fix i j
  assume ij: "i < length (map k (upd_where p f rows))" "j < length (map k (upd_where p f rows))"
    "i \<noteq> j"
  then have i: "rows ! i \<in> set rows" and j: "rows ! j \<in> set rows" by simp_all
  have "k (rows ! i) \<noteq> k (rows ! j)"
    using k ij by (simp add: unique_on_def distinct_conv_nth)
  then show "map k (upd_where p f rows) ! i \<noteq> map k (upd_where p f rows) ! j"
    using one [OF i j] new [OF i j] new [OF j i] ij by (auto simp: upd_where_def)
qed

lemma db_ok_update_template:
  assumes ok: "db_ok d" and f: "\<And>m. m_ID (f m) = m_ID m" "\<And>m. m_TenantID (f m) = m_TenantID m"
    and names: "\<And>m m'. m_Name (f m) = m_Name (f m')"
  shows "db_ok (snd (update_template tid mid f d))"
proof -
  let ?p = "\<lambda>m. m_ID m = mid \<and> m_TenantID m = tid" and ?ms = "notification_templates d"
  have "unique_on (\<lambda>r. (m_TenantID r, m_Name r)) (upd_where ?p f ?ms)"
    if new: "\<not> (\<exists>q \<in> set ?ms. \<not> ?p q \<and> m_TenantID q = tid \<and> m_Name q = m_Name (f m))" for m
  proof (rule unique_on_upd_one)
    show "unique_on (\<lambda>r. (m_TenantID r, m_Name r)) ?ms"
      using ok by (simp add: db_ok_def uniques_ok_def)
  next
    fix a b :: notification_template
    assume "a \<in> set ?ms" "b \<in> set ?ms" "?p a" "?p b"
    moreover have "unique_on m_ID ?ms" using ok by (simp add: db_ok_def primary_keys_ok_def)
    ultimately show "a = b" by (auto dest: unique_onD)
  next
    fix a b :: notification_template
    assume "b \<in> set ?ms" "?p a" "\<not> ?p b"
    with new names [of a m] show "(m_TenantID b, m_Name b) \<noteq> (m_TenantID (f a), m_Name (f a))"
      by (auto simp: f)
  qed
  with ok f show ?thesis
    by (simp add: update_template_def Let_def db_ok_defs unique_on_upd image_upd_where
        split: option.split)
qed

lemmas db_ok_statements = db_ok_insert_tenant db_ok_insert_api_key db_ok_insert_template
  db_ok_insert_notification db_ok_insert_delivery db_ok_insert_scheduled db_ok_insert_dlq
  db_ok_upsert_channel db_ok_upsert_rate_limit db_ok_delete_notifications
  db_ok_delete_templates db_ok_delete_tenants db_ok_update_notifications
  db_ok_update_deliveries db_ok_update_scheduled db_ok_update_tenants db_ok_update_template

end
