(* ===== verification/Hub.thy ===== *)
theory Hub
  imports Domain
begin

text \<open>
  \<open>backend/internal/ws/hub.go\<close>: the live WebSocket connections.  A \<open>*Conn\<close> is an address
  in \<open>h_mem\<close>, because \<open>unregister\<close> compares pointers and a replaced connection lives on until its
  pumps end.  A connection's \<open>send\<close> channel is the list of buffered payloads with its closed
  flag; \<open>cn_written\<close> are the payloads written to the socket, oldest first.

  Each operation that holds the mutex is one step.  \<open>SendToUser\<close> looks the connection up under
  the lock and sends after releasing it: \<open>hub_lookup\<close> and \<open>chan_send\<close>.
\<close>

record conn =
  cn_tenantID :: string
  cn_userID :: string
  cn_send :: "json list"
  cn_closed :: bool
  cn_written :: "json list"
  cn_pumping :: bool

record hub =
  h_conns :: "string \<Rightarrow> nat option"
  h_mem :: "conn list"

definition sendBufferSize :: nat where
  "sendBufferSize = 32"

definition NewHub :: hub where
  "NewHub = \<lparr>h_conns = Map.empty, h_mem = []\<rparr>"

definition connKey :: "string \<Rightarrow> string \<Rightarrow> string" where
  "connKey tenantID userID = tenantID @ '':'' @ userID"

text \<open>\<open>close(ch)\<close>; closing a closed channel panics.\<close>

definition chan_close :: "nat \<Rightarrow> (hub, unit) prog" where
  "chan_close a h =
     (if a < length (h_mem h) \<and> \<not> cn_closed (h_mem h ! a)
      then (Val (), h\<lparr>h_mem := (h_mem h)[a := (h_mem h ! a)\<lparr>cn_closed := True\<rparr>]\<rparr>)
      else (Panic, h))"

definition Hub_register :: "string \<Rightarrow> string \<Rightarrow> (hub, nat) prog" where
  "Hub_register tenantID userID =
     bnd (reads (\<lambda>h. h_conns h (connKey tenantID userID))) (\<lambda>old.
     bnd (case old of Some a \<Rightarrow> chan_close a | None \<Rightarrow> ret ()) (\<lambda>_.
     bnd (reads (\<lambda>h. length (h_mem h))) (\<lambda>c.
     bnd (writes (\<lambda>h. h\<lparr>h_conns := (h_conns h)(connKey tenantID userID \<mapsto> c),
            h_mem := h_mem h @ [\<lparr>cn_tenantID = tenantID, cn_userID = userID, cn_send = [],
              cn_closed = False, cn_written = [], cn_pumping = True\<rparr>]\<rparr>)) (\<lambda>_.
     ret c))))"

definition Hub_unregister :: "nat \<Rightarrow> hub \<Rightarrow> hub" where
  "Hub_unregister c h =
     (let k = connKey (cn_tenantID (h_mem h ! c)) (cn_userID (h_mem h ! c)) in
      if h_conns h k = Some c then h\<lparr>h_conns := (h_conns h)(k := None)\<rparr> else h)"

definition hub_lookup :: "string \<Rightarrow> string \<Rightarrow> hub \<Rightarrow> nat option" where
  "hub_lookup tenantID userID h = h_conns h (connKey tenantID userID)"

definition Hub_IsOnline :: "string \<Rightarrow> string \<Rightarrow> hub \<Rightarrow> bool" where
  "Hub_IsOnline tenantID userID h \<longleftrightarrow> hub_lookup tenantID userID h \<noteq> None"

text \<open>\<open>select { case c.send <- payload: ... default: ... }\<close>; a send on a closed channel panics.\<close>

definition chan_send :: "nat \<Rightarrow> json \<Rightarrow> (hub, bool) prog" where
  "chan_send a payload h =
     (let c = h_mem h ! a in
      if cn_closed c then (Panic, h)
      else if length (cn_send c) < sendBufferSize
      then (Val True, h\<lparr>h_mem := (h_mem h)[a := c\<lparr>cn_send := cn_send c @ [payload]\<rparr>]\<rparr>)
      else (Val False, h))"

definition Hub_SendToUser :: "string \<Rightarrow> string \<Rightarrow> json \<Rightarrow> (hub, bool) prog" where
  "Hub_SendToUser tenantID userID payload =
     bnd (reads (hub_lookup tenantID userID)) (\<lambda>c.
       case c of None \<Rightarrow> ret False | Some a \<Rightarrow> chan_send a payload)"

text \<open>One turn of \<open>writePump\<close>: receive from the channel (\<open>ok\<close>: the write to the socket
  succeeded), or the ping tick.\<close>

datatype pump_event = Receive bool | Ping bool

definition writePump_step :: "pump_event \<Rightarrow> nat \<Rightarrow> hub \<Rightarrow> hub" where
  "writePump_step e a h =
     (let c = h_mem h ! a;
          c' = (case e of
                  Receive ok \<Rightarrow>
                    (case cn_send c of
                       p # ps \<Rightarrow> if ok then c\<lparr>cn_send := ps, cn_written := cn_written c @ [p]\<rparr>
                                 else c\<lparr>cn_send := ps, cn_pumping := False\<rparr>
                     | [] \<Rightarrow> if cn_closed c then c\<lparr>cn_pumping := False\<rparr> else c)
                | Ping ok \<Rightarrow> if ok then c else c\<lparr>cn_pumping := False\<rparr>) in
      if a < length (h_mem h) \<and> cn_pumping c then h\<lparr>h_mem := (h_mem h)[a := c']\<rparr> else h)"

section \<open>The hub's invariant\<close>

definition hub_ok :: "hub \<Rightarrow> bool" where
  "hub_ok h \<longleftrightarrow>
     (\<forall>k a. h_conns h k = Some a \<longrightarrow>
        a < length (h_mem h) \<and> \<not> cn_closed (h_mem h ! a)
        \<and> connKey (cn_tenantID (h_mem h ! a)) (cn_userID (h_mem h ! a)) = k)
     \<and> (\<forall>a < length (h_mem h). length (cn_send (h_mem h ! a)) \<le> sendBufferSize)"

lemma hub_ok_conn:
  "hub_ok h \<Longrightarrow> h_conns h k = Some a \<Longrightarrow> a < length (h_mem h) \<and> \<not> cn_closed (h_mem h ! a)
     \<and> connKey (cn_tenantID (h_mem h ! a)) (cn_userID (h_mem h ! a)) = k"
  by (simp add: hub_ok_def)

lemma hub_ok_NewHub: "hub_ok NewHub"
  by (simp add: hub_ok_def NewHub_def)

lemma hub_ok_buf: "hub_ok h \<Longrightarrow> a < length (h_mem h) \<Longrightarrow> length (cn_send (h_mem h ! a)) \<le> sendBufferSize"
  by (simp add: hub_ok_def)

lemma hub_ok_fewer:
  assumes "hub_ok h" and "\<And>k a. m k = Some a \<Longrightarrow> h_conns h k = Some a"
  shows "hub_ok (h\<lparr>h_conns := m\<rparr>)"
  using hub_ok_conn [OF assms(1) assms(2)] hub_ok_buf [OF assms(1)]
  unfolding hub_ok_def by simp

lemma hub_ok_unregister: "hub_ok h \<Longrightarrow> hub_ok (Hub_unregister c h)"
  unfolding Hub_unregister_def Let_def
  by (simp, rule impI, rule hub_ok_fewer) (simp_all split: if_splits)

lemma hub_ok_upd:
  assumes "hub_ok h" and "cn_closed c = cn_closed (h_mem h ! a)"
    and "cn_tenantID c = cn_tenantID (h_mem h ! a)" and "cn_userID c = cn_userID (h_mem h ! a)"
    and "length (cn_send c) \<le> sendBufferSize"
  shows "hub_ok (h\<lparr>h_mem := (h_mem h)[a := c]\<rparr>)"
proof (cases "a < length (h_mem h)")
  case True
  with assms show ?thesis by (simp add: hub_ok_def nth_list_update)
next
  case False
  then have "(h_mem h)[a := c] = h_mem h" by (simp add: list_update_beyond)
  with assms(1) show ?thesis by simp
qed

lemma hub_ok_pump: "hub_ok h \<Longrightarrow> hub_ok (writePump_step e a h)"
  unfolding writePump_step_def Let_def
  by (auto intro!: hub_ok_upd hub_ok_buf dest: hub_ok_buf [of h a] split: pump_event.split list.split)

lemma hub_ok_send:
  assumes "hub_ok h"
  shows "hub_ok (snd (Hub_SendToUser t u p h))" and "fst (Hub_SendToUser t u p h) \<noteq> Panic"
  using hub_ok_conn [OF assms, of "connKey t u"] assms
  by (auto simp: Hub_SendToUser_def hub_lookup_def chan_send_def go_defs Let_def hub_ok_def
      nth_list_update split: option.splits)

lemma register_eq:
  assumes "hub_ok h"
  shows "Hub_register t u h =
    (let k = connKey t u; c = length (h_mem h);
         m = (case h_conns h k of None \<Rightarrow> h_mem h
              | Some a \<Rightarrow> (h_mem h)[a := (h_mem h ! a)\<lparr>cn_closed := True\<rparr>]) in
     (Val c, h\<lparr>h_conns := (h_conns h)(k \<mapsto> c),
        h_mem := m @ [\<lparr>cn_tenantID = t, cn_userID = u, cn_send = [], cn_closed = False,
                        cn_written = [], cn_pumping = True\<rparr>]\<rparr>))"
  using hub_ok_conn [OF assms, of "connKey t u"]
  by (auto simp: Hub_register_def chan_close_def go_defs Let_def split: option.splits)

lemma hub_ok_register:
  assumes "hub_ok h"
  shows "hub_ok (snd (Hub_register t u h))"
proof -
  let ?h = "snd (Hub_register t u h)"
  have "a < length (h_mem ?h) \<and> \<not> cn_closed (h_mem ?h ! a)
      \<and> connKey (cn_tenantID (h_mem ?h ! a)) (cn_userID (h_mem ?h ! a)) = k"
    if "h_conns ?h k = Some a" for k a
    using that hub_ok_conn [OF assms, of "connKey t u"] hub_ok_conn [OF assms, of k a]
    by (auto simp: register_eq [OF assms] Let_def nth_append nth_list_update
        split: option.splits if_splits)
  moreover have "length (cn_send (h_mem ?h ! a)) \<le> sendBufferSize" if "a < length (h_mem ?h)" for a
    using that assms
    by (auto simp: register_eq [OF assms] Let_def nth_append nth_list_update hub_ok_def
        split: option.splits if_splits)
  ultimately show ?thesis by (auto simp: hub_ok_def)
qed

section \<open>Steps of the hub\<close>

text \<open>The transitions of a process whose hub calls are not interleaved within \<open>SendToUser\<close>.\<close>

datatype hub_op =
    Register string string
  | Unregister nat
  | SendTo string string json
  | Pump pump_event nat

definition hub_step :: "hub_op \<Rightarrow> (hub, bool) prog" where
  "hub_step x = (case x of
     Register t u \<Rightarrow> bnd (Hub_register t u) (\<lambda>_. ret True)
   | Unregister c \<Rightarrow> bnd (writes (Hub_unregister c)) (\<lambda>_. ret True)
   | SendTo t u p \<Rightarrow> Hub_SendToUser t u p
   | Pump e a \<Rightarrow> bnd (writes (writePump_step e a)) (\<lambda>_. ret True))"

fun hub_run :: "hub_op list \<Rightarrow> (hub, bool list) prog" where
  "hub_run [] = ret []"
| "hub_run (x # xs) = bnd (hub_step x) (\<lambda>b. bnd (hub_run xs) (\<lambda>bs. ret (b # bs)))"

lemma hub_step_ok:
  assumes "hub_ok h"
  shows "hub_ok (snd (hub_step x h))" and "fst (hub_step x h) \<noteq> Panic"
proof -
  show "hub_ok (snd (hub_step x h))"
  proof (cases x)
    case (Register t u)
    with hub_ok_register [OF assms, of t u] show ?thesis
      by (simp add: hub_step_def go_defs register_eq [OF assms] Let_def)
  next
    case (SendTo t u p)
    with hub_ok_send(1) [OF assms] show ?thesis by (simp add: hub_step_def)
  qed (simp_all add: hub_step_def go_defs hub_ok_unregister hub_ok_pump assms)
  show "fst (hub_step x h) \<noteq> Panic"
  proof (cases x)
    case (Register t u)
    then show ?thesis by (simp add: hub_step_def go_defs register_eq [OF assms] Let_def)
  next
    case (SendTo t u p)
    with hub_ok_send(2) [OF assms] show ?thesis by (simp add: hub_step_def)
  qed (simp_all add: hub_step_def go_defs)
qed

lemma hub_step_Val:
  assumes "hub_ok h"
  obtains b h' where "hub_step x h = (Val b, h')" and "hub_ok h'"
proof (cases "hub_step x h")
  case (Pair r h')
  with hub_step_ok [OF assms, of x] that show thesis by (cases r) auto
qed

lemma hub_run_ok: "hub_ok h \<Longrightarrow> \<exists>bs h'. hub_run xs h = (Val bs, h') \<and> hub_ok h' \<and> length bs = length xs"
proof (induction xs arbitrary: h)
  case (Cons x xs)
  obtain b h1 where "hub_step x h = (Val b, h1)" "hub_ok h1" using hub_step_Val [OF Cons.prems] .
  moreover from Cons.IH [OF this(2)] obtain bs h' where
    "hub_run xs h1 = (Val bs, h')" "hub_ok h'" "length bs = length xs" by blast
  ultimately show ?case by (simp add: go_defs)
qed (simp add: go_defs)


section \<open>What a connection carries\<close>

text \<open>Payloads written to the socket of connection \<open>a\<close>, then those still buffered.\<close>

definition stream :: "nat \<Rightarrow> hub \<Rightarrow> json list" where
  "stream a h = cn_written (h_mem h ! a) @ cn_send (h_mem h ! a)"

text \<open>The payloads of a run that \<open>SendToUser\<close> reported as enqueued for the key.\<close>

fun enqueued :: "string \<Rightarrow> hub_op list \<Rightarrow> bool list \<Rightarrow> json list" where
  "enqueued k (SendTo t u p # xs) (b # bs) =
     (if b \<and> connKey t u = k then p # enqueued k xs bs else enqueued k xs bs)"
| "enqueued k (_ # xs) (_ # bs) = enqueued k xs bs"
| "enqueued k _ _ = []"

text \<open>An operation that neither replaces or removes connection \<open>a\<close> (registered under \<open>k\<close>) nor is a
  failing write to its socket.\<close>

fun undisturbed :: "string \<Rightarrow> nat \<Rightarrow> hub_op \<Rightarrow> bool" where
  "undisturbed k a (Register t u) \<longleftrightarrow> connKey t u \<noteq> k"
| "undisturbed k a (Unregister c) \<longleftrightarrow> c \<noteq> a"
| "undisturbed k a (SendTo t u p) \<longleftrightarrow> True"
| "undisturbed k a (Pump e c) \<longleftrightarrow> c = a \<longrightarrow> e \<noteq> Receive False"

lemma hub_conn_inj: "hub_ok h \<Longrightarrow> h_conns h k = Some a \<Longrightarrow> h_conns h k' = Some b \<Longrightarrow> a = b \<longleftrightarrow> k = k'"
  by (metis hub_ok_conn option.inject)

lemma chan_send_stream:
  assumes "chan_send c p h = (Val b, h')" and "c < length (h_mem h)"
  shows "h_conns h' = h_conns h" and "stream a h' = stream a h @ (if b \<and> a = c then [p] else [])"
  using assms by (auto simp: chan_send_def Let_def stream_def nth_list_update split: if_splits)

lemma register_keeps:
  assumes "hub_ok h" and "h_conns h k = Some a" and "connKey t u \<noteq> k"
    and "Hub_register t u h = (Val c, h')"
  shows "h_conns h' k = Some a" and "stream a h' = stream a h"
proof -
  have a: "a < length (h_mem h)" using hub_ok_conn [OF assms(1,2)] by simp
  show "h_conns h' k = Some a"
    using assms(2-4) by (auto simp: register_eq [OF assms(1)] Let_def)
  show "stream a h' = stream a h"
  proof (cases "h_conns h (connKey t u)")
    case None
    with a assms(4) show ?thesis
      by (auto simp: register_eq [OF assms(1)] Let_def stream_def nth_append)
  next
    case (Some b)
    with assms(4) show ?thesis using a hub_conn_inj [OF assms(1,2) Some] assms(3)
      by (auto simp: register_eq [OF assms(1)] Let_def stream_def nth_append nth_list_update)
  qed
qed

lemma send_stream:
  assumes "hub_ok h" and "h_conns h k = Some a" and "Hub_SendToUser t u p h = (Val b, h')"
  shows "h_conns h' k = Some a"
    and "stream a h' = stream a h @ (if b \<and> connKey t u = k then [p] else [])"
proof -
  have "h_conns h' k = Some a \<and> stream a h' = stream a h @ (if b \<and> connKey t u = k then [p] else [])"
  proof (cases "h_conns h (connKey t u)")
    case None
    with assms(2,3) show ?thesis by (auto simp: Hub_SendToUser_def hub_lookup_def go_defs)
  next
    case (Some c)
    with assms(3) have "chan_send c p h = (Val b, h')"
      by (simp add: Hub_SendToUser_def hub_lookup_def go_defs)
    from chan_send_stream [OF this] hub_ok_conn [OF assms(1) Some] hub_conn_inj [OF assms(1,2) Some] assms(2)
    show ?thesis by auto
  qed
  then show "h_conns h' k = Some a"
    and "stream a h' = stream a h @ (if b \<and> connKey t u = k then [p] else [])" by auto
qed

lemma pump_stream:
  assumes "c = a \<longrightarrow> e \<noteq> Receive False"
  shows "h_conns (writePump_step e c h) = h_conns h" and "stream a (writePump_step e c h) = stream a h"
  using assms
  by (auto simp: writePump_step_def Let_def stream_def nth_list_update
      split: pump_event.splits list.splits)

lemma step_stream:
  assumes "hub_ok h" and "h_conns h k = Some a" and "undisturbed k a x"
    and "hub_step x h = (Val b, h')"
  shows "h_conns h' k = Some a" and "stream a h' = stream a h @ enqueued k [x] [b]"
proof -
  have "h_conns h' k = Some a \<and> stream a h' = stream a h @ enqueued k [x] [b]"
  proof (cases x)
    case (Register t u)
    with assms(3,4) obtain c where "Hub_register t u h = (Val c, h')"
      by (auto simp: hub_step_def elim!: bnd_ValE simp: ret_def)
    with register_keeps [OF assms(1,2)] Register assms(3) show ?thesis by simp
  next
    case (Unregister c)
    then show ?thesis
      using assms hub_ok_conn [OF assms(1,2)]
      by (auto simp: hub_step_def go_defs Hub_unregister_def Let_def stream_def)
  next
    case (SendTo t u p)
    with assms send_stream [OF assms(1,2)] show ?thesis by (simp add: hub_step_def)
  next
    case (Pump e c)
    with assms pump_stream [of c a e h] show ?thesis by (auto simp: hub_step_def go_defs)
  qed
  then show "h_conns h' k = Some a" and "stream a h' = stream a h @ enqueued k [x] [b]" by auto
qed

lemma enqueued_Cons: "enqueued k (x # xs) (b # bs) = enqueued k [x] [b] @ enqueued k xs bs"
  by (cases x) auto

lemma run_stream:
  assumes "hub_ok h" and "h_conns h k = Some a" and "list_all (undisturbed k a) xs"
    and "hub_run xs h = (Val bs, h')"
  shows "h_conns h' k = Some a \<and> stream a h' = stream a h @ enqueued k xs bs"
  using assms
proof (induction xs arbitrary: h bs)
  case (Cons x xs)
  obtain b h1 where step: "hub_step x h = (Val b, h1)" and ok: "hub_ok h1"
    using hub_step_Val [OF Cons.prems(1)] .
  with Cons.prems(4) obtain bs' where "hub_run xs h1 = (Val bs', h')" and bs: "bs = b # bs'"
    by (auto elim!: bnd_ValE simp: ret_def)
  moreover note s = step_stream [OF Cons.prems(1,2) _ step]
  ultimately show ?case
    using Cons.IH [OF ok s(1)] s(2) Cons.prems(3) by (simp add: enqueued_Cons [of k x xs])
qed (simp add: ret_def)

section \<open>Properties\<close>

text \<open>C19. Registering a user's socket and running any sequence of hub operations that does
  not replace, remove or break this connection never panics, and the payloads written to the socket
  followed by those waiting in its buffer are exactly the payloads \<open>SendToUser\<close> reported as
  enqueued for that user, in order: none is lost, duplicated or reordered.\<close>

theorem hub_delivers_in_order:
  assumes "hub_ok h" and "Hub_register t u h = (Val a, h1)"
    and "list_all (undisturbed (connKey t u) a) xs"
  shows "\<exists>bs h2. hub_run xs h1 = (Val bs, h2) \<and> hub_ok h2 \<and> length bs = length xs
           \<and> Hub_IsOnline t u h2
           \<and> cn_written (h_mem h2 ! a) @ cn_send (h_mem h2 ! a) = enqueued (connKey t u) xs bs"
proof -
  from assms(2) have ok: "hub_ok h1" using hub_ok_register [OF assms(1), of t u] by simp
  have a: "h_conns h1 (connKey t u) = Some a" and st: "stream a h1 = []"
    using assms(2) by (auto simp: register_eq [OF assms(1)] Let_def stream_def nth_append
        split: option.splits)
  obtain bs h2 where run: "hub_run xs h1 = (Val bs, h2)" "hub_ok h2" "length bs = length xs"
    using hub_run_ok [OF ok] by blast
  from run_stream [OF ok a assms(3) run(1)] st run show ?thesis
    by (auto simp: stream_def Hub_IsOnline_def hub_lookup_def)
qed

theorem hub_delivers_in_order_witness:
  "\<exists>bs h2. hub_run [SendTo ''t'' ''u'' (JString ''a''), Pump (Receive True) 0, Register ''t'' ''v'',
       SendTo ''t'' ''v'' JNull, SendTo ''t'' ''u'' (JString ''b'')] (snd (Hub_register ''t'' ''u'' NewHub))
     = (Val bs, h2) \<and> cn_written (h_mem h2 ! 0) @ cn_send (h_mem h2 ! 0) = [JString ''a'', JString ''b'']"
proof -
  have reg: "Hub_register ''t'' ''u'' NewHub = (Val 0, snd (Hub_register ''t'' ''u'' NewHub))"
    by (simp add: Hub_register_def NewHub_def go_defs)
  show ?thesis
    using hub_delivers_in_order [OF hub_ok_NewHub reg, of "[SendTo ''t'' ''u'' (JString ''a''),
        Pump (Receive True) 0, Register ''t'' ''v'', SendTo ''t'' ''v'' JNull,
        SendTo ''t'' ''u'' (JString ''b'')]"]
    by (simp add: connKey_def hub_step_def Hub_register_def NewHub_def go_defs Hub_SendToUser_def
        hub_lookup_def chan_send_def writePump_step_def sendBufferSize_def)
qed

text \<open>The send in \<open>SendToUser\<close> happens after the lock is released: when the user
  reconnects between the lookup and the send, the replaced connection's channel has been closed and
  the send panics.\<close>

theorem send_after_replace_panics:
  assumes "hub_ok h" and "hub_lookup t u h = Some a" and "Hub_register t u h = (Val c, h')"
  shows "chan_send a payload h' = (Panic, h')"
  using hub_ok_conn [OF assms(1), of "connKey t u" a] assms(2,3)
  by (auto simp: register_eq [OF assms(1)] hub_lookup_def Let_def chan_send_def nth_append)

theorem send_after_replace_panics_witness:
  "fst (chan_send 0 JNull (snd (Hub_register ''t'' ''u'' (snd (Hub_register ''t'' ''u'' NewHub))))) = Panic"
proof -
  let ?h = "snd (Hub_register ''t'' ''u'' NewHub)"
  have "hub_lookup ''t'' ''u'' ?h = Some 0"
    by (simp add: Hub_register_def NewHub_def go_defs hub_lookup_def)
  moreover have "Hub_register ''t'' ''u'' ?h = (Val 1, snd (Hub_register ''t'' ''u'' ?h))"
    by (simp add: Hub_register_def NewHub_def go_defs chan_close_def)
  ultimately show ?thesis
    using send_after_replace_panics [OF hub_ok_register [OF hub_ok_NewHub]] by simp
qed

section \<open>A closed connection\<close>

fun pump_ok :: "pump_event \<Rightarrow> bool" where
  "pump_ok (Receive ok) = ok"
| "pump_ok (Ping ok) = ok"

fun is_receive :: "pump_event \<Rightarrow> bool" where
  "is_receive (Receive ok) = True"
| "is_receive (Ping ok) = False"

lemma pump_stopped: "\<not> cn_pumping (h_mem h ! a) \<Longrightarrow> fold (\<lambda>e. writePump_step e a) es h = h"
  by (induction es) (simp_all add: writePump_step_def Let_def)

lemma pump_ping: "writePump_step (Ping True) a h = h"
  by (simp add: writePump_step_def Let_def)

lemma pump_last:
  assumes "a < length (h_mem h)" and "cn_closed (h_mem h ! a)" and "cn_pumping (h_mem h ! a)" and "cn_send (h_mem h ! a) = []"
  shows "h_mem (writePump_step (Receive True) a h) = (h_mem h)[a := (h_mem h ! a)\<lparr>cn_pumping := False\<rparr>]"
  using assms by (simp add: writePump_step_def Let_def)

lemma pump_write:
  assumes "a < length (h_mem h)" and "cn_pumping (h_mem h ! a)" and "cn_send (h_mem h ! a) = p # ps"
  shows "h_mem (writePump_step (Receive True) a h)
    = (h_mem h)[a := (h_mem h ! a)\<lparr>cn_send := ps, cn_written := cn_written (h_mem h ! a) @ [p]\<rparr>]"
  using assms by (simp add: writePump_step_def Let_def)



section \<open>The read deadline\<close>

text \<open>
  \<open>readPump\<close> reads until \<open>ReadMessage\<close> fails.  What the peer sends is the list of frames with their arrival times: a
  pong moves the read deadline, other frames do not, and a frame due after the deadline is never seen, the read
  fails instead.  \<open>writePump\<close> sends a ping every \<open>pingInterval\<close>.
\<close>

definition pongWait :: time where
  "pongWait = 60 * 1000000000"

definition pingInterval :: time where
  "pingInterval = pongWait * 9 div 10"

datatype frame = Pong time | Data time | Broken time

fun frame_time :: "frame \<Rightarrow> time" where
  "frame_time (Pong t) = t"
| "frame_time (Data t) = t"
| "frame_time (Broken t) = t"

datatype read_state = Reading time | TimedOut time | PeerGone

fun readPump_loop :: "time \<Rightarrow> frame list \<Rightarrow> read_state" where
  "readPump_loop deadline [] = Reading deadline"
| "readPump_loop deadline (f # fs) =
     (if frame_time f > deadline then TimedOut deadline
      else case f of
        Pong t \<Rightarrow> readPump_loop (t + pongWait) fs
      | Data t \<Rightarrow> readPump_loop deadline fs
      | Broken t \<Rightarrow> PeerGone)"

definition readPump :: "time \<Rightarrow> frame list \<Rightarrow> read_state" where
  "readPump now fs = readPump_loop (now + pongWait) fs"

text \<open>The peer answers the \<open>k\<close>-th ping, sent at \<open>start + k * pingInterval\<close>, within six seconds; other frames may come
  before that.\<close>

fun answers :: "time \<Rightarrow> nat \<Rightarrow> frame list \<Rightarrow> bool" where
  "answers start k [] = True"
| "answers start k (Pong t # fs) =
     (start + int (Suc k) * pingInterval \<le> t \<and> t \<le> start + int (Suc k) * pingInterval + 6000000000
      \<and> answers start (Suc k) fs)"
| "answers start k (Data t # fs) =
     (t \<le> start + int (Suc k) * pingInterval + 6000000000 \<and> answers start k fs)"
| "answers start k (Broken t # fs) = False"

fun pongs :: "frame list \<Rightarrow> nat" where
  "pongs [] = 0"
| "pongs (Pong t # fs) = Suc (pongs fs)"
| "pongs (f # fs) = pongs fs"

lemma responsive_loop:
  "answers start k fs \<Longrightarrow> start + int k * pingInterval + pongWait \<le> deadline \<Longrightarrow>
   \<exists>d. readPump_loop deadline fs = Reading d \<and> start + int (k + pongs fs) * pingInterval + pongWait \<le> d
     \<and> (\<forall>f. d < frame_time f \<longrightarrow> readPump_loop deadline (fs @ [f]) = TimedOut d)"
proof (induction start k fs arbitrary: deadline rule: answers.induct)
  case (2 start k t fs)
  then have "t \<le> deadline" and "start + int (Suc k) * pingInterval + pongWait \<le> t + pongWait"
    by (simp_all add: pingInterval_def pongWait_def)
  with 2 show ?case by fastforce
next
  case (3 start k t fs)
  then have "t \<le> deadline" by (simp add: pingInterval_def pongWait_def)
  with 3 show ?case by fastforce
qed simp_all

text \<open>C21. A peer that answers every ping within six seconds is never timed out: the read pump is still reading, with a
  deadline a full minute after the last ping it answered.  Once it falls silent, the pump gives up at that
  deadline.\<close>

theorem responsive_peer_stays_connected:
  assumes "answers start 0 fs"
  shows "\<exists>d. readPump start fs = Reading d \<and> start + int (pongs fs) * pingInterval + pongWait \<le> d
    \<and> (\<forall>f. d < frame_time f \<longrightarrow> readPump start (fs @ [f]) = TimedOut d)"
  using responsive_loop [OF assms, of "start + pongWait"] by (simp add: readPump_def)

theorem responsive_peer_stays_connected_witness:
  "\<exists>d. readPump 0 [Data 5, Pong 55000000000, Pong 114000000000] = Reading d \<and> 168000000000 \<le> d
     \<and> readPump 0 [Data 5, Pong 55000000000, Pong 114000000000, Pong (d + 1)] = TimedOut d"
proof -
  have "answers 0 0 [Data 5, Pong 55000000000, Pong 114000000000]"
    by (simp add: pingInterval_def pongWait_def)
  from responsive_peer_stays_connected [OF this] obtain d where
    "readPump 0 [Data 5, Pong 55000000000, Pong 114000000000] = Reading d" "168000000000 \<le> d"
    "\<forall>f. d < frame_time f \<longrightarrow> readPump 0 ([Data 5, Pong 55000000000, Pong 114000000000] @ [f]) = TimedOut d"
    by (auto simp: pingInterval_def pongWait_def)
  from this(1,2) this(3) [rule_format, of "Pong (d + 1)"] show ?thesis by auto
qed

end
