(* ===== verification/World.thy ===== *)
theory World
  imports Tables Hub
begin

text \<open>
  The state every component runs in, and its calls to the outside.

  The database, the Redis server's state (of some type \<open>'r\<close>: Redis is a parameter), the
  records the Kafka brokers have acknowledged, the process's WebSocket hub and cached FCM token,
  and the observable effects that only count, wait or leave for a provider are the world.  What the outside answers is \<open>w_env\<close>: the \<open>n\<close>-th external call gets
  \<open>w_env w n\<close>, which says whether the call failed (and with which error text), the random
  UUID and the clock reading it used, whether the context was cancelled by then, and for an
  HTTP exchange the status code and the response body (its text, and its JSON value if it is one).
  A theorem that holds for every \<open>w_env\<close> holds for every pattern of failures.

  \<open>query\<close> is \<open>Executor.Exec/Query/QueryRow\<close> (a failed statement changes nothing),
  \<open>WithTx\<close> is \<open>postgres.WithTx\<close>, \<open>Producer_Publish\<close> is \<open>Producer.Publish\<close>.
  Log lines and trace spans are not part of the world.
\<close>

record call =
  c_fail :: "string option"
  c_uuid :: uuid
  c_now :: time
  c_done :: bool
  c_status :: int
  c_text :: string
  c_reply :: "json option"

text \<open>An outgoing HTTP request; query and form parameters are kept decoded.\<close>

datatype http_body = NoBody | JsonBody json | FormBody "(string \<times> string) list"

record http_request =
  rq_method :: string
  rq_url :: string
  rq_query :: "(string \<times> string) list"
  rq_headers :: "(string \<times> string) list"
  rq_body :: http_body

text \<open>A line of the request log; \<open>hl_error\<close> is present on \<open>http request failed\<close>.\<close>

record http_log =
  hl_method :: string
  hl_path :: string
  hl_status :: int
  hl_latency_ms :: int
  hl_request_id :: string
  hl_error :: "string option"

datatype event =
    CounterInc string "string list"  \<comment> \<open>a Prometheus counter and its labels\<close>
  | Slept time                       \<comment> \<open>\<open>time.Sleep\<close> and \<open>time.After\<close>\<close>
  | Committed string int             \<comment> \<open>a topic's offset acknowledged to Kafka\<close>
  | HttpSent http_request            \<comment> \<open>handed to \<open>http.Client.Do\<close>\<close>
  | Observed string "string list" time  \<comment> \<open>a Prometheus histogram, its labels and the duration\<close>
  | LoggedRequest http_log           \<comment> \<open>a line of the request log\<close>

record krecord =
  kr_topic :: string
  kr_key :: string
  kr_headers :: "(string \<times> string) list"
  kr_value :: json

record 'r world =
  w_db :: db
  w_redis :: 'r
  w_topics :: "krecord list"
  w_events :: "event list"
  w_hub :: hub
  w_fcm_token :: string
  w_fcm_expires :: time
  w_env :: "nat \<Rightarrow> call"
  w_tick :: nat

section \<open>External calls\<close>

definition external :: "('r world, call) prog" where
  "external w = (Val (w_env w (w_tick w)), w\<lparr>w_tick := Suc (w_tick w)\<rparr>)"

definition emit :: "event \<Rightarrow> ('r world, unit) prog" where
  "emit e = writes (\<lambda>w. w\<lparr>w_events := w_events w @ [e]\<rparr>)"

text \<open>\<open>metrics.NotificationsTotal.WithLabelValues(channel, status).Inc()\<close>\<close>

definition count_status :: "channel \<Rightarrow> status \<Rightarrow> ('r world, unit) prog" where
  "count_status ch st = emit (CounterInc ''notifyx_notifications_total'' [ch, st])"

definition on_hub :: "(hub, 'a) prog \<Rightarrow> ('r world, 'a) prog" where
  "on_hub m w = (case m (w_hub w) of (r, h) \<Rightarrow> (r, w\<lparr>w_hub := h\<rparr>))"

definition run_stmt :: "(db \<Rightarrow> (pg_error + 'a) \<times> db) \<Rightarrow> ('r world, pg_error + 'a) prog" where
  "run_stmt s w = (case s (w_db w) of (r, d) \<Rightarrow> (Val r, w\<lparr>w_db := d\<rparr>))"

definition query :: "(call \<Rightarrow> db \<Rightarrow> (pg_error + 'a) \<times> db) \<Rightarrow> ('r world, pg_error + 'a) prog" where
  "query s = bnd external (\<lambda>c.
     case c_fail c of Some _ \<Rightarrow> ret (Inl PgFailure) | None \<Rightarrow> run_stmt (s c))"

text \<open>The clock reading and the error of the \<open>i\<close>-th call from here.\<close>

definition now_at :: "'r world \<Rightarrow> nat \<Rightarrow> time" where
  "now_at w i = c_now (w_env w (w_tick w + i))"

definition fails_at :: "'r world \<Rightarrow> nat \<Rightarrow> bool" where
  "fails_at w i \<longleftrightarrow> c_fail (w_env w (w_tick w + i)) \<noteq> None"

section \<open>Errors of the repositories\<close>

datatype repo_error =
    ErrNotFound
  | ErrAlreadyExists
  | ErrOther  \<comment> \<open>a wrapped driver error; callers only test for the two above\<close>

definition isUniqueViolation :: "pg_error \<Rightarrow> bool" where
  "isUniqueViolation e \<longleftrightarrow> e = UniqueViolation"

text \<open>The conversions at the end of each method.\<close>

definition wrap :: "pg_error + 'a \<Rightarrow> repo_error + 'a" where
  "wrap r = (case r of Inl _ \<Rightarrow> Inl ErrOther | Inr x \<Rightarrow> Inr x)"

definition wrap_not_found :: "pg_error + 'a \<Rightarrow> repo_error + 'a" where
  "wrap_not_found r =
     (case r of Inl e \<Rightarrow> if e = NoRows then Inl ErrNotFound else Inl ErrOther | Inr x \<Rightarrow> Inr x)"

definition wrap_unique :: "pg_error + 'a \<Rightarrow> repo_error + 'a" where
  "wrap_unique r =
     (case r of
        Inl e \<Rightarrow> if e = NoRows then Inl ErrNotFound
                 else if isUniqueViolation e then Inl ErrAlreadyExists else Inl ErrOther
      | Inr x \<Rightarrow> Inr x)"

text \<open>\<open>if tag.RowsAffected() == 0 { return ErrNotFound }\<close>\<close>

definition rows_affected :: "pg_error + nat \<Rightarrow> repo_error + unit" where
  "rows_affected r =
     (case r of Inl _ \<Rightarrow> Inl ErrOther | Inr n \<Rightarrow> if n = 0 then Inl ErrNotFound else Inr ())"

section \<open>Transactions\<close>

definition tx_body :: "('r world, repo_error + 'a) prog \<Rightarrow> ('r world, repo_error + 'a) prog" where
  "tx_body fn w =
     (let rollback = (\<lambda>w'. w'\<lparr>w_db := w_db w\<rparr>) in
      case fn w of
        (Panic, w') \<Rightarrow> (Panic, rollback w')
      | (Val (Inl e), w') \<Rightarrow> (Val (Inl e), rollback w')
      | (Val (Inr x), w') \<Rightarrow>
          (case external w' of
             (Panic, w'') \<Rightarrow> (Panic, w'')
           | (Val c, w'') \<Rightarrow>
               (case c_fail c of
                  Some _ \<Rightarrow> (Val (Inl ErrOther), rollback w'')
                | None \<Rightarrow> (Val (Inr x), w''))))"

definition WithTx :: "('r world, repo_error + 'a) prog \<Rightarrow> ('r world, repo_error + 'a) prog" where
  "WithTx fn = bnd external (\<lambda>c.
     case c_fail c of Some _ \<Rightarrow> ret (Inl ErrOther) | None \<Rightarrow> tx_body fn)"

section \<open>The producer\<close>

text \<open>
  A Go interface value is nil, or holds a pointer that may itself be nil; only the first
  compares equal to \<open>nil\<close>.
\<close>

datatype 'a iface = NilInterface | NilPointer | Object 'a

definition is_nil :: "'a iface \<Rightarrow> bool" where
  "is_nil i \<longleftrightarrow> (case i of NilInterface \<Rightarrow> True | _ \<Rightarrow> False)"

lemma is_nil_simps [simp]: "is_nil NilInterface" "\<not> is_nil NilPointer" "\<not> is_nil (Object x)"
  by (simp_all add: is_nil_def)

definition Producer_Publish ::
    "libs \<Rightarrow> unit iface \<Rightarrow> string \<Rightarrow> message \<Rightarrow> ('r world, string + unit) prog" where
  "Producer_Publish L p topic m =
     (case p of
        Object _ \<Rightarrow> bnd external (\<lambda>c.
          case c_fail c of
            Some e \<Rightarrow> ret (Inl (''write kafka message to '' @ topic @ '': '' @ e))
          | None \<Rightarrow> bnd (writes (\<lambda>w. w\<lparr>w_topics := w_topics w @
                [\<lparr>kr_topic = topic, kr_key = uuid_String L (msg_NotificationID m),
                  kr_headers = [(''notification_id'', uuid_String L (msg_NotificationID m)),
                                (''channel'', msg_Channel m)],
                  kr_value = Message_Marshal L m\<rparr>]\<rparr>))
              (\<lambda>_. ret (Inr ())))
      | NilPointer \<Rightarrow> panic    \<comment> \<open>\<open>p.writer\<close> on a nil \<open>*Producer\<close>\<close>
      | NilInterface \<Rightarrow> panic)"

section \<open>What the calls keep\<close>

text \<open>
  Invariants of one part of the world.  \<open>db_inv J\<close> is \<open>J\<close> of the database.
\<close>

abbreviation (input) db_inv :: "(db \<Rightarrow> bool) \<Rightarrow> 'r world \<Rightarrow> bool" where
  "db_inv J w \<equiv> J (w_db w)"

lemma pres_external [pres]:
  "(\<And>w n. I w \<Longrightarrow> I (w\<lparr>w_tick := n\<rparr>)) \<Longrightarrow> pres I external"
  by (simp add: pres_def external_def)

lemma db_external [pres]: "pres (db_inv J) external"
  by (rule pres_external) simp

lemma db_emit [pres]: "pres (db_inv J) (emit e)"
  by (simp add: emit_def pres_writes)

lemma db_count_status [pres]: "pres (db_inv J) (count_status ch st)"
  unfolding count_status_def by (rule db_emit)

lemma db_on_hub [pres]: "pres (db_inv J) (on_hub m)"
  by (simp add: pres_def on_hub_def split: prod.split)

lemma db_run_stmt: "(\<And>d. J d \<Longrightarrow> J (snd (s d))) \<Longrightarrow> pres (db_inv J) (run_stmt s)"
  by (force simp: pres_def run_stmt_def split: prod.split)

lemma db_query: "(\<And>c d. J d \<Longrightarrow> J (snd (s c d))) \<Longrightarrow> pres (db_inv J) (query s)"
  unfolding query_def by (intro pres db_run_stmt)

lemma db_Publish [pres]: "pres (db_inv J) (Producer_Publish L p topic m)"
  unfolding Producer_Publish_def by (cases p) (auto intro!: pres pres_writes)

lemma db_tx_body: "pres (db_inv J) fn \<Longrightarrow> pres (db_inv J) (tx_body fn)"
  unfolding pres_def
  by (auto simp: tx_body_def Let_def external_def dest: presE split: prod.splits outcome.splits
      sum.splits option.splits)

lemma db_WithTx [pres]: "pres (db_inv J) fn \<Longrightarrow> pres (db_inv J) (WithTx fn)"
  unfolding WithTx_def by (intro pres db_tx_body)

text \<open>A transaction that reports an error, or panics, leaves the database as it was.\<close>

lemma tx_body_rollback:
  assumes "tx_body fn w = (r, w')" and "\<And>x. r \<noteq> Val (Inr x)"
  shows "w_db w' = w_db w"
  using assms
  by (auto simp: tx_body_def Let_def external_def split: prod.splits outcome.splits sum.splits
      option.splits)

lemma WithTx_rollback:
  assumes "WithTx fn w = (r, w')" and "\<And>x. r \<noteq> Val (Inr x)"
  shows "w_db w' = w_db w"
proof -
  from assms(1) consider "w_db w' = w_db w" | "tx_body fn (w\<lparr>w_tick := Suc (w_tick w)\<rparr>) = (r, w')"
    by (auto simp: WithTx_def bnd_def external_def ret_def split: option.splits)
  then show ?thesis
    by cases (use tx_body_rollback [OF _ assms(2)] in fastforce)+
qed

text \<open>A transaction that reports success has run its body to success.\<close>

lemma tx_body_success:
  assumes "tx_body fn w = (Val (Inr x), w')"
  obtains w1 where "fn w = (Val (Inr x), w1)" and "w' = w1\<lparr>w_tick := Suc (w_tick w1)\<rparr>"
    and "c_fail (w_env w1 (w_tick w1)) = None"
  using assms
  by (auto simp: tx_body_def Let_def external_def split: prod.splits outcome.splits sum.splits
      option.splits)

lemma WithTx_success:
  assumes "WithTx fn w = (Val (Inr x), w')"
  obtains w1 where "fn (w\<lparr>w_tick := Suc (w_tick w)\<rparr>) = (Val (Inr x), w1)"
    and "w' = w1\<lparr>w_tick := Suc (w_tick w1)\<rparr>"
  using assms
  by (auto simp: WithTx_def bnd_def external_def ret_def elim: tx_body_success
      split: option.splits)

text \<open>A statement failed and changed nothing, or ran.\<close>

lemma query_cases:
  assumes "query s w = (Val r, w')"
  obtains (failed) "r = Inl PgFailure" and "w' = w\<lparr>w_tick := Suc (w_tick w)\<rparr>"
    | (ran) d where "s (w_env w (w_tick w)) (w_db w) = (r, d)" and "w' = w\<lparr>w_tick := Suc (w_tick w), w_db := d\<rparr>"
  using assms
  by (auto simp: query_def bnd_def ret_def external_def run_stmt_def split: option.splits prod.splits)

end
