(* ===== verification/Redis.thy ===== *)
theory Redis
  imports World
begin

text \<open>
  Redis is not part of the repository: the commands the code and its Lua scripts issue are
  the record \<open>redis\<close>, an argument of the definitions that use it, over a server state of
  any type.  The locale \<open>redis_server\<close> states the documented behaviour relied on: the
  server state has a keyspace (a value and an optional expiry per key) and each command
  acts on it as Redis documents.  \<open>mem_redis\<close> is a server whose state is its keyspace.
  Times are the server's clock; a script runs at one instant.
\<close>

section \<open>Keyspaces\<close>

datatype rval =
    RStr string
  | RZset "(string \<times> int) list"  \<comment> \<open>members with scores, each member once\<close>
  | RList "json list"

type_synonym keyspace = "string \<Rightarrow> (rval \<times> time option) option"

definition expired :: "time \<Rightarrow> time option \<Rightarrow> bool" where
  "expired t dl \<longleftrightarrow> (case dl of None \<Rightarrow> False | Some x \<Rightarrow> x \<le> t)"

definition live :: "time \<Rightarrow> keyspace \<Rightarrow> string \<Rightarrow> rval option" where
  "live t ks k = (case ks k of None \<Rightarrow> None | Some (v, dl) \<Rightarrow> if expired t dl then None else Some v)"

definition ttl_of :: "time \<Rightarrow> keyspace \<Rightarrow> string \<Rightarrow> time option" where
  "ttl_of t ks k = (case ks k of None \<Rightarrow> None | Some (v, dl) \<Rightarrow> if expired t dl then None else dl)"

definition ks_setnx :: "time \<Rightarrow> string \<Rightarrow> string \<Rightarrow> keyspace \<Rightarrow> bool \<times> keyspace" where
  "ks_setnx t k v ks =
     (case live t ks k of None \<Rightarrow> (True, ks(k \<mapsto> (RStr v, None))) | Some _ \<Rightarrow> (False, ks))"

definition ks_get :: "time \<Rightarrow> string \<Rightarrow> keyspace \<Rightarrow> string option" where
  "ks_get t k ks = (case live t ks k of Some (RStr v) \<Rightarrow> Some v | _ \<Rightarrow> None)"

definition ks_set_ex :: "time \<Rightarrow> string \<Rightarrow> string \<Rightarrow> time \<Rightarrow> keyspace \<Rightarrow> keyspace" where
  "ks_set_ex t k v d ks = ks(k \<mapsto> (RStr v, Some (t + d)))"

definition ks_expire :: "time \<Rightarrow> string \<Rightarrow> time \<Rightarrow> keyspace \<Rightarrow> keyspace" where
  "ks_expire t k d ks =
     (case live t ks k of None \<Rightarrow> ks | Some v \<Rightarrow> ks(k \<mapsto> (v, Some (t + d))))"

definition ks_del :: "string \<Rightarrow> keyspace \<Rightarrow> keyspace" where
  "ks_del k ks = ks(k := None)"

definition zset :: "time \<Rightarrow> string \<Rightarrow> keyspace \<Rightarrow> (string \<times> int) list" where
  "zset t k ks = (case live t ks k of Some (RZset z) \<Rightarrow> z | _ \<Rightarrow> [])"

definition ks_zremrangebyscore :: "time \<Rightarrow> string \<Rightarrow> int \<Rightarrow> int \<Rightarrow> keyspace \<Rightarrow> keyspace" where
  "ks_zremrangebyscore t k lo hi ks =
     (case live t ks k of
        Some (RZset z) \<Rightarrow>
          (case filter (\<lambda>(m, s). \<not> (lo \<le> s \<and> s \<le> hi)) z of
             [] \<Rightarrow> ks(k := None)
           | z' \<Rightarrow> ks(k \<mapsto> (RZset z', ttl_of t ks k)))
      | _ \<Rightarrow> ks)"

definition zadd :: "int \<Rightarrow> string \<Rightarrow> (string \<times> int) list \<Rightarrow> (string \<times> int) list" where
  "zadd s m z = (if m \<in> fst ` set z then map (\<lambda>(m', s'). if m' = m then (m, s) else (m', s')) z
                 else z @ [(m, s)])"

definition ks_zadd :: "time \<Rightarrow> string \<Rightarrow> int \<Rightarrow> string \<Rightarrow> keyspace \<Rightarrow> keyspace" where
  "ks_zadd t k s m ks =
     (case live t ks k of
        None \<Rightarrow> ks(k \<mapsto> (RZset [(m, s)], None))
      | Some (RZset z) \<Rightarrow> ks(k \<mapsto> (RZset (zadd s m z), ttl_of t ks k))
      | Some _ \<Rightarrow> ks)"

definition ks_rpush :: "time \<Rightarrow> string \<Rightarrow> json \<Rightarrow> keyspace \<Rightarrow> keyspace" where
  "ks_rpush t k x ks =
     (case live t ks k of
        None \<Rightarrow> ks(k \<mapsto> (RList [x], None))
      | Some (RList xs) \<Rightarrow> ks(k \<mapsto> (RList (xs @ [x]), ttl_of t ks k))
      | Some _ \<Rightarrow> ks)"

definition ks_lrange_all :: "time \<Rightarrow> string \<Rightarrow> keyspace \<Rightarrow> json list" where
  "ks_lrange_all t k ks = (case live t ks k of Some (RList xs) \<Rightarrow> xs | _ \<Rightarrow> [])"

section \<open>The commands, as an interface\<close>

record 'r redis =
  SETNX :: "time \<Rightarrow> string \<Rightarrow> string \<Rightarrow> 'r \<Rightarrow> bool \<times> 'r"
  GET :: "time \<Rightarrow> string \<Rightarrow> 'r \<Rightarrow> string option"
  SETEX :: "time \<Rightarrow> string \<Rightarrow> string \<Rightarrow> time \<Rightarrow> 'r \<Rightarrow> 'r"
  EXPIRE :: "time \<Rightarrow> string \<Rightarrow> time \<Rightarrow> 'r \<Rightarrow> 'r"
  DEL :: "time \<Rightarrow> string \<Rightarrow> 'r \<Rightarrow> 'r"
  ZREMRANGEBYSCORE :: "time \<Rightarrow> string \<Rightarrow> int \<Rightarrow> int \<Rightarrow> 'r \<Rightarrow> 'r"
  ZCARD :: "time \<Rightarrow> string \<Rightarrow> 'r \<Rightarrow> nat"
  ZADD :: "time \<Rightarrow> string \<Rightarrow> int \<Rightarrow> string \<Rightarrow> 'r \<Rightarrow> 'r"
  RPUSH :: "time \<Rightarrow> string \<Rightarrow> json \<Rightarrow> 'r \<Rightarrow> 'r"
  LRANGE_ALL :: "time \<Rightarrow> string \<Rightarrow> 'r \<Rightarrow> json list"

locale redis_server =
  fixes R :: "'r redis" and keys :: "'r \<Rightarrow> keyspace"
  assumes SETNX_reply: "fst (SETNX R t k v r) = fst (ks_setnx t k v (keys r))"
    and SETNX_keys: "keys (snd (SETNX R t k v r)) = snd (ks_setnx t k v (keys r))"
    and GET_reply: "GET R t k r = ks_get t k (keys r)"
    and SETEX_keys: "keys (SETEX R t k v d r) = ks_set_ex t k v d (keys r)"
    and EXPIRE_keys: "keys (EXPIRE R t k d r) = ks_expire t k d (keys r)"
    and DEL_keys: "keys (DEL R t k r) = ks_del k (keys r)"
    and ZREM_keys: "keys (ZREMRANGEBYSCORE R t k lo hi r) = ks_zremrangebyscore t k lo hi (keys r)"
    and ZCARD_reply: "ZCARD R t k r = length (zset t k (keys r))"
    and ZADD_keys: "keys (ZADD R t k s m r) = ks_zadd t k s m (keys r)"
    and RPUSH_keys: "keys (RPUSH R t k x r) = ks_rpush t k x (keys r)"
    and LRANGE_reply: "LRANGE_ALL R t k r = ks_lrange_all t k (keys r)"
begin

lemma SETNX_eq:
  "SETNX R t k v r = (fst (ks_setnx t k v (keys r)), snd (SETNX R t k v r))"
  by (simp add: prod_eq_iff SETNX_reply)

lemmas replies = SETNX_reply GET_reply ZCARD_reply LRANGE_reply
lemmas effects = SETNX_keys SETEX_keys EXPIRE_keys DEL_keys ZREM_keys ZADD_keys RPUSH_keys

end

definition mem_redis :: "keyspace redis" where
  "mem_redis = \<lparr>SETNX = ks_setnx, GET = ks_get, SETEX = ks_set_ex, EXPIRE = ks_expire,
     DEL = (\<lambda>t. ks_del), ZREMRANGEBYSCORE = ks_zremrangebyscore,
     ZCARD = (\<lambda>t k ks. length (zset t k ks)), ZADD = ks_zadd, RPUSH = ks_rpush,
     LRANGE_ALL = ks_lrange_all\<rparr>"

interpretation mem: redis_server mem_redis "\<lambda>ks. ks"
  by unfold_locales (simp_all add: mem_redis_def)

section \<open>Facts about keyspaces\<close>

lemma expired_simps [simp]: "\<not> expired t None" "expired t (Some x) \<longleftrightarrow> x \<le> t"
  by (simp_all add: expired_def)

lemma expired_mono: "expired t dl \<Longrightarrow> t \<le> t' \<Longrightarrow> expired t' dl"
  by (auto simp: expired_def split: option.splits)

lemma live_upd [simp]:
  "live t (ks(k \<mapsto> (v, dl))) k = (if expired t dl then None else Some v)"
  "k' \<noteq> k \<Longrightarrow> live t (ks(k := x)) k' = live t ks k'"
  "live t (ks(k := None)) k = None"
  by (simp_all add: live_def)

lemma live_mono: "live t' ks k = Some v \<Longrightarrow> t \<le> t' \<Longrightarrow> live t ks k = Some v"
  by (auto simp: live_def dest: expired_mono split: option.splits prod.splits if_splits)

text \<open>A command leaves every other key alone.\<close>

lemma other_keys [simp]:
  assumes "k' \<noteq> k"
  shows "snd (ks_setnx t k v ks) k' = ks k'"
    and "ks_set_ex t k v d ks k' = ks k'"
    and "ks_expire t k d ks k' = ks k'"
    and "ks_del k ks k' = ks k'"
    and "ks_zremrangebyscore t k lo hi ks k' = ks k'"
    and "ks_zadd t k s m ks k' = ks k'"
    and "ks_rpush t k x ks k' = ks k'"
  using assms
  by (simp_all add: ks_setnx_def ks_set_ex_def ks_expire_def ks_del_def ks_zremrangebyscore_def
      ks_zadd_def ks_rpush_def split: option.split rval.split list.split)

section \<open>Calls from Go\<close>

text \<open>One round trip: a command, a pipeline or a script.  It fails, without effect, when the
  environment says so.\<close>

definition redis_call :: "(time \<Rightarrow> 'r \<Rightarrow> 'a \<times> 'r) \<Rightarrow> ('r world, string + 'a) prog" where
  "redis_call f = bnd external (\<lambda>c.
     case c_fail c of
       Some e \<Rightarrow> ret (Inl e)
     | None \<Rightarrow> (\<lambda>w. case f (c_now c) (w_redis w) of (x, r) \<Rightarrow> (Val (Inr x), w\<lparr>w_redis := r\<rparr>)))"

lemma db_redis_call [pres]: "pres (db_inv J) (redis_call f)"
  unfolding redis_call_def
  by (intro pres) (simp add: pres_def split: prod.split)


text \<open>A world with an empty Redis and an outside that never fails, one second per call.\<close>

definition calm_env :: "nat \<Rightarrow> call" where
  "calm_env n = \<lparr>c_fail = None, c_uuid = of_nat (Suc n), c_now = int n * 1000000000, c_done = False,
     c_status = 200, c_text = [], c_reply = None\<rparr>"

definition calm_world :: "db \<Rightarrow> keyspace world" where
  "calm_world d = \<lparr>w_db = d, w_redis = Map.empty, w_topics = [], w_events = [], w_hub = NewHub,
     w_fcm_token = [], w_fcm_expires = 0, w_env = calm_env, w_tick = 0\<rparr>"

lemma calm_simps [simp]:
  "\<not> fails_at (calm_world d) i" "now_at (calm_world d) i = int i * 1000000000"
  "w_redis (calm_world d) = Map.empty" "w_db (calm_world d) = d"
  by (simp_all add: fails_at_def now_at_def calm_world_def calm_env_def)

end
