(* ===== verification/Jwt.thy ===== *)
theory Jwt
  imports Domain
begin

text \<open>
  The signed assertions of \<open>backend/internal/channels/push/fcm.go\<close>: base64 as \<open>base64.RawURLEncoding\<close> writes it (bytes are
  characters), the private key and the signature.  Decoding is the reference the encoding is compared with.
\<close>

section \<open>Base64\<close>

text \<open>Three bytes are four numbers below 64; one or two bytes at the end are two or three.\<close>

fun sextets :: "nat list \<Rightarrow> nat list" where
  "sextets [] = []"
| "sextets [a] = [a div 4, a mod 4 * 16]"
| "sextets [a, b] = [a div 4, a mod 4 * 16 + b div 16, b mod 16 * 4]"
| "sextets (a # b # c # rest) =
     [a div 4, a mod 4 * 16 + b div 16, b mod 16 * 4 + c div 64, c mod 64] @ sextets rest"

definition url_alphabet :: string where
  "url_alphabet = ''ABCDEFGHIJKLMNOPQRSTUVWXYZabcdefghijklmnopqrstuvwxyz0123456789-_''"

definition base64URLEncode :: "string \<Rightarrow> string" where
  "base64URLEncode b = map ((!) url_alphabet) (sextets (map of_char b))"

fun octets :: "nat list \<Rightarrow> nat list" where
  "octets [x, y] = [x * 4 + y div 16]"
| "octets [x, y, z] = [x * 4 + y div 16, y mod 16 * 16 + z div 4]"
| "octets (x # y # z # u # rest) =
     [x * 4 + y div 16, y mod 16 * 16 + z div 4, z mod 4 * 64 + u] @ octets rest"
| "octets _ = []"

definition alphabet_index :: "char \<Rightarrow> nat" where
  "alphabet_index c = length (takeWhile (\<lambda>d. d \<noteq> c) url_alphabet)"

definition base64URLDecode :: "string \<Rightarrow> string" where
  "base64URLDecode s = map char_of (octets (map alphabet_index s))"

lemma join_digits: "r < k \<Longrightarrow> (q * k + r) div k = q" "r < k \<Longrightarrow> (q * k + r) mod k = r" for q k r :: nat
  by simp_all

lemma byte_parts: "b < 256 \<Longrightarrow> b div 4 < 64 \<and> b div 16 < 16 \<and> b div 64 < 4" for b :: nat
  by (simp add: less_mult_imp_div_less)

lemma octets_sextets: "list_all (\<lambda>b. b < 256) bs \<Longrightarrow> octets (sextets bs) = bs"
proof (induction bs rule: sextets.induct)
  case (3 a b)
  with byte_parts [of b] show ?case
    by (simp add: join_digits(2) [of _ 16] join_digits(1) [of _ 16])
next
  case (4 a b c rest)
  with byte_parts [of b] byte_parts [of c] show ?case
    by (simp add: join_digits(2) [of _ 16] join_digits(1) [of _ 16] join_digits [of _ 4])
qed simp_all

lemma sextets_range: "list_all (\<lambda>b. b < 256) bs \<Longrightarrow> list_all (\<lambda>x. x < 64) (sextets bs)"
proof (induction bs rule: sextets.induct)
  case (2 a)
  then show ?case using byte_parts [of a] by simp
next
  case (3 a b)
  then have "a mod 4 < 4" "b div 16 < 16" "b mod 16 < 16" using byte_parts [of b] by simp_all
  then have "a mod 4 * 16 + b div 16 < 64" "b mod 16 * 4 < 64" by linarith+
  with 3 show ?case using byte_parts [of a] by simp
next
  case (4 a b c rest)
  then have "a mod 4 < 4" "b div 16 < 16" "b mod 16 < 16" "c div 64 < 4" using byte_parts [of b] byte_parts [of c] by simp_all
  then have "a mod 4 * 16 + b div 16 < 64" "b mod 16 * 4 + c div 64 < 64" by linarith+
  with 4 show ?case using byte_parts [of a] by simp
qed simp

lemma alphabet_index_nth: "n < 64 \<Longrightarrow> alphabet_index (url_alphabet ! n) = n"
proof -
  have "list_all (\<lambda>n. alphabet_index (url_alphabet ! n) = n) [0..<64]" by code_simp
  then show "n < 64 \<Longrightarrow> alphabet_index (url_alphabet ! n) = n" by (simp add: list_all_iff)
qed

lemma base64_bytes: "list_all (\<lambda>b. b < 256) (map of_char s :: nat list)"
  by (simp add: list_all_iff)

lemma base64_roundtrip: "base64URLDecode (base64URLEncode s) = s"
proof -
  have "map alphabet_index (base64URLEncode s) = sextets (map of_char s)"
    using sextets_range [OF base64_bytes [of s]]
    by (auto simp: base64URLEncode_def list_all_iff alphabet_index_nth intro!: map_idI)
  then show ?thesis by (simp add: base64URLDecode_def octets_sextets [OF base64_bytes] comp_def)
qed

lemma base64_no_dot: "CHR ''.'' \<notin> set (base64URLEncode s)"
proof -
  have "CHR ''.'' \<notin> set url_alphabet" "length url_alphabet = 64" by code_simp+
  moreover have "\<forall>x\<in>set (sextets (map of_char s)). x < 64"
    using sextets_range [OF base64_bytes [of s]] by (simp add: list_all_iff)
  ultimately show ?thesis by (auto simp: base64URLEncode_def)
qed

section \<open>Keys and assertions\<close>

definition parsePrivateKey :: "libs \<Rightarrow> string \<Rightarrow> string + string" where
  "parsePrivateKey L pemKey =
     (case pem_Decode L pemKey of
        None \<Rightarrow> Inl ''invalid PEM block in private key''
      | Some block \<Rightarrow>
          (case parsePKCS8 L block of
             Inl e \<Rightarrow> Inl (''parse PKCS8 private key: '' @ e)
           | Inr (RSAKey key) \<Rightarrow> Inr key
           | Inr OtherKey \<Rightarrow> Inl ''private key is not RSA''))"

text \<open>The digest is passed on as its hexadecimal text.\<close>

definition signRS256 :: "libs \<Rightarrow> string \<Rightarrow> string \<Rightarrow> string + string" where
  "signRS256 L key input = rsa_sign L key (sha256hex L input)"

definition compact_jwt :: "libs \<Rightarrow> string \<Rightarrow> json \<Rightarrow> json \<Rightarrow> string + string" where
  "compact_jwt L key header claims =
     (let signingInput = base64URLEncode (json_text L header) @ ''.'' @ base64URLEncode (json_text L claims) in
      case signRS256 L key signingInput of
        Inl e \<Rightarrow> Inl e
      | Inr sig \<Rightarrow> Inr (signingInput @ ''.'' @ base64URLEncode sig))"

text \<open>A compact token is read by splitting it at the dots.\<close>

fun split_dots :: "string \<Rightarrow> string list" where
  "split_dots [] = [[]]"
| "split_dots (c # cs) = (if c = CHR ''.'' then [] # split_dots cs
     else (case split_dots cs of s # ss \<Rightarrow> (c # s) # ss | [] \<Rightarrow> [[c]]))"

lemma split_dots_plain: "CHR ''.'' \<notin> set s \<Longrightarrow> split_dots s = [s]"
  by (induction s) auto

lemma split_dots_append: "CHR ''.'' \<notin> set s \<Longrightarrow> split_dots (s @ ''.'' @ rest) = s # split_dots rest"
  by (induction s) auto

lemma compact_jwt_segments:
  assumes "compact_jwt L key header claims = Inr tok"
  obtains h c s where "split_dots tok = [h, c, s]" and "base64URLDecode h = json_text L header"
    and "base64URLDecode c = json_text L claims" and "signRS256 L key (h @ ''.'' @ c) = Inr (base64URLDecode s)"
proof -
  from assms obtain sig where
    "signRS256 L key (base64URLEncode (json_text L header) @ ''.'' @ base64URLEncode (json_text L claims)) = Inr sig"
    and "tok = base64URLEncode (json_text L header) @ ''.'' @ base64URLEncode (json_text L claims) @ ''.'' @ base64URLEncode sig"
    by (auto simp: compact_jwt_def Let_def split: sum.splits)
  with that [of "base64URLEncode (json_text L header)" "base64URLEncode (json_text L claims)" "base64URLEncode sig"]
  show thesis
    by (simp only: split_dots_append [OF base64_no_dot] split_dots_plain [OF base64_no_dot] base64_roundtrip)
qed

end
