(* ===== verification/Channels.thy ===== *)
theory Channels
  imports Redis Jwt
begin

text \<open>
  The provider clients: \<open>backend/internal/channels/email/resend.go\<close>,
  \<open>channels/sms/fast2sms.go\<close> and \<open>channels/push/fcm.go\<close>.  Each \<open>Send\<close> builds one HTTP
  request, hands it to \<open>http.Client.Do\<close> and interprets the answer; the FCM client first obtains an
  OAuth access token, which it keeps in \<open>w_fcm_token\<close> until shortly before it expires.
  Error texts are the code's own; what \<open>encoding/json\<close> and \<open>net/url\<close> append to them is left out.
\<close>

section \<open>One HTTP exchange\<close>

record http_response =
  rs_StatusCode :: int
  rs_text :: string
  rs_json :: "json option"

datatype http_error = DoFailed string | ReadFailed string

definition http_exchange :: "http_request \<Rightarrow> ('r world, http_error + http_response) prog" where
  "http_exchange req =
     bnd (emit (HttpSent req)) (\<lambda>_.
     bnd external (\<lambda>c. case c_fail c of
       Some e \<Rightarrow> ret (Inl (DoFailed e))
     | None \<Rightarrow>
         bnd external (\<lambda>b. case c_fail b of   \<comment> \<open>\<open>io.ReadAll(resp.Body)\<close>\<close>
           Some e \<Rightarrow> ret (Inl (ReadFailed e))
         | None \<Rightarrow> ret (Inr \<lparr>rs_StatusCode = c_status c, rs_text = c_text b, rs_json = c_reply b\<rparr>))))"

definition success_code :: "int \<Rightarrow> bool" where
  "success_code n \<longleftrightarrow> \<not> (n < 200 \<or> n \<ge> 300)"

text \<open>\<open>json.Unmarshal\<close> of a body into a struct with one string field.\<close>

definition unmarshal_string :: "string \<Rightarrow> json option \<Rightarrow> string option" where
  "unmarshal_string tag body =
     (case body of None \<Rightarrow> None
      | Some j \<Rightarrow> (case members j of None \<Rightarrow> None | Some kvs \<Rightarrow> field json_string tag [] kvs))"

definition status_error :: "string \<Rightarrow> int \<Rightarrow> string \<Rightarrow> string" where
  "status_error what n detail = what @ '' error ('' @ dec_string_of_int n @ ''): '' @ detail"

section \<open>Resend\<close>

record email_client =
  ec_apiKey :: string
  ec_fromEmail :: string

definition resend_url :: string where
  "resend_url = ''https://api.resend.com/emails''"

definition resend_request :: "email_client \<Rightarrow> string \<Rightarrow> string \<Rightarrow> string \<Rightarrow> http_request" where
  "resend_request cl to subject body = \<lparr>rq_method = ''POST'', rq_url = resend_url, rq_query = [],
     rq_headers = [(''Authorization'', ''Bearer '' @ ec_apiKey cl), (''Content-Type'', ''application/json'')],
     rq_body = JsonBody (JObject [(''from'', JString (ec_fromEmail cl)), (''to'', JString to),
       (''subject'', JString subject), (''html'', JString body)])\<rparr>"

definition Email_Send :: "email_client \<Rightarrow> string \<Rightarrow> string \<Rightarrow> string \<Rightarrow> ('r world, string + string) prog" where
  "Email_Send cl to subject body =
     bnd (http_exchange (resend_request cl to subject body)) (\<lambda>x. case x of
       Inl (DoFailed e) \<Rightarrow> ret (Inl (''resend request failed: '' @ e))
     | Inl (ReadFailed e) \<Rightarrow> ret (Inl (''read resend response: '' @ e))
     | Inr resp \<Rightarrow>
         if \<not> success_code (rs_StatusCode resp) then
           (case unmarshal_string ''message'' (rs_json resp) of
              Some m \<Rightarrow> ret (Inl (status_error ''resend'' (rs_StatusCode resp) (if m \<noteq> [] then m else rs_text resp)))
            | None \<Rightarrow> ret (Inl (status_error ''resend'' (rs_StatusCode resp) (rs_text resp))))
         else
           (case unmarshal_string ''id'' (rs_json resp) of
              None \<Rightarrow> ret (Inl (''unmarshal resend response''))
            | Some i \<Rightarrow> ret (Inr i)))"

section \<open>Fast2SMS\<close>

record sms_client =
  sc_apiKey :: string

definition fast2sms_url :: string where
  "fast2sms_url = ''https://www.fast2sms.com/dev/bulkV2''"

definition fast2sms_request :: "sms_client \<Rightarrow> string \<Rightarrow> string \<Rightarrow> http_request" where
  "fast2sms_request cl phone message = \<lparr>rq_method = ''GET'', rq_url = fast2sms_url,
     rq_query = [(''authorization'', sc_apiKey cl), (''message'', message), (''language'', ''english''),
       (''route'', ''q''), (''numbers'', phone)],
     rq_headers = [], rq_body = NoBody\<rparr>"

record sms_response =
  sr_Return :: bool
  sr_RequestID :: string
  sr_Message :: "string list"

definition unmarshal_sms :: "json option \<Rightarrow> sms_response option" where
  "unmarshal_sms body =
     (case body of None \<Rightarrow> None
      | Some j \<Rightarrow> (case members j of None \<Rightarrow> None
        | Some kvs \<Rightarrow>
            (case (field json_bool ''return'' False kvs, field json_string ''request_id'' [] kvs,
                   field json_strings ''message'' [] kvs) of
               (Some b, Some r, Some m) \<Rightarrow> Some \<lparr>sr_Return = b, sr_RequestID = r, sr_Message = m\<rparr>
             | _ \<Rightarrow> None)))"

definition Sms_Send :: "sms_client \<Rightarrow> string \<Rightarrow> string \<Rightarrow> ('r world, string + string) prog" where
  "Sms_Send cl phone message =
     bnd (http_exchange (fast2sms_request cl phone message)) (\<lambda>x. case x of
       Inl (DoFailed e) \<Rightarrow> ret (Inl (''fast2sms request failed: '' @ e))
     | Inl (ReadFailed e) \<Rightarrow> ret (Inl (''read fast2sms response: '' @ e))
     | Inr resp \<Rightarrow>
         if \<not> success_code (rs_StatusCode resp) then
           ret (Inl (status_error ''fast2sms'' (rs_StatusCode resp) (rs_text resp)))
         else
           (case unmarshal_sms (rs_json resp) of
              None \<Rightarrow> ret (Inl (''unmarshal fast2sms response''))
            | Some sr \<Rightarrow>
                if \<not> sr_Return sr then
                  ret (Inl (''fast2sms rejected message: '' @
                    (case sr_Message sr of [] \<Rightarrow> ''unknown error'' | m # _ \<Rightarrow> m)))
                else ret (Inr (sr_RequestID sr))))"

section \<open>Firebase Cloud Messaging\<close>

record fcm_client =
  fc_projectID :: string
  fc_clientEmail :: string
  fc_privateKey :: string
  fc_tokenURI :: string

definition fcm_tokenURL :: string where
  "fcm_tokenURL = ''https://oauth2.googleapis.com/token''"

definition fcmScope :: string where
  "fcmScope = ''https://www.googleapis.com/auth/firebase.messaging''"

definition fcmBaseURL :: string where
  "fcmBaseURL = ''https://fcm.googleapis.com''"

definition tokenExpirySkew :: time where
  "tokenExpirySkew = 60 * 1000000000"

text \<open>The argument is the JSON value of the credentials text, \<open>None\<close> when it is not JSON.\<close>

definition Fcm_NewClient :: "libs \<Rightarrow> json option \<Rightarrow> string + fcm_client" where
  "Fcm_NewClient L credentials =
     (case credentials of None \<Rightarrow> Inl ''parse firebase credentials JSON''
      | Some j \<Rightarrow> (case members j of None \<Rightarrow> Inl ''parse firebase credentials JSON''
        | Some kvs \<Rightarrow>
            (case (field json_string ''project_id'' [] kvs, field json_string ''private_key'' [] kvs,
                   field json_string ''client_email'' [] kvs, field json_string ''token_uri'' [] kvs) of
               (Some proj, Some key, Some mail, Some uri) \<Rightarrow>
                 if proj = [] \<or> key = [] \<or> mail = []
                 then Inl ''firebase credentials JSON missing project_id/private_key/client_email''
                 else (case parsePrivateKey L key of
                   Inl e \<Rightarrow> Inl (''parse firebase private key: '' @ e)
                 | Inr rsaKey \<Rightarrow> Inr \<lparr>fc_projectID = proj, fc_clientEmail = mail, fc_privateKey = rsaKey,
                     fc_tokenURI = (if uri = [] then fcm_tokenURL else uri)\<rparr>)
             | _ \<Rightarrow> Inl ''parse firebase credentials JSON'')))"

definition seconds :: "time \<Rightarrow> json" where
  "seconds t = JNum (of_int (t div 1000000000))"

text \<open>\<open>json.Marshal\<close> writes the keys of a map in order.\<close>

definition jwt_header :: json where
  "jwt_header = JObject [(''alg'', JString ''RS256''), (''typ'', JString ''JWT'')]"

definition jwt_claims :: "fcm_client \<Rightarrow> time \<Rightarrow> json" where
  "jwt_claims cl now = JObject [(''aud'', JString (fc_tokenURI cl)), (''exp'', seconds (now + 3600 * 1000000000)),
     (''iat'', seconds now), (''iss'', JString (fc_clientEmail cl)), (''scope'', JString fcmScope)]"

definition Fcm_signJWT :: "libs \<Rightarrow> fcm_client \<Rightarrow> ('r world, string + string) prog" where
  "Fcm_signJWT L cl = bnd external (\<lambda>c. ret (compact_jwt L (fc_privateKey cl) jwt_header (jwt_claims cl (c_now c))))"

definition token_request :: "fcm_client \<Rightarrow> string \<Rightarrow> http_request" where
  "token_request cl assertion = \<lparr>rq_method = ''POST'', rq_url = fc_tokenURI cl, rq_query = [],
     rq_headers = [(''Content-Type'', ''application/x-www-form-urlencoded'')],
     rq_body = FormBody [(''grant_type'', ''urn:ietf:params:oauth:grant-type:jwt-bearer''),
       (''assertion'', assertion)]\<rparr>"

definition unmarshal_token :: "json option \<Rightarrow> (string \<times> int) option" where
  "unmarshal_token body =
     (case body of None \<Rightarrow> None
      | Some j \<Rightarrow> (case members j of None \<Rightarrow> None
        | Some kvs \<Rightarrow> (case (field json_string ''access_token'' [] kvs, field json_int ''expires_in'' 0 kvs) of
            (Some tok, Some n) \<Rightarrow> Some (tok, n) | _ \<Rightarrow> None)))"

definition Fcm_refresh :: "libs \<Rightarrow> fcm_client \<Rightarrow> ('r world, string + string) prog" where
  "Fcm_refresh L cl =
     bnd (Fcm_signJWT L cl) (\<lambda>a. case a of
       Inl e \<Rightarrow> ret (Inl (''sign jwt assertion: '' @ e))
     | Inr assertion \<Rightarrow>
         if \<not> url_parses L (fc_tokenURI cl) then ret (Inl ''build token request'')
         else bnd (http_exchange (token_request cl assertion)) (\<lambda>x. case x of
           Inl (DoFailed e) \<Rightarrow> ret (Inl (''token request failed: '' @ e))
         | Inl (ReadFailed e) \<Rightarrow> ret (Inl (''read token response: '' @ e))
         | Inr resp \<Rightarrow>
             if \<not> success_code (rs_StatusCode resp) then
               ret (Inl (status_error ''token endpoint'' (rs_StatusCode resp) (rs_text resp)))
             else (case unmarshal_token (rs_json resp) of
               None \<Rightarrow> ret (Inl ''unmarshal token response'')
             | Some (tok, expires_in) \<Rightarrow>
                 bnd external (\<lambda>c.
                 bnd (writes (\<lambda>w. w\<lparr>w_fcm_token := tok,
                        w_fcm_expires := c_now c + int64 (expires_in * 1000000000)\<rparr>)) (\<lambda>_.
                 ret (Inr tok))))))"

definition Fcm_getAccessToken :: "libs \<Rightarrow> fcm_client \<Rightarrow> ('r world, string + string) prog" where
  "Fcm_getAccessToken L cl =
     bnd (reads w_fcm_token) (\<lambda>tok.
       if tok = [] then Fcm_refresh L cl
       else bnd external (\<lambda>c. bnd (reads w_fcm_expires) (\<lambda>expires.
              if c_now c < expires - tokenExpirySkew then ret (Inr tok) else Fcm_refresh L cl)))"

definition fcm_request :: "fcm_client \<Rightarrow> string \<Rightarrow> string \<Rightarrow> string \<Rightarrow> string \<Rightarrow> http_request" where
  "fcm_request cl accessToken token title body = \<lparr>rq_method = ''POST'',
     rq_url = fcmBaseURL @ ''/v1/projects/'' @ fc_projectID cl @ ''/messages:send'', rq_query = [],
     rq_headers = [(''Authorization'', ''Bearer '' @ accessToken), (''Content-Type'', ''application/json'')],
     rq_body = JsonBody (JObject [(''message'', JObject [(''token'', JString token),
       (''notification'', JObject [(''body'', JString body), (''title'', JString title)])])])\<rparr>"

text \<open>\<open>apiErr.Error.Message\<close>, when the body unmarshals.\<close>

definition unmarshal_fcm_error :: "json option \<Rightarrow> string option" where
  "unmarshal_fcm_error body =
     (case body of None \<Rightarrow> None
      | Some j \<Rightarrow> (case members j of None \<Rightarrow> None
        | Some kvs \<Rightarrow> (case field members ''error'' [] kvs of None \<Rightarrow> None
          | Some inner \<Rightarrow> field json_string ''message'' [] inner)))"

definition Push_Send :: "libs \<Rightarrow> fcm_client \<Rightarrow> string \<Rightarrow> string \<Rightarrow> string \<Rightarrow> ('r world, string + string) prog" where
  "Push_Send L cl token title body =
     bnd (Fcm_getAccessToken L cl) (\<lambda>a. case a of
       Inl e \<Rightarrow> ret (Inl (''get fcm access token: '' @ e))
     | Inr accessToken \<Rightarrow>
         let req = fcm_request cl accessToken token title body in
         if \<not> url_parses L (rq_url req) then ret (Inl ''build fcm request'')
         else bnd (http_exchange req) (\<lambda>x. case x of
           Inl (DoFailed e) \<Rightarrow> ret (Inl (''fcm request failed: '' @ e))
         | Inl (ReadFailed e) \<Rightarrow> ret (Inl (''read fcm response: '' @ e))
         | Inr resp \<Rightarrow>
             if \<not> success_code (rs_StatusCode resp) then
               (case unmarshal_fcm_error (rs_json resp) of
                  Some m \<Rightarrow> ret (Inl (status_error ''fcm'' (rs_StatusCode resp) (if m \<noteq> [] then m else rs_text resp)))
                | None \<Rightarrow> ret (Inl (status_error ''fcm'' (rs_StatusCode resp) (rs_text resp))))
             else (case unmarshal_string ''name'' (rs_json resp) of
               None \<Rightarrow> ret (Inl ''unmarshal fcm response'')
             | Some name \<Rightarrow> ret (Inr name))))"


section \<open>What the clients leave alone\<close>

lemma db_http [pres]: "pres (db_inv J) (http_exchange req)"
  unfolding http_exchange_def by (intro pres)

lemma pres_case_http_error [pres]:
  "(\<And>e. pres I (f e)) \<Longrightarrow> (\<And>e. pres I (g e)) \<Longrightarrow>
   pres I (case x of DoFailed e \<Rightarrow> f e | ReadFailed e \<Rightarrow> g e)"
  by (cases x) auto

lemma db_refresh [pres]: "pres (db_inv J) (Fcm_refresh L cl)"
  unfolding Fcm_refresh_def Fcm_signJWT_def by (intro pres pres_writes) simp

lemma db_senders [pres]:
  "pres (db_inv J) (Email_Send ec a b c)" "pres (db_inv J) (Sms_Send sc a b)"
  "pres (db_inv J) (Push_Send L fc a b c)"
  unfolding Email_Send_def Sms_Send_def Push_Send_def Fcm_getAccessToken_def by (intro pres)+

section \<open>Properties\<close>

text \<open>The answer of the exchange that starts at the world's next call.\<close>

definition next_response :: "'r world \<Rightarrow> http_response option" where
  "next_response w =
     (if fails_at w 0 \<or> fails_at w 1 then None
      else Some \<lparr>rs_StatusCode = c_status (w_env w (w_tick w)), rs_text = c_text (w_env w (Suc (w_tick w))),
                rs_json = c_reply (w_env w (Suc (w_tick w)))\<rparr>)"

lemma http_exchange_run:
  obtains x n where "http_exchange req w = (Val x, w\<lparr>w_events := w_events w @ [HttpSent req], w_tick := n\<rparr>)"
    and "case next_response w of Some resp \<Rightarrow> x = Inr resp | None \<Rightarrow> \<exists>e. x = Inl e"
proof -
  have "\<exists>x n. http_exchange req w = (Val x, w\<lparr>w_events := w_events w @ [HttpSent req], w_tick := n\<rparr>)
      \<and> (case next_response w of Some resp \<Rightarrow> x = Inr resp | None \<Rightarrow> \<exists>e. x = Inl e)"
    by (cases "c_fail (w_env w (w_tick w))"; cases "c_fail (w_env w (Suc (w_tick w)))")
       (auto simp: http_exchange_def emit_def go_defs external_def next_response_def fails_at_def)
  with that show thesis by blast
qed

text \<open>Sending an e-mail hands the provider exactly one request, with the client's
  sender address and key, and succeeds exactly when the exchange completes with a 2xx status and a
  JSON object without a non-string \<open>id\<close>; it never panics and touches nothing but the event log.\<close>

theorem Email_Send_once:
  "\<exists>res n. Email_Send cl to subject body w
       = (Val res, w\<lparr>w_events := w_events w @ [HttpSent (resend_request cl to subject body)], w_tick := n\<rparr>)
     \<and> (isl res \<longleftrightarrow> \<not> (\<exists>resp. next_response w = Some resp \<and> 200 \<le> rs_StatusCode resp
          \<and> rs_StatusCode resp < 300 \<and> unmarshal_string ''id'' (rs_json resp) \<noteq> None))"
proof -
  obtain x n where "http_exchange (resend_request cl to subject body) w
      = (Val x, w\<lparr>w_events := w_events w @ [HttpSent (resend_request cl to subject body)], w_tick := n\<rparr>)"
    and "case next_response w of Some resp \<Rightarrow> x = Inr resp | None \<Rightarrow> \<exists>e. x = Inl e"
    using http_exchange_run .
  then show ?thesis
    by (auto simp: Email_Send_def bnd_def ret_def success_code_def
        split: option.splits sum.splits http_error.splits)
qed

text \<open>Fast2SMS answers 200 to a message it rejects: an SMS counts as sent exactly when
  the exchange completes with a 2xx status and a body whose \<open>return\<close> field is true, and the
  request ID returned is the provider's.\<close>

theorem Sms_Send_outcome:
  "\<exists>res n. Sms_Send cl phone message w
       = (Val res, w\<lparr>w_events := w_events w @ [HttpSent (fast2sms_request cl phone message)], w_tick := n\<rparr>)
     \<and> (\<forall>i. res = Inr i \<longleftrightarrow> (\<exists>resp sr. next_response w = Some resp \<and> 200 \<le> rs_StatusCode resp
          \<and> rs_StatusCode resp < 300 \<and> unmarshal_sms (rs_json resp) = Some sr \<and> sr_Return sr
          \<and> sr_RequestID sr = i))"
proof -
  obtain x n where "http_exchange (fast2sms_request cl phone message) w
      = (Val x, w\<lparr>w_events := w_events w @ [HttpSent (fast2sms_request cl phone message)], w_tick := n\<rparr>)"
    and "case next_response w of Some resp \<Rightarrow> x = Inr resp | None \<Rightarrow> \<exists>e. x = Inl e"
    using http_exchange_run .
  then show ?thesis
    by (auto simp: Sms_Send_def bnd_def ret_def success_code_def
        split: option.splits sum.splits http_error.splits)
qed

text \<open>While the cached FCM token has more than a minute left, a push makes one
  request, authorised with that token, and the cache is unchanged.\<close>

theorem Push_Send_cached:
  assumes "w_fcm_token w \<noteq> []" and "now_at w 0 < w_fcm_expires w - tokenExpirySkew"
    and "url_parses L (rq_url (fcm_request cl (w_fcm_token w) token title body))"
  shows "\<exists>res n. Push_Send L cl token title body w
    = (Val res, w\<lparr>w_events := w_events w @ [HttpSent (fcm_request cl (w_fcm_token w) token title body)],
         w_tick := n\<rparr>)"
proof -
  let ?req = "fcm_request cl (w_fcm_token w) token title body" and ?w = "w\<lparr>w_tick := Suc (w_tick w)\<rparr>"
  have tok: "Fcm_getAccessToken L cl w = (Val (Inr (w_fcm_token w)), ?w)"
    using assms(1,2) by (simp add: Fcm_getAccessToken_def go_defs external_def now_at_def)
  obtain x n where "http_exchange ?req ?w
      = (Val x, ?w\<lparr>w_events := w_events ?w @ [HttpSent ?req], w_tick := n\<rparr>)"
    using http_exchange_run [of ?req ?w] by blast
  with tok assms(3) show ?thesis
    by (auto simp: Push_Send_def bnd_def ret_def Let_def split: option.split sum.split http_error.split)
qed

theorem Push_Send_cached_witness:
  "\<exists>res n. Push_Send bit_libs \<lparr>fc_projectID = ''p'', fc_clientEmail = ''e'', fc_privateKey = ''k'',
       fc_tokenURI = ''u''\<rparr> ''dev'' ''t'' ''b''
       ((calm_world empty_db)\<lparr>w_fcm_token := ''tok'', w_fcm_expires := 3600 * 1000000000\<rparr>)
     = (Val res, (calm_world empty_db)\<lparr>w_fcm_token := ''tok'', w_fcm_expires := 3600 * 1000000000,
         w_events := [HttpSent (fcm_request \<lparr>fc_projectID = ''p'', fc_clientEmail = ''e'',
           fc_privateKey = ''k'', fc_tokenURI = ''u''\<rparr> ''tok'' ''dev'' ''t'' ''b'')], w_tick := n\<rparr>)"
  using Push_Send_cached [of "(calm_world empty_db)\<lparr>w_fcm_token := ''tok'', w_fcm_expires := 3600 * 1000000000\<rparr>"
      bit_libs "\<lparr>fc_projectID = ''p'', fc_clientEmail = ''e'', fc_privateKey = ''k'', fc_tokenURI = ''u''\<rparr>"
      "''dev''" "''t''" "''b''"]
  by (simp add: now_at_def calm_world_def calm_env_def tokenExpirySkew_def bit_libs_def)


text \<open>C30. The assertion the FCM client signs for a new access token is well formed: split at its dots it has
  exactly three segments, the first two decode to the header and to claims that name the service account and
  the token endpoint and expire one hour after the clock reading they were issued at, and the third
  decodes to the signature of the first two under the client's key.\<close>

theorem signed_assertion_decodes:
  assumes "Fcm_signJWT L cl w = (Val (Inr tok), w')"
  shows "\<exists>h c s. split_dots tok = [h, c, s] \<and> base64URLDecode h = json_text L jwt_header
    \<and> base64URLDecode c = json_text L (JObject [(''aud'', JString (fc_tokenURI cl)),
        (''exp'', JNum (of_int (now_at w 0 div 1000000000 + 3600))), (''iat'', JNum (of_int (now_at w 0 div 1000000000))),
        (''iss'', JString (fc_clientEmail cl)), (''scope'', JString fcmScope)])
    \<and> signRS256 L (fc_privateKey cl) (h @ ''.'' @ c) = Inr (base64URLDecode s)"
proof -
  have "compact_jwt L (fc_privateKey cl) jwt_header (jwt_claims cl (now_at w 0)) = Inr tok"
    using assms by (simp add: Fcm_signJWT_def go_defs external_def now_at_def)
  moreover have "(t + 3600 * 1000000000) div 1000000000 = t div 1000000000 + 3600" for t :: int by simp
  ultimately show ?thesis by (metis compact_jwt_segments jwt_claims_def seconds_def)
qed

theorem signed_assertion_decodes_witness:
  "\<exists>tok w' h c s. Fcm_signJWT bit_libs \<lparr>fc_projectID = ''p'', fc_clientEmail = ''e'', fc_privateKey = ''k'', fc_tokenURI = ''u''\<rparr>
       (calm_world empty_db) = (Val (Inr tok), w')
     \<and> split_dots tok = [h, c, s] \<and> base64URLDecode h = ''{}'' \<and> signRS256 bit_libs ''k'' (h @ ''.'' @ c) = Inr (base64URLDecode s)"
proof -
  let ?cl = "\<lparr>fc_projectID = ''p'', fc_clientEmail = ''e'', fc_privateKey = ''k'', fc_tokenURI = ''u''\<rparr>"
  obtain tok w' where run: "Fcm_signJWT bit_libs ?cl (calm_world empty_db) = (Val (Inr tok), w')"
    by (simp add: Fcm_signJWT_def go_defs external_def compact_jwt_def signRS256_def bit_libs_def)
  from signed_assertion_decodes [OF run] obtain h c s where "split_dots tok = [h, c, s]"
    "base64URLDecode h = json_text bit_libs jwt_header" "signRS256 bit_libs ''k'' (h @ ''.'' @ c) = Inr (base64URLDecode s)"
    by auto
  moreover from this(2) have "base64URLDecode h = ''{}''" by (simp add: bit_libs_def)
  ultimately show ?thesis using run by (intro exI conjI)
qed

end
