(* ===== verification/Offline.thy ===== *)
theory Offline
  imports Redis
begin

text \<open>
  \<open>backend/internal/offlinequeue/queue.go\<close> (in-app payloads kept for users who are
  offline) and \<open>backend/internal/presence/presence.go\<close> (who is connected), both in Redis.
  \<open>Queue_Flush\<close> is two round trips, \<open>Flush_LRange\<close> and \<open>Flush_Del\<close>, as in the code.
\<close>

definition queue_ttl :: time where
  "queue_ttl = 7 * 24 * 3600 * 1000000000"

definition offline_key :: "string \<Rightarrow> string \<Rightarrow> string" where
  "offline_key tenantID userID = ''offline:'' @ tenantID @ '':'' @ userID"

definition Queue_Push :: "'r redis \<Rightarrow> string \<Rightarrow> string \<Rightarrow> json \<Rightarrow> ('r world, string + unit) prog" where
  "Queue_Push R tenantID userID payload =
     (let k = offline_key tenantID userID in
      redis_call (\<lambda>t r. ((), EXPIRE R t k queue_ttl (RPUSH R t k payload r))))"

definition Flush_LRange :: "'r redis \<Rightarrow> string \<Rightarrow> ('r world, string + json list) prog" where
  "Flush_LRange R k = redis_call (\<lambda>t r. (LRANGE_ALL R t k r, r))"

definition Flush_Del :: "'r redis \<Rightarrow> string \<Rightarrow> ('r world, string + unit) prog" where
  "Flush_Del R k = redis_call (\<lambda>t r. ((), DEL R t k r))"

definition Queue_Flush :: "'r redis \<Rightarrow> string \<Rightarrow> string \<Rightarrow> ('r world, string + json list) prog" where
  "Queue_Flush R tenantID userID =
     (let k = offline_key tenantID userID in
      bnd (Flush_LRange R k) (\<lambda>res. case res of
        Inl e \<Rightarrow> ret (Inl e)
      | Inr vals \<Rightarrow>
          if vals = [] then ret (Inr [])
          else bnd (Flush_Del R k) (\<lambda>res. case res of Inl e \<Rightarrow> ret (Inl e) | Inr _ \<Rightarrow> ret (Inr vals))))"

definition presence_ttl :: time where
  "presence_ttl = 2 * 60 * 1000000000"

definition presence_key :: "string \<Rightarrow> string \<Rightarrow> string" where
  "presence_key tenantID userID = ''presence:'' @ tenantID @ '':'' @ userID"

definition Tracker_SetOnline :: "'r redis \<Rightarrow> string \<Rightarrow> string \<Rightarrow> ('r world, string + unit) prog" where
  "Tracker_SetOnline R tenantID userID =
     redis_call (\<lambda>t r. ((), SETEX R t (presence_key tenantID userID) ''1'' presence_ttl r))"

definition Tracker_Delete :: "'r redis \<Rightarrow> string \<Rightarrow> string \<Rightarrow> ('r world, string + unit) prog" where
  "Tracker_Delete R tenantID userID =
     redis_call (\<lambda>t r. ((), DEL R t (presence_key tenantID userID) r))"

lemma db_offline [pres]:
  "pres (db_inv J) (Queue_Push R t u p)" "pres (db_inv J) (Queue_Flush R t u)"
  "pres (db_inv J) (Tracker_SetOnline R t u)" "pres (db_inv J) (Tracker_Delete R t u)"
  unfolding Queue_Push_def Queue_Flush_def Flush_LRange_def Flush_Del_def Tracker_SetOnline_def
    Tracker_Delete_def Let_def
  by (intro pres)+

section \<open>The queue over a run\<close>

lemma redis_call_ok:
  assumes "\<not> fails_at w 0" and "f (now_at w 0) (w_redis w) = (x, r)"
  shows "redis_call f w = (Val (Inr x), w\<lparr>w_redis := r, w_tick := Suc (w_tick w)\<rparr>)"
  using assms by (simp add: redis_call_def go_defs external_def fails_at_def now_at_def)

text \<open>The queue's contents at time \<open>t\<close>, with its expiry.\<close>

definition holds_queue :: "time \<Rightarrow> keyspace \<Rightarrow> string \<Rightarrow> json list \<Rightarrow> bool" where
  "holds_queue t ks k xs \<longleftrightarrow> live t ks k = (if xs = [] then None else Some (RList xs))"

context redis_server
begin

lemma push_step:
  assumes "\<not> fails_at w 0" and "holds_queue (now_at w 0) (keys (w_redis w)) (offline_key t u) xs"
  obtains r where "Queue_Push R t u p w = (Val (Inr ()), w\<lparr>w_redis := r, w_tick := Suc (w_tick w)\<rparr>)"
    and "\<And>t'. t' < now_at w 0 + queue_ttl \<Longrightarrow> holds_queue t' (keys r) (offline_key t u) (xs @ [p])"
proof -
  let ?k = "offline_key t u" and ?t = "now_at w 0"
  let ?r = "EXPIRE R ?t ?k queue_ttl (RPUSH R ?t ?k p (w_redis w))"
  have "0 < queue_ttl" by (simp add: queue_ttl_def)
  then have "keys ?r ?k = Some (RList (xs @ [p]), Some (?t + queue_ttl))"
    using assms(2)
    by (auto simp: effects holds_queue_def ks_rpush_def ks_expire_def live_def ttl_of_def
        split: option.splits prod.splits if_splits)
  then have "\<And>t'. t' < ?t + queue_ttl \<Longrightarrow> holds_queue t' (keys ?r) ?k (xs @ [p])"
    by (simp add: holds_queue_def live_def)
  with redis_call_ok [OF assms(1), of "\<lambda>t r. ((), EXPIRE R t ?k queue_ttl (RPUSH R t ?k p r))" "()" ?r]
  show thesis by (intro that) (simp_all add: Queue_Push_def Let_def)
qed

lemma pushes:
  assumes "\<And>i. i < length ps \<Longrightarrow> \<not> fails_at w i"
    and "\<And>i. i < length ps \<Longrightarrow> now_at w (Suc i) < now_at w i + queue_ttl"
    and "holds_queue (now_at w 0) (keys (w_redis w)) (offline_key t u) xs"
  shows "\<exists>r. for_err ps (Queue_Push R t u) w
                = (Val (Inr ()), w\<lparr>w_redis := r, w_tick := w_tick w + length ps\<rparr>)
             \<and> holds_queue (now_at w (length ps)) (keys r) (offline_key t u) (xs @ ps)"
  using assms
proof (induction ps arbitrary: w xs)
  case Nil
  then show ?case by (auto simp: go_defs intro: exI [of _ "w_redis w"])
next
  case (Cons p ps)
  have f0: "\<not> fails_at w 0" using Cons.prems(1) [of 0] by simp
  obtain r1 where p1: "Queue_Push R t u p w = (Val (Inr ()), w\<lparr>w_redis := r1, w_tick := Suc (w_tick w)\<rparr>)"
    and q1: "\<And>t'. t' < now_at w 0 + queue_ttl \<Longrightarrow> holds_queue t' (keys r1) (offline_key t u) (xs @ [p])"
    using push_step [OF f0 Cons.prems(3), of p] by blast
  let ?w = "w\<lparr>w_redis := r1, w_tick := Suc (w_tick w)\<rparr>"
  have sh: "now_at ?w i = now_at w (Suc i)" "fails_at ?w i = fails_at w (Suc i)" for i
    by (simp_all add: now_at_def fails_at_def)
  have "holds_queue (now_at ?w 0) (keys (w_redis ?w)) (offline_key t u) (xs @ [p])"
    using q1 [of "now_at ?w 0"] Cons.prems(2) [of 0] by (simp add: sh)
  from Cons.IH [OF _ _ this] Cons.prems(1,2) obtain r where
    "for_err ps (Queue_Push R t u) ?w = (Val (Inr ()), ?w\<lparr>w_redis := r, w_tick := w_tick ?w + length ps\<rparr>)"
    "holds_queue (now_at ?w (length ps)) (keys r) (offline_key t u) ((xs @ [p]) @ ps)"
    by (auto simp: sh)
  with p1 show ?case by (auto simp: bnd_def sh)
qed

lemma flush_step:
  assumes "\<not> fails_at w 0" and "\<not> fails_at w 1"
    and "holds_queue (now_at w 0) (keys (w_redis w)) (offline_key t u) xs"
  shows "\<exists>w'. Queue_Flush R t u w = (Val (Inr xs), w')
           \<and> (xs \<noteq> [] \<longrightarrow> keys (w_redis w') (offline_key t u) = None)"
proof -
  let ?k = "offline_key t u" and ?w = "w\<lparr>w_tick := Suc (w_tick w)\<rparr>"
  have "LRANGE_ALL R (now_at w 0) ?k (w_redis w) = xs"
    using assms(3) by (auto simp: replies ks_lrange_all_def holds_queue_def)
  then have 1: "Flush_LRange R ?k w = (Val (Inr xs), w\<lparr>w_redis := w_redis w, w_tick := Suc (w_tick w)\<rparr>)"
    unfolding Flush_LRange_def by (intro redis_call_ok [OF assms(1)]) simp
  have "\<not> fails_at ?w 0" using assms(2) by (simp add: fails_at_def)
  then have 2: "Flush_Del R ?k ?w
      = (Val (Inr ()), ?w\<lparr>w_redis := DEL R (now_at ?w 0) ?k (w_redis ?w), w_tick := Suc (w_tick ?w)\<rparr>)"
    unfolding Flush_Del_def by (intro redis_call_ok) simp_all
  show ?thesis
    using 1 2 by (auto simp: Queue_Flush_def Let_def bnd_def ret_def effects ks_del_def)
qed

end

section \<open>Properties\<close>


text \<open>The flush is not atomic: a payload pushed between its two round trips is
  neither returned to the flushing connection nor kept in Redis.\<close>

theorem flush_loses_concurrent_push:
  assumes "redis_server R keys"
    and "\<not> fails_at w 0" "\<not> fails_at w 1" "\<not> fails_at w 2"
    and "holds_queue (now_at w 0) (keys (w_redis w)) (offline_key t u) xs"
    and "holds_queue (now_at w 1) (keys (w_redis w)) (offline_key t u) xs"
  shows "\<exists>w'. bnd (Flush_LRange R (offline_key t u)) (\<lambda>vals. bnd (Queue_Push R t u p) (\<lambda>_.
                bnd (Flush_Del R (offline_key t u)) (\<lambda>_. ret vals))) w = (Val (Inr xs), w')
           \<and> keys (w_redis w') (offline_key t u) = None"
proof -
  let ?k = "offline_key t u" and ?w = "w\<lparr>w_redis := w_redis w, w_tick := Suc (w_tick w)\<rparr>"
  have "LRANGE_ALL R (now_at w 0) ?k (w_redis w) = xs"
    using assms(5) by (auto simp: redis_server.replies [OF assms(1)] ks_lrange_all_def holds_queue_def)
  then have 1: "Flush_LRange R ?k w = (Val (Inr xs), ?w)"
    unfolding Flush_LRange_def by (intro redis_call_ok [OF assms(2)]) simp
  have "\<not> fails_at ?w 0" "holds_queue (now_at ?w 0) (keys (w_redis ?w)) ?k xs"
    using assms(3,6) by (simp_all add: fails_at_def now_at_def)
  from redis_server.push_step [OF assms(1) this, of p] obtain r where
    2: "Queue_Push R t u p ?w = (Val (Inr ()), ?w\<lparr>w_redis := r, w_tick := Suc (w_tick ?w)\<rparr>)" by blast
  let ?w2 = "?w\<lparr>w_redis := r, w_tick := Suc (w_tick ?w)\<rparr>"
  have "\<not> fails_at ?w2 0" using assms(4) by (simp add: fails_at_def numeral_2_eq_2)
  then have 3: "Flush_Del R ?k ?w2
      = (Val (Inr ()), ?w2\<lparr>w_redis := DEL R (now_at ?w2 0) ?k (w_redis ?w2), w_tick := Suc (w_tick ?w2)\<rparr>)"
    unfolding Flush_Del_def by (intro redis_call_ok) simp_all
  show ?thesis
    using 1 2 3 by (simp add: bnd_def ret_def redis_server.effects [OF assms(1)] ks_del_def)
qed


theorem flush_loses_concurrent_push_witness:
  "\<exists>w'. bnd (Flush_LRange mem_redis (offline_key ''t'' ''u'')) (\<lambda>vals.
          bnd (Queue_Push mem_redis ''t'' ''u'' (JString ''lost'')) (\<lambda>_.
          bnd (Flush_Del mem_redis (offline_key ''t'' ''u'')) (\<lambda>_. ret vals)))
        ((calm_world empty_db)\<lparr>w_redis := [offline_key ''t'' ''u'' \<mapsto> (RList [JString ''a''], None)]\<rparr>)
        = (Val (Inr [JString ''a'']), w')
      \<and> w_redis w' (offline_key ''t'' ''u'') = None"
  by (rule flush_loses_concurrent_push [OF mem.redis_server_axioms])
     (simp_all add: holds_queue_def live_def fails_at_def now_at_def calm_world_def calm_env_def)

end
