(* ===== verification/Repos.thy ===== *)
theory Repos
  imports World
begin

text \<open>
  The repositories of \<open>backend/internal/repository/postgres\<close>, one definition per method.
  Each runs its SQL statement through \<open>query\<close> and converts the driver's errors as the
  method does.  The locale \<open>db_invariant\<close> is the contract a database invariant has to
  meet (kept by every statement the methods run); from it every method, and later every
  handler, is shown to keep the invariant.  It is interpreted for the schema's own
  guarantees \<open>db_ok\<close> and for \<open>never_delivered\<close>.
\<close>

section \<open>Statements\<close>

text \<open>SELECT, SELECT of one row, UPDATE/DELETE with its command tag.\<close>

definition select :: "(db \<Rightarrow> 'a) \<Rightarrow> db \<Rightarrow> (pg_error + 'a) \<times> db" where
  "select f d = (Inr (f d), d)"

definition select_one :: "(db \<Rightarrow> 'a option) \<Rightarrow> db \<Rightarrow> (pg_error + 'a) \<times> db" where
  "select_one f d = ((case f d of None \<Rightarrow> Inl NoRows | Some x \<Rightarrow> Inr x), d)"

definition tagged :: "(db \<Rightarrow> nat \<times> db) \<Rightarrow> db \<Rightarrow> (pg_error + nat) \<times> db" where
  "tagged f d = (case f d of (n, d') \<Rightarrow> (Inr n, d'))"

text \<open>An INT column takes 32-bit values; pgx refuses to encode others.\<close>

definition int4 :: "int \<Rightarrow> bool" where
  "int4 v \<longleftrightarrow> - (2 ^ 31) \<le> v \<and> v < 2 ^ 31"

definition day :: time where
  "day = 24 * 60 * 60 * 1000000000"

section \<open>Notifications\<close>

record CreateNotificationParams =
  p_ID :: uuid
  p_TenantID :: uuid
  p_Channel :: channel
  p_Priority :: priority
  p_Status :: status
  p_RecipientID :: string
  p_RecipientEmail :: string
  p_RecipientPhone :: string
  p_RecipientToken :: string
  p_TemplateID :: "uuid option"
  p_Subject :: string
  p_Body :: string
  p_Metadata :: metadata
  p_IdempotencyKey :: string
  p_ScheduledAt :: "time option"

definition notification_row :: "time \<Rightarrow> CreateNotificationParams \<Rightarrow> notification" where
  "notification_row now p = \<lparr>
     n_ID = p_ID p, n_TenantID = p_TenantID p, n_Channel = p_Channel p,
     n_Priority = p_Priority p,
     n_Status = (if p_Status p = [] then StatusPending else p_Status p),
     n_RecipientID = p_RecipientID p, n_RecipientEmail = p_RecipientEmail p,
     n_RecipientPhone = p_RecipientPhone p, n_RecipientToken = p_RecipientToken p,
     n_TemplateID = p_TemplateID p, n_Subject = p_Subject p, n_Body = p_Body p,
     n_Metadata = (case p_Metadata p of None \<Rightarrow> Some [] | m \<Rightarrow> m),
     n_IdempotencyKey = p_IdempotencyKey p, n_ScheduledAt = p_ScheduledAt p,
     n_CreatedAt = now, n_ExpiresAt = now + 90 * day\<rparr>"

definition NotificationRepository_Create ::
    "CreateNotificationParams \<Rightarrow> ('r world, repo_error + notification) prog" where
  "NotificationRepository_Create p =
     bnd (query (\<lambda>c. insert_notification (notification_row (c_now c) p))) (\<lambda>r. ret (wrap r))"

definition NotificationRepository_GetByID ::
    "uuid \<Rightarrow> ('r world, repo_error + notification) prog" where
  "NotificationRepository_GetByID uid =
     bnd (query (\<lambda>_. select_one (\<lambda>d. find (\<lambda>n. n_ID n = uid) (notifications d))))
       (\<lambda>r. ret (wrap_not_found r))"

record NotificationFilter =
  f_Channel :: channel
  f_Status :: status
  f_From :: "time option"
  f_To :: "time option"
  f_Limit :: int
  f_Offset :: int
  f_Recipient :: string

text \<open>LIKE: \<open>%\<close> matches any sequence, \<open>_\<close> any character, a backslash escapes.\<close>

fun like :: "string \<Rightarrow> string \<Rightarrow> bool" where
  "like [] s = (s = [])"
| "like (c # p) s =
     (if c = CHR ''%'' then like p s \<or> (case s of [] \<Rightarrow> False | _ # s' \<Rightarrow> like (c # p) s')
      else if c = CHR ''_'' then (case s of [] \<Rightarrow> False | _ # s' \<Rightarrow> like p s')
      else if c = CHR 0x5C then
        (case p of [] \<Rightarrow> False
         | e # p' \<Rightarrow> (case s of [] \<Rightarrow> False | x # s' \<Rightarrow> x = e \<and> like p' s'))
      else (case s of [] \<Rightarrow> False | x # s' \<Rightarrow> x = c \<and> like p s'))"

definition ilike :: "string \<Rightarrow> string \<Rightarrow> bool" where
  "ilike s pat = like (map to_lower pat) (map to_lower s)"

definition matches_filter :: "uuid \<Rightarrow> NotificationFilter \<Rightarrow> notification \<Rightarrow> bool" where
  "matches_filter tid f n \<longleftrightarrow>
     n_TenantID n = tid \<and>
     (f_Channel f = [] \<or> n_Channel n = f_Channel f) \<and>
     (f_Status f = [] \<or> n_Status n = f_Status f) \<and>
     (case f_From f of None \<Rightarrow> True | Some t \<Rightarrow> t \<le> n_CreatedAt n) \<and>
     (case f_To f of None \<Rightarrow> True | Some t \<Rightarrow> n_CreatedAt n \<le> t) \<and>
     (f_Recipient f = [] \<or>
      (let pat = ''%'' @ f_Recipient f @ ''%'' in
       ilike (n_RecipientID n) pat \<or> ilike (n_RecipientEmail n) pat \<or>
       ilike (n_RecipientPhone n) pat \<or> ilike (n_RecipientToken n) pat))"

text \<open>
  The total is scanned from the \<open>COUNT(*) OVER()\<close> column of the returned rows, so it stays
  0 when the page has no row.
\<close>

definition select_page ::
    "uuid \<Rightarrow> NotificationFilter \<Rightarrow> db \<Rightarrow> (pg_error + notification list \<times> nat) \<times> db" where
  "select_page tid f d =
     (if f_Limit f < 0 \<or> f_Offset f < 0 then (Inl PgFailure, d)
      else let hits = order_by_desc n_CreatedAt (filter (matches_filter tid f) (notifications d));
               page = take (nat (f_Limit f)) (drop (nat (f_Offset f)) hits) in
           (Inr (page, if page = [] then 0 else length hits), d))"

definition NotificationRepository_GetByTenantID ::
    "uuid \<Rightarrow> NotificationFilter \<Rightarrow> ('r world, repo_error + notification list \<times> nat) prog" where
  "NotificationRepository_GetByTenantID tid f =
     bnd (query (\<lambda>_. select_page tid f)) (\<lambda>r. ret (wrap r))"

definition NotificationRepository_GetByStatus ::
    "status \<Rightarrow> nat \<Rightarrow> ('r world, repo_error + notification list) prog" where
  "NotificationRepository_GetByStatus st limit =
     bnd (query (\<lambda>_. select (\<lambda>d.
            take limit (order_by n_CreatedAt (filter (\<lambda>n. n_Status n = st) (notifications d))))))
       (\<lambda>r. ret (wrap r))"

definition NotificationRepository_UpdateStatus ::
    "uuid \<Rightarrow> status \<Rightarrow> ('r world, repo_error + unit) prog" where
  "NotificationRepository_UpdateStatus uid st =
     bnd (query (\<lambda>_. tagged (update_notifications (\<lambda>n. n_ID n = uid) (\<lambda>n. n\<lparr>n_Status := st\<rparr>))))
       (\<lambda>r. ret (rows_affected r))"

definition NotificationRepository_DeleteExpired ::
    "time \<Rightarrow> ('r world, repo_error + nat) prog" where
  "NotificationRepository_DeleteExpired now =
     bnd (query (\<lambda>_. tagged (\<lambda>d. (count_where (\<lambda>n. n_ExpiresAt n < now) (notifications d),
                                   delete_notifications (\<lambda>n. n_ExpiresAt n < now) d))))
       (\<lambda>r. ret (wrap r))"

section \<open>Deliveries\<close>

definition delivery_row ::
    "call \<Rightarrow> uuid \<Rightarrow> channel \<Rightarrow> status \<Rightarrow> notification_delivery" where
  "delivery_row c nid ch st = \<lparr>
     d_ID = c_uuid c, d_NotificationID = nid, d_Channel = ch,
     d_Status = (if st = [] then StatusQueued else st), d_Attempts = 0, d_ErrorMessage = [],
     d_DeliveredAt = None, d_CreatedAt = c_now c\<rparr>"

definition NotificationDeliveryRepository_Create ::
    "uuid \<Rightarrow> channel \<Rightarrow> status \<Rightarrow> ('r world, repo_error + notification_delivery) prog" where
  "NotificationDeliveryRepository_Create nid ch st =
     bnd (query (\<lambda>c. insert_delivery (delivery_row c nid ch st))) (\<lambda>r. ret (wrap r))"

definition NotificationDeliveryRepository_SetStatus ::
    "uuid \<Rightarrow> status \<Rightarrow> ('r world, repo_error + unit) prog" where
  "NotificationDeliveryRepository_SetStatus uid st =
     bnd (query (\<lambda>_. tagged (update_deliveries (\<lambda>r. d_ID r = uid) (\<lambda>r. r\<lparr>d_Status := st\<rparr>))))
       (\<lambda>r. ret (rows_affected r))"

definition attempt_outcome ::
    "time \<Rightarrow> status \<Rightarrow> string \<Rightarrow> notification_delivery \<Rightarrow> notification_delivery" where
  "attempt_outcome now st msg r = r\<lparr>d_Status := st, d_ErrorMessage := msg,
     d_Attempts := d_Attempts r + 1,
     d_DeliveredAt := (if st = StatusDelivered then Some now else d_DeliveredAt r)\<rparr>"

definition NotificationDeliveryRepository_UpdateStatus ::
    "uuid \<Rightarrow> status \<Rightarrow> string \<Rightarrow> ('r world, repo_error + unit) prog" where
  "NotificationDeliveryRepository_UpdateStatus uid st msg =
     bnd (query (\<lambda>c. tagged (update_deliveries (\<lambda>r. d_ID r = uid) (attempt_outcome (c_now c) st msg))))
       (\<lambda>r. ret (rows_affected r))"

definition NotificationDeliveryRepository_GetByNotificationID ::
    "uuid \<Rightarrow> ('r world, repo_error + notification_delivery list) prog" where
  "NotificationDeliveryRepository_GetByNotificationID nid =
     bnd (query (\<lambda>_. select (\<lambda>d. order_by d_CreatedAt
            (filter (\<lambda>r. d_NotificationID r = nid) (notification_deliveries d)))))
       (\<lambda>r. ret (wrap r))"

section \<open>Scheduled notifications\<close>

definition ScheduledNotificationRepository_Create ::
    "uuid \<Rightarrow> time \<Rightarrow> ('r world, repo_error + scheduled_notification) prog" where
  "ScheduledNotificationRepository_Create nid sat =
     bnd (query (\<lambda>c. insert_scheduled \<lparr>s_ID = c_uuid c, s_NotificationID = nid,
            s_ScheduledAt = sat, s_Fired = False, s_CreatedAt = c_now c\<rparr>))
       (\<lambda>r. ret (wrap r))"

definition due_unfired :: "time \<Rightarrow> scheduled_notification \<Rightarrow> bool" where
  "due_unfired now s \<longleftrightarrow> \<not> s_Fired s \<and> s_ScheduledAt s \<le> now"

definition ScheduledNotificationRepository_GetDueUnfired ::
    "time \<Rightarrow> nat \<Rightarrow> ('r world, repo_error + scheduled_notification list) prog" where
  "ScheduledNotificationRepository_GetDueUnfired now limit =
     bnd (query (\<lambda>_. select (\<lambda>d.
            take limit (order_by s_ScheduledAt (filter (due_unfired now) (scheduled_notifications d))))))
       (\<lambda>r. ret (wrap r))"

definition ScheduledNotificationRepository_MarkFired ::
    "uuid \<Rightarrow> ('r world, repo_error + unit) prog" where
  "ScheduledNotificationRepository_MarkFired uid =
     bnd (query (\<lambda>_. tagged (update_scheduled (\<lambda>s. s_ID s = uid) (\<lambda>s. s\<lparr>s_Fired := True\<rparr>))))
       (\<lambda>r. ret (rows_affected r))"

section \<open>Dead letters\<close>

definition DLQRepository_Create :: "message \<Rightarrow> string \<Rightarrow> ('r world, repo_error + unit) prog" where
  "DLQRepository_Create m err =
     bnd (query (\<lambda>c. insert_dlq \<lparr>q_ID = c_uuid c, q_NotificationID = msg_NotificationID m,
            q_Channel = msg_Channel m, q_Error = err, q_Attempts = 3, q_LastTriedAt = c_now c,
            q_CreatedAt = c_now c\<rparr>))
       (\<lambda>r. ret (case wrap r of Inl e \<Rightarrow> Inl e | Inr _ \<Rightarrow> Inr ()))"

section \<open>Tenants\<close>

definition TenantRepository_Create :: "string \<Rightarrow> int \<Rightarrow> ('r world, repo_error + tenant) prog" where
  "TenantRepository_Create name cap =
     bnd (query (\<lambda>c d. if int4 cap
            then insert_tenant \<lparr>t_ID = c_uuid c, t_Name = name, t_GlobalRateCap = cap,
                   t_CreatedAt = c_now c\<rparr> d
            else (Inl PgFailure, d)))
       (\<lambda>r. ret (wrap r))"

definition TenantRepository_GetByID :: "uuid \<Rightarrow> ('r world, repo_error + tenant) prog" where
  "TenantRepository_GetByID uid =
     bnd (query (\<lambda>_. select_one (\<lambda>d. find (\<lambda>t. t_ID t = uid) (tenants d))))
       (\<lambda>r. ret (wrap_not_found r))"

definition TenantRepository_GetAll :: "('r world, repo_error + tenant list) prog" where
  "TenantRepository_GetAll =
     bnd (query (\<lambda>_. select (\<lambda>d. order_by_desc t_CreatedAt (tenants d)))) (\<lambda>r. ret (wrap r))"

text \<open>\<open>UPDATE tenants SET ... WHERE id = $2 RETURNING ...\<close>\<close>

definition update_tenant_returning ::
    "uuid \<Rightarrow> (tenant \<Rightarrow> tenant) \<Rightarrow> db \<Rightarrow> (pg_error + tenant) \<times> db" where
  "update_tenant_returning uid f d =
     (case find (\<lambda>t. t_ID t = uid) (tenants d) of
        None \<Rightarrow> (Inl NoRows, d)
      | Some t \<Rightarrow> (Inr (f t), snd (update_tenants (\<lambda>t. t_ID t = uid) f d)))"

definition TenantRepository_Update :: "uuid \<Rightarrow> string \<Rightarrow> ('r world, repo_error + tenant) prog" where
  "TenantRepository_Update uid name =
     bnd (query (\<lambda>_. update_tenant_returning uid (\<lambda>t. t\<lparr>t_Name := name\<rparr>)))
       (\<lambda>r. ret (wrap_not_found r))"

definition TenantRepository_UpdateGlobalRateCap ::
    "uuid \<Rightarrow> int \<Rightarrow> ('r world, repo_error + tenant) prog" where
  "TenantRepository_UpdateGlobalRateCap uid cap =
     bnd (query (\<lambda>_ d. if int4 cap
            then update_tenant_returning uid (\<lambda>t. t\<lparr>t_GlobalRateCap := cap\<rparr>) d
            else (Inl PgFailure, d)))
       (\<lambda>r. ret (wrap_not_found r))"

definition TenantRepository_Delete :: "uuid \<Rightarrow> ('r world, repo_error + unit) prog" where
  "TenantRepository_Delete uid =
     bnd (query (\<lambda>_. tagged (\<lambda>d.
            (count_where (\<lambda>t. t_ID t = uid) (tenants d), delete_tenants uid d))))
       (\<lambda>r. ret (rows_affected r))"

definition TenantChannelRepository_Upsert ::
    "uuid \<Rightarrow> channel \<Rightarrow> bool \<Rightarrow> ('r world, repo_error + unit) prog" where
  "TenantChannelRepository_Upsert tid ch en =
     bnd (query (\<lambda>c. upsert_channel \<lparr>tc_ID = c_uuid c, tc_TenantID = tid, tc_Channel = ch,
            tc_Enabled = en, tc_CreatedAt = c_now c\<rparr>))
       (\<lambda>r. ret (case wrap r of Inl e \<Rightarrow> Inl e | Inr _ \<Rightarrow> Inr ()))"

definition TenantChannelRepository_GetByTenantID ::
    "uuid \<Rightarrow> ('r world, repo_error + tenant_channel list) prog" where
  "TenantChannelRepository_GetByTenantID tid =
     bnd (query (\<lambda>_. select (\<lambda>d. filter (\<lambda>r. tc_TenantID r = tid) (tenant_channels d))))
       (\<lambda>r. ret (wrap r))"

definition TenantChannelRepository_IsEnabled ::
    "uuid \<Rightarrow> channel \<Rightarrow> ('r world, repo_error + bool) prog" where
  "TenantChannelRepository_IsEnabled tid ch =
     bnd (query (\<lambda>_. select_one (\<lambda>d. map_option tc_Enabled
            (find (\<lambda>r. tc_TenantID r = tid \<and> tc_Channel r = ch) (tenant_channels d)))))
       (\<lambda>r. ret (case r of Inl e \<Rightarrow> if e = NoRows then Inr False else Inl ErrOther
                  | Inr b \<Rightarrow> Inr b))"

definition TenantRateLimitRepository_Upsert ::
    "uuid \<Rightarrow> channel \<Rightarrow> int \<Rightarrow> ('r world, repo_error + unit) prog" where
  "TenantRateLimitRepository_Upsert tid ch mx =
     bnd (query (\<lambda>c d. if int4 mx
            then upsert_rate_limit \<lparr>rl_ID = c_uuid c, rl_TenantID = tid, rl_Channel = ch,
                   rl_MaxPerMin = mx, rl_CreatedAt = c_now c\<rparr> d
            else (Inl PgFailure, d)))
       (\<lambda>r. ret (case wrap r of Inl e \<Rightarrow> Inl e | Inr _ \<Rightarrow> Inr ()))"

definition TenantRateLimitRepository_GetByTenantID ::
    "uuid \<Rightarrow> ('r world, repo_error + tenant_rate_limit list) prog" where
  "TenantRateLimitRepository_GetByTenantID tid =
     bnd (query (\<lambda>_. select (\<lambda>d. filter (\<lambda>r. rl_TenantID r = tid) (tenant_rate_limits d))))
       (\<lambda>r. ret (wrap r))"

definition TenantRateLimitRepository_GetByChannel ::
    "uuid \<Rightarrow> channel \<Rightarrow> ('r world, repo_error + tenant_rate_limit option) prog" where
  "TenantRateLimitRepository_GetByChannel tid ch =
     bnd (query (\<lambda>_. select_one (\<lambda>d.
            find (\<lambda>r. rl_TenantID r = tid \<and> rl_Channel r = ch) (tenant_rate_limits d))))
       (\<lambda>r. ret (case r of Inl e \<Rightarrow> if e = NoRows then Inr None else Inl ErrOther
                  | Inr x \<Rightarrow> Inr (Some x)))"

section \<open>API keys\<close>

definition APIKeyRepository_Create ::
    "uuid \<Rightarrow> string \<Rightarrow> ('r world, repo_error + api_key) prog" where
  "APIKeyRepository_Create tid hash =
     bnd (query (\<lambda>c. insert_api_key \<lparr>k_ID = c_uuid c, k_TenantID = tid, k_KeyHash = hash,
            k_CreatedAt = c_now c\<rparr>))
       (\<lambda>r. ret (wrap r))"

text \<open>The joined row has no \<open>global_rate_cap\<close>, so the field keeps its zero value.\<close>

definition tenant_by_key_hash :: "string \<Rightarrow> db \<Rightarrow> tenant option" where
  "tenant_by_key_hash hash d =
     (case find (\<lambda>k. k_KeyHash k = hash) (api_keys d) of
        None \<Rightarrow> None
      | Some k \<Rightarrow> map_option (\<lambda>t. t\<lparr>t_GlobalRateCap := 0\<rparr>)
                   (find (\<lambda>t. t_ID t = k_TenantID k) (tenants d)))"

definition APIKeyRepository_GetTenantByKeyHash ::
    "string \<Rightarrow> ('r world, repo_error + tenant) prog" where
  "APIKeyRepository_GetTenantByKeyHash hash =
     bnd (query (\<lambda>_. select_one (tenant_by_key_hash hash))) (\<lambda>r. ret (wrap_not_found r))"

definition APIKeyRepository_GetByTenantID ::
    "uuid \<Rightarrow> ('r world, repo_error + api_key list) prog" where
  "APIKeyRepository_GetByTenantID tid =
     bnd (query (\<lambda>_. select (\<lambda>d. filter (\<lambda>k. k_TenantID k = tid) (api_keys d))))
       (\<lambda>r. ret (wrap r))"

definition delete_api_key :: "uuid \<Rightarrow> db \<Rightarrow> nat \<times> db" where
  "delete_api_key uid d =
     (count_where (\<lambda>k. k_ID k = uid) (api_keys d),
      d\<lparr>api_keys := del_where (\<lambda>k. k_ID k = uid) (api_keys d)\<rparr>)"

definition APIKeyRepository_Delete :: "uuid \<Rightarrow> ('r world, repo_error + unit) prog" where
  "APIKeyRepository_Delete uid =
     bnd (query (\<lambda>_. tagged (delete_api_key uid))) (\<lambda>r. ret (rows_affected r))"

section \<open>Templates\<close>

definition TemplateRepository_Create :: "uuid \<Rightarrow> string \<Rightarrow> channel \<Rightarrow> string \<Rightarrow> string
    \<Rightarrow> ('r world, repo_error + notification_template) prog" where
  "TemplateRepository_Create tid name ch subject body =
     bnd (query (\<lambda>c. insert_template \<lparr>m_ID = c_uuid c, m_TenantID = tid, m_Name = name,
            m_Channel = ch, m_Subject = subject, m_Body = body, m_CreatedAt = c_now c,
            m_UpdatedAt = c_now c\<rparr>))
       (\<lambda>r. ret (case r of
          Inl e \<Rightarrow> if isUniqueViolation e then Inl ErrAlreadyExists else Inl ErrOther
        | Inr x \<Rightarrow> Inr x))"

definition TemplateRepository_GetByID ::
    "uuid \<Rightarrow> uuid \<Rightarrow> ('r world, repo_error + notification_template) prog" where
  "TemplateRepository_GetByID tid uid =
     bnd (query (\<lambda>_. select_one (\<lambda>d.
            find (\<lambda>m. m_ID m = uid \<and> m_TenantID m = tid) (notification_templates d))))
       (\<lambda>r. ret (wrap_not_found r))"

definition TemplateRepository_ListByTenant ::
    "uuid \<Rightarrow> ('r world, repo_error + notification_template list) prog" where
  "TemplateRepository_ListByTenant tid =
     bnd (query (\<lambda>_. select (\<lambda>d. order_by_desc m_CreatedAt
            (filter (\<lambda>m. m_TenantID m = tid) (notification_templates d)))))
       (\<lambda>r. ret (wrap r))"

definition TemplateRepository_Update :: "uuid \<Rightarrow> uuid \<Rightarrow> string \<Rightarrow> channel \<Rightarrow> string \<Rightarrow> string
    \<Rightarrow> ('r world, repo_error + notification_template) prog" where
  "TemplateRepository_Update tid uid name ch subject body =
     bnd (query (\<lambda>c. update_template tid uid (\<lambda>m. m\<lparr>m_Name := name, m_Channel := ch,
            m_Subject := subject, m_Body := body, m_UpdatedAt := c_now c\<rparr>)))
       (\<lambda>r. ret (wrap_unique r))"

definition TemplateRepository_Delete ::
    "uuid \<Rightarrow> uuid \<Rightarrow> ('r world, repo_error + unit) prog" where
  "TemplateRepository_Delete tid uid =
     bnd (query (\<lambda>_. tagged (\<lambda>d.
            (count_where (\<lambda>m. m_ID m = uid \<and> m_TenantID m = tid) (notification_templates d),
             delete_templates (\<lambda>m. m_ID m = uid \<and> m_TenantID m = tid) d))))
       (\<lambda>r. ret (rows_affected r))"

section \<open>Database invariants\<close>

lemma snd_select [simp]: "snd (select f d) = d"
  by (simp add: select_def)

lemma snd_select_one [simp]: "snd (select_one f d) = d"
  by (simp add: select_one_def)

lemma snd_tagged [simp]: "snd (tagged f d) = snd (f d)"
  by (simp add: tagged_def split: prod.split)

lemma snd_select_page [simp]: "snd (select_page tid f d) = d"
  by (simp add: select_page_def Let_def)

text \<open>
  \<open>okst\<close> are the statuses a notification may be given: the code only ever writes pending,
  queued, queued_rate_limited and failed to the \<open>notifications\<close> table.
\<close>

text \<open>Methods that only read keep every property of the database.\<close>

lemma db_reads [pres]:
  "pres (db_inv J) (NotificationRepository_GetByID a)"
  "pres (db_inv J) (NotificationRepository_GetByTenantID a f)"
  "pres (db_inv J) (NotificationRepository_GetByStatus s n)"
  "pres (db_inv J) (NotificationDeliveryRepository_GetByNotificationID a)"
  "pres (db_inv J) (ScheduledNotificationRepository_GetDueUnfired now n)"
  "pres (db_inv J) (TenantRepository_GetByID a)"
  "pres (db_inv J) TenantRepository_GetAll"
  "pres (db_inv J) (TenantChannelRepository_GetByTenantID a)"
  "pres (db_inv J) (TenantChannelRepository_IsEnabled a ch)"
  "pres (db_inv J) (TenantRateLimitRepository_GetByTenantID a)"
  "pres (db_inv J) (TenantRateLimitRepository_GetByChannel a ch)"
  "pres (db_inv J) (APIKeyRepository_GetTenantByKeyHash h)"
  "pres (db_inv J) (APIKeyRepository_GetByTenantID a)"
  "pres (db_inv J) (TemplateRepository_GetByID a b)"
  "pres (db_inv J) (TemplateRepository_ListByTenant a)"
  unfolding NotificationRepository_GetByID_def NotificationRepository_GetByTenantID_def
    NotificationRepository_GetByStatus_def NotificationDeliveryRepository_GetByNotificationID_def
    ScheduledNotificationRepository_GetDueUnfired_def TenantRepository_GetByID_def
    TenantRepository_GetAll_def TenantChannelRepository_GetByTenantID_def
    TenantChannelRepository_IsEnabled_def TenantRateLimitRepository_GetByTenantID_def
    TenantRateLimitRepository_GetByChannel_def APIKeyRepository_GetTenantByKeyHash_def
    APIKeyRepository_GetByTenantID_def TemplateRepository_GetByID_def
    TemplateRepository_ListByTenant_def
  by (intro pres_bnd db_query pres_ret, simp)+


locale db_statements =
  fixes J :: "db \<Rightarrow> bool" and okst :: "status \<Rightarrow> bool"
  assumes okst [simp]: "okst StatusPending" "okst StatusQueued" "okst StatusQueuedRateLimited"
      "okst StatusFailed"
    and J_insert_tenant: "\<And>r d. J d \<Longrightarrow> J (snd (insert_tenant r d))"
    and J_insert_api_key: "\<And>r d. J d \<Longrightarrow> J (snd (insert_api_key r d))"
    and J_insert_template: "\<And>r d. J d \<Longrightarrow> J (snd (insert_template r d))"
    and J_insert_delivery: "\<And>r d. J d \<Longrightarrow> J (snd (insert_delivery r d))"
    and J_insert_scheduled: "\<And>r d. J d \<Longrightarrow> J (snd (insert_scheduled r d))"
    and J_insert_dlq: "\<And>r d. J d \<Longrightarrow> J (snd (insert_dlq r d))"
    and J_upsert_channel: "\<And>r d. J d \<Longrightarrow> J (snd (upsert_channel r d))"
    and J_upsert_rate_limit: "\<And>r d. J d \<Longrightarrow> J (snd (upsert_rate_limit r d))"
    and J_delete_notifications: "\<And>p d. J d \<Longrightarrow> J (delete_notifications p d)"
    and J_delete_templates: "\<And>p d. J d \<Longrightarrow> J (delete_templates p d)"
    and J_delete_tenants: "\<And>t d. J d \<Longrightarrow> J (delete_tenants t d)"
    and J_delete_api_key: "\<And>k d. J d \<Longrightarrow> J (snd (delete_api_key k d))"
    and J_status:
      "\<And>p s d. J d \<Longrightarrow> okst s \<Longrightarrow> J (snd (update_notifications p (\<lambda>n. n\<lparr>n_Status := s\<rparr>) d))"
    and J_update_deliveries:
      "\<And>p f d. J d \<Longrightarrow> (\<And>r. d_ID (f r) = d_ID r) \<Longrightarrow>
         (\<And>r. d_NotificationID (f r) = d_NotificationID r) \<Longrightarrow> J (snd (update_deliveries p f d))"
    and J_update_scheduled:
      "\<And>p f d. J d \<Longrightarrow> (\<And>r. s_ID (f r) = s_ID r) \<Longrightarrow>
         (\<And>r. s_NotificationID (f r) = s_NotificationID r) \<Longrightarrow> J (snd (update_scheduled p f d))"
    and J_update_tenants:
      "\<And>p f d. J d \<Longrightarrow> (\<And>r. t_ID (f r) = t_ID r) \<Longrightarrow> J (snd (update_tenants p f d))"
    and J_update_template:
      "\<And>t m f d. J d \<Longrightarrow> (\<And>r. m_ID (f r) = m_ID r) \<Longrightarrow>
         (\<And>r. m_TenantID (f r) = m_TenantID r) \<Longrightarrow> (\<And>r r'. m_Name (f r) = m_Name (f r')) \<Longrightarrow>
         J (snd (update_template t m f d))"
begin

lemma inv_notification_UpdateStatus [pres]:
  "okst s \<Longrightarrow> pres (db_inv J) (NotificationRepository_UpdateStatus a s)"
  unfolding NotificationRepository_UpdateStatus_def
  by (intro pres_bnd db_query pres_ret) (simp add: J_status)

lemma inv_DeleteExpired [pres]: "pres (db_inv J) (NotificationRepository_DeleteExpired now)"
  unfolding NotificationRepository_DeleteExpired_def
  by (intro pres_bnd db_query pres_ret) (simp add: J_delete_notifications)

lemma inv_deliveries [pres]:
  "pres (db_inv J) (NotificationDeliveryRepository_Create a ch s)"
  "pres (db_inv J) (NotificationDeliveryRepository_SetStatus a s)"
  "pres (db_inv J) (NotificationDeliveryRepository_UpdateStatus a s e)"
  unfolding NotificationDeliveryRepository_Create_def NotificationDeliveryRepository_SetStatus_def
    NotificationDeliveryRepository_UpdateStatus_def
  by (intro pres_bnd db_query pres_ret,
      simp add: J_insert_delivery J_update_deliveries attempt_outcome_def)+

lemma inv_scheduled [pres]:
  "pres (db_inv J) (ScheduledNotificationRepository_Create a t)"
  "pres (db_inv J) (ScheduledNotificationRepository_MarkFired a)"
  unfolding ScheduledNotificationRepository_Create_def ScheduledNotificationRepository_MarkFired_def
  by (intro pres_bnd db_query pres_ret, simp add: J_insert_scheduled J_update_scheduled)+

lemma inv_dlq [pres]: "pres (db_inv J) (DLQRepository_Create m e)"
  unfolding DLQRepository_Create_def
  by (intro pres_bnd db_query pres_ret) (simp add: J_insert_dlq)

lemma inv_update_tenant_returning:
  "J d \<Longrightarrow> (\<And>r. t_ID (f r) = t_ID r) \<Longrightarrow> J (snd (update_tenant_returning a f d))"
  by (simp add: update_tenant_returning_def J_update_tenants split: option.split)

lemma inv_tenants [pres]:
  "pres (db_inv J) (TenantRepository_Create name cap)"
  "pres (db_inv J) (TenantRepository_Update a name)"
  "pres (db_inv J) (TenantRepository_UpdateGlobalRateCap a cap)"
  "pres (db_inv J) (TenantRepository_Delete a)"
  unfolding TenantRepository_Create_def TenantRepository_Update_def
    TenantRepository_UpdateGlobalRateCap_def TenantRepository_Delete_def
  by (intro pres_bnd db_query pres_ret,
      simp add: J_insert_tenant inv_update_tenant_returning J_delete_tenants)+

lemma inv_tenant_settings [pres]:
  "pres (db_inv J) (TenantChannelRepository_Upsert a ch b)"
  "pres (db_inv J) (TenantRateLimitRepository_Upsert a ch m)"
  unfolding TenantChannelRepository_Upsert_def TenantRateLimitRepository_Upsert_def
  by (intro pres_bnd db_query pres_ret, simp add: J_upsert_channel J_upsert_rate_limit)+

lemma inv_api_keys [pres]:
  "pres (db_inv J) (APIKeyRepository_Create a h)"
  "pres (db_inv J) (APIKeyRepository_Delete a)"
  unfolding APIKeyRepository_Create_def APIKeyRepository_Delete_def
  by (intro pres_bnd db_query pres_ret, simp add: J_insert_api_key J_delete_api_key)+

lemma inv_templates [pres]:
  "pres (db_inv J) (TemplateRepository_Create a name ch sub body)"
  "pres (db_inv J) (TemplateRepository_Update a b name ch sub body)"
  "pres (db_inv J) (TemplateRepository_Delete a b)"
  unfolding TemplateRepository_Create_def TemplateRepository_Update_def TemplateRepository_Delete_def
  by (intro pres_bnd db_query pres_ret,
      simp add: J_insert_template J_update_template J_delete_templates)+

end

text \<open>An invariant that even the INSERT of a notification alone keeps.\<close>

locale db_invariant = db_statements +
  assumes J_insert_notification: "\<And>r d. J d \<Longrightarrow> okst (n_Status r) \<Longrightarrow> J (snd (insert_notification r d))"
begin

lemma inv_notification_Create [pres]:
  "p_Status p = [] \<or> okst (p_Status p) \<Longrightarrow> pres (db_inv J) (NotificationRepository_Create p)"
  unfolding NotificationRepository_Create_def
  by (intro pres_bnd db_query pres_ret J_insert_notification) (auto simp: notification_row_def)

end

lemma db_ok_delete_api_key:
  assumes "db_ok d"
  shows "db_ok (snd (delete_api_key k d))"
  using assms by (simp add: delete_api_key_def db_ok_defs unique_on_del image_del)

interpretation schema: db_invariant db_ok "\<lambda>_. True"
  by unfold_locales
     (simp_all add: db_ok_statements db_ok_delete_api_key)

text \<open>No notification row has status delivered: the second invariant.\<close>

definition never_delivered :: "db \<Rightarrow> bool" where
  "never_delivered d \<longleftrightarrow> StatusDelivered \<notin> n_Status ` set (notifications d)"

lemma notifications_frame [simp]:
  "notifications (snd (insert_tenant r1 d)) = notifications d"
  "notifications (snd (insert_api_key r2 d)) = notifications d"
  "notifications (snd (insert_template r3 d)) = notifications d"
  "notifications (snd (insert_delivery r4 d)) = notifications d"
  "notifications (snd (insert_scheduled r5 d)) = notifications d"
  "notifications (snd (insert_dlq r6 d)) = notifications d"
  "notifications (snd (upsert_channel r7 d)) = notifications d"
  "notifications (snd (upsert_rate_limit r8 d)) = notifications d"
  "notifications (snd (delete_api_key k d)) = notifications d"
  "notifications (snd (update_deliveries p1 f1 d)) = notifications d"
  "notifications (snd (update_scheduled p2 f2 d)) = notifications d"
  "notifications (snd (update_tenants p3 f3 d)) = notifications d"
  "notifications (snd (update_template t m f4 d)) = notifications d"
  by (simp_all add: insert_tenant_def insert_api_key_def insert_template_def insert_delivery_def
      insert_scheduled_def insert_dlq_def upsert_channel_def upsert_rate_limit_def
      delete_api_key_def update_deliveries_def update_scheduled_def update_tenants_def
      update_template_def snd_ins Let_def split: option.split)

interpretation undelivered: db_invariant never_delivered "\<lambda>s. s \<noteq> StatusDelivered"
  by unfold_locales
     (auto simp: never_delivered_def insert_notification_def snd_ins delete_templates_def
        delete_tenants_def update_notifications_def in_upd_where image_iff Let_def
        split: if_splits)

end
