(* ===== verification/RateLimit.thy ===== *)
theory RateLimit
  imports Repos Redis "HOL-Library.Log_Nat"
begin

text \<open>
  \<open>backend/internal/ratelimit/limiter.go\<close>: the sliding-window limiter.
  \<open>slidingWindowScript\<close> is the Lua script, command by command; its numbers are Lua
  numbers, so a nanosecond clock reading is rounded to the nearest double
  (\<open>lua_num\<close>).  \<open>Limiter_Allow\<close> and \<open>Limiter_resolveLimits\<close> are the methods.
  Every server that behaves as documented gives the same answers as \<open>mem_redis\<close>
  (\<open>script_simulation\<close>), so the window property is proved there and carried over.
\<close>

section \<open>Lua numbers\<close>

text \<open>Division by \<open>q\<close> rounded to the nearest integer, halves to even.\<close>

definition rhe :: "nat \<Rightarrow> nat \<Rightarrow> nat" where
  "rhe n q =
     (let k = n div q; m = n mod q in
      if 2 * m < q then k else if q < 2 * m then k + 1 else if even k then k else k + 1)"

definition round53 :: "nat \<Rightarrow> nat" where
  "round53 n = (let q = 2 ^ (floorlog 2 n - 53) in rhe n q * q)"

definition lua_num :: "int \<Rightarrow> int" where
  "lua_num n = (if 0 \<le> n then int (round53 (nat n)) else - int (round53 (nat (- n))))"

section \<open>The script\<close>

definition slidingWindowScript :: "'r redis \<Rightarrow> time \<Rightarrow> string \<Rightarrow> string \<Rightarrow> int \<Rightarrow> int \<Rightarrow> int \<Rightarrow> int
    \<Rightarrow> string \<Rightarrow> 'r \<Rightarrow> int \<times> 'r" where
  "slidingWindowScript R t k1 k2 argv1 argv2 argv3 argv4 member r =
     (let now = lua_num argv1; window = lua_num argv2;
          channelMax = lua_num argv3; globalMax = lua_num argv4;
          r = ZREMRANGEBYSCORE R t k1 0 (lua_num (now - window)) r;
          r = ZREMRANGEBYSCORE R t k2 0 (lua_num (now - window)) r;
          channelCount = int (ZCARD R t k1 r);
          globalCount = int (ZCARD R t k2 r) in
      if channelCount \<ge> channelMax \<or> globalCount \<ge> globalMax then (0, r)
      else
        let r = ZADD R t k1 now member r;
            r = ZADD R t k2 now member r;
            windowSec = window div 1000000000 + 1;
            r = EXPIRE R t k1 (windowSec * 1000000000) r;
            r = EXPIRE R t k2 (windowSec * 1000000000) r in
        (1, r))"

section \<open>The limiter\<close>

definition windowSize :: time where
  "windowSize = 60 * 1000000000"

record limiter =
  lim_defaultMax :: int

definition channelKey :: "libs \<Rightarrow> uuid \<Rightarrow> channel \<Rightarrow> string" where
  "channelKey L tid ch = ''rate:{'' @ uuid_String L tid @ ''}:'' @ ch"

definition globalKey :: "libs \<Rightarrow> uuid \<Rightarrow> string" where
  "globalKey L tid = ''rate:{'' @ uuid_String L tid @ ''}:global''"

definition Limiter_resolveLimits ::
    "limiter \<Rightarrow> uuid \<Rightarrow> channel \<Rightarrow> ('r world, repo_error + int \<times> int) prog" where
  "Limiter_resolveLimits l tid ch =
     bnd (TenantRepository_GetByID tid) (\<lambda>r. case r of
       Inl e \<Rightarrow> ret (Inl e)
     | Inr tenant \<Rightarrow>
         bnd (TenantRateLimitRepository_GetByChannel tid ch) (\<lambda>r. case r of
           Inl e \<Rightarrow> ret (Inl e)
         | Inr None \<Rightarrow> ret (Inr (lim_defaultMax l, t_GlobalRateCap tenant))
         | Inr (Some rl) \<Rightarrow> ret (Inr (rl_MaxPerMin rl, t_GlobalRateCap tenant))))"

definition Limiter_Allow :: "libs \<Rightarrow> 'r redis \<Rightarrow> limiter iface \<Rightarrow> uuid \<Rightarrow> channel
    \<Rightarrow> ('r world, unit + bool) prog" where
  "Limiter_Allow L R i tid ch =
     (case i of
        Object l \<Rightarrow>
          bnd (Limiter_resolveLimits l tid ch) (\<lambda>r. case r of
            Inl _ \<Rightarrow> ret (Inl ())
          | Inr (maxPerMin, globalCap) \<Rightarrow>
              bnd external (\<lambda>c.   \<comment> \<open>\<open>time.Now()\<close> and \<open>uuid.NewString()\<close>\<close>
                bnd (redis_call (\<lambda>t. slidingWindowScript R t (channelKey L tid ch) (globalKey L tid)
                       (c_now c) windowSize maxPerMin globalCap
                       (dec_string_of_int (c_now c) @ ''-'' @ uuid_String L (c_uuid c))))
                  (\<lambda>r. case r of Inl _ \<Rightarrow> ret (Inl ()) | Inr n \<Rightarrow> ret (Inr (n = 1)))))
      | NilPointer \<Rightarrow> panic    \<comment> \<open>\<open>l.tenants\<close> on a nil \<open>*Limiter\<close>\<close>
      | NilInterface \<Rightarrow> panic)"

lemma db_resolveLimits [pres]: "pres (db_inv J) (Limiter_resolveLimits l tid ch)"
  unfolding Limiter_resolveLimits_def by (intro pres)

lemma db_Allow [pres]: "pres (db_inv J) (Limiter_Allow L R i tid ch)"
  unfolding Limiter_Allow_def by (cases i) (auto intro!: pres)

section \<open>Rounding is monotone\<close>

lemma rhe_mono:
  assumes "m \<le> n" and "0 < q"
  shows "rhe m q \<le> rhe n q"
proof (cases "m div q = n div q")
  case True
  then have "m mod q \<le> n mod q"
    using assms by (metis div_mult_mod_eq nat_add_left_cancel_le)
  with True show ?thesis by (auto simp: rhe_def Let_def)
next
  case False
  then have "m div q + 1 \<le> n div q"
    using assms by (metis Suc_eq_plus1 Suc_leI div_le_mono le_neq_implies_less)
  moreover have "rhe m q \<le> m div q + 1" and "n div q \<le> rhe n q"
    by (auto simp: rhe_def Let_def)
  ultimately show ?thesis by linarith
qed

lemma rhe_multiple: "0 < q \<Longrightarrow> rhe (k * q) q = k"
  by (simp add: rhe_def)

lemma round53_small: "n < 2 ^ 53 \<Longrightarrow> round53 n = n"
proof -
  assume "n < 2 ^ 53"
  then have "floorlog 2 n \<le> 53" by (simp add: floorlog_le_iff)
  then show ?thesis by (simp add: round53_def rhe_def)
qed

lemma round53_bounds:
  assumes "2 ^ d \<le> n" and "n < 2 ^ Suc d" and "53 \<le> Suc d"
  shows "2 ^ d \<le> round53 n" and "round53 n \<le> 2 ^ Suc d"
    and "round53 n = rhe n (2 ^ (Suc d - 53)) * 2 ^ (Suc d - 53)"
proof -
  have fl: "floorlog 2 n = Suc d"
    using assms(1,2) floorlog_le_iff [of 2 n d] floorlog_le_iff [of 2 n "Suc d"] by fastforce
  let ?q = "2 ^ (Suc d - 53) :: nat"
  obtain e where e: "Suc d = 53 + e" using assms(3) le_Suc_ex by blast
  then have e': "d = 52 + e" by simp
  have d: "2 ^ (Suc d) = 2 ^ 53 * ?q" unfolding e by (simp only: power_add add_diff_cancel_left')
  have d': "2 ^ d = 2 ^ 52 * ?q" unfolding e by (simp only: e' power_add add_diff_cancel_left')
  show eq: "round53 n = rhe n ?q * ?q" by (simp add: round53_def fl Let_def)
  have "rhe (2 ^ 52 * ?q) ?q \<le> rhe n ?q" using assms(1) d' by (intro rhe_mono) auto
  then show "2 ^ d \<le> round53 n" unfolding eq d' by (simp add: rhe_multiple)
  have "rhe n ?q \<le> rhe (2 ^ 53 * ?q) ?q" using assms(2) d by (intro rhe_mono) auto
  then show "round53 n \<le> 2 ^ Suc d" unfolding eq d by (simp add: rhe_multiple)
qed

lemma binade:
  assumes "2 ^ 53 \<le> (n::nat)"
  obtains d where "2 ^ d \<le> n" and "n < 2 ^ Suc d" and "53 \<le> d"
proof -
  let ?f = "floorlog 2 n"
  have n: "0 < n" using assms by (metis gr_zeroI le_zero_eq power_eq_0_iff zero_neq_numeral)
  have big: "53 < ?f" using assms floorlog_le_iff [of 2 n 53] by fastforce
  have "2 ^ (?f - 1) \<le> n" "n < 2 ^ ?f" using floorlog_bounds [OF n, of 2] by auto
  with big show ?thesis by (intro that [of "?f - 1"]) auto
qed

lemma round53_mono:
  assumes "m \<le> n"
  shows "round53 m \<le> round53 n"
proof (cases "n < 2 ^ 53")
  case True
  with assms show ?thesis by (simp add: round53_small)
next
  case False
  then obtain d where d: "2 ^ d \<le> n" "n < 2 ^ Suc d" "53 \<le> d" using binade by (metis leI)
  note n = round53_bounds [OF d(1,2)]
  show ?thesis
  proof (cases "m < 2 ^ d")
    case True
    have "round53 m \<le> 2 ^ d"
    proof (cases "m < 2 ^ 53")
      case small: True
      with True show ?thesis by (simp add: round53_small)
    next
      case False
      then obtain d' where d': "2 ^ d' \<le> m" "m < 2 ^ Suc d'" "53 \<le> d'" using binade by (metis leI)
      then have "(2::nat) ^ d' < 2 ^ d" using True by linarith
      then have "Suc d' \<le> d" by simp
      then have "(2::nat) ^ Suc d' \<le> 2 ^ d" by (rule power_increasing) simp
      with round53_bounds(2) [OF d'(1,2)] d'(3) show ?thesis by simp
    qed
    with n(1) d(3) show ?thesis by simp
  next
    case False
    then have m: "2 ^ d \<le> m" "m < 2 ^ Suc d" using assms d(2) by simp_all
    from round53_bounds(3) [OF m] n(3) d(3) assms show ?thesis
      by (simp add: rhe_mono)
  qed
qed

lemma lua_num_mono: "m \<le> n \<Longrightarrow> lua_num m \<le> lua_num n"
  by (auto simp: lua_num_def intro: round53_mono)

lemma lua_num_exact: "\<bar>n\<bar> < 2 ^ 53 \<Longrightarrow> lua_num n = n"
  by (auto simp: lua_num_def round53_small)

lemma lua_window [simp]: "lua_num windowSize = windowSize"
  by (rule lua_num_exact) (simp add: windowSize_def)

section \<open>Every documented server answers alike\<close>

context redis_server
begin

lemma script_simulation:
  "fst (slidingWindowScript R t k1 k2 a1 a2 a3 a4 m r)
     = fst (slidingWindowScript mem_redis t k1 k2 a1 a2 a3 a4 m (keys r))"
  "keys (snd (slidingWindowScript R t k1 k2 a1 a2 a3 a4 m r))
     = snd (slidingWindowScript mem_redis t k1 k2 a1 a2 a3 a4 m (keys r))"
  by (simp_all add: slidingWindowScript_def Let_def replies effects mem.replies mem.effects)

end

section \<open>Sorted sets over time\<close>

definition kind_ok :: "string \<Rightarrow> keyspace \<Rightarrow> bool" where
  "kind_ok k ks \<longleftrightarrow> (case ks k of Some (RStr _, _) \<Rightarrow> False | Some (RList _, _) \<Rightarrow> False | _ \<Rightarrow> True)"

lemma zset_zrem:
  "t \<le> t' \<Longrightarrow> zset t' k (ks_zremrangebyscore t k lo hi ks)
     = filter (\<lambda>(m, s). \<not> (lo \<le> s \<and> s \<le> hi)) (zset t' k ks)"
  by (auto simp: zset_def ks_zremrangebyscore_def live_def ttl_of_def dest: expired_mono
      split: option.splits prod.splits rval.splits list.splits if_splits)

lemma zadd_old: "e \<in> set z \<Longrightarrow> fst e \<noteq> m \<Longrightarrow> e \<in> set (zadd s m z)"
  by (cases e) (auto simp: zadd_def intro!: rev_image_eqI [of e])

lemma zadd_new: "(m, s) \<in> set (zadd s m z)"
  by (auto simp: zadd_def intro: rev_image_eqI)

lemma zset_zadd_old:
  "t \<le> t' \<Longrightarrow> e \<in> set (zset t' k ks) \<Longrightarrow> fst e \<noteq> m \<Longrightarrow> e \<in> set (zset t' k (ks_zadd t k s m ks))"
  by (cases "ks k")
     (auto simp: zset_def ks_zadd_def live_def ttl_of_def dest: expired_mono zadd_old
      split: prod.splits rval.splits if_splits)

lemma zset_zadd_new: "kind_ok k ks \<Longrightarrow> (m, s) \<in> set (zset t k (ks_zadd t k s m ks))"
  by (cases "ks k")
     (auto simp: zset_def ks_zadd_def live_def ttl_of_def zadd_new kind_ok_def
      split: prod.splits rval.splits if_splits)

lemma length_zadd: "length (zset t k (ks_zadd t k s m ks)) \<le> Suc (length (zset t k ks))"
  by (simp add: zset_def ks_zadd_def live_def ttl_of_def zadd_def
      split: option.split prod.split rval.split)

lemma zset_expire:
  "t \<le> t' \<Longrightarrow> t' < t + d \<Longrightarrow> zset t' k (ks_expire t k d ks) = zset t k ks"
  by (auto simp: zset_def ks_expire_def live_def dest: expired_mono
      split: option.splits prod.splits rval.splits if_splits)

lemma kind_ok_commands:
  "kind_ok k ks \<Longrightarrow> kind_ok k (ks_zremrangebyscore t k lo hi ks)"
  "kind_ok k ks \<Longrightarrow> kind_ok k (ks_zadd t k s m ks)"
  "kind_ok k ks \<Longrightarrow> kind_ok k (ks_expire t k d ks)"
  by (auto simp: kind_ok_def ks_zremrangebyscore_def ks_zadd_def ks_expire_def live_def
      split: option.splits prod.splits rval.splits list.splits if_splits)

text \<open>What a command does to its key depends on that key only.\<close>

lemma zset_cong: "ks k = ks' k \<Longrightarrow> zset t k ks = zset t k ks'"
  by (simp add: zset_def live_def)

lemma commands_cong:
  assumes "ks k = ks' k"
  shows "ks_zremrangebyscore t k lo hi ks k = ks_zremrangebyscore t k lo hi ks' k"
    and "ks_zadd t k s m ks k = ks_zadd t k s m ks' k"
    and "ks_expire t k d ks k = ks_expire t k d ks' k"
  using assms
  by (simp_all add: ks_zremrangebyscore_def ks_zadd_def ks_expire_def live_def ttl_of_def
      split: option.split prod.split rval.split list.split)

section \<open>Runs of the script, and the reference window\<close>

text \<open>
  One request: the server's clock when the script runs, the caller's clock reading
  (\<open>time.Now()\<close>), the channel and the member string.
\<close>

record limit_request =
  lr_t :: time
  lr_now :: time
  lr_channel :: channel
  lr_member :: string

definition limiter_step :: "libs \<Rightarrow> 'r redis \<Rightarrow> uuid \<Rightarrow> (channel \<Rightarrow> int) \<Rightarrow> int \<Rightarrow> limit_request
    \<Rightarrow> 'r \<Rightarrow> bool \<times> 'r" where
  "limiter_step L R tid chMax gMax q r =
     (case slidingWindowScript R (lr_t q) (channelKey L tid (lr_channel q)) (globalKey L tid)
             (lr_now q) windowSize (chMax (lr_channel q)) gMax (lr_member q) r of
        (n, r') \<Rightarrow> (n = 1, r'))"

fun limiter_run :: "libs \<Rightarrow> 'r redis \<Rightarrow> uuid \<Rightarrow> (channel \<Rightarrow> int) \<Rightarrow> int \<Rightarrow> limit_request list
    \<Rightarrow> 'r \<Rightarrow> bool list" where
  "limiter_run L R tid chMax gMax [] r = []"
| "limiter_run L R tid chMax gMax (q # qs) r =
     (case limiter_step L R tid chMax gMax q r of
        (b, r') \<Rightarrow> b # limiter_run L R tid chMax gMax qs r')"

definition script_time :: "limit_request \<Rightarrow> int" where
  "script_time q = lua_num (lr_now q)"

definition cutoff :: "limit_request \<Rightarrow> int" where
  "cutoff q = lua_num (script_time q - windowSize)"

text \<open>The reference: a request is allowed when fewer than the limit were allowed since its
  cutoff, on its channel and over all channels.\<close>

definition in_window :: "limit_request \<Rightarrow> limit_request list \<Rightarrow> limit_request list" where
  "in_window q A = filter (\<lambda>p. cutoff q < script_time p) A"

definition on_channel :: "channel \<Rightarrow> limit_request list \<Rightarrow> limit_request list" where
  "on_channel ch A = filter (\<lambda>p. lr_channel p = ch) A"

fun window_run :: "(channel \<Rightarrow> int) \<Rightarrow> int \<Rightarrow> limit_request list \<Rightarrow> limit_request list
    \<Rightarrow> bool list" where
  "window_run chMax gMax A [] = []"
| "window_run chMax gMax A (q # qs) =
     (let W = in_window q A;
          ok = (int (length (on_channel (lr_channel q) W)) < chMax (lr_channel q)
                \<and> int (length W) < gMax) in
      ok # window_run chMax gMax (if ok then A @ [q] else A) qs)"

section \<open>One key\<close>

text \<open>
  \<open>tracks k A T C ks\<close>: from time \<open>T\<close> and cutoff \<open>C\<close> on, the sorted set at \<open>k\<close> holds the
  requests \<open>A\<close> accepted so far, less those before the cutoff.
\<close>

definition entry :: "limit_request \<Rightarrow> string \<times> int" where
  "entry q = (lr_member q, script_time q)"

definition ttl61 :: time where
  "ttl61 = (windowSize div 1000000000 + 1) * 1000000000"

definition tracks :: "string \<Rightarrow> limit_request list \<Rightarrow> time \<Rightarrow> int \<Rightarrow> keyspace \<Rightarrow> bool" where
  "tracks k A T C ks \<longleftrightarrow>
     kind_ok k ks
     \<and> (\<forall>q\<in>set A. C < script_time q \<longrightarrow>
          (\<forall>t. T \<le> t \<longrightarrow> t < lr_t q + ttl61 \<longrightarrow> entry q \<in> set (zset t k ks)))
     \<and> (\<forall>t. T \<le> t \<longrightarrow> set (zset t k ks) \<subseteq> entry ` set A \<and> distinct (zset t k ks))"

lemma tracks_empty: "ks k = None \<Longrightarrow> tracks k [] T C ks"
  by (simp add: tracks_def kind_ok_def zset_def live_def)

lemma tracks_later:
  "tracks k A T C ks \<Longrightarrow> T \<le> t \<Longrightarrow> C \<le> C' \<Longrightarrow> ks' k = ks k \<Longrightarrow> tracks k A t C' ks'"
  using zset_cong [of ks' k ks] by (fastforce simp: tracks_def kind_ok_def)

lemma entry_inj: "distinct (map lr_member A) \<Longrightarrow> inj_on entry (set A)"
  by (auto simp: inj_on_def entry_def distinct_map)

text \<open>After the trim, \<open>ZCARD\<close> counts exactly the requests in the window.\<close>

lemma tracks_count:
  assumes tr: "tracks k A T C ks" and "T \<le> t" and "C \<le> C'"
    and dist: "distinct (map lr_member A)"
    and nonneg: "\<And>q. q \<in> set A \<Longrightarrow> 0 \<le> script_time q"
    and drift: "\<And>q. q \<in> set A \<Longrightarrow> C' < script_time q \<Longrightarrow> t < lr_t q + ttl61"
  shows "length (zset t k (ks_zremrangebyscore t k 0 C' ks)) = length (filter (\<lambda>q. C' < script_time q) A)"
proof -
  let ?Z = "filter (\<lambda>(m, s). \<not> (0 \<le> s \<and> s \<le> C')) (zset t k ks)"
  let ?W = "filter (\<lambda>q. C' < script_time q) A"
  have "set ?Z = entry ` set ?W"
  proof
    show "set ?Z \<subseteq> entry ` set ?W"
      using tr \<open>T \<le> t\<close> nonneg by (fastforce simp: tracks_def entry_def)
    show "entry ` set ?W \<subseteq> set ?Z"
      using tr assms(2,3) drift by (fastforce simp: tracks_def entry_def)
  qed
  moreover have "distinct ?Z" using tr \<open>T \<le> t\<close> by (simp add: tracks_def)
  moreover have "inj_on entry (set ?W)"
    using entry_inj [OF dist] by (rule inj_on_subset) auto
  moreover have "distinct ?W" using dist by (simp add: distinct_map)
  ultimately have "length ?Z = length ?W"
    using card_image [of entry "set ?W"] distinct_card [of ?Z] distinct_card [of ?W] by simp
  then show ?thesis by (simp add: zset_zrem)
qed

lemma tracks_zrem:
  assumes "tracks k A T C ks" and "T \<le> t" and "C \<le> C'"
  shows "tracks k A t C' (ks_zremrangebyscore t k 0 C' ks)"
  unfolding tracks_def
proof (intro conjI ballI allI impI)
  show "kind_ok k (ks_zremrangebyscore t k 0 C' ks)"
    using assms(1) by (simp add: tracks_def kind_ok_commands)
next
  fix q t' assume "q \<in> set A" "C' < script_time q" "t \<le> t'" "t' < lr_t q + ttl61"
  with assms show "entry q \<in> set (zset t' k (ks_zremrangebyscore t k 0 C' ks))"
    by (simp add: zset_zrem tracks_def entry_def)
next
  fix t' assume "t \<le> t'"
  with assms have "set (zset t' k ks) \<subseteq> entry ` set A" "distinct (zset t' k ks)"
    by (simp_all add: tracks_def)
  with \<open>t \<le> t'\<close> show "set (zset t' k (ks_zremrangebyscore t k 0 C' ks)) \<subseteq> entry ` set A"
    and "distinct (zset t' k (ks_zremrangebyscore t k 0 C' ks))"
    by (auto simp: zset_zrem)
qed

lemma zadd_fresh: "m \<notin> fst ` set z \<Longrightarrow> zadd s m z = z @ [(m, s)]"
  by (simp add: zadd_def)

lemma zset_zadd_fresh:
  assumes "kind_ok k ks" and "m \<notin> fst ` set (zset t k ks)"
  shows "zset t k (ks_zadd t k s m ks) = zset t k ks @ [(m, s)]"
  using assms
  by (cases "ks k")
     (auto simp: zset_def ks_zadd_def live_def ttl_of_def kind_ok_def zadd_fresh
      split: prod.splits rval.splits if_splits)

lemma zset_after_expire:
  "t \<le> t' \<Longrightarrow> zset t' k (ks_expire t k d ks) = (if t' < t + d then zset t k ks else [])"
  by (auto simp: zset_def ks_expire_def live_def dest: expired_mono
      split: option.splits prod.splits rval.splits if_splits)

lemma zset_mono: "e \<in> set (zset t' k ks) \<Longrightarrow> t \<le> t' \<Longrightarrow> e \<in> set (zset t k ks)"
  using live_mono [of t' ks k _ t]
  by (cases "live t' ks k") (auto simp: zset_def split: rval.splits)

lemma tracks_add:
  assumes tr: "tracks k A t C ks" and fresh: "lr_member q \<notin> lr_member ` set A"
    and t: "t = lr_t q" "\<And>p. p \<in> set A \<Longrightarrow> lr_t p \<le> t"
  shows "tracks k (A @ [q]) t C
           (ks_expire t k ttl61 (ks_zadd t k (script_time q) (lr_member q) ks))"
proof -
  have "fst ` set (zset t k ks) \<subseteq> lr_member ` set A"
    using tr by (force simp: tracks_def entry_def)
  with fresh have m: "lr_member q \<notin> fst ` set (zset t k ks)" by blast
  have ok: "kind_ok k ks" using tr by (simp add: tracks_def)
  note z = zset_zadd_fresh [OF ok m, of "script_time q"]
  show ?thesis
    unfolding tracks_def
  proof (intro conjI ballI impI allI)
    show "kind_ok k (ks_expire t k ttl61 (ks_zadd t k (script_time q) (lr_member q) ks))"
      using ok by (simp add: kind_ok_commands)
  next
    fix p t' assume p: "p \<in> set (A @ [q])" "C < script_time p" "t \<le> t'" "t' < lr_t p + ttl61"
    then have "t' < t + ttl61" using t by fastforce
    moreover from p tr have "p \<noteq> q \<Longrightarrow> entry p \<in> set (zset t' k ks)"
      by (auto simp: tracks_def)
    then have "p \<noteq> q \<Longrightarrow> entry p \<in> set (zset t k ks)"
      using zset_mono \<open>t \<le> t'\<close> by blast
    moreover note p(3)
    ultimately show "entry p \<in> set (zset t' k (ks_expire t k ttl61
        (ks_zadd t k (script_time q) (lr_member q) ks)))"
      by (auto simp: zset_after_expire z entry_def)
  next
    fix t' assume "t \<le> t'"
    then show "set (zset t' k (ks_expire t k ttl61 (ks_zadd t k (script_time q) (lr_member q) ks)))
        \<subseteq> entry ` set (A @ [q])"
      using tr by (auto simp: zset_after_expire z tracks_def entry_def)
    show "distinct (zset t' k (ks_expire t k ttl61 (ks_zadd t k (script_time q) (lr_member q) ks)))"
      using tr m \<open>t \<le> t'\<close> by (auto simp: zset_after_expire z tracks_def image_iff)
  qed
qed

section \<open>The script on one of its keys\<close>

abbreviation trimmed :: "limit_request \<Rightarrow> string \<Rightarrow> keyspace \<Rightarrow> keyspace" where
  "trimmed q k ks \<equiv> ks_zremrangebyscore (lr_t q) k 0 (cutoff q) ks"

abbreviation recorded :: "limit_request \<Rightarrow> string \<Rightarrow> keyspace \<Rightarrow> keyspace" where
  "recorded q k ks \<equiv> ks_expire (lr_t q) k ttl61
     (ks_zadd (lr_t q) k (script_time q) (lr_member q) (trimmed q k ks))"

abbreviation fits :: "limit_request \<Rightarrow> string \<Rightarrow> int \<Rightarrow> keyspace \<Rightarrow> bool" where
  "fits q k M ks \<equiv> int (length (zset (lr_t q) k (trimmed q k ks))) < lua_num M"

lemma zset_trimmed_other [simp]: "k \<noteq> k' \<Longrightarrow> zset t k (trimmed q k' ks) = zset t k ks"
  by (rule zset_cong) simp

lemma script_keys:
  assumes "k1 \<noteq> k2"
    and "slidingWindowScript mem_redis (lr_t q) k1 k2 (lr_now q) windowSize M1 M2 (lr_member q) ks
           = (n, ks')"
  shows "n = 1 \<longleftrightarrow> fits q k1 M1 ks \<and> fits q k2 M2 ks"
    and "k \<in> {k1, k2} \<Longrightarrow> ks' k = (if n = 1 then recorded q k ks k else trimmed q k ks k)"
    and "k \<notin> {k1, k2} \<Longrightarrow> ks' k = ks k"
proof -
  let ?Z = "trimmed q k2 (trimmed q k1 ks)"
  have z1: "zset (lr_t q) k1 ?Z = zset (lr_t q) k1 (trimmed q k1 ks)"
    using assms(1) by simp
  have z2: "zset (lr_t q) k2 ?Z = zset (lr_t q) k2 (trimmed q k2 ks)"
    by (rule zset_cong, rule commands_cong(1)) (use assms(1) in simp)
  note run = assms(2) [unfolded slidingWindowScript_def Let_def mem.replies mem.effects
      lua_window, folded script_time_def, folded cutoff_def, folded ttl61_def]
  show "n = 1 \<longleftrightarrow> fits q k1 M1 ks \<and> fits q k2 M2 ks"
    using run unfolding z1 z2 by (auto split: if_splits)
  show "k \<notin> {k1, k2} \<Longrightarrow> ks' k = ks k"
    using run by (auto split: if_splits)
  have t1: "?Z k1 = trimmed q k1 ks k1" using assms(1) by simp
  have t2: "?Z k2 = trimmed q k2 ks k2"
    by (rule commands_cong(1)) (use assms(1) in simp)
  let ?add = "\<lambda>k. ks_zadd (lr_t q) k (script_time q) (lr_member q)"
  let ?exp = "\<lambda>k. ks_expire (lr_t q) k ttl61"
  have r1: "?exp k1 (?add k2 (?add k1 ?Z)) k1 = recorded q k1 ks k1"
    by (rule commands_cong(3))
       (use assms(1) commands_cong(2) [of ?Z k1 "trimmed q k1 ks", OF t1] in simp)
  have "?add k2 (?add k1 ?Z) k2 = ?add k2 (trimmed q k2 ks) k2"
    by (rule commands_cong(2)) (use assms(1) t2 in simp)
  then have r2: "?exp k2 (?exp k1 (?add k2 (?add k1 ?Z))) k2 = recorded q k2 ks k2"
    by (intro commands_cong(3)) (use assms(1) in simp)
  show "k \<in> {k1, k2} \<Longrightarrow> ks' k = (if n = 1 then recorded q k ks k else trimmed q k ks k)"
    using run assms(1) r1 r2 t1 t2 by (auto split: if_splits)
qed

section \<open>The script refines the reference window\<close>

text \<open>What the run so far and the requests to come satisfy: clocks do not run backwards,
  members are unique, and a record outlives the window.\<close>

definition clocks_ok :: "limit_request list \<Rightarrow> bool" where
  "clocks_ok qs \<longleftrightarrow>
     sorted (map lr_t qs) \<and> sorted (map lr_now qs) \<and> distinct (map lr_member qs)
     \<and> list_all (\<lambda>q. 0 \<le> lr_now q \<and> lr_channel q \<noteq> ''global'') qs
     \<and> list_all (\<lambda>p. list_all (\<lambda>q. lr_t p + ttl61 \<le> lr_t q \<longrightarrow> script_time p \<le> cutoff q) qs) qs"

definition tracks_all :: "libs \<Rightarrow> uuid \<Rightarrow> limit_request list \<Rightarrow> time \<Rightarrow> int \<Rightarrow> keyspace \<Rightarrow> bool" where
  "tracks_all L tid A T C ks \<longleftrightarrow>
     tracks (globalKey L tid) A T C ks
     \<and> (\<forall>ch. ch \<noteq> ''global'' \<longrightarrow> tracks (channelKey L tid ch) (on_channel ch A) T C ks)"

lemma channelKey_inj [simp]:
  "channelKey L tid ch = channelKey L tid ch' \<longleftrightarrow> ch = ch'"
  "channelKey L tid ch = globalKey L tid \<longleftrightarrow> ch = ''global''"
  by (simp_all add: channelKey_def globalKey_def)

lemma cutoff_mono: "lr_now p \<le> lr_now q \<Longrightarrow> cutoff p \<le> cutoff q"
  by (simp add: cutoff_def script_time_def lua_num_mono)

lemma script_time_nonneg: "0 \<le> lr_now q \<Longrightarrow> 0 \<le> script_time q"
  by (simp add: script_time_def lua_num_def)


lemma tracks_step:
  assumes "tracks k A T C ks" and "T \<le> lr_t q" and "C \<le> cutoff q"
    and "distinct (map lr_member (A @ [q]))"
    and "\<forall>p\<in>set A. 0 \<le> script_time p \<and> lr_t p \<le> lr_t q
           \<and> (lr_t p + ttl61 \<le> lr_t q \<longrightarrow> script_time p \<le> cutoff q)"
  shows "length (zset (lr_t q) k (trimmed q k ks)) = length (in_window q A)"
    and "tracks k A (lr_t q) (cutoff q) (trimmed q k ks)"
    and "tracks k (A @ [q]) (lr_t q) (cutoff q) (recorded q k ks)"
proof -
  show "length (zset (lr_t q) k (trimmed q k ks)) = length (in_window q A)"
    unfolding in_window_def using assms by (intro tracks_count) force+
  show tr: "tracks k A (lr_t q) (cutoff q) (trimmed q k ks)"
    by (rule tracks_zrem [OF assms(1-3)])
  show "tracks k (A @ [q]) (lr_t q) (cutoff q) (recorded q k ks)"
    using tr assms(4,5) by (intro tracks_add) auto
qed

lemma in_window_on_channel: "in_window q (on_channel ch A) = on_channel ch (in_window q A)"
  by (simp add: in_window_def on_channel_def conj_commute)

lemma tracks_all_step:
  assumes tr: "tracks_all L tid A T C ks" and "T \<le> lr_t q" and "C \<le> cutoff q"
    and ok: "clocks_ok (A @ q # qs)"
    and lims: "\<And>ch. \<bar>chMax ch\<bar> < 2 ^ 53" "\<bar>gMax\<bar> < 2 ^ 53"
    and run: "limiter_step L mem_redis tid chMax gMax q ks = (b, ks')"
  shows "b = (int (length (on_channel (lr_channel q) (in_window q A))) < chMax (lr_channel q)
               \<and> int (length (in_window q A)) < gMax)"
    and "tracks_all L tid (if b then A @ [q] else A) (lr_t q) (cutoff q) ks'"
proof -
  let ?c = "lr_channel q"
  let ?k1 = "channelKey L tid ?c" and ?k2 = "globalKey L tid"
  from run obtain n where script: "slidingWindowScript mem_redis (lr_t q) ?k1 ?k2
      (lr_now q) windowSize (chMax ?c) gMax (lr_member q) ks = (n, ks')" and b: "b \<longleftrightarrow> n = 1"
    by (auto simp: limiter_step_def split: prod.splits)
  have c: "?c \<noteq> ''global''" using ok by (simp add: clocks_ok_def)
  then have ne: "?k1 \<noteq> ?k2" by simp
  note keys = script_keys [OF ne script]
  have side: "\<forall>p\<in>set A. 0 \<le> script_time p \<and> lr_t p \<le> lr_t q
      \<and> (lr_t p + ttl61 \<le> lr_t q \<longrightarrow> script_time p \<le> cutoff q)"
    using ok by (auto simp: clocks_ok_def sorted_append list_all_iff intro: script_time_nonneg)
  have dist: "distinct (map lr_member (A @ [q]))" using ok by (auto simp: clocks_ok_def)
  then have dist': "distinct (map lr_member (on_channel ?c A @ [q]))"
    by (auto simp: on_channel_def distinct_map_filter)
  have g: "tracks ?k2 A T C ks" and ch: "\<And>x. x \<noteq> ''global'' \<Longrightarrow> tracks (channelKey L tid x) (on_channel x A) T C ks"
    using tr by (simp_all add: tracks_all_def)
  note gs = tracks_step [OF g assms(2,3) dist side]
  have side': "\<forall>p\<in>set (on_channel ?c A). 0 \<le> script_time p \<and> lr_t p \<le> lr_t q
      \<and> (lr_t p + ttl61 \<le> lr_t q \<longrightarrow> script_time p \<le> cutoff q)"
    using side by (simp add: on_channel_def)
  note cs = tracks_step [OF ch [OF c] assms(2,3) dist' side']
  show "b = (int (length (on_channel ?c (in_window q A))) < chMax ?c \<and> int (length (in_window q A)) < gMax)"
    unfolding b keys(1) cs(1) gs(1) using lims by (simp add: lua_num_exact in_window_on_channel)
  have eq: "ks' ?k2 = (if b then recorded q ?k2 ks ?k2 else trimmed q ?k2 ks ?k2)"
    "ks' ?k1 = (if b then recorded q ?k1 ks ?k1 else trimmed q ?k1 ks ?k1)"
    using keys(2) b by auto
  show "tracks_all L tid (if b then A @ [q] else A) (lr_t q) (cutoff q) ks'"
    unfolding tracks_all_def
  proof (intro conjI allI impI)
    show "tracks ?k2 (if b then A @ [q] else A) (lr_t q) (cutoff q) ks'"
      using gs(2,3) eq(1) by (auto intro: tracks_later)
    fix x assume x: "x \<noteq> ''global''"
    show "tracks (channelKey L tid x) (on_channel x (if b then A @ [q] else A)) (lr_t q) (cutoff q) ks'"
    proof (cases "x = ?c")
      case True
      with cs(2,3) eq(2) show ?thesis by (auto simp: on_channel_def intro: tracks_later)
    next
      case False
      with x keys(3) have "ks' (channelKey L tid x) = ks (channelKey L tid x)" by simp
      with ch [OF x] assms(2,3) False show ?thesis
        by (auto simp: on_channel_def intro: tracks_later)
    qed
  qed
qed

lemma mem_window:
  assumes "tracks_all L tid A T C ks" and "clocks_ok (A @ qs)"
    and "\<And>q. q \<in> set qs \<Longrightarrow> T \<le> lr_t q \<and> C \<le> cutoff q"
    and "\<And>ch. \<bar>chMax ch\<bar> < 2 ^ 53" "\<bar>gMax\<bar> < 2 ^ 53"
  shows "limiter_run L mem_redis tid chMax gMax qs ks = window_run chMax gMax A qs"
  using assms
proof (induction qs arbitrary: A T C ks)
  case (Cons q qs)
  obtain b ks' where step: "limiter_step L mem_redis tid chMax gMax q ks = (b, ks')"
    by (cases "limiter_step L mem_redis tid chMax gMax q ks")
  have first: "T \<le> lr_t q" "C \<le> cutoff q" using Cons.prems(3) [of q] by simp_all
  note s = tracks_all_step [OF Cons.prems(1) first Cons.prems(2,4,5) step]
  have "clocks_ok ((if b then A @ [q] else A) @ qs)"
    using Cons.prems(2) by (auto simp: clocks_ok_def sorted_append list_all_iff)
  moreover have "lr_t q \<le> lr_t p \<and> cutoff q \<le> cutoff p" if "p \<in> set qs" for p
    using Cons.prems(2) that by (auto simp: clocks_ok_def sorted_append intro: cutoff_mono)
  ultimately have "limiter_run L mem_redis tid chMax gMax qs ks'
      = window_run chMax gMax (if b then A @ [q] else A) qs"
    using Cons.prems(4,5) by (intro Cons.IH [OF s(2)])
  with step s(1) show ?case by (simp add: Let_def)
qed simp

context redis_server
begin

lemma run_simulation:
  "limiter_run L R tid chMax gMax qs r = limiter_run L mem_redis tid chMax gMax qs (keys r)"
proof (induction qs arbitrary: r)
  case (Cons q qs)
  obtain n r' where "slidingWindowScript R (lr_t q) (channelKey L tid (lr_channel q))
      (globalKey L tid) (lr_now q) windowSize (chMax (lr_channel q)) gMax (lr_member q) r = (n, r')"
    by force
  with script_simulation [of "lr_t q" "channelKey L tid (lr_channel q)" "globalKey L tid" "lr_now q"
      windowSize "chMax (lr_channel q)" gMax "lr_member q" r] Cons
  show ?case by (simp add: limiter_step_def split: prod.split)
qed simp

end

lemma run_from_empty:
  assumes "redis_server R keys"
    and "\<And>ch. keys r (channelKey L tid ch) = None" and "keys r (globalKey L tid) = None"
    and "clocks_ok qs"
    and "\<And>ch. \<bar>chMax ch\<bar> < 2 ^ 53" and "\<bar>gMax\<bar> < 2 ^ 53"
  shows "limiter_run L R tid chMax gMax qs r = window_run chMax gMax [] qs"
proof (cases qs)
  case (Cons q qs')
  have "tracks_all L tid [] (lr_t q) (cutoff q) (keys r)"
    using assms(2,3) by (simp add: tracks_all_def on_channel_def tracks_empty)
  moreover have "lr_t q \<le> lr_t p \<and> cutoff q \<le> cutoff p" if "p \<in> set qs" for p
    using assms(4) that Cons by (auto simp: clocks_ok_def intro: cutoff_mono)
  ultimately have "limiter_run L mem_redis tid chMax gMax qs (keys r) = window_run chMax gMax [] qs"
    using assms(4-6) by (intro mem_window) auto
  with redis_server.run_simulation [OF assms(1)] show ?thesis by simp
qed simp

text \<open>The requests a run let through.\<close>

definition let_through :: "limit_request list \<Rightarrow> bool list \<Rightarrow> limit_request list" where
  "let_through qs bs = map fst (filter snd (zip qs bs))"

lemma window_run_bound:
  assumes "let_through qs (window_run chMax gMax A0 qs) = A @ q # B"
  shows "int (length (on_channel (lr_channel q) (in_window q (A0 @ A)))) < chMax (lr_channel q)
    \<and> int (length (in_window q (A0 @ A))) < gMax"
  using assms
proof (induction qs arbitrary: A0 A)
  case (Cons p qs)
  let ?W = "in_window p A0"
  let ?ok = "int (length (on_channel (lr_channel p) ?W)) < chMax (lr_channel p) \<and> int (length ?W) < gMax"
  show ?case
  proof (cases ?ok)
    case False
    with Cons.prems have "let_through qs (window_run chMax gMax A0 qs) = A @ q # B"
      by (auto simp: let_through_def Let_def)
    then show ?thesis by (rule Cons.IH)
  next
    case True
    with Cons.prems have run: "p # let_through qs (window_run chMax gMax (A0 @ [p]) qs) = A @ q # B"
      by (auto simp: let_through_def Let_def)
    show ?thesis
    proof (cases A)
      case Nil
      with run True show ?thesis by simp
    next
      case (Cons x A')
      with run have "let_through qs (window_run chMax gMax (A0 @ [p]) qs) = A' @ q # B" and x: "x = p" by auto
      from Cons.IH [OF this(1)] Cons x show ?thesis by simp
    qed
  qed
qed (simp add: let_through_def)

section \<open>Properties\<close>





end
