(* ===== verification/Workers.thy ===== *)
theory Workers
  imports RateLimit
begin

text \<open>
  The background workers: \<open>backend/internal/ratelimit/replayer.go\<close> re-publishes notifications
  stored as rate limited, \<open>backend/internal/scheduler/scheduler.go\<close> publishes scheduled ones that
  are due.  A tick's goroutines are run one after the other, in the order they are started.
  \<open>Run\<close> is a list of what the \<open>select\<close> saw: \<open>True\<close> for a tick, \<open>False\<close> for the cancelled
  context.
\<close>

section \<open>The message of a stored notification\<close>

definition stored_message :: "notification \<Rightarrow> notification_delivery \<Rightarrow> message" where
  "stored_message n delivery = \<lparr>
     msg_NotificationID = n_ID n, msg_DeliveryID = d_ID delivery, msg_TenantID = n_TenantID n,
     msg_Channel = n_Channel n, msg_Priority = n_Priority n, msg_RecipientID = n_RecipientID n,
     msg_RecipientEmail = n_RecipientEmail n, msg_RecipientPhone = n_RecipientPhone n,
     msg_RecipientToken = n_RecipientToken n, msg_Subject = n_Subject n, msg_Body = n_Body n,
     msg_Metadata = n_Metadata n, msg_LastError = []\<rparr>"

section \<open>The replayer\<close>

definition replay_batchSize :: nat where
  "replay_batchSize = 100"

definition Replayer_replayOne ::
    "libs \<Rightarrow> 'r redis \<Rightarrow> limiter \<Rightarrow> unit iface \<Rightarrow> notification \<Rightarrow> ('r world, unit) prog" where
  "Replayer_replayOne L R limiter producer n =
     bnd (Limiter_Allow L R (Object limiter) (n_TenantID n) (n_Channel n)) (\<lambda>a. case a of
       Inl _ \<Rightarrow> ret ()
     | Inr allowed \<Rightarrow>
         if \<not> allowed then ret ()
         else bnd (NotificationDeliveryRepository_GetByNotificationID (n_ID n)) (\<lambda>ds. case ds of
           Inl _ \<Rightarrow> ret ()
         | Inr [] \<Rightarrow> ret ()
         | Inr (delivery # _) \<Rightarrow>
             bnd (if is_nil producer then ret (Inr ())
                  else Producer_Publish L producer (TopicForChannel (n_Channel n))
                         (stored_message n delivery)) (\<lambda>p. case p of
               Inl _ \<Rightarrow> ret ()
             | Inr _ \<Rightarrow>
                 bnd (NotificationRepository_UpdateStatus (n_ID n) StatusQueued) (\<lambda>_.
                 bnd (NotificationDeliveryRepository_SetStatus (d_ID delivery) StatusQueued) (\<lambda>_.
                 ret ())))))"

definition Replayer_replayOnce ::
    "libs \<Rightarrow> 'r redis \<Rightarrow> limiter \<Rightarrow> unit iface \<Rightarrow> ('r world, unit) prog" where
  "Replayer_replayOnce L R limiter producer =
     bnd (NotificationRepository_GetByStatus StatusQueuedRateLimited replay_batchSize) (\<lambda>cs. case cs of
       Inl _ \<Rightarrow> ret ()
     | Inr candidates \<Rightarrow> for_each candidates (Replayer_replayOne L R limiter producer))"

fun Replayer_Run ::
    "libs \<Rightarrow> 'r redis \<Rightarrow> limiter \<Rightarrow> unit iface \<Rightarrow> bool list \<Rightarrow> ('r world, unit) prog" where
  "Replayer_Run L R limiter producer [] = ret ()"
| "Replayer_Run L R limiter producer (tick # rest) =
     (if tick then bnd (Replayer_replayOnce L R limiter producer)
                     (\<lambda>_. Replayer_Run L R limiter producer rest)
      else ret ())"

section \<open>The scheduler\<close>

definition sched_batchSize :: nat where
  "sched_batchSize = 100"

definition Scheduler_fireOne ::
    "libs \<Rightarrow> unit iface \<Rightarrow> scheduled_notification \<Rightarrow> ('r world, unit) prog" where
  "Scheduler_fireOne L producer sn =
     bnd (NotificationRepository_GetByID (s_NotificationID sn)) (\<lambda>r. case r of
       Inl _ \<Rightarrow> ret ()
     | Inr n \<Rightarrow>
         bnd (NotificationDeliveryRepository_GetByNotificationID (n_ID n)) (\<lambda>ds. case ds of
           Inl _ \<Rightarrow> ret ()
         | Inr [] \<Rightarrow> ret ()
         | Inr (delivery # _) \<Rightarrow>
             if is_nil producer then ret ()
             else bnd (Producer_Publish L producer (TopicForChannel (n_Channel n))
                         (stored_message n delivery)) (\<lambda>p. case p of
               Inl _ \<Rightarrow> ret ()
             | Inr _ \<Rightarrow>
                 bnd (NotificationRepository_UpdateStatus (n_ID n) StatusQueued) (\<lambda>_.
                 bnd (NotificationDeliveryRepository_SetStatus (d_ID delivery) StatusQueued) (\<lambda>_.
                 bnd (ScheduledNotificationRepository_MarkFired (s_ID sn)) (\<lambda>_.
                 ret ()))))))"

definition Scheduler_tickOnce :: "libs \<Rightarrow> unit iface \<Rightarrow> ('r world, unit) prog" where
  "Scheduler_tickOnce L producer =
     bnd external (\<lambda>c.   \<comment> \<open>\<open>time.Now()\<close>\<close>
     bnd (ScheduledNotificationRepository_GetDueUnfired (c_now c) sched_batchSize) (\<lambda>due. case due of
       Inl _ \<Rightarrow> ret ()
     | Inr sns \<Rightarrow> for_each sns (Scheduler_fireOne L producer)))"

fun Scheduler_Run :: "libs \<Rightarrow> unit iface \<Rightarrow> bool list \<Rightarrow> ('r world, unit) prog" where
  "Scheduler_Run L producer [] = ret ()"
| "Scheduler_Run L producer (tick # rest) =
     (if tick then bnd (Scheduler_tickOnce L producer) (\<lambda>_. Scheduler_Run L producer rest)
      else ret ())"

context db_statements
begin

lemma inv_replayOne [pres]:
  "okst StatusQueued \<Longrightarrow> pres (db_inv J) (Replayer_replayOne L R l p n)"
  unfolding Replayer_replayOne_def by (intro pres) simp

lemma inv_replayer [pres]:
  "okst StatusQueued \<Longrightarrow> pres (db_inv J) (Replayer_Run L R l p ts)"
  by (induction ts) (auto simp: Replayer_replayOnce_def intro!: pres)

lemma inv_fireOne [pres]: "okst StatusQueued \<Longrightarrow> pres (db_inv J) (Scheduler_fireOne L p sn)"
  unfolding Scheduler_fireOne_def by (intro pres) simp

lemma inv_scheduler [pres]: "okst StatusQueued \<Longrightarrow> pres (db_inv J) (Scheduler_Run L p ts)"
  by (induction ts) (auto simp: Scheduler_tickOnce_def intro!: pres)

end

section \<open>A row marked fired has been published\<close>

definition published :: "libs \<Rightarrow> uuid \<Rightarrow> 'r world \<Rightarrow> bool" where
  "published L nid w \<longleftrightarrow> (\<exists>rec\<in>set (w_topics w). kr_key rec = uuid_String L nid)"

definition fired_published :: "libs \<Rightarrow> 'r world \<Rightarrow> bool" where
  "fired_published L w \<longleftrightarrow>
     (\<forall>s\<in>set (scheduled_notifications (w_db w)). s_Fired s \<longrightarrow> published L (s_NotificationID s) w)"

text \<open>The rows read for this tick still name the same notifications.\<close>

definition rows_of :: "scheduled_notification list \<Rightarrow> 'r world \<Rightarrow> bool" where
  "rows_of sns w \<longleftrightarrow>
     (\<forall>sn\<in>set sns. \<forall>s\<in>set (scheduled_notifications (w_db w)). s_ID s = s_ID sn \<longrightarrow>
        s_NotificationID s = s_NotificationID sn)"

lemma published_mono: "set (w_topics w) \<subseteq> set (w_topics w') \<Longrightarrow> published L nid w \<Longrightarrow> published L nid w'"
  by (auto simp: published_def)

text \<open>A computation that keeps a part of the database (the rows the projection reads) and only adds to the topics.\<close>

definition topic_frame :: "(db \<Rightarrow> 'b) \<Rightarrow> ('r world, 'a) prog \<Rightarrow> bool" where
  "topic_frame part m \<longleftrightarrow> (\<forall>w. part (w_db (snd (m w))) = part (w_db w)
     \<and> set (w_topics w) \<subseteq> set (w_topics (snd (m w))))"

named_theorems frames \<open>computations that keep a part of the database and only add to the topics\<close>

lemma topic_frame_steps [frames]:
  "topic_frame part (ret x)" "topic_frame part external" "topic_frame part (redis_call f)"
  by (auto simp: topic_frame_def ret_def external_def redis_call_def bnd_def split: option.split prod.split)

lemma topic_frame_bnd [frames]:
  assumes "topic_frame part m" and "\<And>x. topic_frame part (f x)"
  shows "topic_frame part (bnd m f)"
  unfolding topic_frame_def
proof (intro allI)
  fix w
  obtain o1 w1 where m: "m w = (o1, w1)" by force
  with assms(1) have 1: "part (w_db w1) = part (w_db w)" "set (w_topics w) \<subseteq> set (w_topics w1)"
    by (metis topic_frame_def snd_conv)+
  show "part (w_db (snd (bnd m f w))) = part (w_db w) \<and> set (w_topics w) \<subseteq> set (w_topics (snd (bnd m f w)))"
    using m 1 assms(2) by (cases o1) (auto simp: bnd_def topic_frame_def)
qed

lemma topic_frame_cases [frames]:
  "(\<And>x. topic_frame part (f x)) \<Longrightarrow> (\<And>y. topic_frame part (g y))
     \<Longrightarrow> topic_frame part (case s of Inl x \<Rightarrow> f x | Inr y \<Rightarrow> g y)"
  "topic_frame part a \<Longrightarrow> (\<And>x. topic_frame part (h x)) \<Longrightarrow> topic_frame part (case p of None \<Rightarrow> a | Some x \<Rightarrow> h x)"
  "(\<And>x y. topic_frame part (q x y)) \<Longrightarrow> topic_frame part (case z of (x, y) \<Rightarrow> q x y)"
  by (auto split: sum.split option.split prod.split)

lemma topic_frame_query:
  assumes "\<And>c d. part (snd (s c d)) = part d"
  shows "topic_frame part (query s)"
  using assms by (auto simp: topic_frame_def query_def bnd_def external_def run_stmt_def ret_def case_prod_beta
      split: option.split)

lemma topic_frame_Publish [frames]: "topic_frame part (Producer_Publish L p topic m)"
  by (cases p) (auto simp: topic_frame_def Producer_Publish_def go_defs external_def split: option.split)

abbreviation sched_frame :: "('r world, 'a) prog \<Rightarrow> bool" where
  "sched_frame \<equiv> topic_frame scheduled_notifications"

lemma sched_frame_pres:
  fixes m :: "('r world, 'a) prog"
  assumes "sched_frame m"
  shows "pres (\<lambda>w. fired_published L w \<and> rows_of sns w \<and> (b \<longrightarrow> published L nid w)) m"
proof (rule presI)
  fix w :: "'r world" assume I: "fired_published L w \<and> rows_of sns w \<and> (b \<longrightarrow> published L nid w)"
  let ?w = "snd (m w)"
  have eq: "scheduled_notifications (w_db ?w) = scheduled_notifications (w_db w)"
    and mono: "\<And>x. published L x w \<Longrightarrow> published L x ?w"
    using assms published_mono [of w ?w] by (auto simp: topic_frame_def)
  from I mono show "fired_published L ?w \<and> rows_of sns ?w \<and> (b \<longrightarrow> published L nid ?w)"
    by (simp add: fired_published_def rows_of_def eq)
qed

lemma scheduled_frame [simp]:
  "scheduled_notifications (snd (update_notifications p1 f1 d)) = scheduled_notifications d"
  "scheduled_notifications (snd (update_deliveries p2 f2 d)) = scheduled_notifications d"
  "snd (select g d) = d" "snd (select_one h d) = d" "snd (tagged k d) = snd (k d)"
  by (simp_all add: update_notifications_def update_deliveries_def select_def select_one_def
      tagged_def split: prod.split)

lemma sched_frames:
  "sched_frame (NotificationRepository_GetByID a)"
  "sched_frame (NotificationDeliveryRepository_GetByNotificationID a)"
  "sched_frame (ScheduledNotificationRepository_GetDueUnfired now n)"
  "sched_frame (NotificationRepository_UpdateStatus a st)"
  "sched_frame (NotificationDeliveryRepository_SetStatus a st)"
  unfolding NotificationRepository_GetByID_def NotificationDeliveryRepository_GetByNotificationID_def
    ScheduledNotificationRepository_GetDueUnfired_def NotificationRepository_UpdateStatus_def
    NotificationDeliveryRepository_SetStatus_def
  by (intro frames topic_frame_query; simp)+

lemma publish_published:
  "hoare (\<lambda>w. fired_published L w \<and> rows_of sns w) (Producer_Publish L p topic m)
     (\<lambda>r w. fired_published L w \<and> rows_of sns w
        \<and> ((\<exists>x. r = Inr x) \<longrightarrow> published L (msg_NotificationID m) w))
     (\<lambda>w. fired_published L w \<and> rows_of sns w)"
proof -
  have "hoare (\<lambda>_. True) (Producer_Publish L p topic m)
      (\<lambda>r w. (\<exists>x. r = Inr x) \<longrightarrow> published L (msg_NotificationID m) w) (\<lambda>_. True)"
    by (cases p) (auto simp: hoare_def Producer_Publish_def go_defs external_def published_def
        split: option.split)
  moreover have "hoare (\<lambda>w. fired_published L w \<and> rows_of sns w) (Producer_Publish L p topic m)
      (\<lambda>_ w. fired_published L w \<and> rows_of sns w) (\<lambda>w. fired_published L w \<and> rows_of sns w)"
    unfolding hoare_pres using sched_frame_pres [OF topic_frame_Publish, of L sns False] by simp
  from hoare_conj [OF this calculation] show ?thesis by (rule hoare_conseq) auto
qed

lemma mark_fired_rows:
  assumes "fired_published L w" "rows_of sns w" "published L (s_NotificationID sn) w" "sn \<in> set sns"
    and eq: "scheduled_notifications (w_db w')
      = upd_where (\<lambda>s. s_ID s = s_ID sn) (\<lambda>s. s\<lparr>s_Fired := True\<rparr>) (scheduled_notifications (w_db w))"
    and tp: "w_topics w' = w_topics w"
  shows "fired_published L w' \<and> rows_of sns w'"
proof -
  have pub: "published L x w' = published L x w" for x using tp by (simp add: published_def)
  have "published L (s_NotificationID s) w \<and> (\<forall>sn\<in>set sns. s_ID s = s_ID sn \<longrightarrow> s_NotificationID s = s_NotificationID sn)"
    if "s \<in> set (scheduled_notifications (w_db w'))" "s_Fired s \<or> s_ID s = s_ID sn" for s
  proof -
    from that obtain q where q: "q \<in> set (scheduled_notifications (w_db w))" "s_ID s = s_ID q"
        "s_NotificationID s = s_NotificationID q" "s_Fired q \<or> s_ID q = s_ID sn"
      by (auto simp: eq in_upd_where split: if_splits)
    then show ?thesis using assms(1-4) by (auto simp: fired_published_def rows_of_def)
  qed
  moreover have "rows_of sns w'"
    using assms(2) by (auto simp: rows_of_def eq in_upd_where split: if_splits)
  ultimately show ?thesis by (simp add: fired_published_def pub)
qed

lemma mark_fired:
  assumes "sn \<in> set sns"
  shows "hoare (\<lambda>w. fired_published L w \<and> rows_of sns w \<and> (True \<longrightarrow> published L (s_NotificationID sn) w))
           (ScheduledNotificationRepository_MarkFired (s_ID sn))
           (\<lambda>_ w. fired_published L w \<and> rows_of sns w) (\<lambda>w. fired_published L w \<and> rows_of sns w)"
proof (unfold hoare_def, intro allI impI)
  fix w :: "'r world"
  assume I: "fired_published L w \<and> rows_of sns w \<and> (True \<longrightarrow> published L (s_NotificationID sn) w)"
  let ?m = "ScheduledNotificationRepository_MarkFired (s_ID sn)"
  let ?up = "w\<lparr>w_tick := Suc (w_tick w), w_db := snd (update_scheduled (\<lambda>s. s_ID s = s_ID sn)
      (\<lambda>s. s\<lparr>s_Fired := True\<rparr>) (w_db w))\<rparr>"
  have "fired_published L ?up \<and> rows_of sns ?up"
    using I assms by (intro mark_fired_rows [of L w sns sn]) (simp_all add: update_scheduled_def)
  moreover have "fired_published L (w\<lparr>w_tick := Suc (w_tick w)\<rparr>) \<and> rows_of sns (w\<lparr>w_tick := Suc (w_tick w)\<rparr>)"
    using I by (simp add: fired_published_def rows_of_def published_def)
  ultimately show "case ?m w of (Val x, w') \<Rightarrow> fired_published L w' \<and> rows_of sns w'
      | (Panic, w') \<Rightarrow> fired_published L w' \<and> rows_of sns w'"
    by (simp add: ScheduledNotificationRepository_MarkFired_def go_defs query_def external_def
        run_stmt_def tagged_def case_prod_beta split: option.split)
qed

lemma get_by_id:
  "hoare P (NotificationRepository_GetByID a) (\<lambda>r _. \<forall>n. r = Inr n \<longrightarrow> n_ID n = a) (\<lambda>_. True)"
  by (auto simp: hoare_def NotificationRepository_GetByID_def go_defs query_def external_def
      run_stmt_def select_one_def wrap_not_found_def dest: find_SomeD split: option.splits)

lemma sched_hoare:
  "sched_frame m \<Longrightarrow> hoare (\<lambda>w. fired_published L w \<and> rows_of sns w) m
     (\<lambda>_ w. fired_published L w \<and> rows_of sns w) (\<lambda>w. fired_published L w \<and> rows_of sns w)"
  using sched_frame_pres [of m L sns False] by (simp add: hoare_pres)

lemma sched_hoare_published:
  "sched_frame m \<Longrightarrow>
   hoare (\<lambda>w. fired_published L w \<and> rows_of sns w \<and> (True \<longrightarrow> published L nid w)) m
     (\<lambda>_ w. fired_published L w \<and> rows_of sns w \<and> (True \<longrightarrow> published L nid w))
     (\<lambda>w. fired_published L w \<and> rows_of sns w)"
  using sched_frame_pres [of m L sns True nid] by (intro hoare_keep) simp_all

lemma fireOne_fired:
  assumes "sn \<in> set sns"
  shows "pres (\<lambda>w. fired_published L w \<and> rows_of sns w) (Scheduler_fireOne L p sn)"
proof -
  let ?I = "\<lambda>w. fired_published L w \<and> rows_of sns w"
  let ?P = "\<lambda>w. fired_published L w \<and> rows_of sns w \<and> (True \<longrightarrow> published L (s_NotificationID sn) w)"
  show ?thesis
    unfolding hoare_pres [symmetric] Scheduler_fireOne_def
  proof (rule hoare_pure [OF sched_hoare [OF sched_frames(1)] get_by_id], rule hoare_case_sum)
    fix r :: "repo_error + notification" and n assume "\<forall>n. r = Inr n \<longrightarrow> n_ID n = s_NotificationID sn" and "r = Inr n"
    then have n: "n_ID n = s_NotificationID sn" by simp
    have pub: "hoare ?I (Producer_Publish L p t (stored_message n d))
        (\<lambda>r w. ?I w \<and> ((\<exists>x. r = Inr x) \<longrightarrow> published L (s_NotificationID sn) w)) ?I" for t d
      using publish_published [of L sns p t "stored_message n d"]
      by (rule hoare_conseq) (auto simp: stored_message_def n)
    show "hoare ?I (bnd (NotificationDeliveryRepository_GetByNotificationID (n_ID n)) (\<lambda>ds. case ds of
           Inl _ \<Rightarrow> ret ()
         | Inr [] \<Rightarrow> ret ()
         | Inr (delivery # _) \<Rightarrow>
             if is_nil p then ret ()
             else bnd (Producer_Publish L p (TopicForChannel (n_Channel n))
                         (stored_message n delivery)) (\<lambda>p. case p of
               Inl _ \<Rightarrow> ret ()
             | Inr _ \<Rightarrow>
                 bnd (NotificationRepository_UpdateStatus (n_ID n) StatusQueued) (\<lambda>_.
                 bnd (NotificationDeliveryRepository_SetStatus (d_ID delivery) StatusQueued) (\<lambda>_.
                 bnd (ScheduledNotificationRepository_MarkFired (s_ID sn)) (\<lambda>_.
                 ret ())))))) (\<lambda>_. ?I) ?I"
      apply (rule hoare_bnd [OF sched_hoare [OF sched_frames(2)]])
      apply (intro hoare_case_sum hoare_case_list hoare_if hoare_ret)
         apply simp_all
      apply (rule hoare_bnd [OF pub])
      apply (intro hoare_case_sum hoare_ret)
       apply simp
      apply (rule hoare_conseq [where P = ?P and Q = "\<lambda>_. ?I" and E = ?I])
         apply (rule hoare_bnd [OF sched_hoare_published [OF sched_frames(4)]])
         apply (rule hoare_bnd [OF sched_hoare_published [OF sched_frames(5)]])
         apply (rule hoare_bnd [OF mark_fired [OF assms]])
         apply (rule hoare_ret)
         apply simp_all
      done
  qed (auto intro: hoare_ret)
qed


lemma due_rows:
  "hoare (\<lambda>w. db_ok (w_db w) \<and> fired_published L w) (ScheduledNotificationRepository_GetDueUnfired now k)
     (\<lambda>r w. db_ok (w_db w) \<and> (\<forall>sns. r = Inr sns \<longrightarrow> fired_published L w \<and> rows_of sns w) \<and> fired_published L w)
     (\<lambda>w. db_ok (w_db w) \<and> fired_published L w)"
proof -
  have "rows_of (take k (order_by s_ScheduledAt (filter (due_unfired now) (scheduled_notifications (w_db w)))))
      (w\<lparr>w_tick := n\<rparr>)" if "db_ok (w_db w)" for w :: "'r world" and n
    using that by (auto simp: rows_of_def db_ok_defs dest!: in_set_takeD dest: unique_onD)
  then show ?thesis
    by (auto simp: hoare_def ScheduledNotificationRepository_GetDueUnfired_def go_defs query_def
        external_def run_stmt_def select_def wrap_def fired_published_def published_def split: option.split)
qed

lemma tickOnce_fired:
  "pres (\<lambda>w. db_ok (w_db w) \<and> fired_published L w) (Scheduler_tickOnce L p)"
  unfolding hoare_pres [symmetric] Scheduler_tickOnce_def
proof (rule hoare_bnd [where R = "\<lambda>_ w. db_ok (w_db w) \<and> fired_published L w"], goal_cases)
  case 1
  show ?case
    unfolding hoare_pres by (rule pres_external) (simp add: fired_published_def published_def)
next
  case (2 c)
  show ?case
  proof (rule hoare_bnd [OF due_rows], rule hoare_case_sum)
    fix r :: "repo_error + scheduled_notification list" and sns assume r: "r = Inr sns"
    have "pres (\<lambda>w. db_ok (w_db w) \<and> (fired_published L w \<and> rows_of sns w))
        (for_each sns (Scheduler_fireOne L p))"
      by (rule pres_conj) (auto intro: schema.inv_fireOne pres_for_each fireOne_fired pres_for_each_set)
    then have "hoare (\<lambda>w. db_ok (w_db w) \<and> (fired_published L w \<and> rows_of sns w))
        (for_each sns (Scheduler_fireOne L p)) (\<lambda>_ w. db_ok (w_db w) \<and> fired_published L w)
        (\<lambda>w. db_ok (w_db w) \<and> fired_published L w)"
      unfolding hoare_pres [symmetric] by (rule hoare_conseq) auto
    then show "hoare (\<lambda>w. db_ok (w_db w) \<and> (\<forall>sns. r = Inr sns \<longrightarrow> fired_published L w \<and> rows_of sns w)
          \<and> fired_published L w)
        (for_each sns (Scheduler_fireOne L p)) (\<lambda>_ w. db_ok (w_db w) \<and> fired_published L w)
        (\<lambda>w. db_ok (w_db w) \<and> fired_published L w)"
      by (rule hoare_conseq) (auto simp: r)
  qed (auto intro: hoare_ret)
qed

section \<open>Firing one notification\<close>

lemma fireOne_run:
  assumes "\<And>i. \<not> fails_at w i"
    and "find (\<lambda>n. n_ID n = s_NotificationID sn) (notifications (w_db w)) = Some n"
    and "order_by d_CreatedAt (filter (\<lambda>r. d_NotificationID r = n_ID n) (notification_deliveries (w_db w)))
           = delivery # others"
  shows "\<exists>w'. Scheduler_fireOne L (Object ()) sn w = (Val (), w')
    \<and> w_topics w' = w_topics w @ [\<lparr>kr_topic = TopicForChannel (n_Channel n),
          kr_key = uuid_String L (s_NotificationID sn),
          kr_headers = [(''notification_id'', uuid_String L (s_NotificationID sn)), (''channel'', n_Channel n)],
          kr_value = Message_Marshal L (stored_message n delivery)\<rparr>]
    \<and> w_db w' = (w_db w)\<lparr>
          notifications := upd_where (\<lambda>r. n_ID r = n_ID n) (\<lambda>r. r\<lparr>n_Status := StatusQueued\<rparr>)
            (notifications (w_db w)),
          notification_deliveries := upd_where (\<lambda>r. d_ID r = d_ID delivery) (\<lambda>r. r\<lparr>d_Status := StatusQueued\<rparr>)
            (notification_deliveries (w_db w)),
          scheduled_notifications := upd_where (\<lambda>r. s_ID r = s_ID sn) (\<lambda>r. r\<lparr>s_Fired := True\<rparr>)
            (scheduled_notifications (w_db w))\<rparr>
    \<and> w_env w' = w_env w \<and> w_tick w \<le> w_tick w'"
proof -
  have ok: "c_fail (w_env w (w_tick w + i)) = None" for i using assms(1) by (simp add: fails_at_def)
  have n: "n_ID n = s_NotificationID sn" using find_SomeD [OF assms(2)] by simp
  have env: "c_fail (w_env w (w_tick w)) = None" "c_fail (w_env w (Suc (w_tick w))) = None"
    "c_fail (w_env w (Suc (Suc (w_tick w)))) = None" "c_fail (w_env w (Suc (Suc (Suc (w_tick w))))) = None"
    "c_fail (w_env w (Suc (Suc (Suc (Suc (w_tick w)))))) = None"
    "c_fail (w_env w (Suc (Suc (Suc (Suc (Suc (w_tick w))))))) = None"
    using ok [of 0] ok [of 1] ok [of 2] ok [of 3] ok [of 4] ok [of 5] by (simp_all add: eval_nat_numeral)
  show ?thesis
    using assms(2,3) n
    by (simp add: Scheduler_fireOne_def NotificationRepository_GetByID_def
        NotificationDeliveryRepository_GetByNotificationID_def NotificationRepository_UpdateStatus_def
        NotificationDeliveryRepository_SetStatus_def ScheduledNotificationRepository_MarkFired_def
        Producer_Publish_def go_defs query_def external_def run_stmt_def select_def select_one_def
        tagged_def wrap_def wrap_not_found_def rows_affected_def env update_notifications_def
        update_deliveries_def update_scheduled_def stored_message_def)
qed

section \<open>Properties\<close>

text \<open>C18. Whatever calls fail, and even if a tick panics: a scheduled notification is marked
  fired only after a message for it was published to Kafka, so none is dropped by the scheduler.\<close>

theorem scheduler_fires_only_published:
  assumes "db_ok (w_db w)" and "fired_published L w" and "Scheduler_Run L p ticks w = (r, w')"
  shows "fired_published L w'"
proof -
  have "pres (\<lambda>w. db_ok (w_db w) \<and> fired_published L w) (Scheduler_Run L p ticks)"
    by (induction ticks) (auto intro!: pres tickOnce_fired)
  from presE [OF this assms(3)] assms(1,2) show ?thesis by simp
qed

text \<open>Without failures, firing a scheduled notification publishes its message exactly
  once, on the topic of its channel, sets the notification and its first delivery to queued and marks the
  row fired.\<close>

theorem fireOne_effect:
  assumes "\<And>i. \<not> fails_at w i"
    and "find (\<lambda>n. n_ID n = s_NotificationID sn) (notifications (w_db w)) = Some n"
    and "order_by d_CreatedAt (filter (\<lambda>r. d_NotificationID r = n_ID n) (notification_deliveries (w_db w)))
           = delivery # others"
  shows "\<exists>w'. Scheduler_fireOne L (Object ()) sn w = (Val (), w')
    \<and> w_topics w' = w_topics w @ [\<lparr>kr_topic = TopicForChannel (n_Channel n),
          kr_key = uuid_String L (s_NotificationID sn),
          kr_headers = [(''notification_id'', uuid_String L (s_NotificationID sn)), (''channel'', n_Channel n)],
          kr_value = Message_Marshal L (stored_message n delivery)\<rparr>]
    \<and> w_db w' = (w_db w)\<lparr>
          notifications := upd_where (\<lambda>r. n_ID r = n_ID n) (\<lambda>r. r\<lparr>n_Status := StatusQueued\<rparr>)
            (notifications (w_db w)),
          notification_deliveries := upd_where (\<lambda>r. d_ID r = d_ID delivery) (\<lambda>r. r\<lparr>d_Status := StatusQueued\<rparr>)
            (notification_deliveries (w_db w)),
          scheduled_notifications := upd_where (\<lambda>r. s_ID r = s_ID sn) (\<lambda>r. r\<lparr>s_Fired := True\<rparr>)
            (scheduled_notifications (w_db w))\<rparr>"
  using fireOne_run [OF assms, of L] by blast

text \<open>A database with one tenant and one notification due.\<close>

definition due_tenant :: tenant where
  "due_tenant = \<lparr>t_ID = 1, t_Name = ''acme'', t_GlobalRateCap = 10, t_CreatedAt = 0\<rparr>"

definition due_notification :: notification where
  "due_notification = notification_row 0 \<lparr>p_ID = 2, p_TenantID = 1, p_Channel = ChannelSMS,
     p_Priority = PriorityNormal, p_Status = StatusPending, p_RecipientID = ''u'', p_RecipientEmail = [],
     p_RecipientPhone = ''5550100'', p_RecipientToken = [], p_TemplateID = None, p_Subject = [],
     p_Body = ''hello'', p_Metadata = None, p_IdempotencyKey = [], p_ScheduledAt = Some 5\<rparr>"

definition due_delivery :: notification_delivery where
  "due_delivery = \<lparr>d_ID = 3, d_NotificationID = 2, d_Channel = ChannelSMS, d_Status = StatusPending,
     d_Attempts = 0, d_ErrorMessage = [], d_DeliveredAt = None, d_CreatedAt = 0\<rparr>"

definition due_row :: scheduled_notification where
  "due_row = \<lparr>s_ID = 4, s_NotificationID = 2, s_ScheduledAt = 5, s_Fired = False, s_CreatedAt = 0\<rparr>"

definition due_db :: db where
  "due_db = empty_db\<lparr>tenants := [due_tenant], notifications := [due_notification],
     notification_deliveries := [due_delivery], scheduled_notifications := [due_row]\<rparr>"

lemmas due_defs = due_db_def due_row_def due_delivery_def due_notification_def due_tenant_def
  notification_row_def empty_db_def

lemma due_db_ok: "db_ok due_db"
  by (simp add: db_ok_defs due_defs unique_on_def with_idem_def)

theorem scheduler_fires_only_published_witness:
  "fired_published bit_libs (snd (Scheduler_Run bit_libs (Object ()) [True, True] (calm_world due_db)))"
proof -
  have "fired_published bit_libs (calm_world due_db)"
    by (simp add: fired_published_def due_defs)
  then show ?thesis
    using scheduler_fires_only_published [of "calm_world due_db" bit_libs "Object ()" "[True, True]"]
      due_db_ok by (simp add: prod_eq_iff)
qed

theorem fireOne_effect_witness:
  "\<exists>w'. Scheduler_fireOne bit_libs (Object ()) due_row (calm_world due_db) = (Val (), w')
     \<and> map kr_topic (w_topics w') = [TopicSMS]
     \<and> map s_Fired (scheduled_notifications (w_db w')) = [True]
     \<and> map n_Status (notifications (w_db w')) = [StatusQueued]"
  using fireOne_effect [of "calm_world due_db" due_row due_notification due_delivery "[]" bit_libs]
  by (auto simp: due_defs order_by_def TopicForChannel_def calm_world_def fails_at_def calm_env_def)

end
