(* ===== verification/Consumers.thy ===== *)
theory Consumers
  imports Channels Offline Workers
begin

text \<open>
  \<open>backend/internal/kafka/consumers\<close>: the consumer loop with its retries and dead-letter
  hand-off (\<open>consumer.go\<close>) and the handlers of the five topics.  A fetched Kafka message is
  its offset and its value (\<open>None\<close>: bytes that are not JSON).  \<open>Consumer_Run\<close> runs over the
  results of successive \<open>FetchMessage\<close> calls; an acknowledged commit is the event
  \<open>Committed\<close>.  \<open>ctx.Err()\<close> and \<open><-ctx.Done()\<close> are \<open>c_done\<close> of an external call.
\<close>

section \<open>The consumer\<close>

type_synonym 'r HandlerFunc = "message \<Rightarrow> ('r world, string + unit) prog"

record 'r consumer =
  cs_topic :: string
  cs_handler :: "'r HandlerFunc"
  cs_producer :: "unit iface"

record kafka_message =
  km_Offset :: int
  km_Value :: "json option"

definition maxRetries :: nat where
  "maxRetries = 3"

definition second :: time where
  "second = 1000000000"

definition retryBackoff :: "time list" where
  "retryBackoff = [second, 2 * second, 4 * second]"

definition fetchErrorBackoff :: time where
  "fetchErrorBackoff = 2 * second"

datatype retry_result = Succeeded | ShutDown | Exhausted string

text \<open>The loop \<open>for attempt := 1; attempt <= maxRetries; attempt++\<close>; the second argument is
  the number of attempts left after this one.\<close>

fun retry_loop :: "string \<Rightarrow> 'r HandlerFunc \<Rightarrow> message \<Rightarrow> nat \<Rightarrow> ('r world, retry_result) prog" where
  "retry_loop topic handler msg left =
     (let attempt = maxRetries - left in
      bnd (handler msg) (\<lambda>r. case r of
        Inr _ \<Rightarrow> ret Succeeded
      | Inl err \<Rightarrow>
          bnd (if attempt > 1 then emit (CounterInc ''notifyx_retries_total'' [topic]) else ret ()) (\<lambda>_.
          case left of
            0 \<Rightarrow> ret (Exhausted err)
          | Suc left' \<Rightarrow>
              bnd external (\<lambda>c. if c_done c then ret ShutDown
                else bnd (emit (Slept (retryBackoff ! (attempt - 1)))) (\<lambda>_.
                     retry_loop topic handler msg left')))))"

declare retry_loop.simps [simp del]

definition Consumer_handleWithRetry :: "libs \<Rightarrow> 'r consumer \<Rightarrow> kafka_message \<Rightarrow> ('r world, bool) prog" where
  "Consumer_handleWithRetry L cs km =
     (case Option.bind (km_Value km) (Message_Unmarshal L) of
        None \<Rightarrow> ret True
      | Some msg \<Rightarrow>
          bnd (retry_loop (cs_topic cs) (cs_handler cs) msg (maxRetries - 1)) (\<lambda>r. case r of
            Succeeded \<Rightarrow> ret True
          | ShutDown \<Rightarrow> ret False
          | Exhausted lastErr \<Rightarrow>
              if is_nil (cs_producer cs) then ret True
              else bnd (Producer_Publish L (cs_producer cs) TopicDLQ (msg\<lparr>msg_LastError := lastErr\<rparr>)) (\<lambda>p.
                case p of
                  Inl _ \<Rightarrow> ret False
                | Inr _ \<Rightarrow> bnd (emit (CounterInc ''notifyx_dlq_total'' [cs_topic cs])) (\<lambda>_. ret True))))"

datatype fetch = Fetched kafka_message | FetchError

fun Consumer_Run :: "libs \<Rightarrow> 'r consumer \<Rightarrow> fetch list \<Rightarrow> ('r world, unit) prog" where
  "Consumer_Run L cs [] = ret ()"
| "Consumer_Run L cs (FetchError # fs) =
     bnd external (\<lambda>c. if c_done c then ret ()
       else bnd external (\<lambda>c. if c_done c then ret ()
         else bnd (emit (Slept fetchErrorBackoff)) (\<lambda>_. Consumer_Run L cs fs)))"
| "Consumer_Run L cs (Fetched km # fs) =
     bnd (Consumer_handleWithRetry L cs km) (\<lambda>ok.
       if \<not> ok then bnd external (\<lambda>c. if c_done c then ret () else Consumer_Run L cs fs)
       else bnd external (\<lambda>c. case c_fail c of   \<comment> \<open>\<open>CommitMessages\<close>\<close>
              None \<Rightarrow> bnd (emit (Committed (cs_topic cs) (km_Offset km))) (\<lambda>_. Consumer_Run L cs fs)
            | Some _ \<Rightarrow> bnd external (\<lambda>c. if c_done c then ret () else Consumer_Run L cs fs)))"

section \<open>The handlers\<close>

text \<open>A provider call between two clock readings, recorded in \<open>metrics.ChannelSendDuration\<close>.\<close>

definition timed_send :: "channel \<Rightarrow> ('r world, 'a) prog \<Rightarrow> ('r world, 'a) prog" where
  "timed_send ch send =
     bnd external (\<lambda>start.
     bnd send (\<lambda>r.
     bnd external (\<lambda>now.
     bnd (emit (Observed ''notifyx_channel_send_duration_seconds'' [ch] (c_now now - c_now start))) (\<lambda>_.
     ret r))))"

definition email_handler :: "email_client \<Rightarrow> 'r HandlerFunc" where
  "email_handler client msg =
     (if msg_RecipientEmail msg = [] then ret (Inl ''email handler: missing recipient_email'')
      else bnd (timed_send ChannelEmail (Email_Send client (msg_RecipientEmail msg) (msg_Subject msg) (msg_Body msg))) (\<lambda>r. case r of
        Inl e \<Rightarrow> ret (Inl (''resend send failed: '' @ e))
      | Inr _ \<Rightarrow>
          bnd (NotificationDeliveryRepository_UpdateStatus (msg_DeliveryID msg) StatusDelivered []) (\<lambda>_.
          bnd (count_status ChannelEmail StatusDelivered) (\<lambda>_. ret (Inr ())))))"

definition sms_handler :: "sms_client \<Rightarrow> 'r HandlerFunc" where
  "sms_handler client msg =
     (if msg_RecipientPhone msg = [] then ret (Inl ''sms handler: missing recipient_phone'')
      else bnd (timed_send ChannelSMS (Sms_Send client (msg_RecipientPhone msg) (msg_Body msg))) (\<lambda>r. case r of
        Inl e \<Rightarrow> ret (Inl (''fast2sms send failed: '' @ e))
      | Inr _ \<Rightarrow>
          bnd (NotificationDeliveryRepository_UpdateStatus (msg_DeliveryID msg) StatusDelivered []) (\<lambda>_.
          bnd (count_status ChannelSMS StatusDelivered) (\<lambda>_. ret (Inr ())))))"

definition push_handler :: "libs \<Rightarrow> fcm_client \<Rightarrow> 'r HandlerFunc" where
  "push_handler L client msg =
     (if msg_RecipientToken msg = [] then ret (Inl ''push handler: missing recipient_token'')
      else bnd (timed_send ChannelPush (Push_Send L client (msg_RecipientToken msg) (msg_Subject msg) (msg_Body msg))) (\<lambda>r. case r of
        Inl e \<Rightarrow> ret (Inl (''fcm send failed: '' @ e))
      | Inr _ \<Rightarrow>
          bnd (NotificationDeliveryRepository_UpdateStatus (msg_DeliveryID msg) StatusDelivered []) (\<lambda>_.
          bnd (count_status ChannelPush StatusDelivered) (\<lambda>_. ret (Inr ())))))"

text \<open>\<open>json.Marshal(inAppPayload{...})\<close>.\<close>

definition inapp_payload :: "libs \<Rightarrow> message \<Rightarrow> time \<Rightarrow> json" where
  "inapp_payload L msg sentAt = JObject (
     [(''notification_id'', JString (uuid_String L (msg_NotificationID msg)))] @
     omitempty ''subject'' (msg_Subject msg) @
     [(''body'', JString (msg_Body msg))] @
     omitempty_map ''metadata'' (msg_Metadata msg) @
     [(''sent_at'', JString (time_Text L sentAt))])"

text \<open>The queue is nil (no Redis), or an \<open>*offlinequeue.Queue\<close>; a nil pointer in the interface
  is turned into a nil interface first.\<close>

definition inapp_handler :: "libs \<Rightarrow> 'r redis \<Rightarrow> unit iface \<Rightarrow> 'r HandlerFunc" where
  "inapp_handler L R queue msg =
     (let queue = (case queue of NilPointer \<Rightarrow> NilInterface | q \<Rightarrow> q);
          tenant = uuid_String L (msg_TenantID msg); user = msg_RecipientID msg in
      if user = [] then ret (Inl ''inapp handler: missing recipient_id'')
      else bnd external (\<lambda>c.   \<comment> \<open>\<open>time.Now()\<close>\<close>
        let payload = inapp_payload L msg (c_now c) in
        bnd (on_hub (Hub_SendToUser tenant user payload)) (\<lambda>sent.
          if sent then
            bnd (NotificationDeliveryRepository_UpdateStatus (msg_DeliveryID msg) StatusDelivered []) (\<lambda>_.
            ret (Inr ()))
          else if is_nil queue then
            ret (Inl ''inapp handler: recipient offline and no offline queue configured'')
          else bnd (Queue_Push R tenant user payload) (\<lambda>r. case r of
            Inl e \<Rightarrow> ret (Inl (''inapp handler: offline queue push failed: '' @ e))
          | Inr _ \<Rightarrow>
              bnd (NotificationDeliveryRepository_SetStatus (msg_DeliveryID msg) StatusQueued) (\<lambda>_.
              ret (Inr ()))))))"

definition dlq_reason :: "message \<Rightarrow> string" where
  "dlq_reason msg = (if msg_LastError msg = [] then ''exhausted delivery retries (no error recorded)''
                     else msg_LastError msg)"

definition dlq_handler :: "'r HandlerFunc" where
  "dlq_handler msg =
     bnd (DLQRepository_Create msg (dlq_reason msg)) (\<lambda>r. case r of
       Inl _ \<Rightarrow> ret (Inl ''persist to dlq_messages'')
     | Inr _ \<Rightarrow>
         bnd (NotificationDeliveryRepository_UpdateStatus (msg_DeliveryID msg) StatusFailed (dlq_reason msg)) (\<lambda>_.
         bnd (NotificationRepository_UpdateStatus (msg_NotificationID msg) StatusFailed) (\<lambda>_.
         bnd (count_status (msg_Channel msg) StatusFailed) (\<lambda>_. ret (Inr ())))))"

definition NewEmailConsumer :: "unit iface \<Rightarrow> email_client \<Rightarrow> 'r consumer" where
  "NewEmailConsumer pr client = \<lparr>cs_topic = TopicEmail, cs_handler = email_handler client, cs_producer = pr\<rparr>"

definition NewSMSConsumer :: "unit iface \<Rightarrow> sms_client \<Rightarrow> 'r consumer" where
  "NewSMSConsumer pr client = \<lparr>cs_topic = TopicSMS, cs_handler = sms_handler client, cs_producer = pr\<rparr>"

definition NewPushConsumer :: "libs \<Rightarrow> unit iface \<Rightarrow> fcm_client \<Rightarrow> 'r consumer" where
  "NewPushConsumer L pr client =
     \<lparr>cs_topic = TopicPush, cs_handler = push_handler L client, cs_producer = pr\<rparr>"

definition NewInAppConsumer :: "libs \<Rightarrow> 'r redis \<Rightarrow> unit iface \<Rightarrow> unit iface \<Rightarrow> 'r consumer" where
  "NewInAppConsumer L R pr queue =
     \<lparr>cs_topic = TopicInApp, cs_handler = inapp_handler L R queue, cs_producer = pr\<rparr>"

definition NewDLQConsumer :: "'r consumer" where
  "NewDLQConsumer = \<lparr>cs_topic = TopicDLQ, cs_handler = dlq_handler, cs_producer = NilInterface\<rparr>"

section \<open>Invariants\<close>

lemma pres_case_retry [pres]:
  "pres I a \<Longrightarrow> pres I b \<Longrightarrow> (\<And>e. pres I (f e)) \<Longrightarrow>
   pres I (case x of Succeeded \<Rightarrow> a | ShutDown \<Rightarrow> b | Exhausted e \<Rightarrow> f e)"
  by (cases x) auto

lemma db_retry_loop:
  "(\<And>m. pres (db_inv J) (h m)) \<Longrightarrow> pres (db_inv J) (retry_loop topic h msg left)"
  by (induction left) (auto simp: retry_loop.simps [of topic h msg] Let_def intro!: pres)

lemma db_Consumer_Run:
  assumes "\<And>m. pres (db_inv J) (cs_handler cs m)"
  shows "pres (db_inv J) (Consumer_Run L cs fs)"
proof (induction fs)
  case (Cons f fs)
  have "pres (db_inv J) (Consumer_handleWithRetry L cs km)" for km
    unfolding Consumer_handleWithRetry_def by (intro pres db_retry_loop assms)
  with Cons show ?case by (cases f) (auto intro!: pres)
qed (auto intro: pres)

context db_statements
begin

lemma inv_handlers [pres]:
  "pres (db_inv J) (email_handler ec m)" "pres (db_inv J) (sms_handler sc m)"
  "pres (db_inv J) (push_handler L fc m)" "pres (db_inv J) (inapp_handler L R q m)"
  unfolding email_handler_def sms_handler_def push_handler_def inapp_handler_def timed_send_def Let_def
  by (intro pres)+

lemma inv_dlq_handler [pres]: "okst StatusFailed \<Longrightarrow> pres (db_inv J) (dlq_handler m)"
  unfolding dlq_handler_def by (intro pres) simp

lemma inv_consumers [pres]:
  "pres (db_inv J) (Consumer_Run L (NewEmailConsumer p ec) fs)"
  "pres (db_inv J) (Consumer_Run L (NewSMSConsumer p sc) fs)"
  "pres (db_inv J) (Consumer_Run L (NewPushConsumer L p fc) fs)"
  "pres (db_inv J) (Consumer_Run L (NewInAppConsumer L R p q) fs)"
  "okst StatusFailed \<Longrightarrow> pres (db_inv J) (Consumer_Run L NewDLQConsumer fs)"
  by (rule db_Consumer_Run,
      simp add: NewEmailConsumer_def NewSMSConsumer_def NewPushConsumer_def NewInAppConsumer_def
        NewDLQConsumer_def inv_handlers inv_dlq_handler)+

end

section \<open>Properties\<close>

lemma retry_loop_success:
  assumes "\<And>w w'. handler msg w = (Val (Inr ()), w') \<Longrightarrow> G w'"
    and "retry_loop topic handler msg left w = (Val Succeeded, w')"
  shows "G w'"
  using assms(2)
proof (induction left arbitrary: w)
  case 0
  then show ?case
    by (subst (asm) retry_loop.simps)
       (auto simp: Let_def ret_def elim!: bnd_ValE dest: assms(1) split: sum.splits)
next
  case (Suc left)
  from Suc.prems show ?case
    by (subst (asm) retry_loop.simps)
       (auto simp: Let_def ret_def elim!: bnd_ValE split: sum.splits if_splits;
        rule Suc.IH assms(1); assumption)
qed

definition dlq_record :: "libs \<Rightarrow> message \<Rightarrow> krecord" where
  "dlq_record L msg = \<lparr>kr_topic = TopicDLQ, kr_key = uuid_String L (msg_NotificationID msg),
     kr_headers = [(''notification_id'', uuid_String L (msg_NotificationID msg)), (''channel'', msg_Channel msg)],
     kr_value = Message_Marshal L msg\<rparr>"



text \<open>The DLQ consumer, given the record a channel consumer published, stores a
  dead letter with the recorded error and three attempts, and marks the delivery and the notification
  failed.\<close>

theorem dead_letter_recorded:
  assumes "uuid_library L" and "\<And>i. \<not> fails_at w i"
    and "msg_NotificationID msg \<in> notification_ids (w_db w)"
    and "c_uuid (w_env w (w_tick w)) \<notin> q_ID ` set (dlq_messages (w_db w))"
    and "km_Value km = Some (Message_Marshal L msg)"
  shows "\<exists>w'. Consumer_handleWithRetry L NewDLQConsumer km w = (Val True, w')
    \<and> w_db w' = (w_db w)\<lparr>
        dlq_messages := dlq_messages (w_db w) @ [\<lparr>q_ID = c_uuid (w_env w (w_tick w)),
          q_NotificationID = msg_NotificationID msg, q_Channel = msg_Channel msg,
          q_Error = dlq_reason msg, q_Attempts = 3, q_LastTriedAt = now_at w 0, q_CreatedAt = now_at w 0\<rparr>],
        notification_deliveries := upd_where (\<lambda>r. d_ID r = msg_DeliveryID msg)
          (attempt_outcome (now_at w 1) StatusFailed (dlq_reason msg)) (notification_deliveries (w_db w)),
        notifications := upd_where (\<lambda>n. n_ID n = msg_NotificationID msg)
          (\<lambda>n. n\<lparr>n_Status := StatusFailed\<rparr>) (notifications (w_db w))\<rparr>"
proof -
  have ok: "c_fail (w_env w (w_tick w + i)) = None" for i using assms(2) by (simp add: fails_at_def)
  have env: "c_fail (w_env w (w_tick w)) = None" "c_fail (w_env w (Suc (w_tick w))) = None"
    "c_fail (w_env w (Suc (Suc (w_tick w)))) = None"
    using ok [of 0] ok [of 1] ok [of 2] by (simp_all add: numeral_2_eq_2)
  define m where "m = msg\<lparr>msg_Metadata := norm_metadata (msg_Metadata msg)\<rparr>"
  have dec: "Option.bind (km_Value km) (Message_Unmarshal L) = Some m"
    using assms(5) uuid_library.unmarshal_marshal [OF assms(1)] by (simp add: m_def)
  have fields: "msg_NotificationID m = msg_NotificationID msg" "msg_Channel m = msg_Channel msg"
    "msg_DeliveryID m = msg_DeliveryID msg" "dlq_reason m = dlq_reason msg"
    by (simp_all add: m_def dlq_reason_def)
  show ?thesis
    using assms(3,4) dec
    by (simp add: Consumer_handleWithRetry_def NewDLQConsumer_def retry_loop.simps Let_def dlq_handler_def
        DLQRepository_Create_def NotificationDeliveryRepository_UpdateStatus_def
        NotificationRepository_UpdateStatus_def go_defs query_def external_def run_stmt_def env
        insert_dlq_def ins_def wrap_def tagged_def rows_affected_def update_deliveries_def
        update_notifications_def count_status_def emit_def fields now_at_def)
qed

definition acknowledged :: "'r world \<Rightarrow> string \<Rightarrow> int \<Rightarrow> bool" where
  "acknowledged w topic off \<longleftrightarrow> (\<exists>o'. off \<le> o' \<and> Committed topic o' \<in> set (w_events w))"

text \<open>Leaving an offset uncommitted does not bring the message back once a later
  message is committed: Kafka's committed offset then covers both.  Here the first message was
  neither handled nor dead-lettered, the second was handled, and the consumer acknowledges past
  the first.\<close>

theorem unhandled_message_acknowledged:
  assumes "Consumer_handleWithRetry L cs km1 w = (Val False, w1)" and "\<not> c_done (w_env w1 (w_tick w1))"
    and "Consumer_handleWithRetry L cs km2 (w1\<lparr>w_tick := Suc (w_tick w1)\<rparr>) = (Val True, w2)"
    and "\<not> fails_at w2 0" and "km_Offset km1 < km_Offset km2"
  shows "\<exists>w'. Consumer_Run L cs [Fetched km1, Fetched km2] w = (Val (), w')
           \<and> acknowledged w' (cs_topic cs) (km_Offset km1)"
  using assms
  by (auto simp: go_defs external_def emit_def fails_at_def acknowledged_def intro!: exI [of _ "km_Offset km2"])

section \<open>Witnesses\<close>

text \<open>An e-mail message without a recipient address, and the Kafka record that carries it.\<close>

definition stray_message :: message where
  "stray_message = zero_message\<lparr>msg_NotificationID := 2, msg_DeliveryID := 3, msg_TenantID := 1,
     msg_Channel := ChannelEmail, msg_Body := ''hello''\<rparr>"

definition stray_record :: "int \<Rightarrow> kafka_message" where
  "stray_record off = \<lparr>km_Offset = off, km_Value = Some (Message_Marshal bit_libs stray_message)\<rparr>"

abbreviation demo_consumer :: "keyspace consumer" where
  "demo_consumer \<equiv> NewEmailConsumer (Object ()) \<lparr>ec_apiKey = ''k'', ec_fromEmail = ''f''\<rparr>"

lemma stray_decodes: "Option.bind (km_Value (stray_record off)) (Message_Unmarshal bit_libs) = Some stray_message"
  by (simp add: stray_record_def bit_uuid.unmarshal_marshal)
     (simp add: stray_message_def zero_message_def norm_metadata_def)

lemma stray_fails:
  "cs_handler demo_consumer stray_message w = (Val (Inl ''email handler: missing recipient_email''), w)"
  by (simp add: NewEmailConsumer_def email_handler_def stray_message_def zero_message_def ret_def)

lemma calm_env_simps [simp]:
  "c_fail (calm_env n) = None" "\<not> c_done (calm_env n)" "c_uuid (calm_env n) = of_nat (Suc n)"
  "w_env (calm_world d) = calm_env" "w_tick (calm_world d) = 0" "w_topics (calm_world d) = []"
  "w_events (calm_world d) = []"
  by (simp_all add: calm_env_def calm_world_def)

lemma stray_handled:
  assumes "c_fail (w_env w (Suc (Suc (w_tick w)))) = f" and "\<And>n. \<not> c_done (w_env w n)"
  shows "\<exists>w1. Consumer_handleWithRetry bit_libs demo_consumer (stray_record off) w = (Val (f = None), w1)
           \<and> w_env w1 = w_env w \<and> w_tick w1 = Suc (Suc (Suc (w_tick w)))"
  using assms stray_fails [simplified]
  by (simp add: Consumer_handleWithRetry_def stray_decodes maxRetries_def numeral_2_eq_2 retry_loop.simps
      Let_def emit_def go_defs external_def Producer_Publish_def NewEmailConsumer_def split: option.split)



theorem dead_letter_recorded_witness:
  "\<exists>w'. Consumer_handleWithRetry bit_libs NewDLQConsumer (stray_record 0) (calm_world due_db) = (Val True, w')
     \<and> map n_Status (notifications (w_db w')) = [StatusFailed]
     \<and> map d_Attempts (notification_deliveries (w_db w')) = [1]
     \<and> map q_Attempts (dlq_messages (w_db w')) = [3]"
  using dead_letter_recorded [OF bit_uuid.uuid_library_axioms, of "calm_world due_db" stray_message
      "stray_record 0"]
  by (auto simp: due_defs stray_message_def zero_message_def stray_record_def attempt_outcome_def)

theorem unhandled_message_acknowledged_witness:
  "\<exists>w'. Consumer_Run bit_libs demo_consumer [Fetched (stray_record 7), Fetched \<lparr>km_Offset = 8, km_Value = None\<rparr>]
      ((calm_world empty_db)\<lparr>w_env := calm_env(2 := (calm_env 2)\<lparr>c_fail := Some ''broker down''\<rparr>)\<rparr>) = (Val (), w')
     \<and> acknowledged w' TopicEmail 7"
proof -
  let ?env = "calm_env(2 := (calm_env 2)\<lparr>c_fail := Some ''broker down''\<rparr>)"
  let ?w = "(calm_world empty_db)\<lparr>w_env := ?env\<rparr>"
  have "c_fail (w_env ?w (Suc (Suc (w_tick ?w)))) = Some ''broker down''" and "\<not> c_done (w_env ?w n)" for n
    by (simp_all add: numeral_2_eq_2)
  from stray_handled [OF this, of 7] obtain w1 where
    w1: "Consumer_handleWithRetry bit_libs demo_consumer (stray_record 7) ?w = (Val False, w1)"
    "w_env w1 = ?env" "w_tick w1 = 3"
    by (auto simp: numeral_3_eq_3)
  moreover have "Consumer_handleWithRetry bit_libs demo_consumer \<lparr>km_Offset = 8, km_Value = None\<rparr> w
      = (Val True, w)" for w
    by (simp add: Consumer_handleWithRetry_def ret_def)
  ultimately show ?thesis
    using unhandled_message_acknowledged [of bit_libs demo_consumer "stray_record 7" ?w w1
        "\<lparr>km_Offset = 8, km_Value = None\<rparr>" "w1\<lparr>w_tick := Suc (w_tick w1)\<rparr>"]
    by (simp add: fails_at_def stray_record_def NewEmailConsumer_def)
qed

end
