(* ===== verification/Dedup.thy ===== *)
theory Dedup
  imports Redis
begin

text \<open>
  \<open>backend/internal/dedup/dedup.go\<close>: idempotency keys reserved in Redis.
  \<open>reserveScript\<close> is the Lua script; \<open>Deduplicator_Reserve\<close> and \<open>Deduplicator_Release\<close>
  are the methods.  A run of reservations and releases against one Redis server is
  \<open>dedup_run\<close>; the property of the component is that a claimed key answers with the
  claimant's ID until it is released or its lifetime ends.
\<close>

section \<open>The component\<close>

definition redisKey :: "libs \<Rightarrow> string \<Rightarrow> string" where
  "redisKey L idempotencyKey = ''dedup:'' @ sha256hex L idempotencyKey"

text \<open>The reply pair of the script: the flag, and the stored value (\<open>None\<close> for nil).\<close>

definition reserveScript ::
    "'r redis \<Rightarrow> time \<Rightarrow> string \<Rightarrow> string \<Rightarrow> time \<Rightarrow> 'r \<Rightarrow> (int \<times> string option) \<times> 'r" where
  "reserveScript R t key nid secs r =
     (case SETNX R t key nid r of
        (True, r') \<Rightarrow> ((1, Some []), EXPIRE R t key (secs * 1000000000) r')
      | (False, r') \<Rightarrow> ((0, GET R t key r'), r'))"

text \<open>The method's conversion of the reply: an error, or the pair (claimed, existing ID).\<close>

definition reserve_reply :: "libs \<Rightarrow> int \<times> string option \<Rightarrow> string + bool \<times> uuid" where
  "reserve_reply L reply =
     (if fst reply = 1 then Inr (True, 0)
      else case uuid_Parse L (case snd reply of None \<Rightarrow> [] | Some s \<Rightarrow> s) of
             None \<Rightarrow> Inl ''parse existing notification id''
           | Some u \<Rightarrow> Inr (False, u))"

record deduplicator =
  dd_ttl :: time

definition ttl_seconds :: "deduplicator \<Rightarrow> time" where
  "ttl_seconds dd = dd_ttl dd div 1000000000"

definition Deduplicator_Reserve :: "libs \<Rightarrow> 'r redis \<Rightarrow> deduplicator \<Rightarrow> string \<Rightarrow> uuid
    \<Rightarrow> ('r world, string + bool \<times> uuid) prog" where
  "Deduplicator_Reserve L R dd idempotencyKey nid =
     bnd (redis_call (\<lambda>t. reserveScript R t (redisKey L idempotencyKey) (uuid_String L nid)
                            (ttl_seconds dd)))
       (\<lambda>res. case res of
          Inl e \<Rightarrow> ret (Inl (''dedup reserve: '' @ e))
        | Inr reply \<Rightarrow> ret (reserve_reply L reply))"

definition Deduplicator_Release ::
    "libs \<Rightarrow> 'r redis \<Rightarrow> string \<Rightarrow> ('r world, string + unit) prog" where
  "Deduplicator_Release L R idempotencyKey =
     bnd (redis_call (\<lambda>t r. ((), DEL R t (redisKey L idempotencyKey) r)))
       (\<lambda>res. case res of Inl e \<Rightarrow> ret (Inl (''dedup release: '' @ e)) | Inr _ \<Rightarrow> ret (Inr ()))"

lemma db_Reserve [pres]: "pres (db_inv J) (Deduplicator_Reserve L R dd k u)"
  unfolding Deduplicator_Reserve_def by (intro pres)

lemma db_Release [pres]: "pres (db_inv J) (Deduplicator_Release L R k)"
  unfolding Deduplicator_Release_def by (intro pres)

section \<open>Runs of reservations and releases\<close>

datatype dedup_op = DReserve time string uuid | DRelease time string

fun op_time :: "dedup_op \<Rightarrow> time" where
  "op_time (DReserve t k u) = t"
| "op_time (DRelease t k) = t"

fun op_key :: "dedup_op \<Rightarrow> string" where
  "op_key (DReserve t k u) = k"
| "op_key (DRelease t k) = k"

text \<open>One operation on the server, with the answer a reservation gets.\<close>

fun dedup_step :: "libs \<Rightarrow> 'r redis \<Rightarrow> deduplicator \<Rightarrow> dedup_op \<Rightarrow> 'r
    \<Rightarrow> (string + bool \<times> uuid) option \<times> 'r" where
  "dedup_step L R dd (DReserve t k u) r =
     (case reserveScript R t (redisKey L k) (uuid_String L u) (ttl_seconds dd) r of
        (reply, r') \<Rightarrow> (Some (reserve_reply L reply), r'))"
| "dedup_step L R dd (DRelease t k) r = (None, DEL R t (redisKey L k) r)"

fun dedup_run :: "libs \<Rightarrow> 'r redis \<Rightarrow> deduplicator \<Rightarrow> dedup_op list \<Rightarrow> 'r
    \<Rightarrow> (string + bool \<times> uuid) option list \<times> 'r" where
  "dedup_run L R dd [] r = ([], r)"
| "dedup_run L R dd (x # xs) r =
     (case dedup_step L R dd x r of
        (a, r') \<Rightarrow> (case dedup_run L R dd xs r' of (as, r'') \<Rightarrow> (a # as, r'')))"

text \<open>The specification: which ID holds a key, and until when.\<close>

definition holds_claim :: "libs \<Rightarrow> string \<Rightarrow> uuid \<Rightarrow> time \<Rightarrow> keyspace \<Rightarrow> bool" where
  "holds_claim L k u until ks \<longleftrightarrow> ks (redisKey L k) = Some (RStr (uuid_String L u), Some until)"

locale dedup_service = uuid_library L + redis_server R keys
  for L :: libs and R :: "'r redis" and keys :: "'r \<Rightarrow> keyspace" +
  fixes dd :: deduplicator
begin

lemma step_Reserve:
  "dedup_step L R dd (DReserve t k u) r =
     (let key = redisKey L k; (b, ks) = ks_setnx t key (uuid_String L u) (keys r);
          r1 = snd (SETNX R t key (uuid_String L u) r) in
      if b then (Some (Inr (True, 0)), EXPIRE R t key (ttl_seconds dd * 1000000000) r1)
      else (Some (reserve_reply L (0, ks_get t key ks)), r1))"
  by (subst dedup_step.simps, subst reserveScript_def, subst SETNX_eq)
     (simp add: Let_def reserve_reply_def replies SETNX_keys split: prod.split bool.split)

lemma reserve_free:
  assumes "live t (keys r) (redisKey L k) = None"
    and "dedup_step L R dd (DReserve t k u) r = (a, r')"
  shows "a = Some (Inr (True, 0))"
    and "holds_claim L k u (t + ttl_seconds dd * 1000000000) (keys r')"
proof -
  have "ks_setnx t (redisKey L k) (uuid_String L u) (keys r)
      = (True, (keys r)(redisKey L k \<mapsto> (RStr (uuid_String L u), None)))"
    using assms(1) by (simp add: ks_setnx_def)
  with assms(2) show "a = Some (Inr (True, 0))"
    and "holds_claim L k u (t + ttl_seconds dd * 1000000000) (keys r')"
    by (auto simp: step_Reserve Let_def holds_claim_def effects ks_expire_def
        simp del: dedup_step.simps)
qed

lemma reserve_claimed:
  assumes "dedup_step L R dd (DReserve t k u) r = (Some (Inr (True, x)), r')"
  shows "live t (keys r) (redisKey L k) = None"
  using assms
  by (auto simp: step_Reserve Let_def ks_setnx_def reserve_reply_def simp del: dedup_step.simps
      split: option.splits if_splits prod.splits)

lemma reserve_held:
  assumes "holds_claim L k u until (keys r)" and "t < until"
    and "dedup_step L R dd (DReserve t k v) r = (a, r')"
  shows "a = Some (Inr (False, u))" and "keys r' = keys r"
proof -
  have "live t (keys r) (redisKey L k) = Some (RStr (uuid_String L u))"
    using assms(1,2) by (simp add: holds_claim_def live_def)
  then have "ks_setnx t (redisKey L k) (uuid_String L v) (keys r) = (False, keys r)"
    and "ks_get t (redisKey L k) (keys r) = Some (uuid_String L u)"
    by (simp_all add: ks_setnx_def ks_get_def)
  with assms(3) show "a = Some (Inr (False, u))" and "keys r' = keys r"
    by (auto simp: step_Reserve Let_def SETNX_keys reserve_reply_def parse_string
        simp del: dedup_step.simps)
qed

lemma other_key_step:
  assumes "redisKey L k' \<noteq> redisKey L k"
    and "dedup_step L R dd x r = (a, r')" and "x = DReserve t k' v \<or> x = DRelease t k'"
  shows "keys r' (redisKey L k) = keys r (redisKey L k)"
  using assms(3)
proof
  assume "x = DReserve t k' v"
  with assms(1,2) show ?thesis
    by (auto simp: step_Reserve Let_def effects simp del: dedup_step.simps split: prod.splits if_splits)
       (metis other_keys(1) snd_conv)+
next
  assume "x = DRelease t k'"
  with assms(1,2) show ?thesis by (auto simp: effects)
qed

text \<open>Until the claim ends, every reservation of the key in a run is told the claimant.\<close>

lemma claim_is_stable:
  assumes "holds_claim L k u until (keys r)"
    and "dedup_run L R dd xs r = (as, r')"
    and "i < length xs" and "xs ! i = DReserve t k v" and "t < until"
    and sep: "\<And>x. x \<in> set xs \<Longrightarrow> op_key x \<noteq> k \<Longrightarrow> redisKey L (op_key x) \<noteq> redisKey L k"
    and before: "\<And>x. x \<in> set xs \<Longrightarrow> op_time x < until"
    and kept: "\<And>t'. DRelease t' k \<notin> set xs"
  shows "as ! i = Some (Inr (False, u))"
  using assms
proof (induction xs arbitrary: r as i)
  case (Cons x xs)
  obtain a r1 where step: "dedup_step L R dd x r = (a, r1)" by (cases "dedup_step L R dd x r")
  obtain as' where run: "dedup_run L R dd xs r1 = (as', r')" and as: "as = a # as'"
    using Cons.prems(2) step by (auto split: prod.splits)
  have next_claim: "holds_claim L k u until (keys r1)"
  proof (cases x)
    case (DReserve t' k' v')
    show ?thesis
    proof (cases "k' = k")
      case True
      with DReserve Cons.prems(1) Cons.prems(7) [of x] step show ?thesis
        using reserve_held(2) [of k u until r t' v' a r1] by simp
    next
      case False
      with DReserve Cons.prems(6) [of x] have "redisKey L k' \<noteq> redisKey L k" by simp
      from other_key_step [OF this step] DReserve Cons.prems(1) show ?thesis
        by (simp add: holds_claim_def)
    qed
  next
    case (DRelease t' k')
    with Cons.prems(8) have "k' \<noteq> k" by auto
    with DRelease Cons.prems(6) [of x] have "redisKey L k' \<noteq> redisKey L k" by simp
    from other_key_step [OF this step] DRelease Cons.prems(1) show ?thesis
      by (simp add: holds_claim_def)
  qed
  show ?case
  proof (cases i)
    case 0
    with Cons.prems(4) have "x = DReserve t k v" by simp
    with step Cons.prems(1,5) as 0 show ?thesis
      using reserve_held(1) [of k u until r t v a r1] by (simp del: dedup_step.simps)
  next
    case (Suc j)
    with Cons.IH [OF next_claim run] Cons.prems as show ?thesis by auto
  qed
qed simp

end

interpretation mem_dedup: dedup_service bit_libs mem_redis "\<lambda>ks. ks" dd for dd
  by unfold_locales

text \<open>C1. The first reservation of an unreserved idempotency key is told to go ahead
  (claimed), and every later reservation of the same key in the run (made before the key's
  lifetime ends, with no release of the key in between) is told the first caller's
  notification ID, whatever other keys are reserved or released meanwhile; the hashes of
  the other keys of the run are assumed different from this key's.\<close>

theorem dedup_first_claim_wins:
  assumes "uuid_library L" and "redis_server R keys"
    and free: "live t (keys r) (redisKey L k) = None"
    and run: "dedup_run L R dd (DReserve t k u # xs) r = (as, r')"
    and i: "i < length xs" "xs ! i = DReserve t' k v"
    and alive: "\<And>x. x \<in> set xs \<Longrightarrow> op_time x < t + ttl_seconds dd * 1000000000"
    and kept: "\<And>t''. DRelease t'' k \<notin> set xs"
    and sep: "\<And>x. x \<in> set xs \<Longrightarrow> op_key x \<noteq> k \<Longrightarrow> redisKey L (op_key x) \<noteq> redisKey L k"
  shows "as ! 0 = Some (Inr (True, 0)) \<and> as ! Suc i = Some (Inr (False, u))"
proof -
  have svc: "dedup_service L R keys"
    using assms(1,2) by (simp add: dedup_service_def)
  obtain a r1 where step: "dedup_step L R dd (DReserve t k u) r = (a, r1)"
    by (cases "dedup_step L R dd (DReserve t k u) r")
  then obtain as' where rest: "dedup_run L R dd xs r1 = (as', r')" and as: "as = a # as'"
    using run by (auto simp del: dedup_step.simps split: prod.splits)
  have "t' < t + ttl_seconds dd * 1000000000"
    using alive [of "xs ! i"] i nth_mem [OF i(1)] by simp
  from dedup_service.claim_is_stable [OF svc dedup_service.reserve_free(2) [OF svc free step]
      rest i this sep alive kept]
  have "as' ! i = Some (Inr (False, u))" by blast
  with dedup_service.reserve_free(1) [OF svc free step] as show ?thesis by simp
qed

theorem dedup_first_claim_wins_witness:
  "fst (dedup_run bit_libs mem_redis \<lparr>dd_ttl = 86400000000000\<rparr>
      [DReserve 0 ''order-1'' 7, DReserve 5 ''order-2'' 8, DReserve 9 ''order-1'' 9] Map.empty) ! 2
     = Some (Inr (False, 7))"
proof -
  let ?dd = "\<lparr>dd_ttl = 86400000000000\<rparr>"
  let ?xs = "[DReserve 5 ''order-2'' 8, DReserve 9 ''order-1'' 9]"
  obtain as r' where run:
    "dedup_run bit_libs mem_redis ?dd (DReserve 0 ''order-1'' 7 # ?xs) Map.empty = (as, r')"
    by (cases "dedup_run bit_libs mem_redis ?dd (DReserve 0 ''order-1'' 7 # ?xs) Map.empty")
  have "as ! 0 = Some (Inr (True, 0)) \<and> as ! Suc 1 = Some (Inr (False, 7))"
    by (rule dedup_first_claim_wins [OF bit_uuid.uuid_library_axioms mem.redis_server_axioms _ run])
       (auto simp: live_def ttl_seconds_def redisKey_def bit_libs_def)
  with run show ?thesis by (simp add: numeral_2_eq_2 del: dedup_run.simps)
qed

end
