(* ===== verification/Template.thy ===== *)
theory Template
  imports Prelude
begin

text \<open>
  \<open>backend/internal/template/render.go\<close>: \<open>Render\<close> replaces every match of the regular
  expression \<open>{{\s*([a-zA-Z0-9_]+)\s*}}\<close>.  White space, word characters and braces are
  disjoint, so the leftmost match at a position is found by scanning: \<open>placeholder_at\<close>.
  \<open>scan\<close> is \<open>ReplaceAllStringFunc\<close>, which replaces non-overlapping matches from left to
  right and never looks at a replacement again.
\<close>

definition is_space :: "char \<Rightarrow> bool" where
  "is_space c \<longleftrightarrow> c \<in> {CHR 0x09, CHR 0x0A, CHR 0x0C, CHR 0x0D, CHR '' ''}"

definition is_word :: "char \<Rightarrow> bool" where
  "is_word c \<longleftrightarrow> (let n = of_char c :: nat in
     (97 \<le> n \<and> n \<le> 122) \<or> (65 \<le> n \<and> n \<le> 90) \<or> (48 \<le> n \<and> n \<le> 57) \<or> n = 95)"

text \<open>The match that starts at the first character: the matched text, its group 1, the rest.\<close>

definition placeholder_at :: "string \<Rightarrow> (string \<times> string \<times> string) option" where
  "placeholder_at s =
     (if take 2 s = ''{{'' then
        let s1 = drop 2 s;
            w1 = takeWhile is_space s1; s2 = dropWhile is_space s1;
            k = takeWhile is_word s2; s3 = dropWhile is_word s2;
            w2 = takeWhile is_space s3; s4 = dropWhile is_space s3 in
        if k \<noteq> [] \<and> take 2 s4 = ''}}''
        then Some (''{{'' @ w1 @ k @ w2 @ ''}}'', k, drop 2 s4) else None
      else None)"

lemma placeholder_at_split:
  assumes "placeholder_at s = Some (m, k, rest)"
  shows "s = m @ rest" and "m \<noteq> []"
proof -
  let ?s1 = "drop 2 s" let ?s2 = "dropWhile is_space ?s1" let ?s3 = "dropWhile is_word ?s2"
  let ?s4 = "dropWhile is_space ?s3"
  have m: "take 2 s = ''{{''" "take 2 ?s4 = ''}}''" "rest = drop 2 ?s4"
      "m = ''{{'' @ takeWhile is_space ?s1 @ takeWhile is_word ?s2 @ takeWhile is_space ?s3 @ ''}}''"
    using assms by (auto simp: placeholder_at_def Let_def split: if_splits)
  have "s = take 2 s @ takeWhile is_space ?s1 @ takeWhile is_word ?s2 @ takeWhile is_space ?s3
      @ take 2 ?s4 @ drop 2 ?s4"
    by (simp only: append_take_drop_id takeWhile_dropWhile_id)
  with m show "s = m @ rest" by simp
  from m(4) show "m \<noteq> []" by simp
qed

lemma placeholder_at_shorter: "placeholder_at s = Some (m, k, rest) \<Longrightarrow> length rest < length s"
  using placeholder_at_split [of s m k rest] by auto

function scan :: "(string \<Rightarrow> string \<Rightarrow> string) \<Rightarrow> string \<Rightarrow> string" where
  "scan f s =
     (case placeholder_at s of
        Some (m, k, rest) \<Rightarrow> f m k @ scan f rest
      | None \<Rightarrow> (case s of [] \<Rightarrow> [] | c # s' \<Rightarrow> c # scan f s'))"
  by pat_completeness auto

termination
  by (relation "measure (\<lambda>(f, s). length s)") (auto dest: placeholder_at_shorter)

declare scan.simps [simp del]

definition Render :: "string \<Rightarrow> (string \<times> string) list \<Rightarrow> string" where
  "Render text vars =
     (if vars = [] then text
      else scan (\<lambda>m key. case map_of vars key of Some val \<Rightarrow> val | None \<Rightarrow> m) text)"

section \<open>Templates as token lists\<close>

text \<open>A template as its author sees it: plain text without an opening brace, and placeholders.\<close>

datatype token = Lit string | Var string string string  \<comment> \<open>space, name, space\<close>

fun token_ok :: "token \<Rightarrow> bool" where
  "token_ok (Lit s) \<longleftrightarrow> CHR ''{'' \<notin> set s"
| "token_ok (Var w1 k w2) \<longleftrightarrow> list_all is_space w1 \<and> list_all is_space w2 \<and> k \<noteq> [] \<and> list_all is_word k"

fun token_text :: "token \<Rightarrow> string" where
  "token_text (Lit s) = s"
| "token_text (Var w1 k w2) = ''{{'' @ w1 @ k @ w2 @ ''}}''"

fun token_value :: "(string \<times> string) list \<Rightarrow> token \<Rightarrow> string" where
  "token_value vars (Lit s) = s"
| "token_value vars (Var w1 k w2) =
     (case map_of vars k of Some v \<Rightarrow> v | None \<Rightarrow> token_text (Var w1 k w2))"

lemma classes_disjoint:
  "is_space c \<Longrightarrow> \<not> is_word c" "\<not> is_space CHR ''}''" "\<not> is_word CHR ''}''"
  by (auto simp: is_space_def is_word_def)

lemma takeWhile_block:
  assumes "list_all P xs" and "ys = [] \<or> \<not> P (hd ys)"
  shows "takeWhile P (xs @ ys) = xs" and "dropWhile P (xs @ ys) = ys"
  using assms by (induction xs; cases ys; auto)+

lemma placeholder_at_token:
  assumes "token_ok (Var w1 k w2)"
  shows "placeholder_at (token_text (Var w1 k w2) @ rest) = Some (token_text (Var w1 k w2), k, rest)"
proof -
  from assms obtain c k' where k: "k = c # k'" "is_word c" by (cases k) auto
  have hd1: "\<not> is_space (hd (k @ w2 @ ''}}'' @ rest))"
    using k classes_disjoint(1) by auto
  have hd2: "\<not> is_word (hd (w2 @ ''}}'' @ rest))"
    using assms classes_disjoint by (cases w2) auto
  note w1 = takeWhile_block [of is_space w1 "k @ w2 @ ''}}'' @ rest"]
  note kk = takeWhile_block [of is_word k "w2 @ ''}}'' @ rest"]
  note w2 = takeWhile_block [of is_space w2 "''}}'' @ rest"]
  show ?thesis
    using assms hd1 hd2 w1 kk w2 classes_disjoint(2) by (simp add: placeholder_at_def)
qed

text \<open>Matching the matched text again, as the callback does with \<open>FindStringSubmatch\<close>, gives
  the same group.\<close>

lemma placeholder_at_again:
  assumes "placeholder_at s = Some (m, k, rest)"
  shows "placeholder_at m = Some (m, k, [])"
proof -
  obtain w1 w2 where "m = token_text (Var w1 k w2)" and "token_ok (Var w1 k w2)"
    using assms by (auto simp: placeholder_at_def Let_def list_all_iff dest: set_takeWhileD split: if_splits)
  with placeholder_at_token [of w1 k w2 "[]"] show ?thesis by simp
qed

lemma placeholder_at_other: "take 1 s \<noteq> ''{'' \<Longrightarrow> placeholder_at s = None"
  by (cases s) (auto simp: placeholder_at_def)

lemma scan_literal: "CHR ''{'' \<notin> set s \<Longrightarrow> scan f (s @ rest) = s @ scan f rest"
proof (induction s)
  case (Cons c s)
  then have "placeholder_at ((c # s) @ rest) = None" by (intro placeholder_at_other) auto
  with Cons show ?case by (simp add: scan.simps [of f "c # s @ rest"])
qed simp

lemma scan_tokens:
  assumes "list_all token_ok ts"
  shows "scan (\<lambda>m key. case map_of vars key of Some val \<Rightarrow> val | None \<Rightarrow> m) (concat (map token_text ts))
       = concat (map (token_value vars) ts)"
  using assms
proof (induction ts)
  case Nil
  show ?case by (simp add: scan.simps placeholder_at_def)
next
  case (Cons t ts)
  show ?case
  proof (cases t)
    case (Lit s)
    with Cons show ?thesis by (simp add: scan_literal)
  next
    case (Var w1 k w2)
    with Cons.prems have "token_ok (Var w1 k w2)" by simp
    from placeholder_at_token [OF this] Var Cons show ?thesis
      by (subst scan.simps) (simp del: token_text.simps split: option.split)
  qed
qed

section \<open>Properties\<close>



end
