(* ===== verification/Api.thy ===== *)
theory Api
  imports Workers Dedup Offline Template
begin

text \<open>
  What the HTTP handlers share: \<open>backend/internal/api/handlers/common.go\<close> and \<open>apikey.go\<close>, the
  authentication middleware \<open>api/middleware/auth.go\<close>, and the validators of
  \<open>handlers/notification.go\<close> and \<open>handlers/tenant.go\<close>.

  A handler is a computation that returns the response it wrote.  \<open>c.Bind\<close> belongs to the web
  framework: a handler takes the bound request, \<open>None\<close> when binding failed.  Writing a response
  succeeds, so \<open>c.JSON\<close> returns nil.
\<close>

section \<open>Responses\<close>

record batchResult =
  br_Index :: nat
  br_NotificationID :: string
  br_Error :: string

record dlq_point =
  dp_Date :: time
  dp_Count :: nat

datatype payload =
    PError string
  | PHealth string "(string \<times> string) list"
  | PSend string status
  | PSchedule string status time
  | PBatch "batchResult list"
  | PHistory "notification list" nat int int
  | PDetail notification "notification_delivery list"
  | PTemplate notification_template
  | PTemplates "notification_template list"
  | PTenantCreated string string string
  | PTenant tenant
  | PTenants "tenant list"
  | PKeyCreated string string
  | PKeys "api_key list"
  | PChannels "tenant_channel list"
  | PRateLimits int "tenant_rate_limit list"
  | PAnalytics analytics_summary "channel_breakdown list" "dlq_point list" time time

datatype response = JSON int payload | NoContent int

fun resp_status :: "response \<Rightarrow> int" where
  "resp_status (JSON n _) = n"
| "resp_status (NoContent n) = n"

definition errResponse :: "int \<Rightarrow> string \<Rightarrow> ('r world, response) prog" where
  "errResponse status message = ret (JSON status (PError message))"

text \<open>\<open>%q\<close>, for printable ASCII text.\<close>

definition quoted :: "string \<Rightarrow> string" where
  "quoted s = [CHR 0x22] @ concat (map (\<lambda>c. if c = CHR 0x22 \<or> c = CHR 0x5C then [CHR 0x5C, c] else [c]) s)
     @ [CHR 0x22]"

text \<open>
  \<open>RequireTenant\<close> returns the tenant and the error \<open>errResponse\<close> gave it; since writing the
  response succeeds, that error is nil even when the tenant is missing.  The handlers test only the
  error and then use \<open>tenant.ID\<close>: a missing tenant is dereferenced.
\<close>

definition RequireTenant :: "tenant option \<Rightarrow> ('r world, tenant option) prog" where
  "RequireTenant ctx =
     (case ctx of
        None \<Rightarrow> bnd (errResponse 500 ''internal error: missing tenant context'') (\<lambda>_. ret None)
      | Some tenant \<Rightarrow> ret (Some tenant))"

definition deref :: "tenant option \<Rightarrow> (tenant \<Rightarrow> ('r world, 'a) prog) \<Rightarrow> ('r world, 'a) prog" where
  "deref p f = (case p of None \<Rightarrow> panic | Some t \<Rightarrow> f t)"

section \<open>Pagination\<close>

record PaginationParams =
  pg_Page :: int
  pg_Limit :: int

definition PaginationParams_Normalize :: "PaginationParams \<Rightarrow> PaginationParams" where
  "PaginationParams_Normalize p =
     p\<lparr>pg_Page := (if pg_Page p < 1 then 1 else pg_Page p),
       pg_Limit := (if pg_Limit p < 1 \<or> pg_Limit p > 100 then 20 else pg_Limit p)\<rparr>"

definition PaginationParams_Offset :: "PaginationParams \<Rightarrow> int" where
  "PaginationParams_Offset p = int64 (int64 (pg_Page p - 1) * pg_Limit p)"

section \<open>Health\<close>

text \<open>The two \<open>Ping\<close>s are external calls; the Redis pinger is nil when not configured.\<close>

definition HealthHandler_Check :: "unit iface \<Rightarrow> bool \<Rightarrow> ('r world, response) prog" where
  "HealthHandler_Check redis kafkaConfigured =
     bnd external (\<lambda>c.
     let db_down = c_fail c;
         db = (''database'', case db_down of Some e \<Rightarrow> ''down: '' @ e | None \<Rightarrow> ''ok'') in
     bnd (if is_nil redis then ret (None, (''redis'', ''disabled''))
          else bnd external (\<lambda>c. ret (c_fail c,
                 (''redis'', case c_fail c of Some e \<Rightarrow> ''down: '' @ e | None \<Rightarrow> ''ok'')))) (\<lambda>(redis_down, rd).
     let healthy = (db_down = None \<and> redis_down = None);
         checks = [db, rd, (''kafka'', if kafkaConfigured then ''configured'' else ''disabled'')] in
     ret (JSON (if healthy then 200 else 503) (PHealth (if healthy then ''ok'' else ''degraded'') checks))))"

section \<open>API keys and authentication\<close>

definition hex_digit :: "nat \<Rightarrow> char" where
  "hex_digit n = (if n < 10 then char_of (48 + n) else char_of (87 + n))"

definition hex :: "nat list \<Rightarrow> string" where
  "hex bs = concat (map (\<lambda>b. [hex_digit (b div 16), hex_digit (b mod 16)]) bs)"

definition HashAPIKey :: "libs \<Rightarrow> string \<Rightarrow> string" where
  "HashAPIKey L key = sha256hex L key"

text \<open>\<open>rand.Read\<close> fills 32 bytes: the random bits of two external calls.\<close>

definition bytes_of :: "uuid \<Rightarrow> nat list" where
  "bytes_of u = map (\<lambda>i. unat u div 256 ^ i mod 256) [0..<16]"

definition generateAPIKey :: "libs \<Rightarrow> ('r world, string + string \<times> string) prog" where
  "generateAPIKey L =
     bnd external (\<lambda>c. case c_fail c of
       Some e \<Rightarrow> ret (Inl (''generate random bytes: '' @ e))
     | None \<Rightarrow> bnd external (\<lambda>c'.
         let raw = ''nfx_'' @ hex (bytes_of (c_uuid c) @ bytes_of (c_uuid c')) in
         ret (Inr (raw, sha256hex L raw))))"

text \<open>The middleware around a handler; the header is empty when absent.\<close>

definition Auth :: "libs \<Rightarrow> string \<Rightarrow> (tenant option \<Rightarrow> ('r world, response) prog) \<Rightarrow> ('r world, response) prog" where
  "Auth L key handler =
     (if key = [] then ret (JSON 401 (PError ''missing X-API-Key header''))
      else bnd (APIKeyRepository_GetTenantByKeyHash (HashAPIKey L key)) (\<lambda>r. case r of
        Inl ErrNotFound \<Rightarrow> ret (JSON 401 (PError ''invalid API key''))
      | Inl _ \<Rightarrow> ret (JSON 500 (PError ''authentication failed''))
      | Inr tenant \<Rightarrow> handler (Some tenant)))"

section \<open>Validators\<close>

definition isValidChannel :: "string \<Rightarrow> bool" where
  "isValidChannel ch \<longleftrightarrow> ch \<in> {ChannelEmail, ChannelPush, ChannelSMS, ChannelInApp}"

definition isValidPriority :: "string \<Rightarrow> bool" where
  "isValidPriority p \<longleftrightarrow> p \<in> {PriorityCritical, PriorityHigh, PriorityNormal, PriorityLow}"

definition isValidStatus :: "string \<Rightarrow> bool" where
  "isValidStatus s \<longleftrightarrow>
     s \<in> {StatusPending, StatusQueued, StatusQueuedRateLimited, StatusDelivered, StatusFailed}"

definition validateRecipientFields ::
    "channel \<Rightarrow> string \<Rightarrow> string \<Rightarrow> string \<Rightarrow> string \<Rightarrow> string \<Rightarrow> string option" where
  "validateRecipientFields channel email phone token recipientID subject =
     (if channel = ChannelEmail then
        if email = [] then Some ''recipient_email is required for channel email''
        else if subject = [] then Some ''subject is required for channel email''
        else None
      else if channel = ChannelPush then
        if token = [] then Some ''recipient_token is required for channel push'' else None
      else if channel = ChannelSMS then
        if phone = [] then Some ''recipient_phone is required for channel sms'' else None
      else if channel = ChannelInApp then
        if recipientID = [] then Some ''recipient_id is required for channel inapp'' else None
      else None)"

definition invalid_channel :: "string \<Rightarrow> string" where
  "invalid_channel ch = ''invalid channel '' @ quoted ch @ '': must be one of email, push, sms, inapp''"

definition invalid_priority :: "string \<Rightarrow> string" where
  "invalid_priority p = ''invalid priority '' @ quoted p @ '': must be one of critical, high, normal, low''"

section \<open>Invariants\<close>

lemma db_errResponse [pres]: "pres I (errResponse n m)"
  unfolding errResponse_def by (rule pres_ret)

lemma pres_RequireTenant [pres]: "pres I (RequireTenant t)"
  unfolding RequireTenant_def by (intro pres)

lemma pres_deref [pres]: "(\<And>t. pres I (f t)) \<Longrightarrow> pres I (deref p f)"
  unfolding deref_def by (intro pres)

lemma pres_case_repo_error [pres]:
  "pres I a \<Longrightarrow> pres I b \<Longrightarrow> pres I c \<Longrightarrow>
   pres I (case e of ErrNotFound \<Rightarrow> a | ErrAlreadyExists \<Rightarrow> b | ErrOther \<Rightarrow> c)"
  by (cases e) auto

lemma db_generateAPIKey [pres]: "pres (db_inv J) (generateAPIKey L)"
  unfolding generateAPIKey_def Let_def by (intro pres)

lemma db_health [pres]: "pres (db_inv J) (HealthHandler_Check r k)"
  unfolding HealthHandler_Check_def Let_def by (intro pres)

context db_statements
begin

lemma inv_Auth [pres]: "(\<And>t. pres (db_inv J) (h t)) \<Longrightarrow> pres (db_inv J) (Auth L key h)"
  unfolding Auth_def by (intro pres)

end

end
