(* ===== verification/Notifications.thy ===== *)
theory Notifications
  imports Api
begin

text \<open>
  \<open>backend/internal/api/handlers/notification.go\<close>: sending, scheduling and listing
  notifications.  \<open>service\<close> holds the optional dependencies as the Go interface values they are;
  the repositories and the pool are the world's database.  The batch handler's goroutines run one
  after the other.
\<close>

record service =
  sv_Producer :: "unit iface"
  sv_RateLimiter :: "limiter iface"
  sv_Dedup :: "deduplicator iface"

section \<open>Requests\<close>

record sendNotificationRequest =
  sq_Channel :: string
  sq_Priority :: string
  sq_RecipientID :: string
  sq_RecipientEmail :: string
  sq_RecipientPhone :: string
  sq_RecipientToken :: string
  sq_TemplateID :: string
  sq_Variables :: "(string \<times> string) list"
  sq_Subject :: string
  sq_Body :: string
  sq_Metadata :: metadata
  sq_IdempotencyKey :: string

definition sendNotificationRequest_Validate :: "sendNotificationRequest \<Rightarrow> string option" where
  "sendNotificationRequest_Validate r =
     (if \<not> isValidChannel (sq_Channel r) then Some (invalid_channel (sq_Channel r))
      else if sq_Priority r \<noteq> [] \<and> \<not> isValidPriority (sq_Priority r)
      then Some (invalid_priority (sq_Priority r))
      else if sq_TemplateID r \<noteq> [] then
        validateRecipientFields (sq_Channel r) (sq_RecipientEmail r) (sq_RecipientPhone r)
          (sq_RecipientToken r) (sq_RecipientID r) ''ignored-by-template''
      else if sq_Body r = [] then Some ''body is required''
      else validateRecipientFields (sq_Channel r) (sq_RecipientEmail r) (sq_RecipientPhone r)
             (sq_RecipientToken r) (sq_RecipientID r) (sq_Subject r))"

record scheduleNotificationRequest =
  cq_send :: sendNotificationRequest
  cq_ScheduledAt :: string

definition scheduleNotificationRequest_Validate ::
    "libs \<Rightarrow> scheduleNotificationRequest \<Rightarrow> ('r world, string option) prog" where
  "scheduleNotificationRequest_Validate L r =
     (if cq_ScheduledAt r = [] then ret (Some ''scheduled_at is required'')
      else case time_Parse L (cq_ScheduledAt r) of
        None \<Rightarrow> ret (Some ''scheduled_at must be RFC3339 (e.g. 2026-06-01T00:00:00Z)'')
      | Some t \<Rightarrow> bnd external (\<lambda>c.
          if \<not> (t > c_now c) then ret (Some ''scheduled_at must be in the future'')
          else ret (sendNotificationRequest_Validate (cq_send r))))"

record batchRecipient =
  bt_RecipientID :: string
  bt_RecipientEmail :: string
  bt_RecipientPhone :: string
  bt_RecipientToken :: string

record batchSendRequest =
  bq_Channel :: string
  bq_Priority :: string
  bq_TemplateID :: string
  bq_Variables :: "(string \<times> string) list"
  bq_Subject :: string
  bq_Body :: string
  bq_Metadata :: metadata
  bq_Recipients :: "batchRecipient list"
  bq_IdempotencyKey :: string

fun validate_recipients :: "channel \<Rightarrow> string \<Rightarrow> nat \<Rightarrow> batchRecipient list \<Rightarrow> string option" where
  "validate_recipients ch subject i [] = None"
| "validate_recipients ch subject i (rec # recs) =
     (case validateRecipientFields ch (bt_RecipientEmail rec) (bt_RecipientPhone rec)
             (bt_RecipientToken rec) (bt_RecipientID rec) subject of
        Some e \<Rightarrow> Some (''recipient '' @ dec_digits i @ '': '' @ e)
      | None \<Rightarrow> validate_recipients ch subject (Suc i) recs)"

definition batchSendRequest_Validate :: "batchSendRequest \<Rightarrow> string option" where
  "batchSendRequest_Validate r =
     (if \<not> isValidChannel (bq_Channel r) then Some (invalid_channel (bq_Channel r))
      else if bq_Priority r \<noteq> [] \<and> \<not> isValidPriority (bq_Priority r)
      then Some (invalid_priority (bq_Priority r))
      else if bq_TemplateID r = [] \<and> bq_Body r = [] then Some ''body is required''
      else if bq_Recipients r = [] then Some ''recipients must not be empty''
      else validate_recipients (bq_Channel r)
             (if bq_TemplateID r \<noteq> [] then ''ignored-by-template'' else bq_Subject r) 0 (bq_Recipients r))"

section \<open>The send pipeline\<close>

definition fresh_message ::
    "CreateNotificationParams \<Rightarrow> notification \<Rightarrow> notification_delivery \<Rightarrow> message" where
  "fresh_message p n delivery = \<lparr>
     msg_NotificationID = n_ID n, msg_DeliveryID = d_ID delivery, msg_TenantID = p_TenantID p,
     msg_Channel = p_Channel p, msg_Priority = p_Priority p, msg_RecipientID = p_RecipientID p,
     msg_RecipientEmail = p_RecipientEmail p, msg_RecipientPhone = p_RecipientPhone p,
     msg_RecipientToken = p_RecipientToken p, msg_Subject = p_Subject p, msg_Body = p_Body p,
     msg_Metadata = p_Metadata p, msg_LastError = []\<rparr>"

definition create_and_queue_tx :: "libs \<Rightarrow> service \<Rightarrow> CreateNotificationParams \<Rightarrow> bool
    \<Rightarrow> ('r world, repo_error + notification \<times> notification_delivery) prog" where
  "create_and_queue_tx L sv p publish =
     bnd (NotificationRepository_Create p) (\<lambda>r. case r of
       Inl e \<Rightarrow> ret (Inl e)
     | Inr n \<Rightarrow>
         bnd (NotificationDeliveryRepository_Create (n_ID n) (p_Channel p) (p_Status p)) (\<lambda>r. case r of
           Inl e \<Rightarrow> ret (Inl e)
         | Inr delivery \<Rightarrow>
             if \<not> publish then ret (Inr (n, delivery))
             else if is_nil (sv_Producer sv) then ret (Inr (n, delivery))
             else bnd (Producer_Publish L (sv_Producer sv) (TopicForChannel (p_Channel p))
                         (fresh_message p n delivery)) (\<lambda>r. case r of
               Inl _ \<Rightarrow> ret (Inl ErrOther)
             | Inr _ \<Rightarrow> ret (Inr (n, delivery)))))"

definition NotificationHandler_createAndQueue :: "libs \<Rightarrow> service \<Rightarrow> CreateNotificationParams \<Rightarrow> bool
    \<Rightarrow> ('r world, repo_error + notification \<times> notification_delivery) prog" where
  "NotificationHandler_createAndQueue L sv p publish =
     bnd (WithTx (create_and_queue_tx L sv p publish)) (\<lambda>r. case r of
       Inl e \<Rightarrow> ret (Inl e)
     | Inr x \<Rightarrow> bnd (count_status (p_Channel p) (p_Status p)) (\<lambda>_. ret (Inr x)))"

text \<open>Calls through the \<open>DedupInterface\<close>.\<close>

definition Dedup_Reserve :: "libs \<Rightarrow> 'r redis \<Rightarrow> deduplicator iface \<Rightarrow> string \<Rightarrow> uuid
    \<Rightarrow> ('r world, string + bool \<times> uuid) prog" where
  "Dedup_Reserve L R i key nid = (case i of Object dd \<Rightarrow> Deduplicator_Reserve L R dd key nid | _ \<Rightarrow> panic)"

definition Dedup_Release ::
    "libs \<Rightarrow> 'r redis \<Rightarrow> deduplicator iface \<Rightarrow> string \<Rightarrow> ('r world, string + unit) prog" where
  "Dedup_Release L R i key = (case i of Object dd \<Rightarrow> Deduplicator_Release L R key | _ \<Rightarrow> panic)"

definition NotificationHandler_releaseDedup ::
    "libs \<Rightarrow> 'r redis \<Rightarrow> service \<Rightarrow> string \<Rightarrow> ('r world, unit) prog" where
  "NotificationHandler_releaseDedup L R sv idempotencyKey =
     (if idempotencyKey = [] \<or> is_nil (sv_Dedup sv) then ret ()
      else bnd (Dedup_Release L R (sv_Dedup sv) idempotencyKey) (\<lambda>_. ret ()))"

text \<open>The retry loop around \<open>GetByID\<close> for a duplicate; the argument counts the attempts left.\<close>

fun fetch_existing :: "uuid \<Rightarrow> nat \<Rightarrow> ('r world, repo_error + notification) prog" where
  "fetch_existing nid 0 = ret (Inl ErrNotFound)"
| "fetch_existing nid (Suc n) =
     bnd (NotificationRepository_GetByID nid) (\<lambda>r. case r of
       Inr existing \<Rightarrow> ret (Inr existing)
     | Inl e \<Rightarrow>
         if e \<noteq> ErrNotFound then ret (Inl e)
         else bnd (emit (Slept 50000000)) (\<lambda>_. if n = 0 then ret (Inl e) else fetch_existing nid n))"

record send_result =
  sr_notificationID :: string
  sr_status :: status
  sr_duplicate :: bool

definition send_fresh :: "libs \<Rightarrow> 'r redis \<Rightarrow> service \<Rightarrow> string \<Rightarrow> CreateNotificationParams
    \<Rightarrow> ('r world, string + send_result) prog" where
  "send_fresh L R sv idempotencyKey p =
     bnd (if is_nil (sv_RateLimiter sv) then ret (Inr True)
          else Limiter_Allow L R (sv_RateLimiter sv) (p_TenantID p) (p_Channel p)) (\<lambda>a. case a of
       Inl _ \<Rightarrow>
         bnd (NotificationHandler_releaseDedup L R sv idempotencyKey) (\<lambda>_.
         ret (Inl ''failed to process request''))
     | Inr allowed \<Rightarrow>
         let p = p\<lparr>p_Status := (if allowed then StatusPending else StatusQueuedRateLimited),
                   p_IdempotencyKey := idempotencyKey\<rparr> in
         bnd (NotificationHandler_createAndQueue L sv p allowed) (\<lambda>r. case r of
           Inl _ \<Rightarrow>
             bnd (NotificationHandler_releaseDedup L R sv idempotencyKey) (\<lambda>_.
             ret (Inl ''failed to send notification''))
         | Inr (n, _) \<Rightarrow>
             ret (Inr \<lparr>sr_notificationID = uuid_String L (n_ID n), sr_status = n_Status n,
                       sr_duplicate = False\<rparr>)))"

definition NotificationHandler_processSend :: "libs \<Rightarrow> 'r redis \<Rightarrow> service \<Rightarrow> string
    \<Rightarrow> CreateNotificationParams \<Rightarrow> ('r world, string + send_result) prog" where
  "NotificationHandler_processSend L R sv idempotencyKey p =
     (if idempotencyKey \<noteq> [] \<and> \<not> is_nil (sv_Dedup sv) then
        bnd (Dedup_Reserve L R (sv_Dedup sv) idempotencyKey (p_ID p)) (\<lambda>r. case r of
          Inl _ \<Rightarrow> ret (Inl ''failed to process request'')
        | Inr (claimed, existingID) \<Rightarrow>
            if \<not> claimed then
              bnd (fetch_existing existingID 3) (\<lambda>r. case r of
                Inl _ \<Rightarrow> ret (Inl ''failed to process request'')
              | Inr existing \<Rightarrow>
                  ret (Inr \<lparr>sr_notificationID = uuid_String L (n_ID existing),
                            sr_status = n_Status existing, sr_duplicate = True\<rparr>))
            else send_fresh L R sv idempotencyKey p)
      else send_fresh L R sv idempotencyKey p)"

text \<open>The template's ID, subject and body, or the message and status to answer with.\<close>

definition NotificationHandler_resolveTemplate :: "libs \<Rightarrow> uuid \<Rightarrow> string \<Rightarrow> channel
    \<Rightarrow> (string \<times> string) list \<Rightarrow> ('r world, (string \<times> int) + uuid option \<times> string \<times> string) prog" where
  "NotificationHandler_resolveTemplate L tid templateIDStr channel vars =
     (case uuid_Parse L templateIDStr of
        None \<Rightarrow> ret (Inl (''invalid template_id'', 400))
      | Some mid \<Rightarrow>
          bnd (TemplateRepository_GetByID tid mid) (\<lambda>r. case r of
            Inl e \<Rightarrow>
              if e = ErrNotFound then ret (Inl (''template not found'', 404))
              else ret (Inl (''failed to resolve template'', 500))
          | Inr t \<Rightarrow>
              if m_Channel t \<noteq> channel then
                ret (Inl (''template channel '' @ quoted (m_Channel t) @ '' does not match request channel ''
                  @ quoted channel, 422))
              else ret (Inr (Some (m_ID t), Render (m_Subject t) vars, Render (m_Body t) vars))))"

section \<open>What Send, Schedule and Batch begin with\<close>

text \<open>The channel must be enabled; a template, when named, gives the subject and the body.\<close>

definition with_enabled_channel ::
    "uuid \<Rightarrow> string \<Rightarrow> ('r world, response) prog \<Rightarrow> ('r world, response) prog" where
  "with_enabled_channel tid ch k =
     bnd (TenantChannelRepository_IsEnabled tid ch) (\<lambda>r. case r of
       Inl _ \<Rightarrow> errResponse 500 ''failed to verify channel''
     | Inr enabled \<Rightarrow>
         if \<not> enabled then errResponse 403 (''channel '' @ quoted ch @ '' is not enabled for this tenant'')
         else k)"

definition with_content :: "libs \<Rightarrow> uuid \<Rightarrow> string \<Rightarrow> string \<Rightarrow> (string \<times> string) list \<Rightarrow> string \<Rightarrow> string
    \<Rightarrow> (uuid option \<Rightarrow> string \<Rightarrow> string \<Rightarrow> ('r world, response) prog) \<Rightarrow> ('r world, response) prog" where
  "with_content L tid ch templateID vars subject body k =
     (if templateID = [] then k None subject body
      else bnd (NotificationHandler_resolveTemplate L tid templateID ch vars) (\<lambda>r. case r of
        Inl (errMsg, httpStatus) \<Rightarrow> errResponse httpStatus errMsg
      | Inr (tmpl, subject, body) \<Rightarrow> k tmpl subject body))"

definition default_priority :: "string \<Rightarrow> priority" where
  "default_priority p = (if p = [] then PriorityNormal else p)"

section \<open>Handlers\<close>

definition NotificationHandler_Send :: "libs \<Rightarrow> 'r redis \<Rightarrow> service \<Rightarrow> sendNotificationRequest option
    \<Rightarrow> tenant option \<Rightarrow> ('r world, response) prog" where
  "NotificationHandler_Send L R sv bound ctx =
     bnd (RequireTenant ctx) (\<lambda>tenant. case bound of
       None \<Rightarrow> errResponse 400 ''invalid request body''
     | Some req \<Rightarrow> (case sendNotificationRequest_Validate req of
         Some e \<Rightarrow> errResponse 422 e
       | None \<Rightarrow> deref tenant (\<lambda>tenant.
           with_enabled_channel (t_ID tenant) (sq_Channel req)
             (with_content L (t_ID tenant) (sq_Channel req) (sq_TemplateID req) (sq_Variables req)
                (sq_Subject req) (sq_Body req) (\<lambda>templateID subject body.
             bnd external (\<lambda>c.   \<comment> \<open>\<open>uuid.New()\<close>\<close>
             bnd (NotificationHandler_processSend L R sv (sq_IdempotencyKey req)
                \<lparr>p_ID = c_uuid c, p_TenantID = t_ID tenant, p_Channel = sq_Channel req,
                 p_Priority = default_priority (sq_Priority req), p_Status = [],
                 p_RecipientID = sq_RecipientID req, p_RecipientEmail = sq_RecipientEmail req,
                 p_RecipientPhone = sq_RecipientPhone req, p_RecipientToken = sq_RecipientToken req,
                 p_TemplateID = templateID, p_Subject = subject, p_Body = body,
                 p_Metadata = sq_Metadata req, p_IdempotencyKey = [], p_ScheduledAt = None\<rparr>) (\<lambda>r. case r of
               Inl errMsg \<Rightarrow> errResponse 500 errMsg
             | Inr s \<Rightarrow>
                 ret (JSON (if sr_duplicate s then 200 else 201)
                       (PSend (sr_notificationID s) (sr_status s))))))))))"

definition NotificationHandler_Schedule :: "libs \<Rightarrow> service \<Rightarrow> scheduleNotificationRequest option
    \<Rightarrow> tenant option \<Rightarrow> ('r world, response) prog" where
  "NotificationHandler_Schedule L sv bound ctx =
     bnd (RequireTenant ctx) (\<lambda>tenant. case bound of
       None \<Rightarrow> errResponse 400 ''invalid request body''
     | Some sreq \<Rightarrow> bnd (scheduleNotificationRequest_Validate L sreq) (\<lambda>v. case v of
         Some e \<Rightarrow> errResponse 422 e
       | None \<Rightarrow>
           let req = cq_send sreq;
               scheduledAt = (case time_Parse L (cq_ScheduledAt sreq) of Some t \<Rightarrow> t | None \<Rightarrow> 0) in
           deref tenant (\<lambda>tenant.
           with_enabled_channel (t_ID tenant) (sq_Channel req)
             (with_content L (t_ID tenant) (sq_Channel req) (sq_TemplateID req) (sq_Variables req)
                (sq_Subject req) (sq_Body req) (\<lambda>templateID subject body.
             bnd external (\<lambda>c.
             bnd (NotificationHandler_createAndQueue L sv
                \<lparr>p_ID = c_uuid c, p_TenantID = t_ID tenant, p_Channel = sq_Channel req,
                 p_Priority = default_priority (sq_Priority req), p_Status = StatusPending,
                 p_RecipientID = sq_RecipientID req, p_RecipientEmail = sq_RecipientEmail req,
                 p_RecipientPhone = sq_RecipientPhone req, p_RecipientToken = sq_RecipientToken req,
                 p_TemplateID = templateID, p_Subject = subject, p_Body = body,
                 p_Metadata = sq_Metadata req, p_IdempotencyKey = sq_IdempotencyKey req,
                 p_ScheduledAt = Some scheduledAt\<rparr> False) (\<lambda>r. case r of
               Inl _ \<Rightarrow> errResponse 500 ''failed to schedule notification''
             | Inr (n, _) \<Rightarrow>
                 bnd (ScheduledNotificationRepository_Create (n_ID n) scheduledAt) (\<lambda>r. case r of
                   Inl _ \<Rightarrow> errResponse 500 ''failed to schedule notification''
                 | Inr _ \<Rightarrow>
                     ret (JSON 201 (PSchedule (uuid_String L (n_ID n)) (n_Status n) scheduledAt))))))))))"

fun batch_loop :: "libs \<Rightarrow> 'r redis \<Rightarrow> service \<Rightarrow> string \<Rightarrow> (uuid \<Rightarrow> batchRecipient \<Rightarrow> CreateNotificationParams)
    \<Rightarrow> nat \<Rightarrow> batchRecipient list \<Rightarrow> ('r world, batchResult list) prog" where
  "batch_loop L R sv key params i [] = ret []"
| "batch_loop L R sv key params i (rec # recs) =
     (let idempotencyKey = (if key = [] then [] else key @ '':'' @ dec_digits i) in
      bnd external (\<lambda>c.
      bnd (NotificationHandler_processSend L R sv idempotencyKey (params (c_uuid c) rec)) (\<lambda>r.
      let result = (case r of
            Inl errMsg \<Rightarrow> \<lparr>br_Index = i, br_NotificationID = [], br_Error = errMsg\<rparr>
          | Inr s \<Rightarrow> \<lparr>br_Index = i, br_NotificationID = sr_notificationID s, br_Error = []\<rparr>) in
      bnd (batch_loop L R sv key params (Suc i) recs) (\<lambda>results. ret (result # results)))))"

definition NotificationHandler_Batch :: "libs \<Rightarrow> 'r redis \<Rightarrow> service \<Rightarrow> batchSendRequest option
    \<Rightarrow> tenant option \<Rightarrow> ('r world, response) prog" where
  "NotificationHandler_Batch L R sv bound ctx =
     bnd (RequireTenant ctx) (\<lambda>tenant. case bound of
       None \<Rightarrow> errResponse 400 ''invalid request body''
     | Some req \<Rightarrow> (case batchSendRequest_Validate req of
         Some e \<Rightarrow> errResponse 422 e
       | None \<Rightarrow> deref tenant (\<lambda>tenant.
           with_enabled_channel (t_ID tenant) (bq_Channel req)
             (with_content L (t_ID tenant) (bq_Channel req) (bq_TemplateID req) (bq_Variables req)
                (bq_Subject req) (bq_Body req) (\<lambda>templateID subject body.
             bnd (batch_loop L R sv (bq_IdempotencyKey req) (\<lambda>uid rec.
                \<lparr>p_ID = uid, p_TenantID = t_ID tenant, p_Channel = bq_Channel req,
                 p_Priority = default_priority (bq_Priority req), p_Status = [],
                 p_RecipientID = bt_RecipientID rec, p_RecipientEmail = bt_RecipientEmail rec,
                 p_RecipientPhone = bt_RecipientPhone rec, p_RecipientToken = bt_RecipientToken rec,
                 p_TemplateID = templateID, p_Subject = subject, p_Body = body,
                 p_Metadata = bq_Metadata req, p_IdempotencyKey = [], p_ScheduledAt = None\<rparr>) 0
                (bq_Recipients req)) (\<lambda>results. ret (JSON 201 (PBatch results))))))))"

record historyQueryParams =
  hq_page :: PaginationParams
  hq_Channel :: string
  hq_Status :: string
  hq_From :: string
  hq_To :: string
  hq_Recipient :: string

text \<open>An optional RFC 3339 parameter: \<open>Inl\<close> when it does not parse.\<close>

definition optional_time :: "libs \<Rightarrow> string \<Rightarrow> unit + time option" where
  "optional_time L s =
     (if s = [] then Inr None else case time_Parse L s of None \<Rightarrow> Inl () | Some t \<Rightarrow> Inr (Some t))"

definition NotificationHandler_History :: "libs \<Rightarrow> historyQueryParams option \<Rightarrow> tenant option
    \<Rightarrow> ('r world, response) prog" where
  "NotificationHandler_History L bound ctx =
     bnd (RequireTenant ctx) (\<lambda>tenant. case bound of
       None \<Rightarrow> errResponse 400 ''invalid query parameters''
     | Some q \<Rightarrow>
         let pg = PaginationParams_Normalize (hq_page q) in
         if hq_Channel q \<noteq> [] \<and> \<not> isValidChannel (hq_Channel q)
         then errResponse 400 (''invalid channel '' @ quoted (hq_Channel q))
         else if hq_Status q \<noteq> [] \<and> \<not> isValidStatus (hq_Status q)
         then errResponse 400 (''invalid status '' @ quoted (hq_Status q))
         else (case optional_time L (hq_From q) of
           Inl _ \<Rightarrow> errResponse 400 ''from must be RFC3339 (e.g. 2026-06-01T00:00:00Z)''
         | Inr from_t \<Rightarrow> (case optional_time L (hq_To q) of
             Inl _ \<Rightarrow> errResponse 400 ''to must be RFC3339 (e.g. 2026-06-01T00:00:00Z)''
           | Inr to_t \<Rightarrow> deref tenant (\<lambda>tenant.
               bnd (NotificationRepository_GetByTenantID (t_ID tenant)
                  \<lparr>f_Channel = hq_Channel q, f_Status = hq_Status q, f_From = from_t, f_To = to_t,
                   f_Limit = pg_Limit pg, f_Offset = PaginationParams_Offset pg,
                   f_Recipient = hq_Recipient q\<rparr>) (\<lambda>r. case r of
                 Inl _ \<Rightarrow> errResponse 500 ''failed to list notifications''
               | Inr (ns, cnt) \<Rightarrow> ret (JSON 200 (PHistory ns cnt (pg_Page pg) (pg_Limit pg))))))))"

definition NotificationHandler_Get :: "libs \<Rightarrow> string \<Rightarrow> tenant option \<Rightarrow> ('r world, response) prog" where
  "NotificationHandler_Get L param ctx =
     bnd (RequireTenant ctx) (\<lambda>tenant. case uuid_Parse L param of
       None \<Rightarrow> errResponse 400 ''invalid notification id''
     | Some nid \<Rightarrow>
         bnd (NotificationRepository_GetByID nid) (\<lambda>r. case r of
           Inl e \<Rightarrow>
             if e = ErrNotFound then errResponse 404 ''notification not found''
             else errResponse 500 ''failed to get notification''
         | Inr n \<Rightarrow> deref tenant (\<lambda>tenant.
             if n_TenantID n \<noteq> t_ID tenant then errResponse 404 ''notification not found''
             else bnd (NotificationDeliveryRepository_GetByNotificationID nid) (\<lambda>r. case r of
               Inl _ \<Rightarrow> errResponse 500 ''failed to get delivery status''
             | Inr ds \<Rightarrow> ret (JSON 200 (PDetail n ds))))))"

section \<open>Invariants\<close>

lemma db_Dedup [pres]:
  "pres (db_inv J) (Dedup_Reserve L R i k u)" "pres (db_inv J) (Dedup_Release L R i k)"
  unfolding Dedup_Reserve_def Dedup_Release_def by (cases i; auto intro: pres)+

lemma db_releaseDedup [pres]: "pres (db_inv J) (NotificationHandler_releaseDedup L R sv k)"
  unfolding NotificationHandler_releaseDedup_def by (intro pres)

lemma db_scheduleValidate [pres]: "pres (db_inv J) (scheduleNotificationRequest_Validate L r)"
  unfolding scheduleNotificationRequest_Validate_def by (intro pres)

lemma db_fetch_existing [pres]: "pres (db_inv J) (fetch_existing a n)"
  by (induction n) (auto intro!: pres)

lemma db_resolveTemplate [pres]: "pres (db_inv J) (NotificationHandler_resolveTemplate L t m ch vs)"
  unfolding NotificationHandler_resolveTemplate_def by (intro pres)

lemma db_prefix [pres]:
  "pres (db_inv J) k \<Longrightarrow> pres (db_inv J) (with_enabled_channel t ch k)"
  "(\<And>a b c. pres (db_inv J) (k' a b c)) \<Longrightarrow> pres (db_inv J) (with_content L t ch m vs s b k')"
  unfolding with_enabled_channel_def with_content_def by (intro pres; assumption)+

lemma db_notification_reads [pres]:
  "pres (db_inv J) (NotificationHandler_History L h t)" "pres (db_inv J) (NotificationHandler_Get L s t)"
  unfolding NotificationHandler_History_def NotificationHandler_Get_def Let_def by (intro pres)+

context db_invariant
begin

lemma inv_createAndQueue:
  "okst (p_Status p) \<Longrightarrow> pres (db_inv J) (NotificationHandler_createAndQueue L sv p b)"
  unfolding NotificationHandler_createAndQueue_def create_and_queue_tx_def by (intro pres) simp

end

text \<open>
  What the handlers guarantee when they call createAndQueue: a valid channel and priority, and the
  recipient field the channel needs.  \<open>db_service\<close> is the interface between the handlers and
  createAndQueue: an invariant that createAndQueue keeps for such parameters is kept by every handler.
\<close>

definition valid_request :: "CreateNotificationParams \<Rightarrow> bool" where
  "valid_request p \<longleftrightarrow> isValidChannel (p_Channel p) \<and> isValidPriority (p_Priority p)
     \<and> validateRecipientFields (p_Channel p) (p_RecipientEmail p) (p_RecipientPhone p) (p_RecipientToken p)
         (p_RecipientID p) ''given'' = None"

definition valid_params :: "CreateNotificationParams \<Rightarrow> bool" where
  "valid_params p \<longleftrightarrow> valid_request p \<and> p_Status p \<in> {StatusPending, StatusQueuedRateLimited}"

lemma valid_request_simps [simp]:
  "valid_request (p\<lparr>p_Status := s\<rparr>) = valid_request p"
  "valid_request (p\<lparr>p_IdempotencyKey := k\<rparr>) = valid_request p"
  by (simp_all add: valid_request_def)

lemma valid_recipient:
  "validateRecipientFields ch e ph tk rid s = None \<Longrightarrow> validateRecipientFields ch e ph tk rid ''given'' = None"
  by (auto simp: validateRecipientFields_def split: if_splits)

lemma valid_priority: "p = [] \<or> isValidPriority p \<Longrightarrow> isValidPriority (default_priority p)"
  by (auto simp: default_priority_def isValidPriority_def)

lemma valid_send:
  "sendNotificationRequest_Validate r = None \<Longrightarrow> isValidChannel (sq_Channel r)
     \<and> isValidPriority (default_priority (sq_Priority r))
     \<and> validateRecipientFields (sq_Channel r) (sq_RecipientEmail r) (sq_RecipientPhone r) (sq_RecipientToken r)
         (sq_RecipientID r) ''given'' = None"
  by (auto simp: sendNotificationRequest_Validate_def valid_priority split: if_splits dest: valid_recipient)

lemma valid_schedule:
  "scheduleNotificationRequest_Validate L r w = (Val None, w') \<Longrightarrow> sendNotificationRequest_Validate (cq_send r) = None"
  by (auto simp: scheduleNotificationRequest_Validate_def ret_def elim!: bnd_ValE split: if_splits option.splits)

lemma valid_recipients:
  "validate_recipients ch s i recs = None \<Longrightarrow> rec \<in> set recs \<Longrightarrow>
   validateRecipientFields ch (bt_RecipientEmail rec) (bt_RecipientPhone rec) (bt_RecipientToken rec)
     (bt_RecipientID rec) ''given'' = None"
  by (induction recs arbitrary: i) (auto split: option.splits dest: valid_recipient)

lemma valid_batch:
  "batchSendRequest_Validate r = None \<Longrightarrow> isValidChannel (bq_Channel r)
     \<and> isValidPriority (default_priority (bq_Priority r))
     \<and> (\<forall>rec\<in>set (bq_Recipients r). validateRecipientFields (bq_Channel r) (bt_RecipientEmail rec)
          (bt_RecipientPhone rec) (bt_RecipientToken rec) (bt_RecipientID rec) ''given'' = None)"
  by (auto simp: batchSendRequest_Validate_def valid_priority split: if_splits dest: valid_recipients)

locale db_service = db_statements +
  fixes world_type :: "'r world itself"
  assumes inv_queue: "\<And>L sv p b. valid_params p \<Longrightarrow>
    pres (db_inv J :: 'r world \<Rightarrow> bool) (NotificationHandler_createAndQueue L sv p b)"
begin

lemma inv_processSend:
  fixes R :: "'r redis"
  assumes "valid_request p"
  shows "pres (db_inv J) (NotificationHandler_processSend L R sv k p)"
  unfolding NotificationHandler_processSend_def send_fresh_def Let_def
  using assms by (intro pres inv_queue) (simp_all add: valid_params_def)

lemma inv_batch_loop:
  fixes R :: "'r redis"
  assumes "\<And>u rec. rec \<in> set recs \<Longrightarrow> valid_request (ps u rec)"
  shows "pres (db_inv J) (batch_loop L R sv k ps i recs)"
  using assms by (induction recs arbitrary: i) (auto simp: Let_def intro!: pres inv_processSend)

lemma inv_Send:
  fixes R :: "'r redis"
  shows "pres (db_inv J) (NotificationHandler_Send L R sv q t)"
  unfolding NotificationHandler_Send_def
  by (intro pres inv_processSend) (simp add: valid_request_def valid_send)

lemma inv_Schedule: "pres (db_inv J :: 'r world \<Rightarrow> bool) (NotificationHandler_Schedule L sv q t)"
  unfolding NotificationHandler_Schedule_def
  by (rule pres_bnd [OF pres_RequireTenant], rule pres_case_option, rule db_errResponse,
      rule pres_bnd_val [OF db_scheduleValidate])
     (auto simp: Let_def valid_params_def valid_request_def valid_send dest: valid_schedule
       intro!: pres inv_queue split: option.split)

lemma inv_Batch:
  fixes R :: "'r redis"
  shows "pres (db_inv J) (NotificationHandler_Batch L R sv q t)"
  unfolding NotificationHandler_Batch_def
  by (intro pres inv_batch_loop) (simp add: valid_request_def valid_batch)

end

sublocale db_invariant \<subseteq> service: db_service J okst world_type for world_type :: "'r world itself"
  by unfold_locales (auto simp: valid_params_def intro!: inv_createAndQueue)

section \<open>A failed send stores nothing\<close>

lemma hoare_WithTx:
  "hoare (\<lambda>w. w_db w = d) (WithTx fn) (\<lambda>r w. isl r \<longrightarrow> w_db w = d) (\<lambda>w. w_db w = d)"
proof (rule hoareI)
  fix w r w' assume d: "w_db w = d" and run: "WithTx fn w = (Val r, w')"
  show "isl r \<longrightarrow> w_db w' = d"
    using WithTx_rollback [OF run] d by (cases r) auto
next
  fix w w' assume "w_db w = d" and "WithTx fn w = (Panic, w')"
  then show "w_db w' = d" using WithTx_rollback by fastforce
qed

lemma hoare_db: "(\<And>J. pres (db_inv J) m) \<Longrightarrow> hoare (\<lambda>w. w_db w = d) m (\<lambda>_ w. w_db w = d) (\<lambda>w. w_db w = d)"
  unfolding hoare_pres by (rule meta_mp) simp_all

lemma createAndQueue_error:
  "hoare (\<lambda>w. w_db w = d) (NotificationHandler_createAndQueue L sv p b)
     (\<lambda>r w. isl r \<longrightarrow> w_db w = d) (\<lambda>w. w_db w = d)"
  unfolding NotificationHandler_createAndQueue_def
  by (rule hoare_bnd [OF hoare_WithTx])
     (auto simp: hoare_def bnd_def ret_def count_status_def emit_def writes_def split: sum.split)

lemma send_fresh_error:
  "hoare (\<lambda>w. w_db w = d) (send_fresh L R sv k p) (\<lambda>r w. isl r \<longrightarrow> w_db w = d) (\<lambda>w. w_db w = d)"
proof -
  let ?D = "\<lambda>w. w_db w = d"
  have release: "hoare ?D (bnd (NotificationHandler_releaseDedup L R sv k) (\<lambda>_. ret (Inl m)))
      (\<lambda>r w. isl r \<longrightarrow> w_db w = d) ?D" for m
    by (rule hoare_bnd [OF hoare_db [OF db_releaseDedup]]) (simp add: hoare_ret)
  have allow: "hoare ?D (if is_nil (sv_RateLimiter sv) then ret (Inr True)
      else Limiter_Allow L R (sv_RateLimiter sv) (p_TenantID p) (p_Channel p)) (\<lambda>_. ?D) ?D"
    by (rule hoare_db) (intro pres)
  show ?thesis
    unfolding send_fresh_def Let_def
    apply (rule hoare_bnd [OF allow])
    apply (rule hoare_case_sum)
     apply (rule release)
    apply (rule hoare_bnd [OF createAndQueue_error])
    apply (rule hoare_case_sum)
     apply (rule hoare_conseq [OF release]; simp)
    apply (auto simp: hoare_def ret_def split: prod.split)
    done
qed

lemma processSend_error:
  "hoare (\<lambda>w. w_db w = d) (NotificationHandler_processSend L R sv k p)
     (\<lambda>r w. isl r \<longrightarrow> w_db w = d) (\<lambda>w. w_db w = d)"
proof -
  have dup: "hoare (\<lambda>w. w_db w = d) (bnd (fetch_existing nid 3) (\<lambda>r. case r of
        Inl _ \<Rightarrow> ret (Inl ''failed to process request'')
      | Inr existing \<Rightarrow> ret (Inr \<lparr>sr_notificationID = uuid_String L (n_ID existing),
          sr_status = n_Status existing, sr_duplicate = True\<rparr>)))
      (\<lambda>r w. isl r \<longrightarrow> w_db w = d) (\<lambda>w. w_db w = d)" for nid
    by (rule hoare_bnd [OF hoare_db [OF db_fetch_existing]]) (auto simp: hoare_ret split: sum.split)
  show ?thesis
    unfolding NotificationHandler_processSend_def
    apply (rule hoare_if)
     apply (rule hoare_bnd [OF hoare_db [OF db_Dedup(1)]])
     apply (auto simp: send_fresh_error dup hoare_ret split: sum.split)
    done
qed

text \<open>\<open>errors_keep d m\<close>: from database \<open>d\<close>, an error answer or a panic leaves \<open>d\<close>.\<close>

definition errors_keep :: "db \<Rightarrow> ('r world, response) prog \<Rightarrow> bool" where
  "errors_keep d m \<longleftrightarrow>
     hoare (\<lambda>w. w_db w = d) m (\<lambda>resp w. 400 \<le> resp_status resp \<longrightarrow> w_db w = d) (\<lambda>w. w_db w = d)"

lemma errors_keep_pres: "(\<And>J. pres (db_inv J) m) \<Longrightarrow> errors_keep d m"
  unfolding errors_keep_def by (rule hoare_conseq [OF hoare_db]) auto

lemma errors_keep_bnd:
  "(\<And>J. pres (db_inv J) m) \<Longrightarrow> (\<And>x. errors_keep d (f x)) \<Longrightarrow> errors_keep d (bnd m f)"
  unfolding errors_keep_def by (rule hoare_bnd [OF hoare_db])

lemma errors_keep_leaf:
  "errors_keep d (errResponse n m)" "errors_keep d panic" "errors_keep d (ret r)"
  by (intro errors_keep_pres pres)+

lemma errors_keep_prefix:
  "errors_keep d k \<Longrightarrow> errors_keep d (with_enabled_channel t ch k)"
  "(\<And>a b c. errors_keep d (k' a b c)) \<Longrightarrow> errors_keep d (with_content L t ch m vs s b k')"
  unfolding with_enabled_channel_def with_content_def
  by (auto intro!: errors_keep_bnd errors_keep_leaf db_reads db_resolveTemplate split: sum.split)

lemma Send_errors_keep: "errors_keep d (NotificationHandler_Send L R sv bound ctx)"
proof -
  have "errors_keep d (bnd (NotificationHandler_processSend L R sv k p) (\<lambda>r. case r of
      Inl errMsg \<Rightarrow> errResponse 500 errMsg
    | Inr s \<Rightarrow> ret (JSON (if sr_duplicate s then 200 else 201) (PSend (sr_notificationID s) (sr_status s)))))"
    for k p
    unfolding errors_keep_def
    by (rule hoare_bnd [OF processSend_error])
       (auto simp: hoare_ret errResponse_def split: sum.split)
  then show ?thesis
    unfolding NotificationHandler_Send_def deref_def
    by (auto intro!: errors_keep_bnd [of "RequireTenant ctx"] errors_keep_bnd [of external] errors_keep_prefix
        errors_keep_leaf db_external pres_RequireTenant split: option.split)
qed

section \<open>What a successful createAndQueue does\<close>

lemma create_inserts:
  assumes "NotificationRepository_Create p w = (Val (Inr n), w1)"
  shows "n = notification_row (now_at w 0) p"
    and "w1 = w\<lparr>w_tick := Suc (w_tick w), w_db := (w_db w)\<lparr>notifications := notifications (w_db w) @ [n]\<rparr>\<rparr>"
  using assms
  by (auto simp: NotificationRepository_Create_def go_defs query_def external_def run_stmt_def now_at_def
      insert_notification_def ins_def wrap_def split: option.splits if_splits)

lemma delivery_inserts:
  assumes "NotificationDeliveryRepository_Create nid ch st w = (Val (Inr dv), w1)"
  shows "dv = delivery_row (w_env w (w_tick w)) nid ch st"
    and "w1 = w\<lparr>w_tick := Suc (w_tick w),
           w_db := (w_db w)\<lparr>notification_deliveries := notification_deliveries (w_db w) @ [dv]\<rparr>\<rparr>"
  using assms
  by (auto simp: NotificationDeliveryRepository_Create_def go_defs query_def external_def run_stmt_def
      insert_delivery_def ins_def wrap_def split: option.splits if_splits)

definition topic_record :: "libs \<Rightarrow> message \<Rightarrow> krecord" where
  "topic_record L m = \<lparr>kr_topic = TopicForChannel (msg_Channel m), kr_key = uuid_String L (msg_NotificationID m),
     kr_headers = [(''notification_id'', uuid_String L (msg_NotificationID m)), (''channel'', msg_Channel m)],
     kr_value = Message_Marshal L m\<rparr>"

lemma publish_appends:
  assumes "Producer_Publish L i (TopicForChannel (msg_Channel m)) m w = (Val (Inr x), w1)"
  shows "w1 = w\<lparr>w_tick := Suc (w_tick w), w_topics := w_topics w @ [topic_record L m]\<rparr>"
  using assms
  by (cases i) (auto simp: Producer_Publish_def topic_record_def go_defs external_def split: option.splits)

lemma tx_effect:
  assumes "create_and_queue_tx L sv p publish w = (Val (Inr (n, dv)), w1)"
  shows "n = notification_row (now_at w 0) p"
    and "d_NotificationID dv = p_ID p \<and> d_Channel dv = p_Channel p"
    and "w_db w1 = (w_db w)\<lparr>notifications := notifications (w_db w) @ [n],
           notification_deliveries := notification_deliveries (w_db w) @ [dv]\<rparr>"
    and "w_topics w1 = w_topics w
           @ (if publish \<and> \<not> is_nil (sv_Producer sv) then [topic_record L (fresh_message p n dv)] else [])"
proof -
  from assms obtain wa wb where
    c: "NotificationRepository_Create p w = (Val (Inr n), wa)"
    and dl: "NotificationDeliveryRepository_Create (n_ID n) (p_Channel p) (p_Status p) wa = (Val (Inr dv), wb)"
    and tl: "w1 = wb \<and> \<not> (publish \<and> \<not> is_nil (sv_Producer sv))
      \<or> publish \<and> \<not> is_nil (sv_Producer sv) \<and> (\<exists>x. Producer_Publish L (sv_Producer sv) (TopicForChannel (p_Channel p))
          (fresh_message p n dv) wb = (Val (Inr x), w1))"
    by (auto simp: create_and_queue_tx_def ret_def elim!: bnd_ValE split: sum.splits if_splits)
  note c' = create_inserts [OF c] and dl' = delivery_inserts [OF dl]
  have m: "msg_Channel (fresh_message p n dv) = p_Channel p" by (simp add: fresh_message_def)
  show "n = notification_row (now_at w 0) p" by (rule c'(1))
  show "d_NotificationID dv = p_ID p \<and> d_Channel dv = p_Channel p"
    by (simp add: dl'(1) delivery_row_def c'(1) notification_row_def)
  show "w_db w1 = (w_db w)\<lparr>notifications := notifications (w_db w) @ [n],
      notification_deliveries := notification_deliveries (w_db w) @ [dv]\<rparr>"
    using tl c'(2) dl'(2) publish_appends [of L "sv_Producer sv" "fresh_message p n dv" wb] m by auto
  show "w_topics w1 = w_topics w
      @ (if publish \<and> \<not> is_nil (sv_Producer sv) then [topic_record L (fresh_message p n dv)] else [])"
    using tl c'(2) dl'(2) publish_appends [of L "sv_Producer sv" "fresh_message p n dv" wb] m by auto
qed

lemma createAndQueue_done:
  assumes "NotificationHandler_createAndQueue L sv p publish w = (Val (Inr (n, dv)), w')"
  shows "\<exists>t. n = notification_row t p"
    and "d_NotificationID dv = p_ID p \<and> d_Channel dv = p_Channel p"
    and "w_db w' = (w_db w)\<lparr>notifications := notifications (w_db w) @ [n],
          notification_deliveries := notification_deliveries (w_db w) @ [dv]\<rparr>"
    and "w_topics w' = w_topics w
          @ (if publish \<and> \<not> is_nil (sv_Producer sv) then [topic_record L (fresh_message p n dv)] else [])"
proof -
  from assms obtain w1 where tx: "WithTx (create_and_queue_tx L sv p publish) w = (Val (Inr (n, dv)), w1)"
    and w': "w_db w' = w_db w1" "w_topics w' = w_topics w1"
    by (auto simp: NotificationHandler_createAndQueue_def ret_def count_status_def emit_def writes_def
        elim!: bnd_ValE split: sum.splits)
  obtain w2 where body: "create_and_queue_tx L sv p publish (w\<lparr>w_tick := Suc (w_tick w)\<rparr>) = (Val (Inr (n, dv)), w2)"
    and w1: "w1 = w2\<lparr>w_tick := Suc (w_tick w2)\<rparr>"
    using WithTx_success [OF tx] .
  note t = tx_effect [OF body]
  show "\<exists>t. n = notification_row t p" using t(1) by blast
  show "d_NotificationID dv = p_ID p \<and> d_Channel dv = p_Channel p" by (rule t(2))
  show "w_db w' = (w_db w)\<lparr>notifications := notifications (w_db w) @ [n],
      notification_deliveries := notification_deliveries (w_db w) @ [dv]\<rparr>" using t(3) w' w1 by simp
  show "w_topics w' = w_topics w
      @ (if publish \<and> \<not> is_nil (sv_Producer sv) then [topic_record L (fresh_message p n dv)] else [])"
    using t(4) w' w1 by simp
qed

text \<open>The steps of a fresh send that reports success: the limiter's answer, and createAndQueue with the status it
  implies.\<close>

definition limit_answer :: "libs \<Rightarrow> 'r redis \<Rightarrow> service \<Rightarrow> CreateNotificationParams \<Rightarrow> ('r world, unit + bool) prog" where
  "limit_answer L R sv p = (if is_nil (sv_RateLimiter sv) then ret (Inr True)
     else Limiter_Allow L R (sv_RateLimiter sv) (p_TenantID p) (p_Channel p))"

definition admitted :: "bool \<Rightarrow> string \<Rightarrow> CreateNotificationParams \<Rightarrow> CreateNotificationParams" where
  "admitted allowed key p = p\<lparr>p_Status := (if allowed then StatusPending else StatusQueuedRateLimited),
     p_IdempotencyKey := key\<rparr>"

lemma send_fresh_success:
  assumes "send_fresh L R sv key p w = (Val (Inr s), w1)"
  obtains allowed w0 n dv where "limit_answer L R sv p w = (Val (Inr allowed), w0)"
    and "NotificationHandler_createAndQueue L sv (admitted allowed key p) allowed w0 = (Val (Inr (n, dv)), w1)"
    and "s = \<lparr>sr_notificationID = uuid_String L (n_ID n), sr_status = n_Status n, sr_duplicate = False\<rparr>"
proof -
  from assms obtain a w0 where a: "limit_answer L R sv p w = (Val a, w0)"
    and rest: "(case a of Inl _ \<Rightarrow> bnd (NotificationHandler_releaseDedup L R sv key) (\<lambda>_. ret (Inl ''failed to process request''))
      | Inr allowed \<Rightarrow> bnd (NotificationHandler_createAndQueue L sv (admitted allowed key p) allowed) (\<lambda>r. case r of
          Inl _ \<Rightarrow> bnd (NotificationHandler_releaseDedup L R sv key) (\<lambda>_. ret (Inl ''failed to send notification''))
        | Inr (n, _) \<Rightarrow> ret (Inr \<lparr>sr_notificationID = uuid_String L (n_ID n), sr_status = n_Status n,
            sr_duplicate = False\<rparr>))) w0 = (Val (Inr s), w1)"
    unfolding send_fresh_def Let_def limit_answer_def [symmetric] admitted_def [symmetric] by (rule bnd_ValE)
  from rest obtain allowed n dv where "a = Inr allowed"
    and "NotificationHandler_createAndQueue L sv (admitted allowed key p) allowed w0 = (Val (Inr (n, dv)), w1)"
    and "s = \<lparr>sr_notificationID = uuid_String L (n_ID n), sr_status = n_Status n, sr_duplicate = False\<rparr>"
    by (auto simp: ret_def elim!: bnd_ValE split: sum.splits)
  with that a show thesis by blast
qed

section \<open>Properties\<close>

text \<open>C8. When Send answers with an error (or panics), no row of the database has changed,
  whatever failed and however far the request got.\<close>

theorem failed_send_stores_nothing:
  assumes "NotificationHandler_Send L R sv bound ctx w = (out, w')"
    and "\<And>resp. out = Val resp \<Longrightarrow> 400 \<le> resp_status resp"
  shows "w_db w' = w_db w"
  using assms Send_errors_keep [of "w_db w" L R sv bound ctx]
  by (cases out) (auto simp: errors_keep_def dest: hoareD hoareD_panic)

text \<open>C9. When createAndQueue reports success, exactly one notification and one delivery row
  for it were added, and one message naming both was published on the topic of the channel if publishing was
  asked for and Kafka is configured (none otherwise).\<close>

theorem createAndQueue_effect:
  assumes "NotificationHandler_createAndQueue L sv p publish w = (Val (Inr (n, dv)), w')"
  shows "n_ID n = p_ID p \<and> n_TenantID n = p_TenantID p \<and> d_NotificationID dv = p_ID p
    \<and> w_db w' = (w_db w)\<lparr>notifications := notifications (w_db w) @ [n],
          notification_deliveries := notification_deliveries (w_db w) @ [dv]\<rparr>
    \<and> w_topics w' = w_topics w
          @ (if publish \<and> \<not> is_nil (sv_Producer sv) then [topic_record L (fresh_message p n dv)] else [])"
  using createAndQueue_done [OF assms] by (auto simp: notification_row_def)

text \<open>A tenant with the SMS channel enabled, a request and a service without Redis.\<close>

definition sms_db :: db where
  "sms_db = empty_db\<lparr>tenants := [due_tenant], tenant_channels := [\<lparr>tc_ID = 5, tc_TenantID = 1,
     tc_Channel = ChannelSMS, tc_Enabled = True, tc_CreatedAt = 0\<rparr>]\<rparr>"

definition sms_params :: CreateNotificationParams where
  "sms_params = \<lparr>p_ID = 77, p_TenantID = 1, p_Channel = ChannelSMS, p_Priority = PriorityNormal,
     p_Status = StatusPending, p_RecipientID = [], p_RecipientEmail = [], p_RecipientPhone = ''5550100'',
     p_RecipientToken = [], p_TemplateID = None, p_Subject = [], p_Body = ''hello'', p_Metadata = None,
     p_IdempotencyKey = [], p_ScheduledAt = None\<rparr>"

definition sms_request :: sendNotificationRequest where
  "sms_request = \<lparr>sq_Channel = ChannelSMS, sq_Priority = [], sq_RecipientID = [], sq_RecipientEmail = [],
     sq_RecipientPhone = ''5550100'', sq_RecipientToken = [], sq_TemplateID = [], sq_Variables = [],
     sq_Subject = [], sq_Body = ''hello'', sq_Metadata = None, sq_IdempotencyKey = []\<rparr>"

definition kafka_service :: service where
  "kafka_service = \<lparr>sv_Producer = Object (), sv_RateLimiter = NilInterface, sv_Dedup = NilInterface\<rparr>"

lemmas sms_defs = sms_db_def sms_params_def sms_request_def kafka_service_def due_tenant_def empty_db_def

lemmas run_defs = go_defs query_def external_def run_stmt_def select_def select_one_def wrap_def
  wrap_not_found_def insert_notification_def insert_delivery_def ins_def

text \<open>The transaction body on a database that accepts the rows.\<close>

lemma tx_runs:
  assumes "c_fail (w_env w (w_tick w)) = None" and "c_fail (w_env w (Suc (w_tick w))) = None"
    and "c_fail (w_env w (Suc (Suc (w_tick w)))) = None"
    and "p_ID p \<notin> notification_ids (w_db w)" and "p_IdempotencyKey p = []"
    and "p_TenantID p \<in> tenant_ids (w_db w)" and "p_TemplateID p = None"
    and "c_uuid (w_env w (Suc (w_tick w))) \<notin> d_ID ` set (notification_deliveries (w_db w))"
  shows "\<exists>n dv w1. create_and_queue_tx L kafka_service p True w = (Val (Inr (n, dv)), w1)
           \<and> w_env w1 = w_env w \<and> w_tick w1 = Suc (Suc (Suc (w_tick w)))
           \<and> w_topics w1 = w_topics w @ [topic_record L (fresh_message p n dv)]"
  using assms
  by (auto simp: create_and_queue_tx_def NotificationRepository_Create_def notification_row_def
      NotificationDeliveryRepository_Create_def delivery_row_def run_defs Producer_Publish_def kafka_service_def
      topic_record_def fresh_message_def)

text \<open>The message is published before the transaction commits: if the commit then
  fails, the caller is told the send failed and the rows are rolled back, but the message stays in Kafka
  and names rows that do not exist.\<close>

theorem commit_failure_leaves_message:
  assumes "\<And>i. i < 4 \<Longrightarrow> \<not> fails_at w i" and "fails_at w 4"
    and "p_ID p \<notin> notification_ids (w_db w)" and "p_IdempotencyKey p = []"
    and "p_TenantID p \<in> tenant_ids (w_db w)" and "p_TemplateID p = None"
    and "c_uuid (w_env w (w_tick w + 2)) \<notin> d_ID ` set (notification_deliveries (w_db w))"
  shows "\<exists>n dv w'. NotificationHandler_createAndQueue L kafka_service p True w = (Val (Inl ErrOther), w')
           \<and> w_db w' = w_db w \<and> w_topics w' = w_topics w @ [topic_record L (fresh_message p n dv)]"
proof -
  let ?w = "w\<lparr>w_tick := Suc (w_tick w)\<rparr>"
  have env: "c_fail (w_env w (w_tick w)) = None" "c_fail (w_env w (Suc (w_tick w))) = None"
    "c_fail (w_env w (Suc (Suc (w_tick w)))) = None" "c_fail (w_env w (Suc (Suc (Suc (w_tick w))))) = None"
    "c_fail (w_env w (Suc (Suc (Suc (Suc (w_tick w)))))) \<noteq> None"
    using assms(1) [of 0] assms(1) [of 1] assms(1) [of 2] assms(1) [of 3] assms(2)
    by (simp_all add: fails_at_def eval_nat_numeral)
  obtain n dv w1 where tx: "create_and_queue_tx L kafka_service p True ?w = (Val (Inr (n, dv)), w1)"
    and w1: "w_env w1 = w_env w" "w_tick w1 = Suc (Suc (Suc (Suc (w_tick w))))"
      "w_topics w1 = w_topics w @ [topic_record L (fresh_message p n dv)]"
    using tx_runs [of ?w p L] env assms(3-7) by (auto simp: eval_nat_numeral)
  have "WithTx (create_and_queue_tx L kafka_service p True) w
      = (Val (Inl ErrOther), w1\<lparr>w_tick := Suc (w_tick w1), w_db := w_db w\<rparr>)"
    using env tx w1 by (auto simp: WithTx_def tx_body_def bnd_def external_def Let_def)
  with w1(3) show ?thesis by (auto simp: NotificationHandler_createAndQueue_def bnd_def ret_def)
qed

theorem commit_failure_leaves_message_witness:
  "\<exists>n dv w'. NotificationHandler_createAndQueue bit_libs kafka_service sms_params True
       ((calm_world sms_db)\<lparr>w_env := calm_env(4 := (calm_env 4)\<lparr>c_fail := Some ''commit''\<rparr>)\<rparr>)
     = (Val (Inl ErrOther), w') \<and> w_db w' = sms_db
     \<and> w_topics w' = [topic_record bit_libs (fresh_message sms_params n dv)]"
  using commit_failure_leaves_message [of "(calm_world sms_db)\<lparr>w_env := calm_env(4 := (calm_env 4)\<lparr>c_fail
      := Some ''commit''\<rparr>)\<rparr>" sms_params bit_libs]
  by (simp add: fails_at_def calm_world_def calm_env_def sms_defs)

theorem createAndQueue_effect_witness:
  "\<exists>n dv w'. NotificationHandler_createAndQueue bit_libs kafka_service sms_params True (calm_world sms_db)
       = (Val (Inr (n, dv)), w')
     \<and> notifications (w_db w') = [n] \<and> notification_deliveries (w_db w') = [dv]
     \<and> w_topics w' = [topic_record bit_libs (fresh_message sms_params n dv)]"
proof -
  let ?w = "calm_world sms_db"
  obtain n dv w1 where "create_and_queue_tx bit_libs kafka_service sms_params True (?w\<lparr>w_tick := 1\<rparr>)
      = (Val (Inr (n, dv)), w1)" "w_env w1 = calm_env" "w_tick w1 = 4"
    using tx_runs [of "?w\<lparr>w_tick := 1\<rparr>" sms_params bit_libs]
    by (auto simp: calm_world_def calm_env_def sms_defs)
  then have "\<exists>w'. NotificationHandler_createAndQueue bit_libs kafka_service sms_params True ?w
      = (Val (Inr (n, dv)), w')"
    by (simp add: NotificationHandler_createAndQueue_def WithTx_def tx_body_def bnd_def external_def Let_def
        ret_def count_status_def emit_def writes_def calm_world_def calm_env_def)
  then obtain w' where "NotificationHandler_createAndQueue bit_libs kafka_service sms_params True ?w
      = (Val (Inr (n, dv)), w')" by blast
  with createAndQueue_effect [OF this] show ?thesis
    by (simp add: sms_defs calm_world_def)
qed

theorem failed_send_stores_nothing_witness:
  "w_db (snd (NotificationHandler_Send bit_libs mem_redis kafka_service (Some sms_request) (Some due_tenant)
     ((calm_world sms_db)\<lparr>w_env := calm_env(0 := (calm_env 0)\<lparr>c_fail := Some ''down''\<rparr>)\<rparr>))) = sms_db"
proof -
  let ?w = "(calm_world sms_db)\<lparr>w_env := calm_env(0 := (calm_env 0)\<lparr>c_fail := Some ''down''\<rparr>)\<rparr>"
  let ?run = "NotificationHandler_Send bit_libs mem_redis kafka_service (Some sms_request) (Some due_tenant) ?w"
  have "fst ?run = Val (JSON 500 (PError ''failed to verify channel''))"
    by (simp add: NotificationHandler_Send_def RequireTenant_def deref_def sendNotificationRequest_Validate_def
        isValidChannel_def validateRecipientFields_def with_enabled_channel_def errResponse_def
        TenantChannelRepository_IsEnabled_def run_defs sms_defs calm_world_def calm_env_def)
  then have "?run = (Val (JSON 500 (PError ''failed to verify channel'')), snd ?run)"
    by (simp add: prod_eq_iff)
  from failed_send_stores_nothing [OF this] show ?thesis by (simp add: calm_world_def)
qed

section \<open>Rate-limited and duplicate sends\<close>

lemma createAndQueue_rate_limited:
  assumes "NotificationHandler_createAndQueue L sv p False w = (Val (Inr (n, dv)), w')"
  shows "n_Status n = (if p_Status p = [] then StatusPending else p_Status p)"
    and "n \<in> set (notifications (w_db w'))" and "w_topics w' = w_topics w"
  using createAndQueue_done [OF assms] by (auto simp: notification_row_def)


text \<open>While the key is held, a send is answered with the holder's notification and stores and publishes nothing.\<close>

lemma held_key_is_duplicate:
  assumes "uuid_library L" and "redis_server R keys" and "sv_Dedup sv = Object dd" and "key \<noteq> []"
    and "holds_claim L key u until (keys (w_redis w))" and "now_at w 0 < until"
    and "\<not> fails_at w 0" and "\<not> fails_at w 1"
    and "find (\<lambda>n. n_ID n = u) (notifications (w_db w)) = Some other"
  shows "\<exists>w'. NotificationHandler_processSend L R sv key p w
      = (Val (Inr \<lparr>sr_notificationID = uuid_String L (n_ID other), sr_status = n_Status other,
                   sr_duplicate = True\<rparr>), w')
      \<and> w_db w' = w_db w \<and> w_topics w' = w_topics w"
proof -
  have svc: "dedup_service L R keys" using assms(1,2) by (simp add: dedup_service_def)
  obtain a r where st: "dedup_step L R dd (DReserve (now_at w 0) key (p_ID p)) (w_redis w) = (a, r)"
    by (cases "dedup_step L R dd (DReserve (now_at w 0) key (p_ID p)) (w_redis w)")
  have a: "a = Some (Inr (False, u))"
    using dedup_service.reserve_held(1) [OF svc assms(5,6) st] .
  obtain reply where sc: "reserveScript R (now_at w 0) (redisKey L key) (uuid_String L (p_ID p))
      (ttl_seconds dd) (w_redis w) = (reply, r)" and rep: "reserve_reply L reply = Inr (False, u)"
    using st a by (auto split: prod.splits)
  have "Dedup_Reserve L R (sv_Dedup sv) key (p_ID p) w
      = (Val (Inr (False, u)), w\<lparr>w_redis := r, w_tick := Suc (w_tick w)\<rparr>)"
    using redis_call_ok [OF assms(7), of "\<lambda>t. reserveScript R t (redisKey L key) (uuid_String L (p_ID p))
        (ttl_seconds dd)", OF sc] assms(3) rep
    by (simp add: Dedup_Reserve_def Deduplicator_Reserve_def bnd_def ret_def)
  moreover have "c_fail (w_env w (Suc (w_tick w))) = None" using assms(8) by (simp add: fails_at_def)
  ultimately show ?thesis
    using assms(3,4,9)
    by (simp add: NotificationHandler_processSend_def bnd_def eval_nat_numeral NotificationRepository_GetByID_def
        query_def external_def run_stmt_def select_one_def wrap_not_found_def ret_def)
qed

text \<open>C39. The reservation of an idempotency key is not scoped to a tenant: while one tenant
  holds a key, another tenant's send with the same key is answered with the first tenant's notification
  ID and status, as a duplicate, and is not stored.\<close>

theorem duplicate_crosses_tenants:
  assumes "uuid_library L" and "redis_server R keys" and "sv_Dedup sv = Object dd" and "key \<noteq> []"
    and "holds_claim L key u until (keys (w_redis w))" and "now_at w 0 < until"
    and "\<not> fails_at w 0" and "\<not> fails_at w 1"
    and "find (\<lambda>n. n_ID n = u) (notifications (w_db w)) = Some other"
    and "n_TenantID other \<noteq> p_TenantID p"
  shows "\<exists>w'. NotificationHandler_processSend L R sv key p w
      = (Val (Inr \<lparr>sr_notificationID = uuid_String L (n_ID other), sr_status = n_Status other,
                   sr_duplicate = True\<rparr>), w')
      \<and> w_db w' = w_db w"
  using held_key_is_duplicate [OF assms(1-9), of p] by blast

section \<open>Tenants see their own notifications only\<close>

lemma GetByID_found:
  assumes "NotificationRepository_GetByID nid w = (Val (Inr n), w1)"
  shows "n \<in> set (notifications (w_db w)) \<and> n_ID n = nid \<and> w_db w1 = w_db w"
  using assms
  by (auto simp: NotificationRepository_GetByID_def run_defs dest: find_SomeD split: option.splits if_splits)

lemma deliveries_found:
  assumes "NotificationDeliveryRepository_GetByNotificationID nid w = (Val (Inr ds), w1)"
  shows "\<forall>d\<in>set ds. d_NotificationID d = nid"
  using assms
  by (auto simp: NotificationDeliveryRepository_GetByNotificationID_def run_defs split: option.splits)

lemma page_found:
  assumes "NotificationRepository_GetByTenantID tid f w = (Val (Inr (ns, cnt)), w1)"
  shows "\<forall>n\<in>set ns. n \<in> set (notifications (w_db w)) \<and> n_TenantID n = tid"
  using assms
  by (auto simp: NotificationRepository_GetByTenantID_def run_defs select_page_def Let_def matches_filter_def
      dest!: in_set_takeD in_set_dropD split: option.splits if_splits)

text \<open>C37. Get only returns a notification of the authenticated tenant, with that
  notification's deliveries; another tenant's notification is answered like a missing one.\<close>

theorem Get_is_tenant_scoped:
  assumes "NotificationHandler_Get L param (Some tenant) w = (Val (JSON code body), w')"
  shows "(\<forall>n ds. body = PDetail n ds \<longrightarrow> n_TenantID n = t_ID tenant \<and> n \<in> set (notifications (w_db w))
            \<and> (\<forall>d\<in>set ds. d_NotificationID d = n_ID n))
    \<and> (\<forall>nid n. uuid_Parse L param = Some nid \<longrightarrow> find (\<lambda>n. n_ID n = nid) (notifications (w_db w)) = Some n
          \<longrightarrow> n_TenantID n \<noteq> t_ID tenant \<longrightarrow> \<not> fails_at w 0 \<longrightarrow>
          code = 404 \<and> body = PError ''notification not found'')"
proof (intro conjI allI impI)
  fix n ds assume b: "body = PDetail n ds"
  show "n_TenantID n = t_ID tenant" and "n \<in> set (notifications (w_db w))"
    and "\<forall>d\<in>set ds. d_NotificationID d = n_ID n"
    using assms b
    by (auto simp: NotificationHandler_Get_def RequireTenant_def deref_def errResponse_def ret_def
        elim!: bnd_ValE dest!: GetByID_found deliveries_found split: option.splits sum.splits if_splits)
next
  fix nid n assume "uuid_Parse L param = Some nid"
    and "find (\<lambda>n. n_ID n = nid) (notifications (w_db w)) = Some n"
    and "n_TenantID n \<noteq> t_ID tenant" and "\<not> fails_at w 0"
  with assms show "code = 404" and "body = PError ''notification not found''"
    by (auto simp: NotificationHandler_Get_def RequireTenant_def deref_def errResponse_def fails_at_def
        NotificationRepository_GetByID_def run_defs)
qed

text \<open>History only lists notifications of the authenticated tenant, on pages of 1 to
  100 rows numbered from 1.\<close>

theorem History_is_tenant_scoped:
  assumes "NotificationHandler_History L bound (Some tenant) w = (Val (JSON code (PHistory ns cnt page limit)), w')"
  shows "(\<forall>n\<in>set ns. n_TenantID n = t_ID tenant \<and> n \<in> set (notifications (w_db w)))
    \<and> 1 \<le> page \<and> 1 \<le> limit \<and> limit \<le> 100"
  using assms
  by (auto simp: NotificationHandler_History_def RequireTenant_def deref_def errResponse_def ret_def Let_def
      PaginationParams_Normalize_def elim!: bnd_ValE dest!: page_found split: option.splits sum.splits if_splits)

section \<open>Pages\<close>

lemma take_drop_tile: "concat (map (\<lambda>i. take k (drop (i * k) xs)) [0..<m]) = take (m * k) xs"
proof (induction m)
  case (Suc m)
  have "take (Suc m * k) xs = take (m * k) xs @ take k (drop (m * k) xs)"
    using take_add [of "m * k" k xs] by (simp add: add.commute)
  with Suc show ?case by simp
qed simp


section \<open>More properties\<close>

lemma batch_loop_Val:
  "batch_loop L R sv key params i recs w = (Val rs, w') \<Longrightarrow> map br_Index rs = [i..<i + length recs]"
proof (induction recs arbitrary: i w rs)
  case (Cons rec recs)
  from Cons.prems obtain r rs' w1 where rs: "rs = r # rs'" "br_Index r = i"
    and rest: "batch_loop L R sv key params (Suc i) recs w1 = (Val rs', w')"
    by (auto simp: Let_def ret_def elim!: bnd_ValE split: sum.splits)
  have "[i..<Suc (i + length recs)] = i # [Suc i..<Suc (i + length recs)]"
    by (simp add: upt_conv_Cons del: upt_Suc)
  with Cons.IH [OF rest] rs show ?case by (simp del: upt_Suc)
qed (simp add: ret_def)

text \<open>A batch answers 201 with exactly one result per recipient, in request order, each
  carrying its recipient's position, however many of the sends failed.\<close>

theorem Batch_one_result_each:
  assumes "NotificationHandler_Batch L R sv (Some req) (Some tenant) w = (Val (JSON code (PBatch results)), w')"
  shows "code = 201 \<and> map br_Index results = [0..<length (bq_Recipients req)]"
  using assms
  by (auto simp: NotificationHandler_Batch_def RequireTenant_def deref_def with_enabled_channel_def
      with_content_def errResponse_def ret_def elim!: bnd_ValE
      dest!: batch_loop_Val split: option.splits sum.splits prod.splits if_splits)

text \<open>\<open>RequireTenant\<close> reports a missing tenant with the error of a response that was
  written successfully, which is nil: the handler goes on and dereferences the missing tenant, so a valid
  request on a route without the authentication middleware panics instead of failing cleanly.\<close>

theorem missing_tenant_panics:
  assumes "sendNotificationRequest_Validate req = None"
  shows "NotificationHandler_Send L R sv (Some req) None w = (Panic, w)"
  using assms by (simp add: NotificationHandler_Send_def RequireTenant_def deref_def errResponse_def go_defs)

theorem missing_tenant_panics_witness:
  "fst (NotificationHandler_Send bit_libs mem_redis kafka_service (Some sms_request) None (calm_world sms_db)) = Panic"
  using missing_tenant_panics [of sms_request bit_libs mem_redis kafka_service "calm_world sms_db"]
  by (simp add: sendNotificationRequest_Validate_def sms_request_def isValidChannel_def validateRecipientFields_def)

lemma tx_runs_unpublished:
  assumes "c_fail (w_env w (w_tick w)) = None" and "c_fail (w_env w (Suc (w_tick w))) = None"
    and "p_ID p \<notin> notification_ids (w_db w)" and "p_IdempotencyKey p = []"
    and "p_TenantID p \<in> tenant_ids (w_db w)" and "p_TemplateID p = None"
    and "c_uuid (w_env w (Suc (w_tick w))) \<notin> d_ID ` set (notification_deliveries (w_db w))"
  shows "\<exists>n dv w1. create_and_queue_tx L sv p False w = (Val (Inr (n, dv)), w1)
           \<and> w_env w1 = w_env w \<and> w_tick w1 = Suc (Suc (w_tick w))"
  using assms
  by (auto simp: create_and_queue_tx_def NotificationRepository_Create_def notification_row_def
      NotificationDeliveryRepository_Create_def delivery_row_def run_defs)

lemma unpublished_runs:
  assumes "\<And>i. i < 4 \<Longrightarrow> \<not> fails_at w i" and "p_ID p \<notin> notification_ids (w_db w)"
    and "p_IdempotencyKey p = []" and "p_TenantID p \<in> tenant_ids (w_db w)" and "p_TemplateID p = None"
    and "c_uuid (w_env w (w_tick w + 2)) \<notin> d_ID ` set (notification_deliveries (w_db w))"
  shows "\<exists>n dv w1. NotificationHandler_createAndQueue L sv p False w = (Val (Inr (n, dv)), w1)
    \<and> n = notification_row (now_at w 1) p
    \<and> w_db w1 = (w_db w)\<lparr>notifications := notifications (w_db w) @ [n],
          notification_deliveries := notification_deliveries (w_db w) @ [dv]\<rparr>
    \<and> w_env w1 = w_env w \<and> w_tick w1 = w_tick w + 4"
proof -
  have env: "c_fail (w_env w (w_tick w)) = None" "c_fail (w_env w (Suc (w_tick w))) = None"
    "c_fail (w_env w (Suc (Suc (w_tick w)))) = None" "c_fail (w_env w (Suc (Suc (Suc (w_tick w))))) = None"
    using assms(1) [of 0] assms(1) [of 1] assms(1) [of 2] assms(1) [of 3]
    by (simp_all add: fails_at_def eval_nat_numeral)
  obtain n dv w1 where
    tx: "create_and_queue_tx L sv p False (w\<lparr>w_tick := Suc (w_tick w)\<rparr>) = (Val (Inr (n, dv)), w1)"
    and w1: "w_env w1 = w_env w" "w_tick w1 = Suc (Suc (Suc (w_tick w)))"
    using tx_runs_unpublished [of "w\<lparr>w_tick := Suc (w_tick w)\<rparr>" p L sv] assms(2-6) env by auto
  then have "NotificationHandler_createAndQueue L sv p False w
      = (Val (Inr (n, dv)), w1\<lparr>w_tick := Suc (w_tick w1), w_events := w_events w1
          @ [CounterInc ''notifyx_notifications_total'' [p_Channel p, p_Status p]]\<rparr>)"
    using env
    by (simp add: NotificationHandler_createAndQueue_def WithTx_def tx_body_def bnd_def external_def Let_def
        ret_def count_status_def emit_def writes_def)
  then show ?thesis using w1 tx_effect(1,3) [OF tx] by (auto simp: now_at_def)
qed

text \<open>A valid request up to the insert of its scheduled row: the notification is committed by then.\<close>

lemma Schedule_run:
  assumes "at_text \<noteq> []" and "time_Parse L at_text = Some scheduledAt" and "now_at w 0 < scheduledAt"
    and "sendNotificationRequest_Validate req = None" and "sq_TemplateID req = []" and "sq_IdempotencyKey req = []"
    and "t_ID tenant \<in> tenant_ids (w_db w)"
    and "find (\<lambda>r. tc_TenantID r = t_ID tenant \<and> tc_Channel r = sq_Channel req) (tenant_channels (w_db w)) = Some tc"
    and "tc_Enabled tc" and "c_uuid (w_env w (w_tick w + 2)) \<notin> notification_ids (w_db w)"
    and "c_uuid (w_env w (w_tick w + 5)) \<notin> d_ID ` set (notification_deliveries (w_db w))"
    and "\<And>i. i < 7 \<Longrightarrow> \<not> fails_at w i"
  obtains n dv w1 where "NotificationHandler_Schedule L sv (Some \<lparr>cq_send = req, cq_ScheduledAt = at_text\<rparr>) (Some tenant) w
       = bnd (ScheduledNotificationRepository_Create (n_ID n) scheduledAt) (\<lambda>r. case r of
           Inl _ \<Rightarrow> errResponse 500 ''failed to schedule notification''
         | Inr _ \<Rightarrow> ret (JSON 201 (PSchedule (uuid_String L (n_ID n)) (n_Status n) scheduledAt))) w1"
    and "n_ID n = c_uuid (w_env w (w_tick w + 2))" and "n_Status n = StatusPending" and "n_ScheduledAt n = Some scheduledAt"
    and "w_db w1 = (w_db w)\<lparr>notifications := notifications (w_db w) @ [n],
          notification_deliveries := notification_deliveries (w_db w) @ [dv]\<rparr>"
    and "w_env w1 = w_env w" and "w_tick w1 = w_tick w + 7"
proof -
  define p where "p = \<lparr>p_ID = c_uuid (w_env w (w_tick w + 2)), p_TenantID = t_ID tenant, p_Channel = sq_Channel req,
     p_Priority = default_priority (sq_Priority req), p_Status = StatusPending,
     p_RecipientID = sq_RecipientID req, p_RecipientEmail = sq_RecipientEmail req,
     p_RecipientPhone = sq_RecipientPhone req, p_RecipientToken = sq_RecipientToken req,
     p_TemplateID = None, p_Subject = sq_Subject req, p_Body = sq_Body req,
     p_Metadata = sq_Metadata req, p_IdempotencyKey = sq_IdempotencyKey req,
     p_ScheduledAt = Some scheduledAt\<rparr>"
  let ?w = "w\<lparr>w_tick := w_tick w + 3\<rparr>"
  have later: "\<not> fails_at ?w i" if "i < 4" for i
    using assms(12) [of "3 + i"] that by (simp add: fails_at_def add.assoc)
  have "\<exists>n dv w1. NotificationHandler_createAndQueue L sv p False ?w = (Val (Inr (n, dv)), w1)
    \<and> n = notification_row (now_at ?w 1) p
    \<and> w_db w1 = (w_db ?w)\<lparr>notifications := notifications (w_db ?w) @ [n],
          notification_deliveries := notification_deliveries (w_db ?w) @ [dv]\<rparr>
    \<and> w_env w1 = w_env ?w \<and> w_tick w1 = w_tick ?w + 4"
    by (rule unpublished_runs [OF later]) (use assms(6,7,10,11) in \<open>simp_all add: p_def numeral_eq_Suc\<close>)
  then obtain n dv w1 where run: "NotificationHandler_createAndQueue L sv p False ?w = (Val (Inr (n, dv)), w1)"
    and row: "n = notification_row (now_at ?w 1) p"
    and w1: "w_db w1 = (w_db w)\<lparr>notifications := notifications (w_db w) @ [n],
          notification_deliveries := notification_deliveries (w_db w) @ [dv]\<rparr>"
      "w_env w1 = w_env w" "w_tick w1 = w_tick w + 7" by auto
  have "c_fail (w_env w (Suc (w_tick w))) = None" using assms(12) [of 1] by (simp add: fails_at_def)
  then have "NotificationHandler_Schedule L sv (Some \<lparr>cq_send = req, cq_ScheduledAt = at_text\<rparr>) (Some tenant) w
       = bnd (ScheduledNotificationRepository_Create (n_ID n) scheduledAt) (\<lambda>r. case r of
           Inl _ \<Rightarrow> errResponse 500 ''failed to schedule notification''
         | Inr _ \<Rightarrow> ret (JSON 201 (PSchedule (uuid_String L (n_ID n)) (n_Status n) scheduledAt))) w1"
    using assms(1-5,8,9) run [unfolded p_def]
    by (auto simp: NotificationHandler_Schedule_def RequireTenant_def deref_def scheduleNotificationRequest_Validate_def
        with_enabled_channel_def with_content_def TenantChannelRepository_IsEnabled_def go_defs query_def external_def
        run_stmt_def select_one_def wrap_def now_at_def numeral_eq_Suc)
  then show thesis
    by (rule that) (simp_all add: w1 row notification_row_def p_def)
qed

text \<open>Scheduling is not atomic: when every call succeeds up to the commit of the notification and the insert of
  the \<open>scheduled_notifications\<close> row then fails, the caller gets a 500, but the pending notification and
  its delivery are stored, with no row that would ever fire them.\<close>

theorem failed_schedule_leaves_notification:
  assumes "at_text \<noteq> []" and "time_Parse L at_text = Some scheduledAt" and "now_at w 0 < scheduledAt"
    and "sendNotificationRequest_Validate req = None" and "sq_TemplateID req = []" and "sq_IdempotencyKey req = []"
    and "t_ID tenant \<in> tenant_ids (w_db w)"
    and "find (\<lambda>r. tc_TenantID r = t_ID tenant \<and> tc_Channel r = sq_Channel req) (tenant_channels (w_db w)) = Some tc"
    and "tc_Enabled tc" and "c_uuid (w_env w (w_tick w + 2)) \<notin> notification_ids (w_db w)"
    and "c_uuid (w_env w (w_tick w + 5)) \<notin> d_ID ` set (notification_deliveries (w_db w))"
    and "\<And>i. i < 7 \<Longrightarrow> \<not> fails_at w i" and "fails_at w 7"
  shows "\<exists>n dv w'. NotificationHandler_Schedule L sv (Some \<lparr>cq_send = req, cq_ScheduledAt = at_text\<rparr>) (Some tenant) w
       = (Val (JSON 500 (PError ''failed to schedule notification'')), w')
     \<and> n_Status n = StatusPending \<and> n_ScheduledAt n = Some scheduledAt
     \<and> w_db w' = (w_db w)\<lparr>notifications := notifications (w_db w) @ [n],
          notification_deliveries := notification_deliveries (w_db w) @ [dv]\<rparr>"
proof -
  obtain n dv w1 where run: "NotificationHandler_Schedule L sv (Some \<lparr>cq_send = req, cq_ScheduledAt = at_text\<rparr>) (Some tenant) w
       = bnd (ScheduledNotificationRepository_Create (n_ID n) scheduledAt) (\<lambda>r. case r of
           Inl _ \<Rightarrow> errResponse 500 ''failed to schedule notification''
         | Inr _ \<Rightarrow> ret (JSON 201 (PSchedule (uuid_String L (n_ID n)) (n_Status n) scheduledAt))) w1"
    and n: "n_Status n = StatusPending" "n_ScheduledAt n = Some scheduledAt"
    and w1: "w_db w1 = (w_db w)\<lparr>notifications := notifications (w_db w) @ [n],
          notification_deliveries := notification_deliveries (w_db w) @ [dv]\<rparr>"
      "w_env w1 = w_env w" "w_tick w1 = w_tick w + 7"
    by (rule Schedule_run [OF assms(1-12), of sv])
  have "c_fail (w_env w1 (w_tick w1)) \<noteq> None" using assms(13) w1 by (simp add: fails_at_def)
  then have "ScheduledNotificationRepository_Create (n_ID n) scheduledAt w1
      = (Val (Inl ErrOther), w1\<lparr>w_tick := Suc (w_tick w1)\<rparr>)"
    by (auto simp: ScheduledNotificationRepository_Create_def go_defs query_def external_def wrap_def)
  with run n w1(1) show ?thesis
    by (intro exI [of _ n] exI [of _ dv] exI [of _ "w1\<lparr>w_tick := Suc (w_tick w1)\<rparr>"])
       (simp add: bnd_def errResponse_def ret_def)
qed

theorem failed_schedule_leaves_notification_witness:
  "\<exists>n dv w'. NotificationHandler_Schedule bit_libs kafka_service
         (Some \<lparr>cq_send = sms_request, cq_ScheduledAt = ''x''\<rparr>) (Some due_tenant)
         ((calm_world sms_db)\<lparr>w_env := calm_env(7 := (calm_env 7)\<lparr>c_fail := Some ''down''\<rparr>)\<rparr>)
       = (Val (JSON 500 (PError ''failed to schedule notification'')), w')
     \<and> notifications (w_db w') = [n] \<and> notification_deliveries (w_db w') = [dv]
     \<and> scheduled_notifications (w_db w') = []"
proof -
  let ?w = "(calm_world sms_db)\<lparr>w_env := calm_env(7 := (calm_env 7)\<lparr>c_fail := Some ''down''\<rparr>)\<rparr>"
  have "sendNotificationRequest_Validate sms_request = None"
    by (simp add: sendNotificationRequest_Validate_def isValidChannel_def validateRecipientFields_def sms_request_def)
  moreover have "\<not> fails_at ?w i" if "i < 7" for i
    using that by (simp add: fails_at_def calm_world_def calm_env_def)
  moreover have "fails_at ?w 7" by (simp add: fails_at_def calm_world_def)
  ultimately show ?thesis
    using failed_schedule_leaves_notification [of "''x''" bit_libs 1000000000000 ?w sms_request due_tenant
        "\<lparr>tc_ID = 5, tc_TenantID = 1, tc_Channel = ChannelSMS, tc_Enabled = True, tc_CreatedAt = 0\<rparr>" kafka_service]
    by (auto simp: sms_defs calm_world_def calm_env_def now_at_def bit_libs_def)
qed

text \<open>The total of a history page is read from the rows of the page: for a page beyond
  the end it is reported as 0, however many notifications match.\<close>

theorem history_total_lost_beyond_end:
  assumes "0 \<le> f_Limit f" and "int (length (filter (matches_filter tid f) (notifications d))) \<le> f_Offset f"
  shows "select_page tid f d = (Inr ([], 0), d)"
proof -
  have "drop (nat (f_Offset f)) (order_by_desc n_CreatedAt (filter (matches_filter tid f) (notifications d))) = []"
    using assms(2) by (simp add: order_by_desc_def)
  with assms show ?thesis by (simp add: select_page_def Let_def)
qed

theorem history_total_lost_beyond_end_witness:
  "fst (select_page 1 \<lparr>f_Channel = [], f_Status = [], f_From = None, f_To = None, f_Limit = 20, f_Offset = 20,
      f_Recipient = []\<rparr> due_db) = Inr ([], 0)
   \<and> fst (select_page 1 \<lparr>f_Channel = [], f_Status = [], f_From = None, f_To = None, f_Limit = 20, f_Offset = 0,
      f_Recipient = []\<rparr> due_db) = Inr ([due_notification], 1)"
  using history_total_lost_beyond_end [of "\<lparr>f_Channel = [], f_Status = [], f_From = None, f_To = None, f_Limit = 20,
      f_Offset = 20, f_Recipient = []\<rparr>" 1 due_db]
  by (simp add: due_defs matches_filter_def) (simp add: select_page_def matches_filter_def order_by_desc_def Let_def)

section \<open>Witnesses\<close>

text \<open>A limiter with no allowance at all.\<close>

lemma closed_limiter:
  "\<exists>w1. Limiter_Allow bit_libs mem_redis (Object \<lparr>lim_defaultMax = 0\<rparr>) 1 ChannelSMS (calm_world sms_db)
       = (Val (Inr False), w1) \<and> w_env w1 = calm_env \<and> w_tick w1 = 4 \<and> w_db w1 = sms_db"
proof -
  have "lua_num 0 = 0" by (simp add: lua_num_exact)
  then show ?thesis
    by (simp add: Limiter_Allow_def Limiter_resolveLimits_def TenantRepository_GetByID_def
        TenantRateLimitRepository_GetByChannel_def run_defs calm_world_def calm_env_def sms_defs redis_call_def
        slidingWindowScript_def mem_redis_def Let_def)
qed


theorem duplicate_crosses_tenants_witness:
  "\<exists>w'. NotificationHandler_processSend bit_libs mem_redis
       (kafka_service\<lparr>sv_Dedup := Object \<lparr>dd_ttl = 86400000000000\<rparr>\<rparr>) ''order-1''
       (sms_params\<lparr>p_TenantID := 8\<rparr>)
       ((calm_world due_db)\<lparr>w_redis := [redisKey bit_libs ''order-1''
          \<mapsto> (RStr (uuid_String bit_libs 2), Some 1000)]\<rparr>)
     = (Val (Inr \<lparr>sr_notificationID = uuid_String bit_libs 2, sr_status = StatusPending,
                  sr_duplicate = True\<rparr>), w')
     \<and> w_db w' = due_db"
proof -
  let ?w = "(calm_world due_db)\<lparr>w_redis := [redisKey bit_libs ''order-1''
      \<mapsto> (RStr (uuid_String bit_libs 2), Some 1000)]\<rparr>"
  have "holds_claim bit_libs ''order-1'' 2 1000 (w_redis ?w)" by (simp add: holds_claim_def)
  moreover have "now_at ?w 0 < 1000" "\<not> fails_at ?w 0" "\<not> fails_at ?w 1"
    by (simp_all add: now_at_def fails_at_def calm_world_def calm_env_def)
  moreover have "find (\<lambda>n. n_ID n = 2) (notifications (w_db ?w)) = Some due_notification"
    and "n_TenantID due_notification \<noteq> p_TenantID (sms_params\<lparr>p_TenantID := 8\<rparr>)"
    and "n_ID due_notification = 2" and "n_Status due_notification = StatusPending" and "w_db ?w = due_db"
    by (simp_all add: due_defs calm_world_def StatusPending_def)
  ultimately show ?thesis
    using duplicate_crosses_tenants [OF bit_uuid.uuid_library_axioms mem.redis_server_axioms,
        of "kafka_service\<lparr>sv_Dedup := Object \<lparr>dd_ttl = 86400000000000\<rparr>\<rparr>" "\<lparr>dd_ttl = 86400000000000\<rparr>"
        "''order-1''" 2 1000 ?w due_notification "sms_params\<lparr>p_TenantID := 8\<rparr>"]
    by simp
qed

lemma Get_runs:
  "\<exists>w'. NotificationHandler_Get bit_libs (uuid_String bit_libs 2) (Some due_tenant) (calm_world due_db)
     = (Val (JSON 200 (PDetail due_notification [due_delivery])), w')"
  by (simp add: NotificationHandler_Get_def bit_uuid.parse_string RequireTenant_def deref_def run_defs
      NotificationRepository_GetByID_def NotificationDeliveryRepository_GetByNotificationID_def
      calm_world_def calm_env_def due_defs order_by_def)

theorem Get_is_tenant_scoped_witness:
  "n_TenantID due_notification = t_ID due_tenant \<and> d_NotificationID due_delivery = n_ID due_notification"
proof -
  obtain w' where "NotificationHandler_Get bit_libs (uuid_String bit_libs 2) (Some due_tenant) (calm_world due_db)
      = (Val (JSON 200 (PDetail due_notification [due_delivery])), w')" using Get_runs by blast
  from Get_is_tenant_scoped [OF this] show ?thesis by simp
qed

theorem History_is_tenant_scoped_witness:
  "\<exists>ns cnt page limit w'. NotificationHandler_History bit_libs (Some \<lparr>hq_page = \<lparr>pg_Page = 0, pg_Limit = 500\<rparr>,
       hq_Channel = [], hq_Status = [], hq_From = [], hq_To = [], hq_Recipient = []\<rparr>) (Some due_tenant)
       (calm_world due_db) = (Val (JSON 200 (PHistory ns cnt page limit)), w')
     \<and> (\<forall>n\<in>set ns. n_TenantID n = 1) \<and> 1 \<le> page \<and> limit \<le> 100"
proof -
  let ?q = "\<lparr>hq_page = \<lparr>pg_Page = 0, pg_Limit = 500\<rparr>, hq_Channel = [], hq_Status = [], hq_From = [], hq_To = [],
      hq_Recipient = []\<rparr>"
  have "\<exists>ns cnt page limit w'. NotificationHandler_History bit_libs (Some ?q) (Some due_tenant) (calm_world due_db)
      = (Val (JSON 200 (PHistory ns cnt page limit)), w')"
    by (simp add: NotificationHandler_History_def RequireTenant_def deref_def PaginationParams_Normalize_def
        optional_time_def NotificationRepository_GetByTenantID_def select_page_def PaginationParams_Offset_def
        int64_def run_defs Let_def calm_world_def calm_env_def)
  then obtain ns cnt page limit w' where run: "NotificationHandler_History bit_libs (Some ?q) (Some due_tenant)
      (calm_world due_db) = (Val (JSON 200 (PHistory ns cnt page limit)), w')" by blast
  have "t_ID due_tenant = 1" by (simp add: due_tenant_def)
  with run History_is_tenant_scoped [OF run] show ?thesis by (metis (no_types, lifting))
qed


definition sms_batch :: batchSendRequest where
  "sms_batch = \<lparr>bq_Channel = ChannelSMS, bq_Priority = [], bq_TemplateID = [], bq_Variables = [], bq_Subject = [],
     bq_Body = ''hello'', bq_Metadata = None, bq_Recipients = [\<lparr>bt_RecipientID = [], bt_RecipientEmail = [],
       bt_RecipientPhone = ''5550100'', bt_RecipientToken = []\<rparr>], bq_IdempotencyKey = []\<rparr>"

theorem Batch_one_result_each_witness:
  "\<exists>results w'. NotificationHandler_Batch bit_libs mem_redis kafka_service (Some sms_batch) (Some due_tenant)
       ((calm_world sms_db)\<lparr>w_env := calm_env(2 := (calm_env 2)\<lparr>c_fail := Some ''down''\<rparr>)\<rparr>)
     = (Val (JSON 201 (PBatch results)), w') \<and> map br_Index results = [0]"
proof -
  let ?w = "(calm_world sms_db)\<lparr>w_env := calm_env(2 := (calm_env 2)\<lparr>c_fail := Some ''down''\<rparr>)\<rparr>"
  have "\<exists>results w'. NotificationHandler_Batch bit_libs mem_redis kafka_service (Some sms_batch) (Some due_tenant) ?w
      = (Val (JSON 201 (PBatch results)), w')"
    by (simp add: NotificationHandler_Batch_def RequireTenant_def deref_def batchSendRequest_Validate_def
        sms_batch_def isValidChannel_def validateRecipientFields_def with_enabled_channel_def with_content_def
        TenantChannelRepository_IsEnabled_def NotificationHandler_processSend_def send_fresh_def
        NotificationHandler_createAndQueue_def WithTx_def NotificationHandler_releaseDedup_def run_defs
        sms_defs calm_world_def calm_env_def Let_def)
  then obtain results w' where run: "NotificationHandler_Batch bit_libs mem_redis kafka_service (Some sms_batch)
      (Some due_tenant) ?w = (Val (JSON 201 (PBatch results)), w')" by blast
  from Batch_one_result_each [OF run] run show ?thesis by (auto simp: sms_batch_def)
qed

end
