(* ===== verification/TenantApi.thy ===== *)
theory TenantApi
  imports Api "HOL-Library.List_Lexorder" "HOL-Library.Char_ord"
begin

text \<open>
  \<open>backend/internal/api/handlers/tenant.go\<close> and \<open>handlers/template.go\<close>, with the analytics
  queries of \<open>repository/postgres/analytics_repo.go\<close>.  Times are UTC, so \<open>date_trunc('day', t)\<close>
  is the start of the day and \<open>AddDate(0, 0, -30)\<close> is thirty days.
\<close>

section \<open>Analytics queries\<close>

definition in_period :: "uuid \<Rightarrow> time \<Rightarrow> time \<Rightarrow> notification \<Rightarrow> bool" where
  "in_period tid from_t to_t n \<longleftrightarrow> n_TenantID n = tid \<and> from_t \<le> n_CreatedAt n \<and> n_CreatedAt n \<le> to_t"

definition summary_of :: "notification list \<Rightarrow> analytics_summary" where
  "summary_of ns = \<lparr>TotalSent = length ns,
     TotalDelivered = count_where (\<lambda>n. n_Status n = StatusDelivered) ns,
     TotalFailed = count_where (\<lambda>n. n_Status n = StatusFailed) ns\<rparr>"

definition AnalyticsRepository_Summary ::
    "uuid \<Rightarrow> time \<Rightarrow> time \<Rightarrow> ('r world, repo_error + analytics_summary) prog" where
  "AnalyticsRepository_Summary tid from_t to_t =
     bnd (query (\<lambda>_. select (\<lambda>d. summary_of (filter (in_period tid from_t to_t) (notifications d)))))
       (\<lambda>r. ret (wrap r))"

definition breakdown_of :: "notification list \<Rightarrow> channel \<Rightarrow> channel_breakdown" where
  "breakdown_of ns ch =
     (let rows = filter (\<lambda>n. n_Channel n = ch) ns; sent = length rows;
          delivered = count_where (\<lambda>n. n_Status n = StatusDelivered) rows in
      \<lparr>b_Channel = ch, b_Sent = sent, b_Delivered = delivered,
       b_Failed = count_where (\<lambda>n. n_Status n = StatusFailed) rows,
       b_DeliveryRate = (if sent > 0 then rat_of_nat delivered / rat_of_nat sent else 0)\<rparr>)"

definition channels_of :: "notification list \<Rightarrow> channel list" where
  "channels_of ns = sort (remdups (map n_Channel ns))"

definition AnalyticsRepository_ChannelBreakdown ::
    "uuid \<Rightarrow> time \<Rightarrow> time \<Rightarrow> ('r world, repo_error + channel_breakdown list) prog" where
  "AnalyticsRepository_ChannelBreakdown tid from_t to_t =
     bnd (query (\<lambda>_. select (\<lambda>d.
            let ns = filter (in_period tid from_t to_t) (notifications d) in
            map (breakdown_of ns) (channels_of ns))))
       (\<lambda>r. ret (wrap r))"

definition day_start :: "time \<Rightarrow> time" where
  "day_start t = t - t mod day"

definition days_between :: "time \<Rightarrow> time \<Rightarrow> time list" where
  "days_between a b = map (\<lambda>i. a + int i * day) [0..<nat ((b - a) div day + 1)]"

definition dlq_trend :: "uuid \<Rightarrow> time \<Rightarrow> time \<Rightarrow> db \<Rightarrow> dlq_point list" where
  "dlq_trend tid from_t to_t d =
     map (\<lambda>g. \<lparr>dp_Date = g, dp_Count = count_where (\<lambda>q. day_start (q_CreatedAt q) = g
              \<and> from_t \<le> q_CreatedAt q \<and> q_CreatedAt q \<le> to_t
              \<and> (\<exists>n\<in>set (notifications d). n_ID n = q_NotificationID q \<and> n_TenantID n = tid))
            (dlq_messages d)\<rparr>)
       (days_between (day_start from_t) (day_start to_t))"

definition AnalyticsRepository_DLQTrend ::
    "uuid \<Rightarrow> time \<Rightarrow> time \<Rightarrow> ('r world, repo_error + dlq_point list) prog" where
  "AnalyticsRepository_DLQTrend tid from_t to_t =
     bnd (query (\<lambda>_. select (dlq_trend tid from_t to_t))) (\<lambda>r. ret (wrap r))"

section \<open>Tenant handlers\<close>

definition parse_id :: "libs \<Rightarrow> string \<Rightarrow> string \<Rightarrow> (uuid \<Rightarrow> ('r world, response) prog) \<Rightarrow> ('r world, response) prog" where
  "parse_id L param what k =
     (case uuid_Parse L param of None \<Rightarrow> errResponse 400 (''invalid '' @ what @ '' id'') | Some uid \<Rightarrow> k uid)"

text \<open>\<open>Tenants.GetByID\<close> with the 404 and the other error, as several handlers begin.\<close>

definition with_tenant :: "uuid \<Rightarrow> (tenant \<Rightarrow> ('r world, response) prog) \<Rightarrow> ('r world, response) prog" where
  "with_tenant uid k =
     bnd (TenantRepository_GetByID uid) (\<lambda>r. case r of
       Inl e \<Rightarrow>
         if e = ErrNotFound then errResponse 404 ''tenant not found''
         else errResponse 500 ''failed to verify tenant''
     | Inr t \<Rightarrow> k t)"

definition create_tenant_tx :: "string \<Rightarrow> int \<Rightarrow> string \<Rightarrow> ('r world, repo_error + tenant) prog" where
  "create_tenant_tx name cap keyHash =
     bnd (TenantRepository_Create name cap) (\<lambda>r. case r of
       Inl e \<Rightarrow> ret (Inl e)
     | Inr t \<Rightarrow>
         bnd (APIKeyRepository_Create (t_ID t) keyHash) (\<lambda>r. case r of
           Inl e \<Rightarrow> ret (Inl e) | Inr _ \<Rightarrow> ret (Inr t)))"

definition createTenantRequest_Validate :: "string \<Rightarrow> string option" where
  "createTenantRequest_Validate name = (if name = [] then Some ''name is required'' else None)"

definition TenantHandler_Create :: "libs \<Rightarrow> int \<Rightarrow> string option \<Rightarrow> ('r world, response) prog" where
  "TenantHandler_Create L defaultCap bound =
     (case bound of
        None \<Rightarrow> errResponse 400 ''invalid request body''
      | Some name \<Rightarrow> (case createTenantRequest_Validate name of
          Some e \<Rightarrow> errResponse 422 e
        | None \<Rightarrow> bnd (generateAPIKey L) (\<lambda>k. case k of
            Inl _ \<Rightarrow> errResponse 500 ''failed to generate api key''
          | Inr (rawKey, keyHash) \<Rightarrow>
              bnd (WithTx (create_tenant_tx name defaultCap keyHash)) (\<lambda>r. case r of
                Inl _ \<Rightarrow> errResponse 500 ''failed to create tenant''
              | Inr t \<Rightarrow> ret (JSON 201 (PTenantCreated (uuid_String L (t_ID t)) (t_Name t) rawKey))))))"

definition TenantHandler_List :: "('r world, response) prog" where
  "TenantHandler_List =
     bnd TenantRepository_GetAll (\<lambda>r. case r of
       Inl _ \<Rightarrow> errResponse 500 ''failed to list tenants'' | Inr ts \<Rightarrow> ret (JSON 200 (PTenants ts)))"

definition TenantHandler_Get :: "libs \<Rightarrow> string \<Rightarrow> ('r world, response) prog" where
  "TenantHandler_Get L param = parse_id L param ''tenant'' (\<lambda>uid.
     bnd (TenantRepository_GetByID uid) (\<lambda>r. case r of
       Inl e \<Rightarrow> if e = ErrNotFound then errResponse 404 ''tenant not found''
                else errResponse 500 ''failed to get tenant''
     | Inr t \<Rightarrow> ret (JSON 200 (PTenant t))))"

definition TenantHandler_Update :: "libs \<Rightarrow> string \<Rightarrow> string option \<Rightarrow> ('r world, response) prog" where
  "TenantHandler_Update L param bound = parse_id L param ''tenant'' (\<lambda>uid. case bound of
     None \<Rightarrow> errResponse 400 ''invalid request body''
   | Some name \<Rightarrow>
       if name = [] then errResponse 422 ''name is required''
       else bnd (TenantRepository_Update uid name) (\<lambda>r. case r of
         Inl e \<Rightarrow> if e = ErrNotFound then errResponse 404 ''tenant not found''
                  else errResponse 500 ''failed to update tenant''
       | Inr t \<Rightarrow> ret (JSON 200 (PTenant t))))"

definition TenantHandler_Delete :: "libs \<Rightarrow> string \<Rightarrow> ('r world, response) prog" where
  "TenantHandler_Delete L param = parse_id L param ''tenant'' (\<lambda>uid.
     bnd (TenantRepository_Delete uid) (\<lambda>r. case r of
       Inl e \<Rightarrow> if e = ErrNotFound then errResponse 404 ''tenant not found''
                else errResponse 500 ''failed to delete tenant''
     | Inr _ \<Rightarrow> ret (NoContent 204)))"

definition TenantHandler_CreateKey :: "libs \<Rightarrow> string \<Rightarrow> ('r world, response) prog" where
  "TenantHandler_CreateKey L param = parse_id L param ''tenant'' (\<lambda>uid. with_tenant uid (\<lambda>_.
     bnd (generateAPIKey L) (\<lambda>k. case k of
       Inl _ \<Rightarrow> errResponse 500 ''failed to generate api key''
     | Inr (rawKey, keyHash) \<Rightarrow>
         bnd (APIKeyRepository_Create uid keyHash) (\<lambda>r. case r of
           Inl _ \<Rightarrow> errResponse 500 ''failed to store api key''
         | Inr key \<Rightarrow> ret (JSON 201 (PKeyCreated (uuid_String L (k_ID key)) rawKey))))))"

definition TenantHandler_ListKeys :: "libs \<Rightarrow> string \<Rightarrow> ('r world, response) prog" where
  "TenantHandler_ListKeys L param = parse_id L param ''tenant'' (\<lambda>uid.
     bnd (APIKeyRepository_GetByTenantID uid) (\<lambda>r. case r of
       Inl _ \<Rightarrow> errResponse 500 ''failed to list api keys''
     | Inr ks \<Rightarrow> ret (JSON 200 (PKeys ks))))"

definition TenantHandler_DeleteKey :: "libs \<Rightarrow> string \<Rightarrow> ('r world, response) prog" where
  "TenantHandler_DeleteKey L param = parse_id L param ''key'' (\<lambda>kid.
     bnd (APIKeyRepository_Delete kid) (\<lambda>r. case r of
       Inl e \<Rightarrow> if e = ErrNotFound then errResponse 404 ''api key not found''
                else errResponse 500 ''failed to revoke api key''
     | Inr _ \<Rightarrow> ret (NoContent 204)))"

fun updateChannelsRequest_Validate :: "(string \<times> bool) list \<Rightarrow> string option" where
  "updateChannelsRequest_Validate [] = None"
| "updateChannelsRequest_Validate ((ch, en) # cs) =
     (if \<not> isValidChannel ch then Some (invalid_channel ch) else updateChannelsRequest_Validate cs)"

definition TenantHandler_UpdateChannels ::
    "libs \<Rightarrow> string \<Rightarrow> (string \<times> bool) list option \<Rightarrow> ('r world, response) prog" where
  "TenantHandler_UpdateChannels L param bound = parse_id L param ''tenant'' (\<lambda>uid. case bound of
     None \<Rightarrow> errResponse 400 ''invalid request body''
   | Some cs \<Rightarrow> (case updateChannelsRequest_Validate cs of
       Some e \<Rightarrow> errResponse 422 e
     | None \<Rightarrow> with_tenant uid (\<lambda>_.
         bnd (WithTx (for_err cs (\<lambda>(ch, en). TenantChannelRepository_Upsert uid ch en))) (\<lambda>r. case r of
           Inl _ \<Rightarrow> errResponse 500 ''failed to update channels''
         | Inr _ \<Rightarrow>
             bnd (TenantChannelRepository_GetByTenantID uid) (\<lambda>r. case r of
               Inl _ \<Rightarrow> errResponse 500 ''failed to fetch channels''
             | Inr chs \<Rightarrow> ret (JSON 200 (PChannels chs)))))))"

record updateRateLimitsRequest =
  rq_GlobalCap :: "int option"
  rq_RateLimits :: "(string \<times> int) list"

fun validate_rate_limits :: "(string \<times> int) list \<Rightarrow> string option" where
  "validate_rate_limits [] = None"
| "validate_rate_limits ((ch, mx) # rls) =
     (if \<not> isValidChannel ch then Some (invalid_channel ch)
      else if mx \<le> 0 then Some ''max_per_min must be greater than 0''
      else validate_rate_limits rls)"

definition updateRateLimitsRequest_Validate :: "updateRateLimitsRequest \<Rightarrow> string option" where
  "updateRateLimitsRequest_Validate r =
     (if (case rq_GlobalCap r of Some cap \<Rightarrow> cap \<le> 0 | None \<Rightarrow> False)
      then Some ''global_cap must be greater than 0'' else validate_rate_limits (rq_RateLimits r))"

definition update_rate_limits_tx ::
    "uuid \<Rightarrow> updateRateLimitsRequest \<Rightarrow> tenant \<Rightarrow> ('r world, repo_error + tenant) prog" where
  "update_rate_limits_tx uid req tenant =
     bnd (case rq_GlobalCap req of
            None \<Rightarrow> ret (Inr tenant)
          | Some cap \<Rightarrow> TenantRepository_UpdateGlobalRateCap uid cap) (\<lambda>r. case r of
       Inl e \<Rightarrow> ret (Inl e)
     | Inr t \<Rightarrow>
         bnd (for_err (rq_RateLimits req) (\<lambda>(ch, mx). TenantRateLimitRepository_Upsert uid ch mx)) (\<lambda>r.
           case r of Inl e \<Rightarrow> ret (Inl e) | Inr _ \<Rightarrow> ret (Inr t)))"

definition TenantHandler_UpdateRateLimits ::
    "libs \<Rightarrow> string \<Rightarrow> updateRateLimitsRequest option \<Rightarrow> ('r world, response) prog" where
  "TenantHandler_UpdateRateLimits L param bound = parse_id L param ''tenant'' (\<lambda>uid. case bound of
     None \<Rightarrow> errResponse 400 ''invalid request body''
   | Some req \<Rightarrow> (case updateRateLimitsRequest_Validate req of
       Some e \<Rightarrow> errResponse 422 e
     | None \<Rightarrow> with_tenant uid (\<lambda>tenant.
         bnd (WithTx (update_rate_limits_tx uid req tenant)) (\<lambda>r. case r of
           Inl _ \<Rightarrow> errResponse 500 ''failed to update rate limits''
         | Inr t \<Rightarrow>
             bnd (TenantRateLimitRepository_GetByTenantID uid) (\<lambda>r. case r of
               Inl _ \<Rightarrow> errResponse 500 ''failed to fetch rate limits''
             | Inr rls \<Rightarrow> ret (JSON 200 (PRateLimits (t_GlobalRateCap t) rls)))))))"

definition TenantHandler_GetChannels :: "libs \<Rightarrow> string \<Rightarrow> ('r world, response) prog" where
  "TenantHandler_GetChannels L param = parse_id L param ''tenant'' (\<lambda>uid. with_tenant uid (\<lambda>_.
     bnd (TenantChannelRepository_GetByTenantID uid) (\<lambda>r. case r of
       Inl _ \<Rightarrow> errResponse 500 ''failed to get channels'' | Inr chs \<Rightarrow> ret (JSON 200 (PChannels chs)))))"

definition TenantHandler_GetRateLimits :: "libs \<Rightarrow> string \<Rightarrow> ('r world, response) prog" where
  "TenantHandler_GetRateLimits L param = parse_id L param ''tenant'' (\<lambda>uid. with_tenant uid (\<lambda>tenant.
     bnd (TenantRateLimitRepository_GetByTenantID uid) (\<lambda>r. case r of
       Inl _ \<Rightarrow> errResponse 500 ''failed to get rate limits''
     | Inr rls \<Rightarrow> ret (JSON 200 (PRateLimits (t_GlobalRateCap tenant) rls)))))"

text \<open>A query parameter with a default for the empty string.\<close>

definition time_or :: "libs \<Rightarrow> string \<Rightarrow> time \<Rightarrow> time option" where
  "time_or L s dflt = (if s = [] then Some dflt else time_Parse L s)"

definition TenantHandler_Analytics ::
    "libs \<Rightarrow> string \<Rightarrow> (string \<times> string) option \<Rightarrow> ('r world, response) prog" where
  "TenantHandler_Analytics L param bound = parse_id L param ''tenant'' (\<lambda>uid. with_tenant uid (\<lambda>_. case bound of
     None \<Rightarrow> errResponse 400 ''invalid query parameters''
   | Some (qFrom, qTo) \<Rightarrow>
       bnd external (\<lambda>c. case time_or L qTo (c_now c) of
         None \<Rightarrow> errResponse 400 ''to must be RFC3339 (e.g. 2026-06-01T00:00:00Z)''
       | Some to_t \<Rightarrow> (case time_or L qFrom (to_t - 30 * day) of
           None \<Rightarrow> errResponse 400 ''from must be RFC3339 (e.g. 2026-06-01T00:00:00Z)''
         | Some from_t \<Rightarrow>
             bnd (AnalyticsRepository_Summary uid from_t to_t) (\<lambda>r. case r of
               Inl _ \<Rightarrow> errResponse 500 ''failed to compute analytics summary''
             | Inr summary \<Rightarrow>
                 bnd (AnalyticsRepository_ChannelBreakdown uid from_t to_t) (\<lambda>r. case r of
                   Inl _ \<Rightarrow> errResponse 500 ''failed to compute channel breakdown''
                 | Inr channels \<Rightarrow>
                     bnd (AnalyticsRepository_DLQTrend uid from_t to_t) (\<lambda>r. case r of
                       Inl _ \<Rightarrow> errResponse 500 ''failed to compute dlq trend''
                     | Inr trend \<Rightarrow> ret (JSON 200 (PAnalytics summary channels trend from_t to_t)))))))))"

section \<open>Template handlers\<close>

record templateRequest =
  tq_Name :: string
  tq_Channel :: string
  tq_Subject :: string
  tq_Body :: string

definition templateRequest_Validate :: "templateRequest \<Rightarrow> string option" where
  "templateRequest_Validate r =
     (if tq_Name r = [] then Some ''name is required''
      else if \<not> isValidChannel (tq_Channel r) then Some (invalid_channel (tq_Channel r))
      else if tq_Body r = [] then Some ''body is required''
      else if tq_Channel r = ChannelEmail \<and> tq_Subject r = []
      then Some ''subject is required for channel email''
      else None)"

definition already_exists :: "string \<Rightarrow> string" where
  "already_exists name = ''a template named '' @ quoted name @ '' already exists''"

definition TemplateHandler_Create ::
    "templateRequest option \<Rightarrow> tenant option \<Rightarrow> ('r world, response) prog" where
  "TemplateHandler_Create bound ctx =
     bnd (RequireTenant ctx) (\<lambda>tenant. case bound of
       None \<Rightarrow> errResponse 400 ''invalid request body''
     | Some req \<Rightarrow> (case templateRequest_Validate req of
         Some e \<Rightarrow> errResponse 422 e
       | None \<Rightarrow> deref tenant (\<lambda>tenant.
           bnd (TemplateRepository_Create (t_ID tenant) (tq_Name req) (tq_Channel req) (tq_Subject req)
                 (tq_Body req)) (\<lambda>r. case r of
             Inl e \<Rightarrow> if e = ErrAlreadyExists then errResponse 409 (already_exists (tq_Name req))
                      else errResponse 500 ''failed to create template''
           | Inr t \<Rightarrow> ret (JSON 201 (PTemplate t))))))"

definition TemplateHandler_List :: "tenant option \<Rightarrow> ('r world, response) prog" where
  "TemplateHandler_List ctx =
     bnd (RequireTenant ctx) (\<lambda>tenant. deref tenant (\<lambda>tenant.
       bnd (TemplateRepository_ListByTenant (t_ID tenant)) (\<lambda>r. case r of
         Inl _ \<Rightarrow> errResponse 500 ''failed to list templates'' | Inr ts \<Rightarrow> ret (JSON 200 (PTemplates ts)))))"

definition TemplateHandler_Get :: "libs \<Rightarrow> string \<Rightarrow> tenant option \<Rightarrow> ('r world, response) prog" where
  "TemplateHandler_Get L param ctx =
     bnd (RequireTenant ctx) (\<lambda>tenant. parse_id L param ''template'' (\<lambda>mid. deref tenant (\<lambda>tenant.
       bnd (TemplateRepository_GetByID (t_ID tenant) mid) (\<lambda>r. case r of
         Inl e \<Rightarrow> if e = ErrNotFound then errResponse 404 ''template not found''
                  else errResponse 500 ''failed to get template''
       | Inr t \<Rightarrow> ret (JSON 200 (PTemplate t))))))"

definition TemplateHandler_Update ::
    "libs \<Rightarrow> string \<Rightarrow> templateRequest option \<Rightarrow> tenant option \<Rightarrow> ('r world, response) prog" where
  "TemplateHandler_Update L param bound ctx =
     bnd (RequireTenant ctx) (\<lambda>tenant. parse_id L param ''template'' (\<lambda>mid. case bound of
       None \<Rightarrow> errResponse 400 ''invalid request body''
     | Some req \<Rightarrow> (case templateRequest_Validate req of
         Some e \<Rightarrow> errResponse 422 e
       | None \<Rightarrow> deref tenant (\<lambda>tenant.
           bnd (TemplateRepository_Update (t_ID tenant) mid (tq_Name req) (tq_Channel req) (tq_Subject req)
                 (tq_Body req)) (\<lambda>r. case r of
             Inl e \<Rightarrow> if e = ErrNotFound then errResponse 404 ''template not found''
                      else if e = ErrAlreadyExists then errResponse 409 (already_exists (tq_Name req))
                      else errResponse 500 ''failed to update template''
           | Inr t \<Rightarrow> ret (JSON 200 (PTemplate t)))))))"

definition TemplateHandler_Delete :: "libs \<Rightarrow> string \<Rightarrow> tenant option \<Rightarrow> ('r world, response) prog" where
  "TemplateHandler_Delete L param ctx =
     bnd (RequireTenant ctx) (\<lambda>tenant. parse_id L param ''template'' (\<lambda>mid. deref tenant (\<lambda>tenant.
       bnd (TemplateRepository_Delete (t_ID tenant) mid) (\<lambda>r. case r of
         Inl e \<Rightarrow> if e = ErrNotFound then errResponse 404 ''template not found''
                  else errResponse 500 ''failed to delete template''
       | Inr _ \<Rightarrow> ret (NoContent 204)))))"

section \<open>Invariants\<close>

lemma pres_parse_id [pres]: "(\<And>u. pres I (k u)) \<Longrightarrow> pres I (parse_id L p what k)"
  unfolding parse_id_def by (intro pres)

context db_statements
begin

lemma inv_with_tenant [pres]: "(\<And>t. pres (db_inv J) (k t)) \<Longrightarrow> pres (db_inv J) (with_tenant u k)"
  unfolding with_tenant_def by (intro pres)

lemma inv_analytics [pres]:
  "pres (db_inv J) (AnalyticsRepository_Summary a b c)"
  "pres (db_inv J) (AnalyticsRepository_ChannelBreakdown a b c)"
  "pres (db_inv J) (AnalyticsRepository_DLQTrend a b c)"
  unfolding AnalyticsRepository_Summary_def AnalyticsRepository_ChannelBreakdown_def
    AnalyticsRepository_DLQTrend_def
  by (intro pres_bnd db_query pres_ret, simp)+

lemma inv_tenant_handlers [pres]:
  "pres (db_inv J) (TenantHandler_Create L cap b)" "pres (db_inv J) TenantHandler_List"
  "pres (db_inv J) (TenantHandler_Get L s)" "pres (db_inv J) (TenantHandler_Update L s b)"
  "pres (db_inv J) (TenantHandler_Delete L s)" "pres (db_inv J) (TenantHandler_CreateKey L s)"
  "pres (db_inv J) (TenantHandler_ListKeys L s)" "pres (db_inv J) (TenantHandler_DeleteKey L s)"
  "pres (db_inv J) (TenantHandler_UpdateChannels L s cs)"
  "pres (db_inv J) (TenantHandler_UpdateRateLimits L s rq)"
  "pres (db_inv J) (TenantHandler_GetChannels L s)" "pres (db_inv J) (TenantHandler_GetRateLimits L s)"
  "pres (db_inv J) (TenantHandler_Analytics L s q)"
  unfolding TenantHandler_Create_def TenantHandler_List_def TenantHandler_Get_def TenantHandler_Update_def
    TenantHandler_Delete_def TenantHandler_CreateKey_def TenantHandler_ListKeys_def
    TenantHandler_DeleteKey_def TenantHandler_UpdateChannels_def TenantHandler_UpdateRateLimits_def
    TenantHandler_GetChannels_def TenantHandler_GetRateLimits_def TenantHandler_Analytics_def
    create_tenant_tx_def update_rate_limits_tx_def
  by (intro pres)+

lemma inv_template_handlers [pres]:
  "pres (db_inv J) (TemplateHandler_Create rq t)" "pres (db_inv J) (TemplateHandler_List t)"
  "pres (db_inv J) (TemplateHandler_Get L s t)" "pres (db_inv J) (TemplateHandler_Update L s rq t)"
  "pres (db_inv J) (TemplateHandler_Delete L s t)"
  unfolding TemplateHandler_Create_def TemplateHandler_List_def TemplateHandler_Get_def
    TemplateHandler_Update_def TemplateHandler_Delete_def
  by (intro pres)+

end

section \<open>API keys\<close>

lemma GetByID_success:
  assumes "TenantRepository_GetByID uid w = (Val (Inr t), w')"
  shows "find (\<lambda>t. t_ID t = uid) (tenants (w_db w)) = Some t \<and> w_db w' = w_db w"
  using assms
  by (auto simp: TenantRepository_GetByID_def ret_def select_one_def wrap_not_found_def
      elim!: bnd_ValE query_cases split: sum.splits option.splits if_splits)

lemma generateAPIKey_success:
  assumes "generateAPIKey L w = (Val (Inr (raw, hash)), w')"
  shows "hash = HashAPIKey L raw \<and> raw \<noteq> [] \<and> w_db w' = w_db w"
  using assms
  by (auto simp: generateAPIKey_def HashAPIKey_def ret_def external_def Let_def elim!: bnd_ValE
      split: option.splits)

lemma key_Create_success:
  assumes "APIKeyRepository_Create uid hash w = (Val (Inr k), w')"
  shows "hash \<notin> k_KeyHash ` set (api_keys (w_db w))
    \<and> w_db w' = (w_db w)\<lparr>api_keys := api_keys (w_db w) @ [k]\<rparr> \<and> k_KeyHash k = hash \<and> k_TenantID k = uid"
  using assms
  by (auto simp: APIKeyRepository_Create_def ret_def wrap_def insert_api_key_def ins_def
      elim!: bnd_ValE query_cases split: sum.splits if_splits)

lemma stored_key_found:
  assumes "hash \<notin> k_KeyHash ` set ks" and "k_KeyHash k = hash"
    and "api_keys d = ks @ [k]" and "find (\<lambda>t. t_ID t = k_TenantID k) (tenants d) = Some t"
  shows "tenant_by_key_hash hash d = Some (t\<lparr>t_GlobalRateCap := 0\<rparr>)"
proof -
  have "find (\<lambda>k. k_KeyHash k = hash) ks = None" using assms(1) by (auto simp: find_None_iff)
  with assms show ?thesis by (simp add: tenant_by_key_hash_def find_append)
qed

lemma Auth_passes:
  assumes "tenant_by_key_hash (HashAPIKey L key) (w_db w) = Some t" and "key \<noteq> []" and "\<not> fails_at w 0"
  shows "Auth L key h w = h (Some t) (w\<lparr>w_tick := Suc (w_tick w)\<rparr>)"
  using assms
  by (simp add: Auth_def APIKeyRepository_GetTenantByKeyHash_def go_defs query_def external_def run_stmt_def
      select_one_def wrap_not_found_def fails_at_def)

lemma create_tenant_tx_success:
  assumes "create_tenant_tx name cap hash w = (Val (Inr t), w')"
  shows "find (\<lambda>q. t_ID q = t_ID t) (tenants (w_db w')) = Some t
    \<and> tenant_by_key_hash hash (w_db w') = Some (t\<lparr>t_GlobalRateCap := 0\<rparr>)"
proof -
  from assms obtain w1 k where c: "TenantRepository_Create name cap w = (Val (Inr t), w1)"
    and k: "APIKeyRepository_Create (t_ID t) hash w1 = (Val (Inr k), w')"
    by (auto simp: create_tenant_tx_def ret_def elim!: bnd_ValE split: sum.splits)
  from c have t: "t_ID t \<notin> tenant_ids (w_db w)" "tenants (w_db w1) = tenants (w_db w) @ [t]"
    by (auto simp: TenantRepository_Create_def ret_def wrap_def insert_tenant_def ins_def
        elim!: bnd_ValE query_cases split: sum.splits if_splits)
  note k' = key_Create_success [OF k]
  have "find (\<lambda>q. t_ID q = t_ID t) (tenants (w_db w)) = None"
    using t(1) by (force simp: find_None_iff image_iff)
  with t(2) k' have f: "find (\<lambda>q. t_ID q = t_ID t) (tenants (w_db w')) = Some t"
    by (simp add: find_append)
  with k' show ?thesis
    using stored_key_found [of hash "api_keys (w_db w1)" k "w_db w'" t] by simp
qed

text \<open>C35. The raw key returned when a tenant is created, or when a key is issued for it,
  authenticates as that tenant: a request with this key is handed to its handler with the tenant in the
  context.\<close>

theorem issued_key_authenticates:
  assumes "uuid_library L"
    and "TenantHandler_Create L cap bound w = (Val (JSON 201 (PTenantCreated tid name raw)), w')
       \<or> TenantHandler_CreateKey L tid w = (Val (JSON 201 (PKeyCreated kid raw)), w')"
    and "\<not> fails_at w' 0"
  shows "\<exists>t\<in>set (tenants (w_db w')). uuid_Parse L tid = Some (t_ID t)
    \<and> (\<forall>h. Auth L raw h w' = h (Some (t\<lparr>t_GlobalRateCap := 0\<rparr>)) (w'\<lparr>w_tick := Suc (w_tick w')\<rparr>))"
proof -
  have "\<exists>t. uuid_Parse L tid = Some (t_ID t) \<and> find (\<lambda>q. t_ID q = t_ID t) (tenants (w_db w')) = Some t
      \<and> raw \<noteq> [] \<and> tenant_by_key_hash (HashAPIKey L raw) (w_db w') = Some (t\<lparr>t_GlobalRateCap := 0\<rparr>)"
    using assms(2)
  proof
    assume "TenantHandler_Create L cap bound w = (Val (JSON 201 (PTenantCreated tid name raw)), w')"
    then obtain nm hash w1 t where g: "generateAPIKey L w = (Val (Inr (raw, hash)), w1)"
      and tx: "WithTx (create_tenant_tx nm cap hash) w1 = (Val (Inr t), w')" and "tid = uuid_String L (t_ID t)"
      by (auto simp: TenantHandler_Create_def errResponse_def ret_def elim!: bnd_ValE
          split: option.splits if_splits sum.splits)
    moreover from tx obtain w2 where
      "create_tenant_tx nm cap hash (w1\<lparr>w_tick := Suc (w_tick w1)\<rparr>) = (Val (Inr t), w2)" "w_db w' = w_db w2"
      by (rule WithTx_success) simp
    ultimately show ?thesis
      using create_tenant_tx_success generateAPIKey_success [OF g] uuid_library.parse_string [OF assms(1)]
      by metis
  next
    assume "TenantHandler_CreateKey L tid w = (Val (JSON 201 (PKeyCreated kid raw)), w')"
    then obtain uid t w1 hash w2 k where u: "uuid_Parse L tid = Some uid"
      and t: "TenantRepository_GetByID uid w = (Val (Inr t), w1)"
      and g: "generateAPIKey L w1 = (Val (Inr (raw, hash)), w2)"
      and k: "APIKeyRepository_Create uid hash w2 = (Val (Inr k), w')"
      by (auto simp: TenantHandler_CreateKey_def parse_id_def with_tenant_def errResponse_def ret_def
          elim!: bnd_ValE split: option.splits if_splits sum.splits)
    note facts = GetByID_success [OF t] generateAPIKey_success [OF g] key_Create_success [OF k]
    have f: "find (\<lambda>q. t_ID q = uid) (tenants (w_db w')) = Some t" using facts by simp
    moreover from f have "t_ID t = uid" by (auto simp: find_Some_iff)
    ultimately show ?thesis
      using facts u stored_key_found [of hash "api_keys (w_db w2)" k "w_db w'" t] by auto
  qed
  with assms(3) show ?thesis using Auth_passes by (fastforce simp: find_Some_iff)
qed

lemma key_Delete_success:
  assumes "APIKeyRepository_Delete kid w = (Val (Inr u), w')"
  shows "w_db w' = (w_db w)\<lparr>api_keys := del_where (\<lambda>k. k_ID k = kid) (api_keys (w_db w))\<rparr>"
  using assms
  by (auto simp: APIKeyRepository_Delete_def ret_def rows_affected_def tagged_def delete_api_key_def
      elim!: bnd_ValE query_cases split: sum.splits if_splits)

lemma Auth_refuses:
  assumes "tenant_by_key_hash (HashAPIKey L key) (w_db w) = None"
  shows "\<exists>code msg n. Auth L key h w = (Val (JSON code (PError msg)), w\<lparr>w_tick := n\<rparr>)
    \<and> (code = 401 \<or> code = 500 \<and> fails_at w 0)"
proof -
  have self: "\<exists>n. w = w\<lparr>w_tick := n\<rparr>" by (rule exI [of _ "w_tick w"]) simp
  show ?thesis
    using assms
    by (auto simp: self Auth_def APIKeyRepository_GetTenantByKeyHash_def go_defs query_def external_def run_stmt_def
        select_one_def wrap_not_found_def fails_at_def split: option.splits)
qed

text \<open>C36. A revoked key stops working at once: after \<open>DeleteKey\<close> has answered 204, a request
  with the raw key whose hash the row stored is refused and reaches no handler.\<close>

theorem revoked_key_refused:
  assumes "db_ok (w_db w)" and "uuid_Parse L param = Some (k_ID k)" and "k \<in> set (api_keys (w_db w))"
    and "k_KeyHash k = HashAPIKey L raw"
    and "TenantHandler_DeleteKey L param w = (Val (NoContent 204), w')"
  shows "\<exists>code msg n. Auth L raw h w' = (Val (JSON code (PError msg)), w'\<lparr>w_tick := n\<rparr>)
    \<and> (code = 401 \<or> code = 500 \<and> fails_at w' 0)"
proof (rule Auth_refuses)
  from assms(2,5) obtain u where "APIKeyRepository_Delete (k_ID k) w = (Val (Inr u), w')"
    by (auto simp: TenantHandler_DeleteKey_def parse_id_def errResponse_def ret_def elim!: bnd_ValE
        split: sum.splits if_splits)
  note del = key_Delete_success [OF this]
  have "unique_on k_KeyHash (api_keys (w_db w))" using assms(1) by (simp add: db_ok_defs)
  then have "q = k" if "q \<in> set (api_keys (w_db w))" "k_KeyHash q = HashAPIKey L raw" for q
    using that assms(3,4) by (auto simp: unique_on_def distinct_map inj_on_def)
  then have "find (\<lambda>q. k_KeyHash q = HashAPIKey L raw) (api_keys (w_db w')) = None"
    unfolding find_None_iff by (auto simp: del del_where_def)
  then show "tenant_by_key_hash (HashAPIKey L raw) (w_db w') = None"
    by (simp add: tenant_by_key_hash_def)
qed

section \<open>Rate limits\<close>

text \<open>What the limiter reads: the limit of a channel and the tenant's cap.\<close>

definition limit_of :: "uuid \<Rightarrow> channel \<Rightarrow> db \<Rightarrow> int option" where
  "limit_of tid ch d = map_option rl_MaxPerMin
     (find (\<lambda>r. rl_TenantID r = tid \<and> rl_Channel r = ch) (tenant_rate_limits d))"

definition cap_of :: "uuid \<Rightarrow> db \<Rightarrow> int option" where
  "cap_of tid d = map_option t_GlobalRateCap (find (\<lambda>t. t_ID t = tid) (tenants d))"

lemma upsert_limit_of:
  assumes "upsert_rate_limit r d = (Inr r', d')"
  shows "limit_of t ch d' = (if t = rl_TenantID r \<and> ch = rl_Channel r then Some (rl_MaxPerMin r)
           else limit_of t ch d) \<and> cap_of t d' = cap_of t d"
proof (cases "\<exists>q\<in>set (tenant_rate_limits d). rl_TenantID q = rl_TenantID r \<and> rl_Channel q = rl_Channel r")
  case True
  let ?p = "\<lambda>q. rl_TenantID q = rl_TenantID r \<and> rl_Channel q = rl_Channel r"
  from True obtain q where "find ?p (tenant_rate_limits d) = Some q"
    using find_None_iff [of ?p "tenant_rate_limits d"] by (cases "find ?p (tenant_rate_limits d)") auto
  moreover from True assms have d': "d' = d\<lparr>tenant_rate_limits :=
      upd_where ?p (\<lambda>q. q\<lparr>rl_MaxPerMin := rl_MaxPerMin r\<rparr>) (tenant_rate_limits d)\<rparr>"
    by (auto simp: upsert_rate_limit_def Let_def)
  moreover have "limit_of t ch d' = limit_of t ch d" if "\<not> (t = rl_TenantID r \<and> ch = rl_Channel r)"
    unfolding d' limit_of_def using that
    by (auto intro!: arg_cong [where f = "map_option rl_MaxPerMin"] find_upd_other)
  ultimately show ?thesis by (auto simp: limit_of_def cap_of_def find_upd_same)
next
  case False
  then have "find (\<lambda>q. rl_TenantID q = rl_TenantID r \<and> rl_Channel q = rl_Channel r) (tenant_rate_limits d) = None"
    by (auto simp: find_None_iff)
  with False assms show ?thesis
    by (auto simp: upsert_rate_limit_def Let_def ins_def limit_of_def cap_of_def find_append
        split: if_splits option.split)
qed

lemma Upsert_success:
  assumes "TenantRateLimitRepository_Upsert tid ch mx w = (Val (Inr u), w')"
  shows "limit_of tid c (w_db w') = (if c = ch then Some mx else limit_of tid c (w_db w))
    \<and> cap_of tid (w_db w') = cap_of tid (w_db w)"
proof -
  from assms obtain r d where
    "upsert_rate_limit \<lparr>rl_ID = c_uuid (w_env w (w_tick w)), rl_TenantID = tid, rl_Channel = ch,
       rl_MaxPerMin = mx, rl_CreatedAt = c_now (w_env w (w_tick w))\<rparr> (w_db w) = (Inr r, d)" and "w_db w' = d"
    by (auto simp: TenantRateLimitRepository_Upsert_def ret_def wrap_def elim!: bnd_ValE query_cases
        split: sum.splits if_splits)
  then show ?thesis using upsert_limit_of by fastforce
qed

lemma Upserts_success:
  assumes "for_err rls (\<lambda>(ch, mx). TenantRateLimitRepository_Upsert tid ch mx) w = (Val (Inr u), w')"
  shows "limit_of tid c (w_db w') = (case map_of (rev rls) c of Some mx \<Rightarrow> Some mx | None \<Rightarrow> limit_of tid c (w_db w))
    \<and> cap_of tid (w_db w') = cap_of tid (w_db w)"
  using assms
proof (induction rls arbitrary: w)
  case Nil
  then show ?case by (simp add: ret_def)
next
  case (Cons rl rls)
  obtain ch mx where [simp]: "rl = (ch, mx)" by (cases rl)
  from Cons.prems obtain w1 where u: "TenantRateLimitRepository_Upsert tid ch mx w = (Val (Inr ()), w1)"
    and rest: "for_err rls (\<lambda>(ch, mx). TenantRateLimitRepository_Upsert tid ch mx) w1 = (Val (Inr u), w')"
    by (auto simp: ret_def elim!: bnd_ValE split: sum.splits)
  show ?case
    using Cons.IH [OF rest] Upsert_success [OF u, of c]
    by (auto simp: map_add_def split: option.splits)
qed

lemma tenant_read_db: "TenantRepository_GetByID a w = (r, w') \<Longrightarrow> w_db w' = w_db w"
  by (rule presE [OF db_reads(6)]) simp_all

lemma limits_read_db: "TenantRateLimitRepository_GetByTenantID a w = (r, w') \<Longrightarrow> w_db w' = w_db w"
  by (rule presE [OF db_reads(10)]) simp_all

lemma update_cap_success:
  assumes "TenantRepository_UpdateGlobalRateCap tid cap w = (Val (Inr t), w')"
  shows "cap_of tid (w_db w') = Some cap \<and> limit_of tid c (w_db w') = limit_of tid c (w_db w)"
  using assms
  by (auto simp: TenantRepository_UpdateGlobalRateCap_def ret_def wrap_not_found_def update_tenant_returning_def
      update_tenants_def cap_of_def limit_of_def find_upd_same elim!: bnd_ValE query_cases
      split: sum.splits if_splits option.splits)

text \<open>C33. Updating rate limits is all or nothing: the database is as before, or the limiter
  reads, for every channel of the request, the last value given for it, the old one for every other
  channel, and the new cap if one was given.  An answer of 200 means the update is in place.\<close>

theorem rate_limits_all_or_nothing:
  assumes "TenantHandler_UpdateRateLimits L param (Some req) w = (Val resp, w')"
    and "uuid_Parse L param = Some tid"
  shows "resp_status resp \<noteq> 200 \<and> w_db w' = w_db w
    \<or> (\<forall>ch. limit_of tid ch (w_db w') =
             (case map_of (rev (rq_RateLimits req)) ch of Some mx \<Rightarrow> Some mx | None \<Rightarrow> limit_of tid ch (w_db w)))
      \<and> cap_of tid (w_db w') = (case rq_GlobalCap req of Some cap \<Rightarrow> Some cap | None \<Rightarrow> cap_of tid (w_db w))"
proof -
  have tx: "?thesis" if db1: "w_db w1 = w_db w"
    and tx: "WithTx (update_rate_limits_tx tid req t) w1 = (Val (Inr t'), w2)" and db2: "w_db w' = w_db w2"
    for t t' w1 w2
  proof -
    from tx obtain w3 where body: "update_rate_limits_tx tid req t (w1\<lparr>w_tick := Suc (w_tick w1)\<rparr>) = (Val (Inr t'), w3)"
      and db3: "w_db w2 = w_db w3" by (rule WithTx_success) simp
    from body obtain w4 u where
      c: "(case rq_GlobalCap req of None \<Rightarrow> ret (Inr t) | Some cap \<Rightarrow> TenantRepository_UpdateGlobalRateCap tid cap)
            (w1\<lparr>w_tick := Suc (w_tick w1)\<rparr>) = (Val (Inr t'), w4)"
      and f: "for_err (rq_RateLimits req) (\<lambda>(ch, mx). TenantRateLimitRepository_Upsert tid ch mx) w4 = (Val (Inr u), w3)"
      by (auto simp: update_rate_limits_tx_def ret_def elim!: bnd_ValE split: sum.splits)
    have "limit_of tid ch (w_db w4) = limit_of tid ch (w_db w)" for ch
      using c db1 by (auto simp: ret_def dest: update_cap_success [where c = ch] split: option.splits)
    moreover have "cap_of tid (w_db w4) = (case rq_GlobalCap req of Some cap \<Rightarrow> Some cap | None \<Rightarrow> cap_of tid (w_db w))"
      using c db1 by (auto simp: ret_def dest: update_cap_success split: option.splits)
    ultimately show ?thesis using Upserts_success [OF f] db2 db3 by (auto split: option.splits)
  qed
  from assms consider "w_db w' = w_db w" "resp_status resp \<noteq> 200"
    | t w1 r w2 where "TenantRepository_GetByID tid w = (Val (Inr t), w1)"
      "WithTx (update_rate_limits_tx tid req t) w1 = (Val r, w2)" "w_db w' = w_db w2"
      "isl r \<longrightarrow> resp_status resp \<noteq> 200"
    by (auto simp: TenantHandler_UpdateRateLimits_def parse_id_def with_tenant_def errResponse_def ret_def
        dest!: tenant_read_db [where r = "Val (Inl e)" for e] limits_read_db elim!: bnd_ValE split: option.splits sum.splits if_splits)
  then show ?thesis
  proof cases
    case (2 t w1 r w2)
    have db1: "w_db w1 = w_db w" using GetByID_success [OF 2(1)] by simp
    show ?thesis
    proof (cases r)
      case (Inl e)
      with 2(2) WithTx_rollback [OF 2(2)] 2(3,4) db1 show ?thesis by simp
    next
      case (Inr t')
      with 2(2,3) tx [OF db1] show ?thesis by simp
    qed
  qed simp
qed

section \<open>Witnesses\<close>

lemmas handler_defs = go_defs query_def external_def run_stmt_def select_def select_one_def wrap_def
  wrap_not_found_def rows_affected_def tagged_def ins_def WithTx_def tx_body_def Let_def calm_world_def
  calm_env_def parse_id_def with_tenant_def

theorem issued_key_authenticates_witness:
  "\<exists>tid name raw w'. TenantHandler_Create bit_libs 300 (Some ''acme'') (calm_world empty_db)
       = (Val (JSON 201 (PTenantCreated tid name raw)), w')
     \<and> (\<exists>t\<in>set (tenants (w_db w')). uuid_Parse bit_libs tid = Some (t_ID t)
        \<and> (\<forall>h. Auth bit_libs raw h w' = h (Some (t\<lparr>t_GlobalRateCap := 0\<rparr>)) (w'\<lparr>w_tick := Suc (w_tick w')\<rparr>)))"
proof -
  have "\<exists>tid name raw w'. TenantHandler_Create bit_libs 300 (Some ''acme'') (calm_world empty_db)
      = (Val (JSON 201 (PTenantCreated tid name raw)), w') \<and> \<not> fails_at w' 0"
    by (simp add: TenantHandler_Create_def createTenantRequest_Validate_def generateAPIKey_def create_tenant_tx_def TenantRepository_Create_def
        APIKeyRepository_Create_def handler_defs int4_def insert_tenant_def insert_api_key_def empty_db_def
        fails_at_def)
  then show ?thesis
    using issued_key_authenticates [OF bit_uuid.uuid_library_axioms] by fast
qed

theorem revoked_key_refused_witness:
  "\<exists>w'. TenantHandler_DeleteKey bit_libs (uuid_String bit_libs 9)
         (calm_world (due_db\<lparr>api_keys := [\<lparr>k_ID = 9, k_TenantID = 1, k_KeyHash = HashAPIKey bit_libs ''secret'',
             k_CreatedAt = 0\<rparr>]\<rparr>)) = (Val (NoContent 204), w')
     \<and> (\<exists>code msg n. Auth bit_libs ''secret'' (\<lambda>_. ret (NoContent 200)) w' = (Val (JSON code (PError msg)), w'\<lparr>w_tick := n\<rparr>)
        \<and> (code = 401 \<or> code = 500 \<and> fails_at w' 0))"
proof -
  let ?k = "\<lparr>k_ID = 9, k_TenantID = 1, k_KeyHash = HashAPIKey bit_libs ''secret'', k_CreatedAt = 0\<rparr>"
  let ?d = "due_db\<lparr>api_keys := [?k]\<rparr>"
  have ok: "db_ok ?d" by (simp add: db_ok_defs due_defs unique_on_def with_idem_def)
  have p: "uuid_Parse bit_libs (uuid_String bit_libs 9) = Some 9" by (rule bit_uuid.parse_string)
  obtain w' where run: "TenantHandler_DeleteKey bit_libs (uuid_String bit_libs 9) (calm_world ?d) = (Val (NoContent 204), w')"
    using p by (simp add: TenantHandler_DeleteKey_def APIKeyRepository_Delete_def delete_api_key_def handler_defs
        count_where_def)
  with revoked_key_refused [of "calm_world ?d" bit_libs "uuid_String bit_libs 9" ?k "''secret''"] ok p
  show ?thesis by auto
qed

theorem rate_limits_all_or_nothing_witness:
  "\<exists>resp w'. TenantHandler_UpdateRateLimits bit_libs (uuid_String bit_libs 1)
         (Some \<lparr>rq_GlobalCap = Some 50, rq_RateLimits = [(''sms'', 5), (''sms'', 7)]\<rparr>) (calm_world due_db)
         = (Val resp, w')
     \<and> limit_of 1 ''sms'' (w_db w') = Some 7 \<and> cap_of 1 (w_db w') = Some 50"
proof -
  let ?req = "\<lparr>rq_GlobalCap = Some 50, rq_RateLimits = [(''sms'', 5), (''sms'', 7)]\<rparr>"
  have p: "uuid_Parse bit_libs (uuid_String bit_libs 1) = Some 1" by (rule bit_uuid.parse_string)
  have "\<exists>resp w'. TenantHandler_UpdateRateLimits bit_libs (uuid_String bit_libs 1) (Some ?req) (calm_world due_db)
      = (Val resp, w') \<and> resp_status resp = 200"
    using p
    by (simp add: TenantHandler_UpdateRateLimits_def updateRateLimitsRequest_Validate_def isValidChannel_def
        ChannelSMS_def ChannelEmail_def ChannelPush_def update_rate_limits_tx_def TenantRepository_GetByID_def
        TenantRepository_UpdateGlobalRateCap_def update_tenant_returning_def update_tenants_def int4_def
        TenantRateLimitRepository_Upsert_def upsert_rate_limit_def TenantRateLimitRepository_GetByTenantID_def
        handler_defs due_defs upd_where_def)
  then obtain resp w' where "TenantHandler_UpdateRateLimits bit_libs (uuid_String bit_libs 1) (Some ?req) (calm_world due_db)
      = (Val resp, w')" "resp_status resp = 200" by blast
  with rate_limits_all_or_nothing [OF this(1) p] show ?thesis by auto
qed

section \<open>What the analytics handler answers\<close>

lemma summary_run:
  assumes "AnalyticsRepository_Summary tid a b w = (Val (Inr s), w')"
  shows "s = summary_of (filter (in_period tid a b) (notifications (w_db w))) \<and> w_db w' = w_db w"
  using assms
  by (auto simp: AnalyticsRepository_Summary_def ret_def select_def wrap_def elim!: bnd_ValE query_cases split: sum.splits)

lemma breakdown_run:
  assumes "AnalyticsRepository_ChannelBreakdown tid a b w = (Val (Inr s), w')"
  shows "s = map (breakdown_of (filter (in_period tid a b) (notifications (w_db w))))
    (channels_of (filter (in_period tid a b) (notifications (w_db w)))) \<and> w_db w' = w_db w"
  using assms
  by (auto simp: AnalyticsRepository_ChannelBreakdown_def ret_def select_def wrap_def Let_def elim!: bnd_ValE query_cases split: sum.splits)

lemma external_db: "external w = (r, w') \<Longrightarrow> w_db w' = w_db w"
  by (auto simp: external_def)

lemma trend_run:
  assumes "AnalyticsRepository_DLQTrend tid a b w = (Val (Inr s), w')"
  shows "s = dlq_trend tid a b (w_db w)"
  using assms
  by (auto simp: AnalyticsRepository_DLQTrend_def ret_def select_def wrap_def elim!: bnd_ValE query_cases split: sum.splits)

lemma analytics_run:
  assumes "TenantHandler_Analytics L i q w = (Val (JSON 200 (PAnalytics summary channels trend a b)), w')"
  obtains tid where "uuid_Parse L i = Some tid" and "summary = summary_of (filter (in_period tid a b) (notifications (w_db w)))"
    and "channels = map (breakdown_of (filter (in_period tid a b) (notifications (w_db w))))
      (channels_of (filter (in_period tid a b) (notifications (w_db w))))"
    and "trend = dlq_trend tid a b (w_db w)"
  using assms
  by (auto simp: TenantHandler_Analytics_def parse_id_def with_tenant_def errResponse_def ret_def
      elim!: bnd_ValE dest!: summary_run breakdown_run trend_run external_db tenant_read_db
      split: option.splits sum.splits if_splits)

text \<open>The rows per channel add up to the totals.\<close>

lemma breakdown_totals:
  "sum_list (map b_Sent (map (breakdown_of ns) (channels_of ns))) = TotalSent (summary_of ns)"
  "sum_list (map b_Delivered (map (breakdown_of ns) (channels_of ns))) = TotalDelivered (summary_of ns)"
  "sum_list (map b_Failed (map (breakdown_of ns) (channels_of ns))) = TotalFailed (summary_of ns)"
proof -
  have groups: "sum_list (map (\<lambda>ch. count_where (\<lambda>n. n_Channel n = ch \<and> P n) ns) (channels_of ns)) = count_where P ns" for P
  proof -
    have "count_where (\<lambda>n. n_Channel n \<in> set (channels_of ns) \<and> P n) ns = count_where P ns"
      unfolding count_where_def by (rule arg_cong [of _ _ length], rule filter_cong) (auto simp: channels_of_def)
    then show ?thesis by (simp add: sum_count_groups channels_of_def)
  qed
  show "sum_list (map b_Sent (map (breakdown_of ns) (channels_of ns))) = TotalSent (summary_of ns)"
    using groups [of "\<lambda>_. True"] by (simp add: breakdown_of_def summary_of_def Let_def comp_def count_where_def)
  show "sum_list (map b_Delivered (map (breakdown_of ns) (channels_of ns))) = TotalDelivered (summary_of ns)"
    "sum_list (map b_Failed (map (breakdown_of ns) (channels_of ns))) = TotalFailed (summary_of ns)"
    using groups [of "\<lambda>n. n_Status n = StatusDelivered"] groups [of "\<lambda>n. n_Status n = StatusFailed"]
    by (simp_all add: breakdown_of_def summary_of_def Let_def comp_def count_where_def conj_commute)
qed

text \<open>Every moment of the period falls on exactly one day of the trend.\<close>

lemma day_start_div: "day_start t = t div day * day"
  by (simp add: day_start_def minus_mod_eq_div_mult)

lemma days_between_eq:
  "days_between (day_start a) (day_start b) = map (\<lambda>i. (a div day + int i) * day) [0..<nat (b div day - a div day + 1)]"
proof -
  have "(day_start b - day_start a) div day = b div day - a div day"
    using nonzero_mult_div_cancel_right [of day "b div day - a div day"]
    by (simp add: day_start_div left_diff_distrib day_def)
  then show ?thesis by (simp add: days_between_def day_start_div distrib_right)
qed

lemma days_between_days:
  "distinct (days_between (day_start a) (day_start b))"
  "a \<le> x \<Longrightarrow> x \<le> b \<Longrightarrow> day_start x \<in> set (days_between (day_start a) (day_start b))"
proof -
  show "distinct (days_between (day_start a) (day_start b))"
    unfolding days_between_eq by (simp add: distinct_map inj_on_def day_def)
  assume "a \<le> x" and "x \<le> b"
  then have "a div day \<le> x div day" and "x div day \<le> b div day" by (simp_all add: zdiv_mono1 day_def)
  then have "day_start x = (a div day + int (nat (x div day - a div day))) * day"
    and "nat (x div day - a div day) < nat (b div day - a div day + 1)" by (simp_all add: day_start_div)
  then show "day_start x \<in> set (days_between (day_start a) (day_start b))"
    unfolding days_between_eq by (metis (no_types, lifting) add_0 atLeastLessThan_iff image_eqI le0 list.set_map set_upt)
qed

text \<open>C34. The parts of an analytics answer agree with each other and with the database: the channels' rows add up to the
  totals, and the days of the dead-letter trend add up to the tenant's dead letters of the period.\<close>

theorem analytics_adds_up:
  assumes "TenantHandler_Analytics L i q w = (Val (JSON 200 (PAnalytics summary channels trend a b)), w')"
    and "uuid_Parse L i = Some tid"
  shows "sum_list (map b_Sent channels) = TotalSent summary \<and> sum_list (map b_Delivered channels) = TotalDelivered summary
    \<and> sum_list (map b_Failed channels) = TotalFailed summary
    \<and> TotalSent summary = count_where (in_period tid a b) (notifications (w_db w))
    \<and> sum_list (map dp_Count trend)
        = count_where (\<lambda>m. a \<le> q_CreatedAt m \<and> q_CreatedAt m \<le> b
            \<and> (\<exists>n\<in>set (notifications (w_db w)). n_ID n = q_NotificationID m \<and> n_TenantID n = tid)) (dlq_messages (w_db w))"
proof -
  let ?ns = "filter (in_period tid a b) (notifications (w_db w))"
  let ?P = "\<lambda>m. a \<le> q_CreatedAt m \<and> q_CreatedAt m \<le> b
    \<and> (\<exists>n\<in>set (notifications (w_db w)). n_ID n = q_NotificationID m \<and> n_TenantID n = tid)"
  from assms have summary: "summary = summary_of ?ns" and channels: "channels = map (breakdown_of ?ns) (channels_of ?ns)"
    and trend: "trend = dlq_trend tid a b (w_db w)"
    by (metis analytics_run option.inject)+
  have "sum_list (map dp_Count trend) = count_where (\<lambda>m. day_start (q_CreatedAt m) \<in> set (days_between (day_start a) (day_start b)) \<and> ?P m)
      (dlq_messages (w_db w))"
    unfolding trend dlq_trend_def by (simp add: comp_def sum_count_groups [OF days_between_days(1)])
  also have "\<dots> = count_where ?P (dlq_messages (w_db w))"
    unfolding count_where_def by (rule arg_cong [of _ _ length], rule filter_cong) (use days_between_days(2) in auto)
  finally have "sum_list (map dp_Count trend) = count_where ?P (dlq_messages (w_db w))" .
  moreover have "TotalSent summary = count_where (in_period tid a b) (notifications (w_db w))"
    by (simp add: summary summary_of_def count_where_def)
  ultimately show ?thesis using breakdown_totals [of ?ns] unfolding summary channels by blast
qed


theorem analytics_adds_up_witness:
  "\<exists>summary channels trend a b w'. TenantHandler_Analytics bit_libs (uuid_String bit_libs 1) (Some ([], [])) (calm_world due_db)
       = (Val (JSON 200 (PAnalytics summary channels trend a b)), w')
     \<and> TotalSent summary = 1 \<and> sum_list (map b_Sent channels) = 1 \<and> sum_list (map dp_Count trend) = 0"
proof -
  have p: "uuid_Parse bit_libs (uuid_String bit_libs 1) = Some 1" by (rule bit_uuid.parse_string)
  then have "\<exists>summary channels trend w'. TenantHandler_Analytics bit_libs (uuid_String bit_libs 1) (Some ([], [])) (calm_world due_db)
       = (Val (JSON 200 (PAnalytics summary channels trend (1000000000 - 30 * day) 1000000000)), w')"
    by (simp add: TenantHandler_Analytics_def parse_id_def with_tenant_def TenantRepository_GetByID_def
        AnalyticsRepository_Summary_def AnalyticsRepository_ChannelBreakdown_def AnalyticsRepository_DLQTrend_def
        time_or_def handler_defs due_defs)
  then obtain summary channels trend w' where run: "TenantHandler_Analytics bit_libs (uuid_String bit_libs 1) (Some ([], []))
      (calm_world due_db) = (Val (JSON 200 (PAnalytics summary channels trend (1000000000 - 30 * day) 1000000000)), w')" by blast
  have "count_where (in_period 1 (1000000000 - 30 * day) 1000000000) (notifications (w_db (calm_world due_db))) = 1"
    "dlq_messages (w_db (calm_world due_db)) = []"
    by (simp_all add: count_where_def in_period_def day_def due_defs)
  with analytics_adds_up [OF run p] run show ?thesis by (auto simp: count_where_def)
qed

end
