(* ===== verification/WsHandler.thy ===== *)
theory WsHandler
  imports Api
begin

text \<open>
  \<open>backend/internal/ws/handler.go\<close>: opening a WebSocket connection.  \<open>Handler_open\<close> is
  \<open>Connect\<close> up to \<open>readPump\<close>, \<open>Handler_close\<close> what follows when the client is gone.  The
  write pump, a goroutine, is not interleaved with the flush here.
\<close>

text \<open>The tracker and the queue are pointers, nil when Redis is not configured.\<close>

record ws_handler =
  wh_presence :: bool
  wh_queue :: bool

datatype ws_result = Refused response | UpgradeFailed | Connected nat

definition flush_pending :: "'r redis \<Rightarrow> string \<Rightarrow> string \<Rightarrow> ('r world, unit) prog" where
  "flush_pending R tenantID userID =
     bnd (Queue_Flush R tenantID userID) (\<lambda>r.
       for_each (case r of Inl _ \<Rightarrow> [] | Inr pending \<Rightarrow> pending) (\<lambda>payload.
         bnd (on_hub (Hub_SendToUser tenantID userID payload)) (\<lambda>_. ret ())))"

definition Handler_open :: "libs \<Rightarrow> 'r redis \<Rightarrow> ws_handler \<Rightarrow> string \<Rightarrow> string \<Rightarrow> string
    \<Rightarrow> ('r world, ws_result) prog" where
  "Handler_open L R h tenantID userID apiKey =
     (if tenantID = [] \<or> userID = [] \<or> apiKey = [] then
        ret (Refused (JSON 400 (PError ''tenantId, userId, and apiKey query params are required'')))
      else bnd (APIKeyRepository_GetTenantByKeyHash (HashAPIKey L apiKey)) (\<lambda>r. case r of
        Inl e \<Rightarrow>
          if e = ErrNotFound then ret (Refused (JSON 401 (PError ''invalid API key'')))
          else ret (Refused (JSON 500 (PError ''authentication failed'')))
      | Inr tenant \<Rightarrow>
          if uuid_String L (t_ID tenant) \<noteq> tenantID then
            ret (Refused (JSON 401 (PError ''apiKey does not belong to tenantId'')))
          else bnd external (\<lambda>c. case c_fail c of   \<comment> \<open>\<open>upgrader.Upgrade\<close>\<close>
            Some _ \<Rightarrow> ret UpgradeFailed
          | None \<Rightarrow>
              bnd (on_hub (Hub_register tenantID userID)) (\<lambda>conn.
              bnd (if wh_presence h then bnd (Tracker_SetOnline R tenantID userID) (\<lambda>_. ret ()) else ret ()) (\<lambda>_.
              bnd (if wh_queue h then flush_pending R tenantID userID else ret ()) (\<lambda>_.
              ret (Connected conn)))))))"

definition Handler_close :: "'r redis \<Rightarrow> ws_handler \<Rightarrow> nat \<Rightarrow> string \<Rightarrow> string \<Rightarrow> ('r world, unit) prog" where
  "Handler_close R h conn tenantID userID =
     bnd (on_hub (writes (Hub_unregister conn))) (\<lambda>_.
     if wh_presence h then bnd (Tracker_Delete R tenantID userID) (\<lambda>_. ret ()) else ret ())"

section \<open>Invariants\<close>

lemma db_flush_pending [pres]: "pres (db_inv J) (flush_pending R t u)"
  unfolding flush_pending_def by (intro pres)

lemma db_close [pres]: "pres (db_inv J) (Handler_close R h c t u)"
  unfolding Handler_close_def by (intro pres)

context db_statements
begin

lemma inv_open [pres]: "pres (db_inv J) (Handler_open L R h t u k)"
  unfolding Handler_open_def by (intro pres)

end

section \<open>Properties\<close>

lemma auth_lookup:
  assumes "APIKeyRepository_GetTenantByKeyHash hash w = (Val (Inr t), w1)"
  shows "tenant_by_key_hash hash (w_db w) = Some t"
  using assms
  by (auto simp: APIKeyRepository_GetTenantByKeyHash_def go_defs query_def external_def run_stmt_def
      select_one_def wrap_not_found_def split: option.splits if_splits)

text \<open>A socket is only opened for the tenant that owns the API key: when \<open>Connect\<close>
  registers a connection, the key's hash belongs to a tenant whose ID prints as the
  \<open>tenantId\<close> parameter.\<close>

theorem connect_needs_own_key:
  assumes "Handler_open L R h tenantID userID apiKey w = (Val (Connected conn), w')"
  shows "\<exists>t. tenant_by_key_hash (sha256hex L apiKey) (w_db w) = Some t \<and> uuid_String L (t_ID t) = tenantID"
  using assms auth_lookup
  by (fastforce simp: Handler_open_def HashAPIKey_def ret_def elim!: bnd_ValE split: if_splits sum.splits)


theorem connect_needs_own_key_witness:
  "\<exists>t. tenant_by_key_hash ''k'' (due_db\<lparr>api_keys := [\<lparr>k_ID = 9, k_TenantID = 1, k_KeyHash = ''k'', k_CreatedAt = 0\<rparr>]\<rparr>)
        = Some t \<and> uuid_String bit_libs (t_ID t) = uuid_String bit_libs 1"
proof -
  let ?d = "due_db\<lparr>api_keys := [\<lparr>k_ID = 9, k_TenantID = 1, k_KeyHash = ''k'', k_CreatedAt = 0\<rparr>]\<rparr>"
  let ?h = "\<lparr>wh_presence = False, wh_queue = False\<rparr>"
  have ne: "uuid_String bit_libs 1 \<noteq> []"
    by (simp add: bit_libs_def bit_chars_def)
  have "\<exists>c w'. Handler_open bit_libs mem_redis ?h (uuid_String bit_libs 1) ''u'' ''k'' (calm_world ?d)
      = (Val (Connected c), w')"
    using ne
    by (simp add: Handler_open_def APIKeyRepository_GetTenantByKeyHash_def go_defs query_def external_def
        run_stmt_def select_one_def wrap_not_found_def tenant_by_key_hash_def HashAPIKey_def calm_world_def
        calm_env_def due_defs on_hub_def Hub_register_def NewHub_def)
       (simp add: bit_libs_def)
  with connect_needs_own_key [of bit_libs mem_redis ?h "uuid_String bit_libs 1" "''u''" "''k''" "calm_world ?d"]
  show ?thesis by (auto simp: bit_libs_def)
qed

lemma chan_send_buffer:
  assumes "hub_ok h" and "h_conns h (connKey t u) = Some a"
  obtains b h' where "Hub_SendToUser t u p h = (Val b, h')" and "hub_ok h'"
    and "h_conns h' (connKey t u) = Some a"
    and "cn_send (h_mem h' ! a) = take sendBufferSize (cn_send (h_mem h ! a) @ [p])"
proof -
  have a: "a < length (h_mem h)" "\<not> cn_closed (h_mem h ! a)" "length (cn_send (h_mem h ! a)) \<le> sendBufferSize"
    using hub_ok_conn [OF assms] hub_ok_buf [OF assms(1)] by auto
  obtain b h' where run: "Hub_SendToUser t u p h = (Val b, h')"
    using hub_ok_send(2) [OF assms(1), of t u p] by (cases "Hub_SendToUser t u p h"; cases "fst (Hub_SendToUser t u p h)") auto
  moreover have "hub_ok h'" using hub_ok_send(1) [OF assms(1), of t u p] run by simp
  moreover have "h_conns h' (connKey t u) = Some a
      \<and> cn_send (h_mem h' ! a) = take sendBufferSize (cn_send (h_mem h ! a) @ [p])"
    using run assms(2) a
    by (auto simp: Hub_SendToUser_def hub_lookup_def chan_send_def go_defs Let_def split: if_splits)
  ultimately show thesis using that by blast
qed

lemma take_prefix: "take n (take n xs @ ys) = take n (xs @ ys)"
  by (cases "length xs \<le> n") auto

lemma hub_flush: "pres (\<lambda>w. w_hub w = h) (Queue_Flush R t u)"
proof -
  have ext: "pres (\<lambda>w. w_hub w = h) external" by (rule pres_external) simp
  have "pres (\<lambda>w. w_hub w = h) (redis_call f)" for f :: "time \<Rightarrow> 'r \<Rightarrow> 'b \<times> 'r"
    unfolding redis_call_def by (intro pres ext) (simp add: pres_def split: prod.split)
  show ?thesis
    unfolding Queue_Flush_def Flush_LRange_def Flush_Del_def redis_call_def Let_def
    by (intro pres ext; simp add: pres_def split: prod.split)
qed

lemma send_pending:
  assumes "hub_ok (w_hub w)" and "h_conns (w_hub w) (connKey t u) = Some a"
  shows "\<exists>h'. for_each ps (\<lambda>p. bnd (on_hub (Hub_SendToUser t u p)) (\<lambda>_. ret ())) w = (Val (), w\<lparr>w_hub := h'\<rparr>)
           \<and> cn_send (h_mem h' ! a) = take sendBufferSize (cn_send (h_mem (w_hub w) ! a) @ ps)"
  using assms
proof (induction ps arbitrary: w)
  case Nil
  then show ?case using hub_ok_conn [OF Nil] hub_ok_buf [OF Nil(1)]
    by (auto simp: ret_def intro!: exI [of _ "w_hub w"])
next
  case (Cons p ps)
  obtain b h1 where s: "Hub_SendToUser t u p (w_hub w) = (Val b, h1)" "hub_ok h1"
    "h_conns h1 (connKey t u) = Some a"
    "cn_send (h_mem h1 ! a) = take sendBufferSize (cn_send (h_mem (w_hub w) ! a) @ [p])"
    using chan_send_buffer [OF Cons.prems] .
  from Cons.IH [of "w\<lparr>w_hub := h1\<rparr>"] s obtain h' where
    "for_each ps (\<lambda>p. bnd (on_hub (Hub_SendToUser t u p)) (\<lambda>_. ret ())) (w\<lparr>w_hub := h1\<rparr>)
       = (Val (), w\<lparr>w_hub := h'\<rparr>)"
    "cn_send (h_mem h' ! a) = take sendBufferSize (cn_send (h_mem h1 ! a) @ ps)"
    by auto
  moreover have "bnd (on_hub (Hub_SendToUser t u p)) (\<lambda>_. ret ()) w = (Val (), w\<lparr>w_hub := h1\<rparr>)"
    using s(1) by (simp add: bnd_def ret_def on_hub_def)
  moreover have "take n (take n (xs @ [p]) @ ps) = take n (xs @ p # ps)" for n and xs :: "json list"
    using take_prefix [of n "xs @ [p]" ps] by simp
  ultimately show ?case using s(4) by (auto simp: bnd_def [of "bnd _ _"] intro!: exI [of _ h'])
qed

text \<open>When a user reconnects, the flush hands the payloads kept in Redis to the new
  connection in order, but ignores whether \<open>SendToUser\<close> accepted them: as long as the write pump has not
  run, the first 32 are buffered and the rest are dropped, while the queue is already gone from
  Redis.\<close>

theorem reconnect_flush:
  assumes "redis_server R keys" and "hub_ok (w_hub w)" and "Hub_register t u (w_hub w) = (Val a, h1)"
    and "\<not> fails_at w 0" and "\<not> fails_at w 1"
    and "holds_queue (now_at w 0) (keys (w_redis w)) (offline_key t u) xs"
  shows "\<exists>w'. bnd (on_hub (Hub_register t u)) (\<lambda>_. flush_pending R t u) w = (Val (), w')
           \<and> cn_send (h_mem (w_hub w') ! a) = take 32 xs
           \<and> (xs \<noteq> [] \<longrightarrow> keys (w_redis w') (offline_key t u) = None)"
proof -
  let ?w = "w\<lparr>w_hub := h1\<rparr>"
  have ok: "hub_ok h1" using hub_ok_register [OF assms(2), of t u] assms(3) by simp
  have a: "h_conns h1 (connKey t u) = Some a" "cn_send (h_mem h1 ! a) = []"
    using assms(3) by (auto simp: register_eq [OF assms(2)] Let_def nth_append split: option.splits)
  have "\<not> fails_at ?w 0" "\<not> fails_at ?w 1" "holds_queue (now_at ?w 0) (keys (w_redis ?w)) (offline_key t u) xs"
    using assms(4-6) by (simp_all add: fails_at_def now_at_def)
  from redis_server.flush_step [OF assms(1) this] obtain w2 where
    fl: "Queue_Flush R t u ?w = (Val (Inr xs), w2)" "xs \<noteq> [] \<longrightarrow> keys (w_redis w2) (offline_key t u) = None"
    by blast
  have hub: "w_hub w2 = h1"
    using presE [OF hub_flush fl(1), of h1] by simp
  from send_pending [of w2 t u a xs] ok a hub obtain h' where
    "for_each xs (\<lambda>p. bnd (on_hub (Hub_SendToUser t u p)) (\<lambda>_. ret ())) w2 = (Val (), w2\<lparr>w_hub := h'\<rparr>)"
    "cn_send (h_mem h' ! a) = take sendBufferSize xs"
    by auto
  with fl assms(3) show ?thesis
    by (simp add: flush_pending_def bnd_def on_hub_def sendBufferSize_def)
qed


theorem reconnect_flush_witness:
  "\<exists>w'. bnd (on_hub (Hub_register ''t'' ''u'')) (\<lambda>_. flush_pending mem_redis ''t'' ''u'')
      ((calm_world empty_db)\<lparr>w_redis := [offline_key ''t'' ''u'' \<mapsto> (RList (replicate 40 JNull), None)]\<rparr>)
      = (Val (), w')
    \<and> length (cn_send (h_mem (w_hub w') ! 0)) = 32 \<and> w_redis w' (offline_key ''t'' ''u'') = None"
proof -
  let ?w = "(calm_world empty_db)\<lparr>w_redis := [offline_key ''t'' ''u'' \<mapsto> (RList (replicate 40 JNull), None)]\<rparr>"
  have reg: "Hub_register ''t'' ''u'' (w_hub ?w) = (Val 0, snd (Hub_register ''t'' ''u'' NewHub))"
    by (simp add: Hub_register_def NewHub_def go_defs calm_world_def)
  have "hub_ok (w_hub ?w)" using hub_ok_NewHub by (simp add: calm_world_def)
  moreover have "\<not> fails_at ?w 0" "\<not> fails_at ?w 1"
    "holds_queue (now_at ?w 0) (w_redis ?w) (offline_key ''t'' ''u'') (replicate 40 JNull)"
    by (simp_all add: holds_queue_def live_def fails_at_def calm_world_def calm_env_def)
  ultimately show ?thesis
    using reconnect_flush [OF mem.redis_server_axioms _ reg, of "replicate 40 JNull"] by auto
qed

section \<open>Presence\<close>

text \<open>When a replaced connection ends, the hub keeps the newer connection, but the presence record, which belongs to the
  user and not to the connection, is deleted.\<close>

theorem stale_close_clears_presence:
  assumes "redis_server R keys" and "wh_presence h" and "hub_lookup t u (w_hub w) = Some a" and "a \<noteq> c"
    and "\<not> fails_at w 0"
  shows "\<exists>w'. Handler_close R h c t u w = (Val (), w') \<and> Hub_IsOnline t u (w_hub w')
    \<and> keys (w_redis w') (presence_key t u) = None"
proof -
  have hub: "hub_lookup t u (Hub_unregister c (w_hub w)) = Some a"
    using assms(3,4) by (auto simp: Hub_unregister_def hub_lookup_def Let_def)
  show ?thesis
    using assms(2,5) hub redis_server.DEL_keys [OF assms(1)]
    by (auto simp: Handler_close_def on_hub_def Tracker_Delete_def redis_call_def go_defs external_def fails_at_def
        Hub_IsOnline_def ks_del_def)
qed

end
