(* ===== verification/Wiring.thy ===== *)
theory Wiring
  imports Configuration Consumers Notifications TenantApi WsHandler
begin

text \<open>
  \<open>backend/cmd/server/main.go\<close> and \<open>backend/internal/api/routes/routes.go\<close>: which dependencies
  exist under which configuration, the consumers and cron jobs that are started, and the routes.

  A pointer is an option.  Storing a pointer of a concrete type in an interface (\<open>box\<close>) gives a
  non-nil interface even for the nil pointer.  Connecting to Postgres, Redis and Kafka either
  succeeds or ends the process before anything below runs.
\<close>

section \<open>Dependencies\<close>

definition box :: "'a option \<Rightarrow> 'a iface" where
  "box p = (case p of None \<Rightarrow> NilPointer | Some x \<Rightarrow> Object x)"

text \<open>The pointers \<open>limiter\<close>, \<open>deduplicator\<close>, \<open>offlineQueue\<close> and \<open>prod\<close>; \<open>presenceTracker\<close> and
  \<open>redisClient\<close> are set together with the queue.\<close>

definition main_limiter :: "config \<Rightarrow> limiter option" where
  "main_limiter cfg =
     (if cf_RedisURL cfg \<noteq> [] then Some \<lparr>lim_defaultMax = cf_DefaultRateLimitPerMin cfg\<rparr> else None)"

definition main_deduplicator :: "config \<Rightarrow> deduplicator option" where
  "main_deduplicator cfg =
     (if cf_RedisURL cfg \<noteq> [] then Some \<lparr>dd_ttl = cf_DedupTTL cfg\<rparr> else None)"

definition main_offlineQueue :: "config \<Rightarrow> unit option" where
  "main_offlineQueue cfg = (if cf_RedisURL cfg \<noteq> [] then Some () else None)"

definition main_prod :: "config \<Rightarrow> unit option" where
  "main_prod cfg = (if cf_KafkaBootstrapServers cfg \<noteq> [] then Some () else None)"

text \<open>The handler's service takes the pointers as they are; the replayer's producer goes through
  \<open>prodIface\<close>, which stays a nil interface without Kafka, and so does the health check's Redis
  pinger.\<close>

definition main_service :: "config \<Rightarrow> service" where
  "main_service cfg = \<lparr>sv_Producer = box (main_prod cfg), sv_RateLimiter = box (main_limiter cfg),
     sv_Dedup = box (main_deduplicator cfg)\<rparr>"

definition replayer_producer :: "config \<Rightarrow> unit iface" where
  "replayer_producer cfg = (case main_prod cfg of Some p \<Rightarrow> Object p | None \<Rightarrow> NilInterface)"

definition scheduler_producer :: "config \<Rightarrow> unit iface" where
  "scheduler_producer cfg = box (main_prod cfg)"

definition redisHealthPinger :: "config \<Rightarrow> unit iface" where
  "redisHealthPinger cfg = (if cf_RedisURL cfg \<noteq> [] then Object () else NilInterface)"

definition main_ws :: "config \<Rightarrow> ws_handler" where
  "main_ws cfg = \<lparr>wh_presence = (cf_RedisURL cfg \<noteq> []), wh_queue = (main_offlineQueue cfg \<noteq> None)\<rparr>"

section \<open>Background work\<close>

definition Email_NewClient :: "string \<Rightarrow> string \<Rightarrow> email_client" where
  "Email_NewClient apiKey fromEmail = \<lparr>ec_apiKey = apiKey, ec_fromEmail = fromEmail\<rparr>"

definition Sms_NewClient :: "string \<Rightarrow> sms_client" where
  "Sms_NewClient apiKey = \<lparr>sc_apiKey = apiKey\<rparr>"

text \<open>\<open>decode\<close> reads a text as JSON (\<open>None\<close> when it is not); \<open>Inl\<close> is the fatal error of
  \<open>push.NewClient\<close>, which ends the process.\<close>

definition startConsumers :: "libs \<Rightarrow> 'r redis \<Rightarrow> (string \<Rightarrow> json option) \<Rightarrow> config
    \<Rightarrow> string + 'r consumer list" where
  "startConsumers L R decode cfg =
     (let prod_i = box (main_prod cfg);
          always = [NewInAppConsumer L R prod_i (box (main_offlineQueue cfg)), NewDLQConsumer];
          email = (if cf_ResendAPIKey cfg \<noteq> []
                   then [NewEmailConsumer prod_i (Email_NewClient (cf_ResendAPIKey cfg) (cf_ResendFromEmail cfg))]
                   else []);
          sms = (if cf_Fast2SMSAPIKey cfg \<noteq> []
                 then [NewSMSConsumer prod_i (Sms_NewClient (cf_Fast2SMSAPIKey cfg))] else []) in
      if cf_FirebaseCredentialsJSON cfg \<noteq> [] then
        (case Fcm_NewClient L (decode (cf_FirebaseCredentialsJSON cfg)) of
           Inl e \<Rightarrow> Inl e
         | Inr client \<Rightarrow> Inr (always @ email @ sms @ [NewPushConsumer L prod_i client]))
      else Inr (always @ email @ sms))"

text \<open>The consumers run only with Kafka.\<close>

definition main_consumers :: "libs \<Rightarrow> 'r redis \<Rightarrow> (string \<Rightarrow> json option) \<Rightarrow> config \<Rightarrow> 'r consumer list" where
  "main_consumers L R decode cfg =
     (if cf_KafkaBootstrapServers cfg = [] then []
      else case startConsumers L R decode cfg of Inl _ \<Rightarrow> [] | Inr cs \<Rightarrow> cs)"

text \<open>The daily cleanup; \<open>True\<close> is a tick, \<open>False\<close> the cancelled context.\<close>

fun cleanup_loop :: "bool list \<Rightarrow> ('r world, unit) prog" where
  "cleanup_loop [] = ret ()"
| "cleanup_loop (tick # rest) =
     (if tick then bnd external (\<lambda>c.   \<comment> \<open>\<open>time.Now()\<close>\<close>
        bnd (NotificationRepository_DeleteExpired (c_now c)) (\<lambda>_. cleanup_loop rest))
      else ret ())"

section \<open>Routes\<close>

text \<open>A request names its route and carries the path parameters, the \<open>X-API-Key\<close> header where the
  group needs it, and the bound query or body.\<close>

datatype admin_request =
    CreateTenant "string option"
  | ListTenants
  | GetTenant string
  | UpdateTenant string "string option"
  | DeleteTenant string
  | UpdateChannels string "(string \<times> bool) list option"
  | GetChannels string
  | UpdateRateLimits string "updateRateLimitsRequest option"
  | GetRateLimits string
  | GetAnalytics string "(string \<times> string) option"
  | CreateKey string
  | ListKeys string
  | DeleteKey string string

datatype tenant_request =
    SendNotification "sendNotificationRequest option"
  | ScheduleNotification "scheduleNotificationRequest option"
  | BatchNotifications "batchSendRequest option"
  | NotificationHistory "historyQueryParams option"
  | GetNotification string
  | CreateTemplate "templateRequest option"
  | ListTemplates
  | GetTemplate string
  | UpdateTemplate string "templateRequest option"
  | DeleteTemplate string

datatype request = Health | Admin admin_request | Authenticated string tenant_request

fun admin_route :: "libs \<Rightarrow> config \<Rightarrow> admin_request \<Rightarrow> ('r world, response) prog" where
  "admin_route L cfg (CreateTenant b) = TenantHandler_Create L (cf_DefaultGlobalCap cfg) b"
| "admin_route L cfg ListTenants = TenantHandler_List"
| "admin_route L cfg (GetTenant i) = TenantHandler_Get L i"
| "admin_route L cfg (UpdateTenant i b) = TenantHandler_Update L i b"
| "admin_route L cfg (DeleteTenant i) = TenantHandler_Delete L i"
| "admin_route L cfg (UpdateChannels i b) = TenantHandler_UpdateChannels L i b"
| "admin_route L cfg (GetChannels i) = TenantHandler_GetChannels L i"
| "admin_route L cfg (UpdateRateLimits i b) = TenantHandler_UpdateRateLimits L i b"
| "admin_route L cfg (GetRateLimits i) = TenantHandler_GetRateLimits L i"
| "admin_route L cfg (GetAnalytics i q) = TenantHandler_Analytics L i q"
| "admin_route L cfg (CreateKey i) = TenantHandler_CreateKey L i"
| "admin_route L cfg (ListKeys i) = TenantHandler_ListKeys L i"
| "admin_route L cfg (DeleteKey i k) = TenantHandler_DeleteKey L k"

fun tenant_route :: "libs \<Rightarrow> 'r redis \<Rightarrow> service \<Rightarrow> tenant_request \<Rightarrow> tenant option
    \<Rightarrow> ('r world, response) prog" where
  "tenant_route L R sv (SendNotification b) ctx = NotificationHandler_Send L R sv b ctx"
| "tenant_route L R sv (ScheduleNotification b) ctx = NotificationHandler_Schedule L sv b ctx"
| "tenant_route L R sv (BatchNotifications b) ctx = NotificationHandler_Batch L R sv b ctx"
| "tenant_route L R sv (NotificationHistory q) ctx = NotificationHandler_History L q ctx"
| "tenant_route L R sv (GetNotification i) ctx = NotificationHandler_Get L i ctx"
| "tenant_route L R sv (CreateTemplate b) ctx = TemplateHandler_Create b ctx"
| "tenant_route L R sv ListTemplates ctx = TemplateHandler_List ctx"
| "tenant_route L R sv (GetTemplate i) ctx = TemplateHandler_Get L i ctx"
| "tenant_route L R sv (UpdateTemplate i b) ctx = TemplateHandler_Update L i b ctx"
| "tenant_route L R sv (DeleteTemplate i) ctx = TemplateHandler_Delete L i ctx"

definition route :: "libs \<Rightarrow> 'r redis \<Rightarrow> config \<Rightarrow> request \<Rightarrow> ('r world, response) prog" where
  "route L R cfg req =
     (case req of
        Health \<Rightarrow> HealthHandler_Check (redisHealthPinger cfg) (cf_KafkaBootstrapServers cfg \<noteq> [])
      | Admin a \<Rightarrow> admin_route L cfg a
      | Authenticated key t \<Rightarrow> Auth L key (tenant_route L R (main_service cfg) t))"

text \<open>
  The \<open>Recover\<close> middleware turns a panic of the handler's goroutine into a 500 of the framework.
  A panic in one of Batch's own goroutines is out of its reach and ends the process; behind the
  authentication middleware those goroutines are the only place where Batch can panic.
\<close>

datatype served = Responded response | Recovered | Crashed

fun in_goroutine :: "request \<Rightarrow> bool" where
  "in_goroutine (Authenticated key (BatchNotifications b)) = True"
| "in_goroutine _ = False"

definition serve :: "libs \<Rightarrow> 'r redis \<Rightarrow> config \<Rightarrow> request \<Rightarrow> ('r world, served) prog" where
  "serve L R cfg req w =
     (case route L R cfg req w of
        (Val resp, w') \<Rightarrow> (Val (Responded resp), w')
      | (Panic, w') \<Rightarrow> (Val (if in_goroutine req then Crashed else Recovered), w'))"

end
