(* ===== verification/System.thy ===== *)
theory System
  imports Wiring
begin

text \<open>
  The running system: what may happen to the world, in any order.  Requests, sockets opening
  and closing, the write pumps, consumers handling records of their topic, and the three cron jobs are
  the actions; each runs to completion.  The process may restart at any point with another
  configuration, which loses the hub and the cached FCM token.  An action that panics leaves the state it
  had reached.
\<close>

datatype action =
    Serve request
  | Connect string string string
  | Disconnect nat string string
  | Pump pump_event nat
  | Consume nat "fetch list"
  | Replay "bool list"
  | Schedule "bool list"
  | Cleanup "bool list"

definition perform :: "libs \<Rightarrow> 'r redis \<Rightarrow> (string \<Rightarrow> json option) \<Rightarrow> config \<Rightarrow> action \<Rightarrow> ('r world, unit) prog" where
  "perform L R decode cfg a =
     (case a of
        Serve req \<Rightarrow> bnd (serve L R cfg req) (\<lambda>_. ret ())
      | Connect t u k \<Rightarrow> bnd (Handler_open L R (main_ws cfg) t u k) (\<lambda>_. ret ())
      | Disconnect c t u \<Rightarrow> Handler_close R (main_ws cfg) c t u
      | Pump e c \<Rightarrow> on_hub (writes (writePump_step e c))
      | Consume i fs \<Rightarrow>
          (let cs = main_consumers L R decode cfg in
           if i < length cs then Consumer_Run L (cs ! i) fs else ret ())
      | Replay ticks \<Rightarrow>
          (case main_limiter cfg of
             None \<Rightarrow> ret ()
           | Some l \<Rightarrow> Replayer_Run L R l (replayer_producer cfg) ticks)
      | Schedule ticks \<Rightarrow> Scheduler_Run L (scheduler_producer cfg) ticks
      | Cleanup ticks \<Rightarrow> cleanup_loop ticks)"

text \<open>A consumer fetches what was published on its topic.\<close>

definition on_topic :: "'r world \<Rightarrow> string \<Rightarrow> fetch \<Rightarrow> bool" where
  "on_topic w topic f =
     (case f of
        FetchError \<Rightarrow> True
      | Fetched km \<Rightarrow> km_Value km \<in> (\<lambda>r. Some (kr_value r)) ` {r \<in> set (w_topics w). kr_topic r = topic})"

definition enabled :: "libs \<Rightarrow> 'r redis \<Rightarrow> (string \<Rightarrow> json option) \<Rightarrow> config \<Rightarrow> action \<Rightarrow> 'r world \<Rightarrow> bool" where
  "enabled L R decode cfg a w =
     (case a of
        Consume i fs \<Rightarrow>
          i < length (main_consumers L R decode cfg)
          \<and> list_all (on_topic w (cs_topic (main_consumers L R decode cfg ! i))) fs
      | _ \<Rightarrow> True)"

definition restarted :: "'r world \<Rightarrow> 'r world" where
  "restarted w = w\<lparr>w_hub := NewHub, w_fcm_token := [], w_fcm_expires := 0\<rparr>"

inductive reachable :: "libs \<Rightarrow> 'r redis \<Rightarrow> (string \<Rightarrow> json option) \<Rightarrow> 'r world \<Rightarrow> bool"
  for L R decode where
  start: "w_db w = empty_db \<Longrightarrow> w_topics w = [] \<Longrightarrow> w_hub w = NewHub \<Longrightarrow> w_fcm_token w = [] \<Longrightarrow>
    reachable L R decode w"
| act: "reachable L R decode w \<Longrightarrow> enabled L R decode cfg a w \<Longrightarrow>
    reachable L R decode (snd (perform L R decode cfg a w))"
| restart: "reachable L R decode w \<Longrightarrow> reachable L R decode (restarted w)"

section \<open>Invariants of the database hold in every reachable state\<close>

lemma pres_serve: "pres I (route L R cfg req) \<Longrightarrow> pres I (serve L R cfg req)"
  by (auto simp: pres_def serve_def split: prod.splits outcome.splits)

lemma set_startConsumers:
  assumes "startConsumers L R decode cfg = Inr cs" and "c \<in> set cs"
  obtains (inapp) p q where "c = NewInAppConsumer L R p q" | (dlq) "c = NewDLQConsumer"
    | (email) p ec where "c = NewEmailConsumer p ec" | (sms) p sc where "c = NewSMSConsumer p sc"
    | (push) p fc where "c = NewPushConsumer L p fc"
  using assms by (auto simp: startConsumers_def Let_def split: if_splits sum.splits)

context db_statements
begin

lemma inv_admin_route: "pres (db_inv J) (admin_route L cfg a)"
  by (cases a) (simp_all add: inv_tenant_handlers)

lemma inv_cleanup: "pres (db_inv J) (cleanup_loop ticks)"
  by (induction ticks) (auto intro!: pres)

lemma inv_main_consumers:
  assumes "i < length (main_consumers L R decode cfg)"
  shows "pres (db_inv J) (Consumer_Run L (main_consumers L R decode cfg ! i) fs)"
proof -
  from assms obtain cs where cs: "startConsumers L R decode cfg = Inr cs" "main_consumers L R decode cfg = cs"
    by (auto simp: main_consumers_def split: if_splits sum.splits)
  with assms have "cs ! i \<in> set cs" by simp
  from cs(1) this show ?thesis
    unfolding cs(2) by (cases rule: set_startConsumers) (simp_all add: inv_consumers)
qed

end

context db_service
begin

lemma inv_tenant_route:
  fixes R :: "'r redis"
  shows "pres (db_inv J) (tenant_route L R sv t ctx)"
  by (cases t) (simp_all add: inv_Send inv_Schedule inv_Batch inv_template_handlers db_notification_reads)

lemma inv_route:
  fixes R :: "'r redis"
  shows "pres (db_inv J) (route L R cfg req)"
  by (cases req) (simp_all add: route_def db_health inv_admin_route inv_Auth inv_tenant_route)

lemma inv_perform:
  fixes R :: "'r redis"
  shows "pres (db_inv J) (perform L R decode cfg a)"
  unfolding perform_def
  by (cases a)
     (auto simp: Let_def inv_cleanup inv_main_consumers inv_replayer inv_scheduler
       intro!: pres pres_serve inv_route split: option.split)

lemma inv_reachable:
  fixes R :: "'r redis"
  shows "reachable L R decode w \<Longrightarrow> J empty_db \<Longrightarrow> J (w_db w)"
  by (induction rule: reachable.induct)
     (auto simp: restarted_def inv_perform [unfolded pres_def, rule_format])

end

section \<open>Stored notifications are well formed\<close>

text \<open>A stored notification has a valid channel and priority, one of the four statuses the
  code writes, the recipient field of its channel, and a delivery row.\<close>

definition notification_ok :: "notification \<Rightarrow> bool" where
  "notification_ok n \<longleftrightarrow> isValidChannel (n_Channel n) \<and> isValidPriority (n_Priority n)
     \<and> n_Status n \<in> {StatusPending, StatusQueued, StatusQueuedRateLimited, StatusFailed}
     \<and> validateRecipientFields (n_Channel n) (n_RecipientEmail n) (n_RecipientPhone n) (n_RecipientToken n)
         (n_RecipientID n) ''given'' = None"

definition stored_ok :: "db \<Rightarrow> bool" where
  "stored_ok d \<longleftrightarrow> db_ok d \<and> (\<forall>n\<in>set (notifications d). notification_ok n
     \<and> n_ID n \<in> d_NotificationID ` set (notification_deliveries d))"

lemma stored_ok_empty: "stored_ok empty_db"
  by (simp add: stored_ok_def db_ok_empty) (simp add: empty_db_def)

lemma stored_ok_frame:
  assumes "stored_ok d" and "db_ok d'" and "notifications d' = notifications d"
    and "d_NotificationID ` set (notification_deliveries d) \<subseteq> d_NotificationID ` set (notification_deliveries d')"
  shows "stored_ok d'"
  using assms by (auto simp: stored_ok_def)

lemma stored_ok_upd:
  assumes "stored_ok d" and "db_ok d'" and "notifications d' = upd_where p f (notifications d)"
    and "notification_deliveries d' = notification_deliveries d"
    and "\<And>n. notification_ok n \<Longrightarrow> notification_ok (f n)" and "\<And>n. n_ID (f n) = n_ID n"
  shows "stored_ok d'"
  using assms by (auto simp: stored_ok_def in_upd_where)

lemma deliveries_frame [simp]:
  "notification_deliveries (snd (insert_tenant r1 d)) = notification_deliveries d"
  "notification_deliveries (snd (insert_api_key r2 d)) = notification_deliveries d"
  "notification_deliveries (snd (insert_template r3 d)) = notification_deliveries d"
  "notification_deliveries (snd (insert_scheduled r5 d)) = notification_deliveries d"
  "notification_deliveries (snd (insert_dlq r6 d)) = notification_deliveries d"
  "notification_deliveries (snd (upsert_channel r7 d)) = notification_deliveries d"
  "notification_deliveries (snd (upsert_rate_limit r8 d)) = notification_deliveries d"
  "notification_deliveries (snd (delete_api_key k d)) = notification_deliveries d"
  "notification_deliveries (snd (update_scheduled p2 f2 d)) = notification_deliveries d"
  "notification_deliveries (snd (update_tenants p3 f3 d)) = notification_deliveries d"
  "notification_deliveries (snd (update_template t m f4 d)) = notification_deliveries d"
  by (simp_all add: insert_tenant_def insert_api_key_def insert_template_def
      insert_scheduled_def insert_dlq_def upsert_channel_def upsert_rate_limit_def
      delete_api_key_def update_scheduled_def update_tenants_def
      update_template_def snd_ins Let_def split: option.split)

lemma stored_ok_frames:
  "stored_ok d \<Longrightarrow> stored_ok (snd (insert_tenant r1 d))"
  "stored_ok d \<Longrightarrow> stored_ok (snd (insert_api_key r2 d))"
  "stored_ok d \<Longrightarrow> stored_ok (snd (insert_template r3 d))"
  "stored_ok d \<Longrightarrow> stored_ok (snd (insert_scheduled r4 d))"
  "stored_ok d \<Longrightarrow> stored_ok (snd (insert_dlq r5 d))"
  "stored_ok d \<Longrightarrow> stored_ok (snd (upsert_channel r6 d))"
  "stored_ok d \<Longrightarrow> stored_ok (snd (upsert_rate_limit r7 d))"
  "stored_ok d \<Longrightarrow> stored_ok (snd (delete_api_key k d))"
  "stored_ok d \<Longrightarrow> (\<And>r. s_ID (fs r) = s_ID r) \<Longrightarrow> (\<And>r. s_NotificationID (fs r) = s_NotificationID r) \<Longrightarrow>
     stored_ok (snd (update_scheduled p1 fs d))"
  "stored_ok d \<Longrightarrow> (\<And>r. t_ID (ft r) = t_ID r) \<Longrightarrow> stored_ok (snd (update_tenants p2 ft d))"
  "stored_ok d \<Longrightarrow> (\<And>r. m_ID (fm r) = m_ID r) \<Longrightarrow> (\<And>r. m_TenantID (fm r) = m_TenantID r) \<Longrightarrow>
     (\<And>r r'. m_Name (fm r) = m_Name (fm r')) \<Longrightarrow> stored_ok (snd (update_template t m fm d))"
  by (rule stored_ok_frame, assumption, simp add: stored_ok_def db_ok_statements db_ok_delete_api_key, simp, simp)+

lemma stored_ok_deletes:
  assumes "stored_ok d"
  shows "stored_ok (delete_notifications p d)" and "stored_ok (delete_templates q d)"
proof -
  have ok: "db_ok (delete_notifications p d)" "db_ok (delete_templates q d)"
    using assms by (simp_all add: stored_ok_def db_ok_statements)
  have u: "unique_on n_ID (notifications d)" using assms by (simp add: stored_ok_def db_ok_defs)
  have "n_ID n \<in> d_NotificationID ` set (notification_deliveries (delete_notifications p d))"
    if n: "n \<in> set (notifications d)" "\<not> p n" for n
  proof -
    from assms n(1) obtain r where r: "r \<in> set (notification_deliveries d)" "d_NotificationID r = n_ID n"
      by (auto simp: stored_ok_def)
    have "m = n" if "m \<in> set (notifications d)" "n_ID m = n_ID n" for m
      using that n(1) u by (auto simp: unique_on_def distinct_map inj_on_def)
    with n(2) r show ?thesis by (force simp: delete_notifications_def del_where_def Let_def)
  qed
  then show "stored_ok (delete_notifications p d)"
    using assms ok(1) by (auto simp: stored_ok_def delete_notifications_def del_where_def Let_def)
  show "stored_ok (delete_templates q d)"
    by (rule stored_ok_upd [OF assms ok(2), where f = "\<lambda>n. n\<lparr>n_TemplateID := None\<rparr>"
          and p = "\<lambda>n. n_TemplateID n \<in> Some ` m_ID ` {m \<in> set (notification_templates d). q m}"])
       (simp_all add: delete_templates_def Let_def notification_ok_def)
qed

lemma stored_ok_delete_tenants: "stored_ok d \<Longrightarrow> stored_ok (delete_tenants t d)"
  by (rule stored_ok_frame [OF stored_ok_deletes(2) [OF stored_ok_deletes(1)]])
     (auto simp: stored_ok_def db_ok_statements, auto simp: delete_tenants_def Let_def)

lemma stored_ok_updates:
  assumes "stored_ok d"
  shows "s \<in> {StatusPending, StatusQueued, StatusQueuedRateLimited, StatusFailed} \<Longrightarrow>
      stored_ok (snd (update_notifications p (\<lambda>n. n\<lparr>n_Status := s\<rparr>) d))"
    and "stored_ok (snd (insert_delivery r d))"
    and "(\<And>r. d_ID (f r) = d_ID r) \<Longrightarrow> (\<And>r. d_NotificationID (f r) = d_NotificationID r) \<Longrightarrow>
      stored_ok (snd (update_deliveries q f d))"
proof -
  have ok: "db_ok d" using assms by (simp add: stored_ok_def)
  show "stored_ok (snd (update_notifications p (\<lambda>n. n\<lparr>n_Status := s\<rparr>) d))"
    if "s \<in> {StatusPending, StatusQueued, StatusQueuedRateLimited, StatusFailed}"
    by (rule stored_ok_upd [OF assms db_ok_update_notifications [OF ok], where f = "\<lambda>n. n\<lparr>n_Status := s\<rparr>" and p = p])
       (use that in \<open>auto simp: update_notifications_def notification_ok_def\<close>)
  show "stored_ok (snd (insert_delivery r d))"
    by (rule stored_ok_frame [OF assms db_ok_insert_delivery [OF ok]])
       (auto simp: insert_delivery_def snd_ins)
  show "stored_ok (snd (update_deliveries q f d))"
    if "\<And>r. d_ID (f r) = d_ID r" "\<And>r. d_NotificationID (f r) = d_NotificationID r"
    by (rule stored_ok_frame [OF assms db_ok_update_deliveries [OF ok]])
       (simp_all add: that update_deliveries_def image_upd_where)
qed

lemma row_of_valid_params:
  "valid_params p \<Longrightarrow> notification_ok (notification_row t p)"
  by (auto simp: valid_params_def valid_request_def notification_ok_def notification_row_def)

lemma stored_ok_createAndQueue:
  assumes "valid_params p"
  shows "pres (db_inv stored_ok) (NotificationHandler_createAndQueue L sv p b)"
proof -
  have "pres (db_inv stored_ok) (WithTx (create_and_queue_tx L sv p b))"
  proof (rule presI)
    fix w :: "'r world" assume J: "stored_ok (w_db w)"
    obtain r w' where run: "WithTx (create_and_queue_tx L sv p b) w = (r, w')" by fastforce
    show "stored_ok (w_db (snd (WithTx (create_and_queue_tx L sv p b) w)))"
    proof (cases "\<exists>n dv. r = Val (Inr (n, dv))")
      case False
      then have "w_db w' = w_db w" using WithTx_rollback [OF run] by auto
      with J run show ?thesis by simp
    next
      case True
      then obtain n dv where r: "r = Val (Inr (n, dv))" by blast
      from run [unfolded r] obtain w1 where
        tx: "create_and_queue_tx L sv p b (w\<lparr>w_tick := Suc (w_tick w)\<rparr>) = (Val (Inr (n, dv)), w1)"
        and w': "w_db w' = w_db w1" by (rule WithTx_success) simp
      note eff = tx_effect [OF tx]
      have "pres (db_inv db_ok) (WithTx (create_and_queue_tx L sv p b) :: ('r world, _) prog)"
        unfolding create_and_queue_tx_def by (intro pres schema.inv_notification_Create schema.inv_deliveries) simp
      then have "db_ok (w_db w')" using presE run J by (fastforce simp: stored_ok_def)
      moreover have "n_ID n = p_ID p" by (simp add: eff(1) notification_row_def)
      ultimately have "stored_ok (w_db w')"
        using J eff row_of_valid_params [OF assms] by (auto simp: stored_ok_def w')
      with run show ?thesis by simp
    qed
  qed
  then show ?thesis
    unfolding NotificationHandler_createAndQueue_def by (rule pres_bnd) (intro pres)
qed

interpretation stored: db_service stored_ok
    "\<lambda>s. s \<in> {StatusPending, StatusQueued, StatusQueuedRateLimited, StatusFailed}" world_type
  for world_type :: "'r world itself"
  by unfold_locales
     (auto simp: stored_ok_deletes stored_ok_delete_tenants stored_ok_updates stored_ok_createAndQueue
       stored_ok_frames)

end
