(* ===== verification/Outbound.thy ===== *)
theory Outbound
  imports System
begin

text \<open>
  What leaves the process: the Kafka records and the payloads in the hub.  Most computations touch
  neither (\<open>quiet\<close>); the rest are the publishing paths, the in-app consumer and the
  WebSocket handler.
\<close>

section \<open>Computations that publish nothing and leave the hub alone\<close>

abbreviation (input) out_inv :: "(krecord list \<Rightarrow> hub \<Rightarrow> bool) \<Rightarrow> 'r world \<Rightarrow> bool" where
  "out_inv K w \<equiv> K (w_topics w) (w_hub w)"

named_theorems quiet \<open>computations that keep the records and the hub\<close>

lemma quiet_calls [quiet]:
  "pres (out_inv K) external" "pres (out_inv K) (emit e)" "pres (out_inv K) (count_status ch st)"
  "pres (out_inv K) (query s)" "pres (out_inv K) (redis_call f)"
proof -
  show ext: "pres (out_inv K) external" by (rule pres_external) simp
  show e: "pres (out_inv K) (emit e)" for e by (simp add: emit_def pres_writes)
  show "pres (out_inv K) (count_status ch st)" unfolding count_status_def by (rule e)
  have "pres (out_inv K) (run_stmt s)" for s by (simp add: pres_def run_stmt_def split: prod.split)
  then show "pres (out_inv K) (query s)" unfolding query_def by (intro pres_bnd pres_case_option pres_ret ext)
  show "pres (out_inv K) (redis_call f)"
    unfolding redis_call_def
    by (intro pres_bnd pres_case_option pres_ret ext) (simp add: pres_def split: prod.split)
qed

lemma quiet_WithTx [quiet]:
  assumes "pres (out_inv K) fn"
  shows "pres (out_inv K) (WithTx fn)"
proof -
  have "pres (out_inv K) (tx_body fn)"
    using assms unfolding pres_def
    by (auto simp: tx_body_def Let_def external_def dest: presE split: prod.splits outcome.splits
        sum.splits option.splits)
  then show ?thesis unfolding WithTx_def by (intro pres_bnd pres_case_option pres_ret quiet_calls)
qed

lemma quiet_notification_repos [quiet]:
  "pres (out_inv K) (NotificationRepository_Create p)" "pres (out_inv K) (NotificationRepository_GetByID a)"
  "pres (out_inv K) (NotificationRepository_GetByTenantID a f)" "pres (out_inv K) (NotificationRepository_GetByStatus s n)"
  "pres (out_inv K) (NotificationRepository_UpdateStatus a s)" "pres (out_inv K) (NotificationRepository_DeleteExpired now)"
  "pres (out_inv K) (NotificationDeliveryRepository_Create a ch s)"
  "pres (out_inv K) (NotificationDeliveryRepository_SetStatus a s)"
  "pres (out_inv K) (NotificationDeliveryRepository_UpdateStatus a s e)"
  "pres (out_inv K) (NotificationDeliveryRepository_GetByNotificationID a)"
  "pres (out_inv K) (ScheduledNotificationRepository_Create a t)"
  "pres (out_inv K) (ScheduledNotificationRepository_GetDueUnfired now n)"
  "pres (out_inv K) (ScheduledNotificationRepository_MarkFired a)" "pres (out_inv K) (DLQRepository_Create m e)"
  unfolding NotificationRepository_Create_def NotificationRepository_GetByID_def
    NotificationRepository_GetByTenantID_def NotificationRepository_GetByStatus_def
    NotificationRepository_UpdateStatus_def NotificationRepository_DeleteExpired_def
    NotificationDeliveryRepository_Create_def NotificationDeliveryRepository_SetStatus_def
    NotificationDeliveryRepository_UpdateStatus_def NotificationDeliveryRepository_GetByNotificationID_def
    ScheduledNotificationRepository_Create_def ScheduledNotificationRepository_GetDueUnfired_def
    ScheduledNotificationRepository_MarkFired_def DLQRepository_Create_def
  by (intro pres quiet)+

lemma quiet_tenant_repos [quiet]:
  "pres (out_inv K) (TenantRepository_Create name cap)" "pres (out_inv K) (TenantRepository_GetByID a)"
  "pres (out_inv K) TenantRepository_GetAll" "pres (out_inv K) (TenantRepository_Update a name)"
  "pres (out_inv K) (TenantRepository_UpdateGlobalRateCap a cap)" "pres (out_inv K) (TenantRepository_Delete a)"
  "pres (out_inv K) (TenantChannelRepository_Upsert a ch b)" "pres (out_inv K) (TenantChannelRepository_GetByTenantID a)"
  "pres (out_inv K) (TenantChannelRepository_IsEnabled a ch)" "pres (out_inv K) (TenantRateLimitRepository_Upsert a ch m)"
  "pres (out_inv K) (TenantRateLimitRepository_GetByTenantID a)"
  "pres (out_inv K) (TenantRateLimitRepository_GetByChannel a ch)"
  unfolding TenantRepository_Create_def TenantRepository_GetByID_def TenantRepository_GetAll_def
    TenantRepository_Update_def TenantRepository_UpdateGlobalRateCap_def TenantRepository_Delete_def
    TenantChannelRepository_Upsert_def TenantChannelRepository_GetByTenantID_def
    TenantChannelRepository_IsEnabled_def TenantRateLimitRepository_Upsert_def
    TenantRateLimitRepository_GetByTenantID_def TenantRateLimitRepository_GetByChannel_def
  by (intro pres quiet)+

lemma quiet_other_repos [quiet]:
  "pres (out_inv K) (APIKeyRepository_Create a h)" "pres (out_inv K) (APIKeyRepository_GetTenantByKeyHash h)"
  "pres (out_inv K) (APIKeyRepository_GetByTenantID a)" "pres (out_inv K) (APIKeyRepository_Delete a)"
  "pres (out_inv K) (TemplateRepository_Create a name ch sub body)" "pres (out_inv K) (TemplateRepository_GetByID a b)"
  "pres (out_inv K) (TemplateRepository_ListByTenant a)" "pres (out_inv K) (TemplateRepository_Update a b name ch sub body)"
  "pres (out_inv K) (TemplateRepository_Delete a b)" "pres (out_inv K) (AnalyticsRepository_Summary a f t)"
  "pres (out_inv K) (AnalyticsRepository_ChannelBreakdown a f t)" "pres (out_inv K) (AnalyticsRepository_DLQTrend a f t)"
  unfolding APIKeyRepository_Create_def APIKeyRepository_GetTenantByKeyHash_def APIKeyRepository_GetByTenantID_def
    APIKeyRepository_Delete_def TemplateRepository_Create_def TemplateRepository_GetByID_def
    TemplateRepository_ListByTenant_def TemplateRepository_Update_def TemplateRepository_Delete_def
    AnalyticsRepository_Summary_def AnalyticsRepository_ChannelBreakdown_def AnalyticsRepository_DLQTrend_def
  by (intro pres quiet)+

lemma quiet_limits [quiet]:
  "pres (out_inv K) (Limiter_Allow L R l a ch)" "pres (out_inv K) (Dedup_Reserve L R dd k uid)"
  "pres (out_inv K) (Dedup_Release L R dd k)"
  unfolding Limiter_Allow_def Limiter_resolveLimits_def Dedup_Reserve_def Dedup_Release_def
    Deduplicator_Reserve_def Deduplicator_Release_def Let_def
  by (cases l; cases dd; simp; intro pres quiet)+

lemma quiet_offline [quiet]:
  "pres (out_inv K) (Queue_Push R t u p)" "pres (out_inv K) (Queue_Flush R t u)"
  "pres (out_inv K) (Tracker_SetOnline R t u)" "pres (out_inv K) (Tracker_Delete R t u)"
  unfolding Queue_Push_def Queue_Flush_def Flush_LRange_def Flush_Del_def Tracker_SetOnline_def
    Tracker_Delete_def Let_def
  by (intro pres quiet)+

section \<open>Handlers and consumers that publish nothing\<close>

lemma quiet_prefixes [quiet]:
  "(\<And>t. pres (out_inv K) (kt t)) \<Longrightarrow> pres (out_inv K) (with_tenant u kt)"
  "pres (out_inv K) m \<Longrightarrow> pres (out_inv K) (with_enabled_channel a ch m)"
  "(\<And>a b c. pres (out_inv K) (k a b c)) \<Longrightarrow> pres (out_inv K) (with_content L t ch tm vs s b k)"
  "(\<And>t. pres (out_inv K) (h t)) \<Longrightarrow> pres (out_inv K) (Auth L key h)"
  "pres (out_inv K) (scheduleNotificationRequest_Validate L r)" "pres (out_inv K) (generateAPIKey L)"
  "pres (out_inv K) (NotificationHandler_releaseDedup L R sv dk)" "pres (out_inv K) (fetch_existing u2 n)"
  unfolding with_tenant_def with_enabled_channel_def with_content_def NotificationHandler_resolveTemplate_def
    Auth_def scheduleNotificationRequest_Validate_def generateAPIKey_def NotificationHandler_releaseDedup_def Let_def
  by ((intro pres quiet; assumption?)+, induction n, auto intro!: pres quiet)

lemma quiet_transactions [quiet]:
  "pres (out_inv K) (create_tenant_tx name cap h)" "pres (out_inv K) (update_rate_limits_tx u rq t)"
  unfolding create_tenant_tx_def update_rate_limits_tx_def by (intro pres quiet)+

lemma quiet_admin: "pres (out_inv K) (admin_route L cfg a)"
  by (cases a;
      simp add: TenantHandler_Create_def TenantHandler_List_def TenantHandler_Get_def TenantHandler_Update_def
        TenantHandler_Delete_def TenantHandler_CreateKey_def TenantHandler_ListKeys_def TenantHandler_DeleteKey_def
        TenantHandler_UpdateChannels_def TenantHandler_UpdateRateLimits_def TenantHandler_GetChannels_def
        TenantHandler_GetRateLimits_def TenantHandler_Analytics_def;
      intro pres quiet)

lemma quiet_health: "pres (out_inv K) (HealthHandler_Check r k)"
  unfolding HealthHandler_Check_def Let_def by (intro pres quiet)

lemma quiet_reads: 
  "pres (out_inv K) (NotificationHandler_History L hq t)" "pres (out_inv K) (NotificationHandler_Get L i t)"
  "pres (out_inv K) (TemplateHandler_Create b t)" "pres (out_inv K) (TemplateHandler_List t)"
  "pres (out_inv K) (TemplateHandler_Get L i t)" "pres (out_inv K) (TemplateHandler_Update L i b t)"
  "pres (out_inv K) (TemplateHandler_Delete L i t)"
  unfolding NotificationHandler_History_def NotificationHandler_Get_def TemplateHandler_Create_def
    TemplateHandler_List_def TemplateHandler_Get_def TemplateHandler_Update_def TemplateHandler_Delete_def Let_def
  by (intro pres quiet)+

lemma quiet_channels [quiet]:
  "pres (out_inv K) (http_exchange req)" "pres (out_inv K) (Email_Send ec a b c)" "pres (out_inv K) (Sms_Send sc a b)"
  "pres (out_inv K) (Push_Send L fc a b c)"
proof -
  show http: "pres (out_inv K) (http_exchange req)" for req
    unfolding http_exchange_def by (intro pres quiet)
  show "pres (out_inv K) (Email_Send ec a b c)" "pres (out_inv K) (Sms_Send sc a b)"
    unfolding Email_Send_def Sms_Send_def by (intro pres quiet http)+
  show "pres (out_inv K) (Push_Send L fc a b c)"
    unfolding Push_Send_def Fcm_getAccessToken_def Fcm_refresh_def Fcm_signJWT_def Let_def
    by (intro pres quiet http pres_writes) simp_all
qed

lemma quiet_handlers [quiet]:
  "pres (out_inv K) (email_handler ec m)" "pres (out_inv K) (sms_handler sc m)"
  "pres (out_inv K) (push_handler L fc m)" "pres (out_inv K) (dlq_handler m)"
  unfolding email_handler_def sms_handler_def push_handler_def timed_send_def dlq_handler_def
  by (intro pres quiet)+

lemma quiet_cleanup: "pres (out_inv K) (cleanup_loop ticks)"
  by (induction ticks) (auto intro!: pres quiet)

section \<open>Published messages are well formed\<close>

text \<open>A message names one of the four channels and carries the recipient field its channel needs;
  it is on its channel's topic, or, with the error of its last attempt, on the dead-letter topic.\<close>

definition message_ok :: "message \<Rightarrow> bool" where
  "message_ok m \<longleftrightarrow> isValidChannel (msg_Channel m) \<and> isValidPriority (msg_Priority m)
     \<and> validateRecipientFields (msg_Channel m) (msg_RecipientEmail m) (msg_RecipientPhone m)
         (msg_RecipientToken m) (msg_RecipientID m) ''given'' = None"

definition record_ok :: "libs \<Rightarrow> krecord \<Rightarrow> bool" where
  "record_ok L rec \<longleftrightarrow> (\<exists>m. message_ok m \<and> (rec = topic_record L m \<or> rec = dlq_record L m))"

definition outbound_ok :: "libs \<Rightarrow> krecord list \<Rightarrow> hub \<Rightarrow> bool" where
  "outbound_ok L ts h \<longleftrightarrow> list_all (record_ok L) ts \<and> hub_ok h"

lemma outbound_publish:
  assumes "record_ok L \<lparr>kr_topic = topic, kr_key = uuid_String L (msg_NotificationID m),
      kr_headers = [(''notification_id'', uuid_String L (msg_NotificationID m)), (''channel'', msg_Channel m)],
      kr_value = Message_Marshal L m\<rparr>"
  shows "pres (out_inv (outbound_ok L)) (Producer_Publish L p topic m)"
  unfolding Producer_Publish_def
  by (cases p) (auto intro!: pres quiet pres_writes simp: outbound_ok_def assms)

lemma outbound_publish_channel:
  "message_ok m \<Longrightarrow> ch = msg_Channel m \<Longrightarrow> pres (out_inv (outbound_ok L)) (Producer_Publish L p (TopicForChannel ch) m)"
  by (rule outbound_publish) (auto simp: record_ok_def topic_record_def)

lemma outbound_publish_dlq: "message_ok m \<Longrightarrow> pres (out_inv (outbound_ok L)) (Producer_Publish L p TopicDLQ m)"
  by (rule outbound_publish) (auto simp: record_ok_def dlq_record_def)

lemma outbound_on_hub:
  "(\<And>h. hub_ok h \<Longrightarrow> hub_ok (snd (m h))) \<Longrightarrow> pres (out_inv (outbound_ok L)) (on_hub m)"
  by (force simp: pres_def on_hub_def outbound_ok_def split: prod.split)

subsection \<open>Sending\<close>

lemma outbound_queue:
  assumes "valid_params p"
  shows "pres (out_inv (outbound_ok L)) (NotificationHandler_createAndQueue L sv p b)"
proof -
  have "message_ok (fresh_message p n dv)" for n dv
    using assms by (simp add: message_ok_def fresh_message_def valid_params_def valid_request_def)
  then show ?thesis
    unfolding NotificationHandler_createAndQueue_def create_and_queue_tx_def
    by (intro pres quiet outbound_publish_channel) (simp_all add: fresh_message_def)
qed

lemma outbound_processSend:
  assumes "valid_request p"
  shows "pres (out_inv (outbound_ok L)) (NotificationHandler_processSend L R sv k p)"
  unfolding NotificationHandler_processSend_def send_fresh_def Let_def
  using assms by (intro pres quiet outbound_queue) (simp_all add: valid_params_def)

lemma outbound_batch_loop:
  assumes "\<And>u rec. rec \<in> set recs \<Longrightarrow> valid_request (ps u rec)"
  shows "pres (out_inv (outbound_ok L)) (batch_loop L R sv k ps i recs)"
  using assms by (induction recs arbitrary: i) (auto simp: Let_def intro!: pres quiet outbound_processSend)

lemma outbound_tenant_route: "pres (out_inv (outbound_ok L)) (tenant_route L R sv t ctx)"
proof (cases t)
  case (SendNotification b)
  show ?thesis
    unfolding SendNotification tenant_route.simps NotificationHandler_Send_def
    by (intro pres quiet outbound_processSend) (simp add: valid_request_def valid_send)
next
  case (ScheduleNotification b)
  show ?thesis
    unfolding ScheduleNotification tenant_route.simps NotificationHandler_Schedule_def
    by (rule pres_bnd [OF pres_RequireTenant], rule pres_case_option, rule db_errResponse,
        rule pres_bnd_val, rule quiet)
       (auto simp: Let_def valid_params_def valid_request_def valid_send dest: valid_schedule
         intro!: pres quiet outbound_queue split: option.split)
next
  case (BatchNotifications b)
  show ?thesis
    unfolding BatchNotifications tenant_route.simps NotificationHandler_Batch_def
    by (intro pres quiet outbound_batch_loop) (simp add: valid_request_def valid_batch)
qed (simp_all add: quiet_reads)

lemma outbound_route: "pres (out_inv (outbound_ok L)) (route L R cfg req)"
  by (cases req) (auto simp: route_def quiet_health quiet_admin intro!: quiet outbound_tenant_route)

subsection \<open>Replaying and firing\<close>

lemma stored_message_ok: "notification_ok n \<Longrightarrow> message_ok (stored_message n d)"
  by (simp add: message_ok_def stored_message_def notification_ok_def)

lemma outbound_replayOne:
  assumes "notification_ok n"
  shows "pres (out_inv (outbound_ok L)) (Replayer_replayOne L R l p n)"
  unfolding Replayer_replayOne_def
  by (intro pres quiet outbound_publish_channel stored_message_ok assms) (simp add: stored_message_def)

abbreviation (input) system_ok :: "libs \<Rightarrow> 'r world \<Rightarrow> bool" where
  "system_ok L w \<equiv> stored_ok (w_db w) \<and> outbound_ok L (w_topics w) (w_hub w)"

lemma outbound_Replayer: "pres (system_ok L) (Replayer_Run L R l p ticks)"
proof -
  have "pres (system_ok L) (Replayer_replayOnce L R l p)"
    unfolding Replayer_replayOnce_def
  proof (rule pres_bnd_val, rule pres_conj [OF db_reads(3) quiet_notification_repos(4)])
    fix r and w w' :: "'r world"
    assume I: "system_ok L w"
      and run: "NotificationRepository_GetByStatus StatusQueuedRateLimited replay_batchSize w = (Val r, w')"
    have "notification_ok n" if "r = Inr ns" "n \<in> set ns" for ns n
      using I run that
      by (auto simp: NotificationRepository_GetByStatus_def select_def wrap_def ret_def stored_ok_def
          elim!: bnd_ValE query_cases dest!: in_set_takeD split: sum.splits)
    then show "pres (system_ok L) (case r of Inl _ \<Rightarrow> ret ()
        | Inr candidates \<Rightarrow> for_each candidates (Replayer_replayOne L R l p))"
      by (auto intro!: pres_ret pres_for_each_set pres_conj stored.inv_replayOne outbound_replayOne split: sum.split)
  qed
  then show ?thesis by (induction ticks) (auto intro!: pres)
qed

lemma outbound_fireOne: "pres (system_ok L) (Scheduler_fireOne L p sn)"
  unfolding Scheduler_fireOne_def
proof (rule pres_bnd_val, rule pres_conj [OF db_reads(1) quiet_notification_repos(2)])
  fix r and w w' :: "'r world"
  assume I: "system_ok L w" and run: "NotificationRepository_GetByID (s_NotificationID sn) w = (Val r, w')"
  have ok: "notification_ok n" if "r = Inr n" for n
    using I run that
    by (auto simp: NotificationRepository_GetByID_def select_one_def wrap_not_found_def ret_def stored_ok_def
        elim!: bnd_ValE query_cases dest!: find_SomeD split: sum.splits option.splits if_splits)
  show "pres (system_ok L) (case r of Inl _ \<Rightarrow> ret ()
     | Inr n \<Rightarrow> bnd (NotificationDeliveryRepository_GetByNotificationID (n_ID n)) (\<lambda>ds. case ds of
           Inl _ \<Rightarrow> ret ()
         | Inr [] \<Rightarrow> ret ()
         | Inr (delivery # _) \<Rightarrow>
             if is_nil p then ret ()
             else bnd (Producer_Publish L p (TopicForChannel (n_Channel n))
                         (stored_message n delivery)) (\<lambda>q. case q of
               Inl _ \<Rightarrow> ret ()
             | Inr _ \<Rightarrow>
                 bnd (NotificationRepository_UpdateStatus (n_ID n) StatusQueued) (\<lambda>_.
                 bnd (NotificationDeliveryRepository_SetStatus (d_ID delivery) StatusQueued) (\<lambda>_.
                 bnd (ScheduledNotificationRepository_MarkFired (s_ID sn)) (\<lambda>_.
                 ret ()))))))"
  proof (rule pres_conj, goal_cases)
    case 1
    show ?case
      by (intro pres stored.inv_notification_UpdateStatus stored.inv_deliveries stored.inv_scheduled) simp
  next
    case 2
    show ?case
      by (intro pres quiet outbound_publish_channel stored_message_ok ok) (simp_all add: stored_message_def)
  qed
qed

lemma outbound_Scheduler: "pres (system_ok L) (Scheduler_Run L p ticks)"
proof -
  have "pres (system_ok L) (Scheduler_tickOnce L p)"
    unfolding Scheduler_tickOnce_def
    by (intro pres_bnd pres_case_sum pres_for_each pres_ret outbound_fireOne pres_conj [OF db_external quiet_calls(1)]
        pres_conj [OF db_reads(5) quiet_notification_repos(12)])
  then show ?thesis by (induction ticks) (auto intro!: pres)
qed

subsection \<open>Consuming\<close>

lemma outbound_handleWithRetry:
  assumes "\<And>m. pres (out_inv (outbound_ok L)) (cs_handler cs m)"
    and "\<And>m. Option.bind (km_Value km) (Message_Unmarshal L) = Some m \<Longrightarrow> message_ok m"
  shows "pres (out_inv (outbound_ok L)) (Consumer_handleWithRetry L cs km)"
proof -
  have "pres (out_inv (outbound_ok L)) (retry_loop topic (cs_handler cs) msg left)" for topic msg left
    by (induction left) (auto simp: retry_loop.simps [of topic "cs_handler cs" msg] Let_def intro!: pres quiet assms(1))
  moreover have "message_ok (m\<lparr>msg_LastError := e\<rparr>)"
    if "Option.bind (km_Value km) (Message_Unmarshal L) = Some m" for m e
    using assms(2) [OF that] by (simp add: message_ok_def)
  ultimately show ?thesis
    unfolding Consumer_handleWithRetry_def by (intro pres quiet outbound_publish_dlq)
qed

lemma outbound_Consumer_Run:
  assumes "\<And>m. pres (out_inv (outbound_ok L)) (cs_handler cs m)"
    and "\<And>km m. Fetched km \<in> set fs \<Longrightarrow> Option.bind (km_Value km) (Message_Unmarshal L) = Some m \<Longrightarrow> message_ok m"
  shows "pres (out_inv (outbound_ok L)) (Consumer_Run L cs fs)"
  using assms(2)
proof (induction fs)
  case (Cons f fs)
  have run: "pres (out_inv (outbound_ok L)) (Consumer_Run L cs fs)"
    by (rule Cons.IH) (rule Cons.prems [OF list.set_intros(2)])
  have "pres (out_inv (outbound_ok L)) (Consumer_handleWithRetry L cs km)" if "f = Fetched km" for km
  proof (rule outbound_handleWithRetry [OF assms(1)])
    have "Fetched km \<in> set (f # fs)" using that by simp
    then show "message_ok m" if "Option.bind (km_Value km) (Message_Unmarshal L) = Some m" for m
      using that by (rule Cons.prems)
  qed
  with run show ?case by (cases f) (auto intro!: pres quiet)
qed (auto intro: pres)

lemma outbound_inapp: "pres (out_inv (outbound_ok L)) (inapp_handler L' R q m)"
  unfolding inapp_handler_def Let_def by (intro pres quiet outbound_on_hub hub_ok_send)

lemma outbound_consumers:
  assumes "c \<in> set (main_consumers L R decode cfg)"
  shows "pres (out_inv (outbound_ok L)) (cs_handler c m)"
proof -
  from assms obtain cs where "startConsumers L R decode cfg = Inr cs" "c \<in> set cs"
    by (cases "startConsumers L R decode cfg") (auto simp: main_consumers_def split: if_splits)
  then show ?thesis
    by (cases rule: set_startConsumers)
       (simp_all add: NewInAppConsumer_def NewDLQConsumer_def NewEmailConsumer_def NewSMSConsumer_def
         NewPushConsumer_def quiet_handlers outbound_inapp)
qed

subsection \<open>Sockets\<close>

lemma outbound_sockets:
  "pres (out_inv (outbound_ok L)) (Handler_open L' R h t u k)"
  "pres (out_inv (outbound_ok L)) (Handler_close R h c t u)"
  "pres (out_inv (outbound_ok L)) (on_hub (writes (writePump_step e c)))"
proof -
  have send: "pres (out_inv (outbound_ok L)) (flush_pending R t u)"
    unfolding flush_pending_def by (intro pres quiet outbound_on_hub hub_ok_send)
  show "pres (out_inv (outbound_ok L)) (Handler_open L' R h t u k)"
    unfolding Handler_open_def by (intro pres quiet outbound_on_hub hub_ok_register send)
  show "pres (out_inv (outbound_ok L)) (Handler_close R h c t u)"
    unfolding Handler_close_def by (intro pres quiet outbound_on_hub) (simp add: writes_def hub_ok_unregister)
  show "pres (out_inv (outbound_ok L)) (on_hub (writes (writePump_step e c)))"
    by (rule outbound_on_hub) (simp add: writes_def hub_ok_pump)
qed

section \<open>In every reachable state\<close>

lemma record_decodes:
  assumes "uuid_library L" and "record_ok L rec"
  shows "\<exists>m. Message_Unmarshal L (kr_value rec) = Some m \<and> message_ok m
    \<and> (kr_topic rec = TopicForChannel (msg_Channel m) \<or> kr_topic rec = TopicDLQ)
    \<and> kr_key rec = uuid_String L (msg_NotificationID m)"
  using assms(2) uuid_library.unmarshal_marshal [OF assms(1)]
  by (auto simp: record_ok_def topic_record_def dlq_record_def message_ok_def)

lemma fetched_ok:
  assumes "uuid_library L" and "outbound_ok L (w_topics w) (w_hub w)" and "list_all (on_topic w topic) fs"
    and "Fetched km \<in> set fs" and "Option.bind (km_Value km) (Message_Unmarshal L) = Some m"
  shows "message_ok m"
proof -
  from assms(3,4) have "on_topic w topic (Fetched km)" by (auto simp: list_all_iff)
  then obtain rec where "rec \<in> set (w_topics w)" and v: "km_Value km = Some (kr_value rec)"
    by (auto simp: on_topic_def)
  with assms(2) have "record_ok L rec" by (simp add: outbound_ok_def list_all_iff)
  from record_decodes [OF assms(1) this] v assms(5) show ?thesis by auto
qed

lemma outbound_perform:
  fixes w :: "'r world"
  assumes "uuid_library L" and "enabled L R decode cfg a w" and "system_ok L w"
  shows "outbound_ok L (w_topics (snd (perform L R decode cfg a w))) (w_hub (snd (perform L R decode cfg a w)))"
proof -
  have keeps: ?thesis if "pres (out_inv (outbound_ok L)) (perform L R decode cfg a)"
    using presD [OF that] assms(3) by simp
  have keeps_sys: ?thesis if "pres (system_ok L) (perform L R decode cfg a)"
    using presD [OF that] assms(3) by simp
  show ?thesis
  proof (cases a)
    case (Consume i fs)
    let ?cs = "main_consumers L R decode cfg"
    from assms(2) have "?cs ! i \<in> set ?cs" and on: "list_all (on_topic w (cs_topic (?cs ! i))) fs"
      by (simp_all add: enabled_def Consume)
    then have "pres (out_inv (outbound_ok L)) (Consumer_Run L (?cs ! i) fs)"
      using outbound_consumers fetched_ok [OF assms(1) _ on] assms(3) by (intro outbound_Consumer_Run) blast+
    then show ?thesis by (intro keeps) (auto simp: perform_def Consume Let_def intro!: pres)
  next
    case (Replay ticks)
    show ?thesis
      by (rule keeps_sys) (auto simp: perform_def Replay intro!: pres outbound_Replayer split: option.split)
  next
    case (Schedule ticks)
    show ?thesis by (rule keeps_sys) (simp add: perform_def Schedule outbound_Scheduler)
  qed (rule keeps; auto simp: perform_def outbound_sockets quiet_cleanup
      intro!: pres pres_serve outbound_route outbound_sockets)+
qed

lemma outbound_reachable:
  assumes "uuid_library L" and "reachable L R decode w"
  shows "system_ok L w"
  using assms(2)
proof (induction rule: reachable.induct)
  case (start w)
  then show ?case by (simp add: outbound_ok_def hub_ok_NewHub stored_ok_empty)
next
  case (act w cfg a)
  then show ?case
    using outbound_perform [OF assms(1) act(2)] stored.inv_perform [unfolded pres_def, rule_format] by blast
next
  case (restart w)
  then show ?case by (simp add: restarted_def outbound_ok_def hub_ok_NewHub)
qed

end
