(* ===== verification/Delivery.thy ===== *)
theory Delivery
  imports System
begin

text \<open>
  From the database to the recipient: what a scheduler tick does in a reachable state, and what the
  channel consumers guarantee when they acknowledge a message.
\<close>

section \<open>A scheduler tick fires what is due\<close>

definition due_rows_at :: "time \<Rightarrow> db \<Rightarrow> scheduled_notification list" where
  "due_rows_at now d =
     take sched_batchSize (order_by s_ScheduledAt (filter (due_unfired now) (scheduled_notifications d)))"

lemma calm_later:
  assumes "\<And>i. \<not> fails_at w i" and "w_env w' = w_env w" and "w_tick w \<le> w_tick w'"
  shows "\<not> fails_at w' i"
proof -
  obtain k where "w_tick w' = w_tick w + k" using assms(3) le_Suc_ex by blast
  then show ?thesis using assms(1) [of "k + i"] assms(2) by (simp add: fails_at_def add.assoc)
qed

text \<open>In a well-formed database a scheduled row has its notification and a delivery.\<close>

lemma stored_ok_row:
  assumes "stored_ok d" and "nid \<in> notification_ids d"
  obtains n delivery others where "find (\<lambda>n. n_ID n = nid) (notifications d) = Some n"
    and "order_by d_CreatedAt (filter (\<lambda>r. d_NotificationID r = n_ID n) (notification_deliveries d)) = delivery # others"
proof -
  from assms(2) obtain n where n: "find (\<lambda>n. n_ID n = nid) (notifications d) = Some n"
    by (cases "find (\<lambda>n. n_ID n = nid) (notifications d)")
       (auto simp: find_None_iff)
  then have "n \<in> set (notifications d)" by (simp add: find_SomeD)
  with assms(1) obtain r where "r \<in> set (notification_deliveries d)" "n_ID n = d_NotificationID r"
    unfolding stored_ok_def by blast
  then have "r \<in> set (order_by d_CreatedAt (filter (\<lambda>r. d_NotificationID r = n_ID n) (notification_deliveries d)))"
    by simp
  then obtain a b where "order_by d_CreatedAt (filter (\<lambda>r. d_NotificationID r = n_ID n) (notification_deliveries d)) = a # b"
    by (cases "order_by d_CreatedAt (filter (\<lambda>r. d_NotificationID r = n_ID n) (notification_deliveries d))") auto
  with n that show thesis by blast
qed

lemma upd_where_upd_where:
  assumes "\<And>x. q (f x) = q x" and "\<And>x. f (f x) = f x"
  shows "upd_where q f (upd_where p f xs) = upd_where (\<lambda>x. p x \<or> q x) f xs"
  using assms by (induction xs) auto

lemma fire_all:
  fixes w :: "'r world"
  assumes "stored_ok (w_db w)" and "\<And>i. \<not> fails_at w i"
    and "s_NotificationID ` set sns \<subseteq> notification_ids (w_db w)"
  shows "\<exists>w' recs. for_each sns (Scheduler_fireOne L (Object ())) w = (Val (), w')
    \<and> w_topics w' = w_topics w @ recs
    \<and> map kr_key recs = map (\<lambda>sn. uuid_String L (s_NotificationID sn)) sns
    \<and> scheduled_notifications (w_db w')
        = upd_where (\<lambda>r. s_ID r \<in> s_ID ` set sns) (\<lambda>r. r\<lparr>s_Fired := True\<rparr>) (scheduled_notifications (w_db w))"
  using assms
proof (induction sns arbitrary: w)
  case Nil
  then show ?case by (simp add: ret_def upd_where_id)
next
  case (Cons sn sns)
  from Cons.prems(3) have "s_NotificationID sn \<in> notification_ids (w_db w)" by simp
  from stored_ok_row [OF Cons.prems(1) this] obtain n delivery others where
    f: "find (\<lambda>n. n_ID n = s_NotificationID sn) (notifications (w_db w)) = Some n"
    and d: "order_by d_CreatedAt (filter (\<lambda>r. d_NotificationID r = n_ID n) (notification_deliveries (w_db w)))
      = delivery # others" .
  from fireOne_run [OF Cons.prems(2) f d, of L] obtain w1 rec where
    w1: "Scheduler_fireOne L (Object ()) sn w = (Val (), w1)" "w_topics w1 = w_topics w @ [rec]"
      "kr_key rec = uuid_String L (s_NotificationID sn)"
      "notification_ids (w_db w1) = notification_ids (w_db w)"
      "scheduled_notifications (w_db w1)
        = upd_where (\<lambda>r. s_ID r = s_ID sn) (\<lambda>r. r\<lparr>s_Fired := True\<rparr>) (scheduled_notifications (w_db w))"
    and env: "w_env w1 = w_env w" "w_tick w \<le> w_tick w1"
    by (auto simp: image_upd_where)
  have "pres (db_inv stored_ok) (Scheduler_fireOne L (Object ()) sn :: ('r world, unit) prog)"
    by (rule stored.inv_fireOne) simp
  from presE [OF this w1(1)] Cons.prems(1) have ok: "stored_ok (w_db w1)" by simp
  from Cons.IH [OF ok calm_later [OF Cons.prems(2) env]] Cons.prems(3) w1(4) obtain w2 recs where
    w2: "for_each sns (Scheduler_fireOne L (Object ())) w1 = (Val (), w2)"
      "w_topics w2 = w_topics w1 @ recs"
      "map kr_key recs = map (\<lambda>sn. uuid_String L (s_NotificationID sn)) sns"
      "scheduled_notifications (w_db w2) = upd_where (\<lambda>r. s_ID r \<in> s_ID ` set sns)
         (\<lambda>r. r\<lparr>s_Fired := True\<rparr>) (scheduled_notifications (w_db w1))"
    by auto
  then show ?case
    using w1 by (intro exI [of _ w2] exI [of _ "rec # recs"])
      (simp add: bnd_def upd_where_upd_where)
qed

lemma tickOnce_fires:
  fixes w :: "'r world"
  assumes "stored_ok (w_db w)" and "\<And>i. \<not> fails_at w i"
  shows "\<exists>w' recs. Scheduler_tickOnce L (Object ()) w = (Val (), w')
    \<and> w_topics w' = w_topics w @ recs
    \<and> map kr_key recs = map (\<lambda>sn. uuid_String L (s_NotificationID sn)) (due_rows_at (now_at w 0) (w_db w))
    \<and> scheduled_notifications (w_db w')
        = upd_where (\<lambda>r. s_ID r \<in> s_ID ` set (due_rows_at (now_at w 0) (w_db w)))
            (\<lambda>r. r\<lparr>s_Fired := True\<rparr>) (scheduled_notifications (w_db w))"
proof -
  let ?w = "w\<lparr>w_tick := Suc (Suc (w_tick w))\<rparr>" and ?due = "due_rows_at (now_at w 0) (w_db w)"
  have "c_fail (w_env w (Suc (w_tick w))) = None" using assms(2) [of 1] by (simp add: fails_at_def)
  then have "Scheduler_tickOnce L (Object ()) w = for_each ?due (Scheduler_fireOne L (Object ())) ?w"
    by (simp add: Scheduler_tickOnce_def ScheduledNotificationRepository_GetDueUnfired_def go_defs
        external_def query_def run_stmt_def select_def wrap_def due_rows_at_def now_at_def)
  moreover have "\<not> fails_at ?w i" for i by (rule calm_later [OF assms(2)]) simp_all
  moreover have "s_NotificationID ` set ?due \<subseteq> notification_ids (w_db ?w)"
    using assms(1) by (auto simp: stored_ok_def db_ok_defs due_rows_at_def dest!: in_set_takeD)
  ultimately show ?thesis using fire_all [of ?w ?due L] assms(1) by simp
qed

section \<open>The consumers deliver\<close>

lemma Sms_Send_ok:
  assumes "next_response w = Some resp" and "success_code (rs_StatusCode resp)"
    and "unmarshal_sms (rs_json resp) = Some sr" and "sr_Return sr"
  shows "Sms_Send cl phone message w = (Val (Inr (sr_RequestID sr)),
     w\<lparr>w_events := w_events w @ [HttpSent (fast2sms_request cl phone message)], w_tick := w_tick w + 2\<rparr>)"
  using assms
  by (auto simp: Sms_Send_def http_exchange_def emit_def go_defs external_def next_response_def fails_at_def
      split: if_splits)

lemma UpdateStatus_run:
  assumes "\<not> fails_at w 0"
  shows "\<exists>r. NotificationDeliveryRepository_UpdateStatus uid st e w = (Val r, w\<lparr>w_tick := Suc (w_tick w),
     w_db := (w_db w)\<lparr>notification_deliveries := upd_where (\<lambda>r. d_ID r = uid)
       (attempt_outcome (now_at w 0) st e) (notification_deliveries (w_db w))\<rparr>\<rparr>)"
  using assms
  by (simp add: NotificationDeliveryRepository_UpdateStatus_def go_defs query_def external_def run_stmt_def
      tagged_def update_deliveries_def fails_at_def now_at_def)

text \<open>A message whose first attempt succeeds.\<close>

lemma handled_first_time:
  assumes "Option.bind (km_Value km) (Message_Unmarshal L) = Some msg"
    and "cs_handler cs msg w = (Val (Inr ()), w')"
  shows "Consumer_handleWithRetry L cs km w = (Val True, w')"
  using assms by (simp add: Consumer_handleWithRetry_def retry_loop.simps Let_def bnd_def ret_def)

lemma sms_handled:
  assumes "uuid_library L" and "km_Value km = Some (Message_Marshal L msg)"
    and "msg_RecipientPhone msg \<noteq> []"
    and "next_response (w\<lparr>w_tick := Suc (w_tick w)\<rparr>) = Some resp" and "success_code (rs_StatusCode resp)"
    and "unmarshal_sms (rs_json resp) = Some sr" and "sr_Return sr" and "\<not> fails_at w 4"
  shows "\<exists>n. Consumer_handleWithRetry L (NewSMSConsumer p cl) km w = (Val True, w\<lparr>w_tick := n,
    w_events := w_events w @ [HttpSent (fast2sms_request cl (msg_RecipientPhone msg) (msg_Body msg)),
      Observed ''notifyx_channel_send_duration_seconds'' [ChannelSMS] (now_at w 3 - now_at w 0),
      CounterInc ''notifyx_notifications_total'' [ChannelSMS, StatusDelivered]],
    w_db := (w_db w)\<lparr>notification_deliveries := upd_where (\<lambda>r. d_ID r = msg_DeliveryID msg)
      (attempt_outcome (now_at w 4) StatusDelivered []) (notification_deliveries (w_db w))\<rparr>\<rparr>)"
proof -
  define m where "m = msg\<lparr>msg_Metadata := norm_metadata (msg_Metadata msg)\<rparr>"
  have dec: "Option.bind (km_Value km) (Message_Unmarshal L) = Some m"
    using assms(2) uuid_library.unmarshal_marshal [OF assms(1)] by (simp add: m_def)
  let ?w = "w\<lparr>w_tick := w_tick w + 4,
    w_events := w_events w @ [HttpSent (fast2sms_request cl (msg_RecipientPhone msg) (msg_Body msg)),
      Observed ''notifyx_channel_send_duration_seconds'' [ChannelSMS] (now_at w 3 - now_at w 0)]\<rparr>"
  have timed: "timed_send ChannelSMS (Sms_Send cl (msg_RecipientPhone msg) (msg_Body msg)) w = (Val (Inr (sr_RequestID sr)), ?w)"
    using Sms_Send_ok [OF assms(4-7), of cl "msg_RecipientPhone msg" "msg_Body msg"]
    by (simp add: timed_send_def go_defs external_def emit_def now_at_def eval_nat_numeral)
  have "\<not> fails_at ?w 0" and now: "now_at ?w 0 = now_at w 4"
    using assms(8) by (simp_all add: fails_at_def now_at_def)
  from UpdateStatus_run [OF this(1), of "msg_DeliveryID msg" StatusDelivered "[]"] obtain r where
    upd: "NotificationDeliveryRepository_UpdateStatus (msg_DeliveryID msg) StatusDelivered [] ?w
      = (Val r, ?w\<lparr>w_tick := Suc (w_tick ?w),
          w_db := (w_db ?w)\<lparr>notification_deliveries := upd_where (\<lambda>r. d_ID r = msg_DeliveryID msg)
            (attempt_outcome (now_at ?w 0) StatusDelivered []) (notification_deliveries (w_db ?w))\<rparr>\<rparr>)" by blast
  have "\<exists>n. cs_handler (NewSMSConsumer p cl) m w = (Val (Inr ()), w\<lparr>w_tick := n,
    w_events := w_events w @ [HttpSent (fast2sms_request cl (msg_RecipientPhone msg) (msg_Body msg)),
      Observed ''notifyx_channel_send_duration_seconds'' [ChannelSMS] (now_at w 3 - now_at w 0),
      CounterInc ''notifyx_notifications_total'' [ChannelSMS, StatusDelivered]],
    w_db := (w_db w)\<lparr>notification_deliveries := upd_where (\<lambda>r. d_ID r = msg_DeliveryID msg)
      (attempt_outcome (now_at w 4) StatusDelivered []) (notification_deliveries (w_db w))\<rparr>\<rparr>)"
    using assms(3) timed upd [unfolded now]
    by (intro exI [of _ "w_tick w + 5"])
       (simp add: NewSMSConsumer_def sms_handler_def m_def bnd_def ret_def count_status_def emit_def
        writes_def)
  with handled_first_time [OF dec] show ?thesis by blast
qed

text \<open>When the provider accepts it, an SMS message fetched from Kafka is sent with exactly one
  request, to the recipient's number with the message's text, the request is timed, its delivery row is recorded as
  delivered after one more attempt, nothing else in the database or in Kafka changes, and the
  offset may be committed.\<close>

theorem sms_message_delivered:
  assumes "uuid_library L" and "km_Value km = Some (Message_Marshal L msg)"
    and "msg_RecipientPhone msg \<noteq> []"
    and "next_response (w\<lparr>w_tick := Suc (w_tick w)\<rparr>) = Some resp" and "success_code (rs_StatusCode resp)"
    and "unmarshal_sms (rs_json resp) = Some sr" and "sr_Return sr" and "\<not> fails_at w 4"
  shows "\<exists>n. Consumer_handleWithRetry L (NewSMSConsumer p cl) km w = (Val True, w\<lparr>w_tick := n,
    w_events := w_events w @ [HttpSent (fast2sms_request cl (msg_RecipientPhone msg) (msg_Body msg)),
      Observed ''notifyx_channel_send_duration_seconds'' [ChannelSMS] (now_at w 3 - now_at w 0),
      CounterInc ''notifyx_notifications_total'' [ChannelSMS, StatusDelivered]],
    w_db := (w_db w)\<lparr>notification_deliveries := upd_where (\<lambda>r. d_ID r = msg_DeliveryID msg)
      (attempt_outcome (now_at w 4) StatusDelivered []) (notification_deliveries (w_db w))\<rparr>\<rparr>)"
  using assms by (rule sms_handled)

lemma send_accepted:
  assumes "hub_ok h" and "Hub_SendToUser t u p h = (Val True, h')"
  shows "\<exists>a. hub_lookup t u h' = Some a \<and> cn_send (h_mem h' ! a) = cn_send (h_mem h ! a) @ [p]"
proof -
  from assms(2) obtain a where a: "hub_lookup t u h = Some a" "chan_send a p h = (Val True, h')"
    by (auto simp: Hub_SendToUser_def go_defs split: option.splits)
  then have "a < length (h_mem h)" using hub_ok_conn [OF assms(1)] by (simp add: hub_lookup_def)
  with a show ?thesis by (auto simp: chan_send_def Let_def hub_lookup_def split: if_splits)
qed

lemma send_refused: "Hub_SendToUser t u p h = (Val False, h') \<Longrightarrow> h' = h"
  by (auto simp: Hub_SendToUser_def chan_send_def Let_def go_defs split: option.splits if_splits)

lemma push_success:
  assumes "redis_server R keys" and "holds_queue (now_at w 0) (keys (w_redis w)) (offline_key t u) xs"
    and "Queue_Push R t u p w = (Val (Inr x), w')" and "t' < now_at w 0 + queue_ttl"
  shows "w_hub w' = w_hub w \<and> holds_queue t' (keys (w_redis w')) (offline_key t u) (xs @ [p])"
proof -
  have "\<not> fails_at w 0"
    using assms(3) by (auto simp: Queue_Push_def Let_def redis_call_def go_defs external_def fails_at_def
        split: option.splits)
  from redis_server.push_step [OF assms(1) this assms(2), of p] obtain r where
    "Queue_Push R t u p w = (Val (Inr ()), w\<lparr>w_redis := r, w_tick := Suc (w_tick w)\<rparr>)"
    "\<And>t'. t' < now_at w 0 + queue_ttl \<Longrightarrow> holds_queue t' (keys r) (offline_key t u) (xs @ [p])" by blast
  with assms(3,4) show ?thesis by auto
qed

lemma delivery_status_frame:
  "pres (\<lambda>w. P (w_hub w) (w_redis w)) (NotificationDeliveryRepository_UpdateStatus i st e)"
  "pres (\<lambda>w. P (w_hub w) (w_redis w)) (NotificationDeliveryRepository_SetStatus i st)"
  by (auto simp: pres_def NotificationDeliveryRepository_UpdateStatus_def
      NotificationDeliveryRepository_SetStatus_def go_defs query_def external_def run_stmt_def
      split: option.split prod.split)

text \<open>C31. When the in-app handler reports success, the payload it built is the newest in the buffer of the
  user's open connection, or, with no room or no connection there, the newest in the user's offline
  queue, where it stays for seven days.\<close>

theorem inapp_delivered_or_queued:
  assumes "redis_server R keys" and "hub_ok (w_hub w)"
    and "holds_queue (now_at w 1) (keys (w_redis w)) (offline_key (uuid_String L (msg_TenantID msg)) (msg_RecipientID msg)) xs"
    and "inapp_handler L R queue msg w = (Val (Inr ()), w')"
  shows "(\<exists>a. hub_lookup (uuid_String L (msg_TenantID msg)) (msg_RecipientID msg) (w_hub w') = Some a
        \<and> cn_send (h_mem (w_hub w') ! a) = cn_send (h_mem (w_hub w) ! a) @ [inapp_payload L msg (now_at w 0)])
    \<or> queue = Object () \<and> w_hub w' = w_hub w
      \<and> (\<forall>t. t < now_at w 1 + queue_ttl \<longrightarrow>
           holds_queue t (keys (w_redis w')) (offline_key (uuid_String L (msg_TenantID msg)) (msg_RecipientID msg))
             (xs @ [inapp_payload L msg (now_at w 0)]))"
proof -
  let ?t = "uuid_String L (msg_TenantID msg)" and ?u = "msg_RecipientID msg"
    and ?p = "inapp_payload L msg (now_at w 0)"
  obtain sent h where hub: "Hub_SendToUser ?t ?u ?p (w_hub w) = (Val sent, h)"
    and rest: "(if sent then bnd (NotificationDeliveryRepository_UpdateStatus (msg_DeliveryID msg) StatusDelivered [])
            (\<lambda>_. ret (Inr ()))
          else if is_nil (case queue of NilPointer \<Rightarrow> NilInterface | q \<Rightarrow> q) then
            ret (Inl ''inapp handler: recipient offline and no offline queue configured'')
          else bnd (Queue_Push R ?t ?u ?p) (\<lambda>r. case r of
            Inl e \<Rightarrow> ret (Inl (''inapp handler: offline queue push failed: '' @ e))
          | Inr _ \<Rightarrow> bnd (NotificationDeliveryRepository_SetStatus (msg_DeliveryID msg) StatusQueued)
              (\<lambda>_. ret (Inr ())))) (w\<lparr>w_tick := Suc (w_tick w), w_hub := h\<rparr>) = (Val (Inr ()), w')"
    using assms(4)
    by (auto simp: inapp_handler_def Let_def bnd_def external_def ret_def on_hub_def now_at_def
        split: if_splits prod.splits outcome.splits)
  show ?thesis
  proof (cases sent)
    case True
    have "w_hub w' = h"
      using rest True presE [OF delivery_status_frame(1) [of "\<lambda>k _. k = h"]]
      by (fastforce simp: ret_def elim!: bnd_ValE)
    with hub True send_accepted [OF assms(2)] show ?thesis by auto
  next
    case False
    with hub have h: "h = w_hub w" using send_refused by simp
    let ?w = "w\<lparr>w_tick := Suc (w_tick w), w_hub := h\<rparr>"
    from False rest obtain w1 r where q: "queue = Object ()"
      and push: "Queue_Push R ?t ?u ?p ?w = (Val (Inr ()), w1)"
      and upd: "NotificationDeliveryRepository_SetStatus (msg_DeliveryID msg) StatusQueued w1 = (Val r, w')"
      by (cases queue) (auto simp: ret_def elim!: bnd_ValE split: sum.splits)
    have now: "now_at ?w 0 = now_at w 1" by (simp add: now_at_def)
    have "w_hub w' = h \<and> (t' < now_at w 1 + queue_ttl \<longrightarrow>
        holds_queue t' (keys (w_redis w')) (offline_key ?t ?u) (xs @ [?p]))" for t'
    proof (rule presE [OF delivery_status_frame(2) upd])
      have "holds_queue (now_at ?w 0) (keys (w_redis ?w)) (offline_key ?t ?u) xs"
        unfolding now using assms(3) by simp
      note pushed = push_success [OF assms(1) this push, unfolded now]
      show "w_hub w1 = h \<and> (t' < now_at w 1 + queue_ttl \<longrightarrow>
          holds_queue t' (keys (w_redis w1)) (offline_key ?t ?u) (xs @ [?p]))"
        using pushed [of t'] pushed [of "now_at w 1"] by (auto simp: queue_ttl_def)
    qed
    with q h show ?thesis by blast
  qed
qed

section \<open>Witnesses\<close>

definition sms_message :: message where
  "sms_message = zero_message\<lparr>msg_NotificationID := 2, msg_DeliveryID := 3, msg_TenantID := 1,
     msg_Channel := ChannelSMS, msg_RecipientID := ''u'', msg_RecipientPhone := ''5550100'', msg_Body := ''hello''\<rparr>"

definition accepting_env :: "nat \<Rightarrow> call" where
  "accepting_env n = (calm_env n)\<lparr>c_reply := Some (JObject [(''return'', JBool True)])\<rparr>"

theorem sms_message_delivered_witness:
  "\<exists>n. Consumer_handleWithRetry bit_libs (NewSMSConsumer (Object ()) \<lparr>sc_apiKey = ''k''\<rparr>)
         \<lparr>km_Offset = 0, km_Value = Some (Message_Marshal bit_libs sms_message)\<rparr>
         ((calm_world due_db)\<lparr>w_env := accepting_env\<rparr>)
     = (Val True, ((calm_world due_db)\<lparr>w_env := accepting_env\<rparr>)\<lparr>w_tick := n,
         w_events := [HttpSent (fast2sms_request \<lparr>sc_apiKey = ''k''\<rparr> ''5550100'' ''hello''),
           Observed ''notifyx_channel_send_duration_seconds'' [ChannelSMS] 3000000000,
           CounterInc ''notifyx_notifications_total'' [ChannelSMS, StatusDelivered]],
         w_db := due_db\<lparr>notification_deliveries := [attempt_outcome 4000000000 StatusDelivered [] due_delivery]\<rparr>\<rparr>)"
proof -
  let ?w = "(calm_world due_db)\<lparr>w_env := accepting_env\<rparr>"
  have "next_response (?w\<lparr>w_tick := Suc (w_tick ?w)\<rparr>) = Some \<lparr>rs_StatusCode = 200, rs_text = [], rs_json = Some (JObject [(''return'', JBool True)])\<rparr>"
    and "\<not> fails_at ?w 4" and now: "now_at ?w 4 = 4000000000" "now_at ?w 3 = 3000000000" "now_at ?w 0 = 0"
    by (simp_all add: next_response_def fails_at_def now_at_def accepting_env_def calm_env_def calm_world_def)
  moreover have "unmarshal_sms (Some (JObject [(''return'', JBool True)]))
      = Some \<lparr>sr_Return = True, sr_RequestID = [], sr_Message = []\<rparr>"
    by (simp add: unmarshal_sms_def members_def to_lower_def json_bool_def)
  ultimately show ?thesis
    using sms_message_delivered [OF bit_uuid.uuid_library_axioms,
        of "\<lparr>km_Offset = 0, km_Value = Some (Message_Marshal bit_libs sms_message)\<rparr>" sms_message ?w
          "\<lparr>rs_StatusCode = 200, rs_text = [], rs_json = Some (JObject [(''return'', JBool True)])\<rparr>"
          "\<lparr>sr_Return = True, sr_RequestID = [], sr_Message = []\<rparr>" "Object ()" "\<lparr>sc_apiKey = ''k''\<rparr>"]
    by (simp add: sms_message_def zero_message_def success_code_def due_db_def due_delivery_def)
qed

theorem inapp_delivered_or_queued_witness:
  "\<exists>w'. inapp_handler bit_libs mem_redis (Object ()) sms_message (calm_world due_db) = (Val (Inr ()), w')
     \<and> holds_queue 86400000000000 (w_redis w') (offline_key (uuid_String bit_libs 1) ''u'')
         [inapp_payload bit_libs sms_message 0]"
proof -
  let ?w = "calm_world due_db"
  obtain w' where w': "inapp_handler bit_libs mem_redis (Object ()) sms_message ?w = (Val (Inr ()), w')"
    and off: "hub_lookup (uuid_String bit_libs (msg_TenantID sms_message)) (msg_RecipientID sms_message) (w_hub w') = None"
    by (auto simp: inapp_handler_def sms_message_def zero_message_def Let_def go_defs external_def on_hub_def
        Hub_SendToUser_def hub_lookup_def NewHub_def Queue_Push_def redis_call_def
        NotificationDeliveryRepository_SetStatus_def query_def run_stmt_def tagged_def update_deliveries_def
        calm_world_def calm_env_def)
  have "holds_queue (now_at ?w 1) (w_redis ?w)
      (offline_key (uuid_String bit_libs (msg_TenantID sms_message)) (msg_RecipientID sms_message)) []"
    by (simp add: holds_queue_def live_def)
  moreover have "hub_ok (w_hub ?w)" by (simp add: calm_world_def hub_ok_NewHub)
  ultimately have "holds_queue 86400000000000 (w_redis w')
      (offline_key (uuid_String bit_libs (msg_TenantID sms_message)) (msg_RecipientID sms_message))
      [inapp_payload bit_libs sms_message (now_at ?w 0)]"
    using inapp_delivered_or_queued [OF mem.redis_server_axioms _ _ w', of "[]"] off
    by (auto simp: queue_ttl_def)
  with w' show ?thesis by (auto simp: sms_message_def zero_message_def)
qed

end
