(* ===== verification/Totality.thy ===== *)
theory Totality
  imports Wiring
begin

text \<open>
  Which computations cannot panic, and what the wiring of \<open>main.go\<close> makes of it: with Redis and
  Kafka configured no API request panics; without Redis every valid send does, and without Kafka
  a due scheduled notification ends the process.
\<close>

section \<open>Computations that return\<close>

named_theorems nopanic \<open>rules for computations that return\<close>

definition total_prog :: "('w, 'a) prog \<Rightarrow> bool" where
  "total_prog m \<longleftrightarrow> (\<forall>w. fst (m w) \<noteq> Panic)"

lemma total_progE:
  assumes "total_prog m"
  obtains x w' where "m w = (Val x, w')"
  using assms unfolding total_prog_def by (metis fst_conv outcome.exhaust surj_pair)

lemma nopanic_sequencing [nopanic]:
  "total_prog (ret x)"
  "total_prog (writes g)"
  "total_prog m \<Longrightarrow> (\<And>x. total_prog (f x)) \<Longrightarrow> total_prog (bnd m f)"
  by (auto simp: total_prog_def go_defs split: prod.split outcome.split) (metis fst_conv)

lemma nopanic_cases [nopanic]:
  "(b \<Longrightarrow> total_prog m) \<Longrightarrow> (\<not> b \<Longrightarrow> total_prog n) \<Longrightarrow> total_prog (if b then m else n)"
  "total_prog m \<Longrightarrow> (\<And>y. total_prog (f y)) \<Longrightarrow> total_prog (case x of None \<Rightarrow> m | Some y \<Rightarrow> f y)"
  "(\<And>y. total_prog (fl y)) \<Longrightarrow> (\<And>y. total_prog (fr y)) \<Longrightarrow> total_prog (case s of Inl y \<Rightarrow> fl y | Inr y \<Rightarrow> fr y)"
  "(\<And>a b. total_prog (g a b)) \<Longrightarrow> total_prog (case p of (a, b) \<Rightarrow> g a b)"
  "total_prog e1 \<Longrightarrow> total_prog e2 \<Longrightarrow> total_prog e3 \<Longrightarrow>
     total_prog (case e of ErrNotFound \<Rightarrow> e1 | ErrAlreadyExists \<Rightarrow> e2 | ErrOther \<Rightarrow> e3)"
  by (auto split: option.split sum.split prod.split repo_error.split)

lemma nopanic_for_err [nopanic]: "(\<And>x. total_prog (f x)) \<Longrightarrow> total_prog (for_err xs f)"
  by (induction xs) (auto intro!: nopanic)

section \<open>External calls\<close>

lemma nopanic_calls [nopanic]:
  "total_prog external" "total_prog (emit e)" "total_prog (count_status ch st)" "total_prog (query s)"
  "total_prog (redis_call f)"
proof -
  show ext: "total_prog external" by (simp add: total_prog_def external_def)
  show e: "total_prog (emit e)" for e by (simp add: emit_def nopanic)
  show "total_prog (count_status ch st)" by (simp add: count_status_def e)
  have "total_prog (run_stmt s)" for s by (simp add: total_prog_def run_stmt_def split: prod.split)
  then show "total_prog (query s)" unfolding query_def by (intro nopanic ext)
  show "total_prog (redis_call f)"
    unfolding redis_call_def
    by (intro nopanic ext) (simp add: total_prog_def split: prod.split)
qed

lemma nopanic_WithTx [nopanic]:
  assumes "total_prog fn"
  shows "total_prog (WithTx fn)"
proof -
  have "total_prog (tx_body fn)"
    using assms
    by (auto simp: total_prog_def tx_body_def external_def Let_def split: prod.split outcome.split sum.split option.split)
       (metis fst_conv)
  then show ?thesis unfolding WithTx_def by (intro nopanic)
qed

lemma nopanic_Publish [nopanic]: "total_prog (Producer_Publish L (Object u) topic m)"
  unfolding Producer_Publish_def by (simp, intro nopanic)

section \<open>Repositories, limiter and deduplicator\<close>

lemma nopanic_notification_repos [nopanic]:
  "total_prog (NotificationRepository_Create p)" "total_prog (NotificationRepository_GetByID a)"
  "total_prog (NotificationRepository_GetByTenantID a f)"
  "total_prog (NotificationDeliveryRepository_Create a ch s)"
  "total_prog (NotificationDeliveryRepository_GetByNotificationID a)"
  "total_prog (ScheduledNotificationRepository_Create a t)"
  unfolding NotificationRepository_Create_def NotificationRepository_GetByID_def
    NotificationRepository_GetByTenantID_def NotificationDeliveryRepository_Create_def
    NotificationDeliveryRepository_GetByNotificationID_def ScheduledNotificationRepository_Create_def
  by (intro nopanic)+

lemma nopanic_tenant_repos [nopanic]:
  "total_prog (TenantRepository_Create name cap)" "total_prog (TenantRepository_GetByID a)"
  "total_prog TenantRepository_GetAll" "total_prog (TenantRepository_Update a name)"
  "total_prog (TenantRepository_UpdateGlobalRateCap a cap)" "total_prog (TenantRepository_Delete a)"
  "total_prog (TenantChannelRepository_Upsert a ch b)" "total_prog (TenantChannelRepository_GetByTenantID a)"
  "total_prog (TenantChannelRepository_IsEnabled a ch)" "total_prog (TenantRateLimitRepository_Upsert a ch m)"
  "total_prog (TenantRateLimitRepository_GetByTenantID a)" "total_prog (TenantRateLimitRepository_GetByChannel a ch)"
  "total_prog (APIKeyRepository_Create a h)" "total_prog (APIKeyRepository_GetTenantByKeyHash h)"
  "total_prog (APIKeyRepository_GetByTenantID a)" "total_prog (APIKeyRepository_Delete a)"
  unfolding TenantRepository_Create_def TenantRepository_GetByID_def TenantRepository_GetAll_def
    TenantRepository_Update_def TenantRepository_UpdateGlobalRateCap_def TenantRepository_Delete_def
    TenantChannelRepository_Upsert_def TenantChannelRepository_GetByTenantID_def
    TenantChannelRepository_IsEnabled_def TenantRateLimitRepository_Upsert_def
    TenantRateLimitRepository_GetByTenantID_def TenantRateLimitRepository_GetByChannel_def
    APIKeyRepository_Create_def APIKeyRepository_GetTenantByKeyHash_def APIKeyRepository_GetByTenantID_def
    APIKeyRepository_Delete_def
  by (intro nopanic)+

lemma nopanic_other_repos [nopanic]:
  "total_prog (TemplateRepository_Create a name ch sub body)" "total_prog (TemplateRepository_GetByID a b)"
  "total_prog (TemplateRepository_ListByTenant a)" "total_prog (TemplateRepository_Update a b name ch sub body)"
  "total_prog (TemplateRepository_Delete a b)" "total_prog (AnalyticsRepository_Summary a f t)"
  "total_prog (AnalyticsRepository_ChannelBreakdown a f t)" "total_prog (AnalyticsRepository_DLQTrend a f t)"
  unfolding TemplateRepository_Create_def TemplateRepository_GetByID_def TemplateRepository_ListByTenant_def
    TemplateRepository_Update_def TemplateRepository_Delete_def AnalyticsRepository_Summary_def
    AnalyticsRepository_ChannelBreakdown_def AnalyticsRepository_DLQTrend_def
  by (intro nopanic)+

lemma nopanic_Allow [nopanic]: "total_prog (Limiter_Allow L R (Object l) a ch)"
  unfolding Limiter_Allow_def Limiter_resolveLimits_def by (simp, intro nopanic)

lemma nopanic_Dedup [nopanic]:
  "total_prog (Dedup_Reserve L R (Object dd) k u)" "total_prog (Dedup_Release L R (Object dd) k)"
  unfolding Dedup_Reserve_def Dedup_Release_def Deduplicator_Reserve_def Deduplicator_Release_def
  by (simp, intro nopanic)+

section \<open>Handlers\<close>

lemma nopanic_shared [nopanic]:
  "total_prog (errResponse n msg)" "total_prog (generateAPIKey L)" "total_prog (HealthHandler_Check r k)"
  unfolding errResponse_def generateAPIKey_def HealthHandler_Check_def Let_def by (intro nopanic)+

lemma nopanic_prefixes [nopanic]:
  "(\<And>u. total_prog (k u)) \<Longrightarrow> total_prog (parse_id L s what k)"
  "(\<And>t. total_prog (kt t)) \<Longrightarrow> total_prog (with_tenant u kt)"
  "total_prog m \<Longrightarrow> total_prog (with_enabled_channel a ch m)"
  "total_prog (scheduleNotificationRequest_Validate L r)"
  unfolding parse_id_def with_tenant_def with_enabled_channel_def scheduleNotificationRequest_Validate_def
  by (intro nopanic; assumption)+

lemma nopanic_with_content [nopanic]:
  "(\<And>a b c. total_prog (k a b c)) \<Longrightarrow> total_prog (with_content L t ch m vs s b k)"
  unfolding with_content_def NotificationHandler_resolveTemplate_def by (intro nopanic; assumption)

lemma tenant_present: "RequireTenant (Some t) = ret (Some t)" "deref (Some t) f = f t"
  by (simp_all add: RequireTenant_def deref_def)

lemma nopanic_transactions [nopanic]:
  "total_prog (create_tenant_tx name cap h)" "total_prog (update_rate_limits_tx u rq t)"
  unfolding create_tenant_tx_def update_rate_limits_tx_def by (intro nopanic)+

lemma nopanic_admin: "total_prog (admin_route L cfg a)"
  by (cases a;
      simp add: TenantHandler_Create_def TenantHandler_List_def TenantHandler_Get_def TenantHandler_Update_def
        TenantHandler_Delete_def TenantHandler_CreateKey_def TenantHandler_ListKeys_def TenantHandler_DeleteKey_def
        TenantHandler_UpdateChannels_def TenantHandler_UpdateRateLimits_def TenantHandler_GetChannels_def
        TenantHandler_GetRateLimits_def TenantHandler_Analytics_def;
      intro nopanic)

text \<open>A service whose dependencies are all present.\<close>

definition full_service :: "service \<Rightarrow> bool" where
  "full_service sv \<longleftrightarrow>
     (\<exists>p l dd. sv = \<lparr>sv_Producer = Object p, sv_RateLimiter = Object l, sv_Dedup = Object dd\<rparr>)"

lemma nopanic_processSend [nopanic]:
  assumes "full_service sv"
  shows "total_prog (NotificationHandler_createAndQueue L sv p b)"
    and "total_prog (NotificationHandler_processSend L R sv k p)"
proof -
  from assms obtain pr l dd where sv: "sv = \<lparr>sv_Producer = Object pr, sv_RateLimiter = Object l, sv_Dedup = Object dd\<rparr>"
    by (auto simp: full_service_def)
  show cq: "total_prog (NotificationHandler_createAndQueue L sv p b)" for p b
    unfolding NotificationHandler_createAndQueue_def create_and_queue_tx_def sv service.select_convs
    by (intro nopanic)
  have rel: "total_prog (NotificationHandler_releaseDedup L R sv k)"
    unfolding NotificationHandler_releaseDedup_def sv service.select_convs by (intro nopanic)
  have fetch: "total_prog (fetch_existing u n)" for u n
    by (induction n) (auto intro!: nopanic)
  have fresh: "total_prog (send_fresh L R sv k p)"
    unfolding send_fresh_def Let_def
    by (intro nopanic cq rel) (simp_all add: sv nopanic)
  show "total_prog (NotificationHandler_processSend L R sv k p)"
    unfolding NotificationHandler_processSend_def
    by (intro nopanic fetch fresh) (simp add: sv nopanic)
qed

lemma nopanic_batch_loop: "full_service sv \<Longrightarrow> total_prog (batch_loop L R sv k ps i recs)"
  by (induction recs arbitrary: i) (auto simp: Let_def intro!: nopanic)

lemma nopanic_tenant:
  assumes "full_service sv"
  shows "total_prog (tenant_route L R sv t (Some tenant))"
  by (cases t; simp only: tenant_route.simps;
      unfold NotificationHandler_Send_def NotificationHandler_Schedule_def NotificationHandler_Batch_def
        NotificationHandler_History_def NotificationHandler_Get_def TemplateHandler_Create_def TemplateHandler_List_def
        TemplateHandler_Get_def TemplateHandler_Update_def TemplateHandler_Delete_def tenant_present bnd_ret Let_def;
      intro nopanic nopanic_batch_loop assms)

section \<open>Properties of the wiring\<close>

text \<open>C22. With Redis and Kafka configured no API request panics, whatever the request, the stored
  data and the failures of the outside: every one is answered by its handler or by the
  authentication middleware.\<close>

theorem configured_requests_answered:
  assumes "cf_RedisURL cfg \<noteq> []" and "cf_KafkaBootstrapServers cfg \<noteq> []"
  shows "\<exists>resp w'. serve L R cfg req w = (Val (Responded resp), w')"
proof -
  have "full_service (main_service cfg)"
    using assms by (simp add: full_service_def main_service_def main_prod_def main_limiter_def
        main_deduplicator_def box_def)
  then have "total_prog (route L R cfg req)"
    by (cases req) (auto simp: route_def Auth_def intro!: nopanic nopanic_admin nopanic_tenant)
  then obtain resp w' where "route L R cfg req w = (Val resp, w')" by (rule total_progE)
  then show ?thesis by (simp add: serve_def)
qed

definition demo_config :: config where
  "demo_config = \<lparr>cf_Port = ''8080'', cf_Env = ''development'', cf_LogLevel = [],
     cf_DatabaseURL = ''postgres://db'', cf_DBMaxConns = 10, cf_DBMinConns = 0, cf_RedisURL = ''redis://r'',
     cf_KafkaBootstrapServers = ''kafka:9092'', cf_KafkaAPIKey = [], cf_KafkaAPISecret = [],
     cf_ResendAPIKey = [], cf_ResendFromEmail = [], cf_FirebaseCredentialsJSON = [], cf_Fast2SMSAPIKey = [],
     cf_DefaultRateLimitPerMin = 60, cf_DefaultGlobalCap = 300, cf_DedupTTL = 24 * hour\<rparr>"

theorem configured_requests_answered_witness:
  "\<exists>resp w'. serve bit_libs mem_redis demo_config (Authenticated ''k'' (SendNotification (Some sms_request)))
     (calm_world sms_db) = (Val (Responded resp), w')"
  by (rule configured_requests_answered) (simp_all add: demo_config_def)

text \<open>A request to a notification or template route whose API key matches no stored hash
  is refused by the middleware, and nothing but the clock moves: no row, no Redis key, no message, no
  counter changes.\<close>

theorem unknown_key_reaches_nothing:
  assumes "tenant_by_key_hash (HashAPIKey L key) (w_db w) = None"
  shows "\<exists>code msg n. serve L R cfg (Authenticated key t) w
       = (Val (Responded (JSON code (PError msg))), w\<lparr>w_tick := n\<rparr>)
     \<and> (code = 401 \<or> code = 500 \<and> fails_at w 0)"
  using Auth_refuses [OF assms, of "tenant_route L R (main_service cfg) t"]
  by (auto simp: serve_def route_def)

theorem unknown_key_reaches_nothing_witness:
  "\<exists>code msg n. serve bit_libs mem_redis demo_config (Authenticated ''guess'' (GetNotification ''x'')) (calm_world due_db)
       = (Val (Responded (JSON code (PError msg))), (calm_world due_db)\<lparr>w_tick := n\<rparr>)
     \<and> (code = 401 \<or> code = 500 \<and> fails_at (calm_world due_db) 0)"
  by (rule unknown_key_reaches_nothing) (simp add: tenant_by_key_hash_def due_defs)

text \<open>Without Redis the limiter is a nil pointer inside a non-nil interface, so the check
  \<open>RateLimiter != nil\<close> passes and the call dereferences nil: every valid send on an enabled
  channel panics and is answered with the framework's 500; nothing is stored or published.\<close>

theorem send_without_redis_panics:
  assumes "cf_RedisURL cfg = []" and "key \<noteq> []"
    and "tenant_by_key_hash (HashAPIKey L key) (w_db w) = Some tenant"
    and "sendNotificationRequest_Validate req = None" and "sq_TemplateID req = []"
    and "find (\<lambda>r. tc_TenantID r = t_ID tenant \<and> tc_Channel r = sq_Channel req) (tenant_channels (w_db w)) = Some tc"
    and "tc_Enabled tc" and "\<not> fails_at w 0" and "\<not> fails_at w 1"
  shows "\<exists>w'. serve L R cfg (Authenticated key (SendNotification (Some req))) w = (Val Recovered, w')
    \<and> w_db w' = w_db w \<and> w_topics w' = w_topics w"
proof -
  have nil: "sv_RateLimiter (main_service cfg) = NilPointer" "sv_Dedup (main_service cfg) = NilPointer"
    using assms(1) by (simp_all add: main_service_def main_limiter_def main_deduplicator_def box_def)
  have proc: "NotificationHandler_processSend L R (main_service cfg) k p w1 = (Panic, w1)" for k p w1
    by (simp add: NotificationHandler_processSend_def send_fresh_def Dedup_Reserve_def Limiter_Allow_def nil)
       (simp add: panic_def)
  show ?thesis
    using assms(2-9)
    by (simp add: serve_def route_def Auth_passes NotificationHandler_Send_def tenant_present with_enabled_channel_def
        with_content_def TenantChannelRepository_IsEnabled_def go_defs query_def external_def run_stmt_def
        select_one_def fails_at_def proc)
qed

theorem send_without_redis_panics_witness:
  "\<exists>w'. serve bit_libs mem_redis (demo_config\<lparr>cf_RedisURL := []\<rparr>)
         (Authenticated ''k'' (SendNotification (Some sms_request)))
         (calm_world (sms_db\<lparr>api_keys := [\<lparr>k_ID = 9, k_TenantID = 1, k_KeyHash = HashAPIKey bit_libs ''k'', k_CreatedAt = 0\<rparr>]\<rparr>))
       = (Val Recovered, w')"
proof -
  let ?d = "sms_db\<lparr>api_keys := [\<lparr>k_ID = 9, k_TenantID = 1, k_KeyHash = HashAPIKey bit_libs ''k'', k_CreatedAt = 0\<rparr>]\<rparr>"
  have "tenant_by_key_hash (HashAPIKey bit_libs ''k'') ?d = Some (due_tenant\<lparr>t_GlobalRateCap := 0\<rparr>)"
    by (simp add: tenant_by_key_hash_def sms_defs)
  moreover have "sendNotificationRequest_Validate sms_request = None"
    by (simp add: sendNotificationRequest_Validate_def isValidChannel_def isValidPriority_def
        validateRecipientFields_def sms_defs channel_defs)
  ultimately show ?thesis
    using send_without_redis_panics [of "demo_config\<lparr>cf_RedisURL := []\<rparr>" "''k''" bit_libs "calm_world ?d"
        "due_tenant\<lparr>t_GlobalRateCap := 0\<rparr>" sms_request _ mem_redis]
    by (auto simp: sms_defs)
qed

text \<open>Without Kafka the scheduler's producer is a nil pointer inside a non-nil interface: a
  tick that finds a due notification does not leave it for later but panics, in a goroutine
  nothing recovers.\<close>

theorem scheduler_without_kafka_panics:
  assumes "cf_KafkaBootstrapServers cfg = []" and "\<And>i. \<not> fails_at w i"
    and "take sched_batchSize (order_by s_ScheduledAt (filter (due_unfired (now_at w 0))
           (scheduled_notifications (w_db w)))) = sn # rest"
    and "find (\<lambda>n. n_ID n = s_NotificationID sn) (notifications (w_db w)) = Some n"
    and "order_by d_CreatedAt (filter (\<lambda>r. d_NotificationID r = n_ID n) (notification_deliveries (w_db w)))
           = delivery # others"
  shows "\<exists>w'. Scheduler_tickOnce L (scheduler_producer cfg) w = (Panic, w') \<and> w_db w' = w_db w"
proof -
  have nil: "scheduler_producer cfg = NilPointer"
    using assms(1) by (simp add: scheduler_producer_def main_prod_def box_def)
  have env: "c_fail (w_env w k) = None" if "w_tick w \<le> k" for k
    using assms(2) [of "k - w_tick w"] that by (simp add: fails_at_def)
  show ?thesis
    using assms(3-5)
    by (simp add: Scheduler_tickOnce_def ScheduledNotificationRepository_GetDueUnfired_def Scheduler_fireOne_def
        NotificationRepository_GetByID_def NotificationDeliveryRepository_GetByNotificationID_def go_defs query_def
        external_def run_stmt_def select_def select_one_def wrap_def wrap_not_found_def env now_at_def nil
        Producer_Publish_def)
qed

theorem scheduler_without_kafka_panics_witness:
  "\<exists>w'. Scheduler_tickOnce bit_libs (scheduler_producer (demo_config\<lparr>cf_KafkaBootstrapServers := []\<rparr>))
         ((calm_world due_db)\<lparr>w_tick := 1\<rparr>) = (Panic, w') \<and> w_db w' = due_db"
  using scheduler_without_kafka_panics [of "demo_config\<lparr>cf_KafkaBootstrapServers := []\<rparr>"
      "(calm_world due_db)\<lparr>w_tick := 1\<rparr>" due_row "[]" due_notification due_delivery "[]" bit_libs]
  by (simp add: due_defs order_by_def due_unfired_def now_at_def calm_world_def calm_env_def fails_at_def
      sched_batchSize_def)

end
