(* ===== verification/Scenario.thy ===== *)
theory Scenario
  imports Outbound Delivery Totality
begin

text \<open>
  A run of the system from the empty database, with one call every 100 seconds: a tenant is
  created, enables SMS and schedules a notification, which the scheduler publishes.
\<close>

definition demo_env :: "nat \<Rightarrow> call" where
  "demo_env n = (calm_env n)\<lparr>c_now := int n * 100000000000\<rparr>"

definition demo_start :: "keyspace world" where
  "demo_start = (calm_world empty_db)\<lparr>w_env := demo_env\<rparr>"

abbreviation demo_perform :: "action \<Rightarrow> keyspace world \<Rightarrow> keyspace world" where
  "demo_perform a w \<equiv> snd (perform bit_libs mem_redis (\<lambda>_. None) demo_config a w)"

definition demo_key :: string where
  "demo_key = ''nfx_'' @ hex (bytes_of 1 @ bytes_of 2)"

definition demo_tenant :: tenant where
  "demo_tenant = \<lparr>t_ID = 4, t_Name = ''acme'', t_GlobalRateCap = 300, t_CreatedAt = 300000000000\<rparr>"

definition demo_db1 :: db where
  "demo_db1 = empty_db\<lparr>tenants := [demo_tenant],
     api_keys := [\<lparr>k_ID = 5, k_TenantID = 4, k_KeyHash = demo_key, k_CreatedAt = 400000000000\<rparr>]\<rparr>"

lemma demo_step1:
  "demo_perform (Serve (Admin (CreateTenant (Some ''acme'')))) demo_start = demo_start\<lparr>w_db := demo_db1, w_tick := 6\<rparr>"
  by (simp add: demo_start_def perform_def serve_def route_def TenantHandler_Create_def createTenantRequest_Validate_def generateAPIKey_def
      create_tenant_tx_def TenantRepository_Create_def APIKeyRepository_Create_def WithTx_def tx_body_def
      go_defs external_def query_def run_stmt_def insert_tenant_def insert_api_key_def ins_def Let_def wrap_def
      demo_config_def empty_db_def demo_env_def calm_env_def wrap_unique_def int4_def demo_db1_def demo_tenant_def
      demo_key_def bit_libs_def)

definition demo_db2 :: db where
  "demo_db2 = demo_db1\<lparr>tenant_channels := [\<lparr>tc_ID = 9, tc_TenantID = 4, tc_Channel = ChannelSMS,
     tc_Enabled = True, tc_CreatedAt = 800000000000\<rparr>]\<rparr>"

lemma parse_demo: "uuid_Parse bit_libs (uuid_String bit_libs u) = Some u"
  by (rule bit_uuid.parse_string)

lemma demo_step2:
  "demo_perform (Serve (Admin (UpdateChannels (uuid_String bit_libs 4) (Some [(ChannelSMS, True)]))))
     (demo_start\<lparr>w_db := demo_db1, w_tick := 6\<rparr>) = demo_start\<lparr>w_db := demo_db2, w_tick := 11\<rparr>"
  using parse_demo [of 4]
  by (simp add: demo_start_def perform_def serve_def route_def TenantHandler_UpdateChannels_def parse_id_def
      with_tenant_def TenantRepository_GetByID_def TenantChannelRepository_Upsert_def
      TenantChannelRepository_GetByTenantID_def isValidChannel_def WithTx_def tx_body_def go_defs external_def
      query_def run_stmt_def select_def select_one_def upsert_channel_def ins_def Let_def wrap_def wrap_not_found_def
      demo_env_def calm_env_def demo_db2_def demo_db1_def demo_tenant_def empty_db_def)

definition demo_request :: scheduleNotificationRequest where
  "demo_request = \<lparr>cq_send = sms_request, cq_ScheduledAt = ''xx''\<rparr>"

text \<open>The notification is stored with its delivery and its scheduled row.\<close>

lemma demo_step3:
  obtains w n dv where "w = demo_perform (Serve (Authenticated demo_key (ScheduleNotification (Some demo_request))))
     (demo_start\<lparr>w_db := demo_db2, w_tick := 11\<rparr>)"
    and "w_env w = demo_env" and "w_tick w = 20"
    and "notifications (w_db w) = [n]" and "n_ID n = 15"
    and "scheduled_notifications (w_db w) = [\<lparr>s_ID = 20, s_NotificationID = 15, s_ScheduledAt = 2000000000000,
      s_Fired = False, s_CreatedAt = 1900000000000\<rparr>]"
proof -
  let ?w = "demo_start\<lparr>w_db := demo_db2, w_tick := 12\<rparr>"
  let ?tc = "\<lparr>tc_ID = 9, tc_TenantID = 4, tc_Channel = ChannelSMS, tc_Enabled = True, tc_CreatedAt = 800000000000\<rparr>"
  have auth: "tenant_by_key_hash (HashAPIKey bit_libs demo_key) demo_db2 = Some (demo_tenant\<lparr>t_GlobalRateCap := 0\<rparr>)"
    "demo_key \<noteq> []"
    by (simp_all add: tenant_by_key_hash_def HashAPIKey_def bit_libs_def demo_db2_def demo_db1_def demo_tenant_def
        demo_key_def)
  have calls: "\<not> fails_at ?w i" "\<not> fails_at (demo_start\<lparr>w_db := demo_db2, w_tick := 11\<rparr>) i" for i
    by (simp_all add: fails_at_def demo_start_def demo_env_def)
  obtain n dv w1 where
    run: "NotificationHandler_Schedule bit_libs (main_service demo_config)
        (Some \<lparr>cq_send = sms_request, cq_ScheduledAt = ''xx''\<rparr>) (Some (demo_tenant\<lparr>t_GlobalRateCap := 0\<rparr>)) ?w
       = bnd (ScheduledNotificationRepository_Create (n_ID n) 2000000000000) (\<lambda>r. case r of
           Inl _ \<Rightarrow> errResponse 500 ''failed to schedule notification''
         | Inr _ \<Rightarrow> ret (JSON 201 (PSchedule (uuid_String bit_libs (n_ID n)) (n_Status n) 2000000000000))) w1"
    and n: "n_ID n = c_uuid (w_env ?w (w_tick ?w + 2))"
    and w1: "w_db w1 = (w_db ?w)\<lparr>notifications := notifications (w_db ?w) @ [n],
          notification_deliveries := notification_deliveries (w_db ?w) @ [dv]\<rparr>"
      "w_env w1 = w_env ?w" "w_tick w1 = w_tick ?w + 7"
    by (rule Schedule_run [of "''xx''" bit_libs 2000000000000 ?w sms_request "demo_tenant\<lparr>t_GlobalRateCap := 0\<rparr>" ?tc
          "main_service demo_config"])
       (use calls(1) in \<open>simp_all add: bit_libs_def now_at_def demo_start_def demo_env_def calm_env_def sms_request_def
          sendNotificationRequest_Validate_def isValidChannel_def validateRecipientFields_def
          demo_tenant_def demo_db2_def demo_db1_def empty_db_def\<close>)
  have id: "n_ID n = 15" by (simp add: n demo_start_def demo_env_def calm_env_def)
  have db: "notifications demo_db2 = []" "notification_deliveries demo_db2 = []" "scheduled_notifications demo_db2 = []"
    by (simp_all add: demo_db2_def demo_db1_def empty_db_def)
  show thesis
    by (rule that [OF refl, of n])
       (use auth id db w1 run calls(2) [of 0] in \<open>simp_all add: perform_def serve_def route_def Auth_passes demo_request_def
          ScheduledNotificationRepository_Create_def insert_scheduled_def ins_def go_defs query_def external_def
          run_stmt_def wrap_def demo_start_def demo_env_def calm_env_def\<close>)
qed

lemma demo_reachable:
  "reachable bit_libs mem_redis (\<lambda>_. None) demo_start"
  "reachable bit_libs mem_redis (\<lambda>_. None) w \<Longrightarrow> reachable bit_libs mem_redis (\<lambda>_. None) (demo_perform (Serve req) w)"
  "reachable bit_libs mem_redis (\<lambda>_. None) w \<Longrightarrow> reachable bit_libs mem_redis (\<lambda>_. None) (demo_perform (Schedule ts) w)"
  by (rule reachable.start) (auto simp: demo_start_def calm_world_def enabled_def intro: reachable.act)

text \<open>The state after the scheduling, and after the next tick of the scheduler.\<close>

definition demo_scheduled :: "keyspace world" where
  "demo_scheduled = fold demo_perform
     [Serve (Admin (CreateTenant (Some ''acme''))),
      Serve (Admin (UpdateChannels (uuid_String bit_libs 4) (Some [(ChannelSMS, True)]))),
      Serve (Authenticated demo_key (ScheduleNotification (Some demo_request)))] demo_start"

definition demo_published :: "keyspace world" where
  "demo_published = demo_perform (Schedule [True]) demo_scheduled"

lemma demo_scheduled_reachable: "reachable bit_libs mem_redis (\<lambda>_. None) demo_scheduled"
  unfolding demo_scheduled_def by (simp add: demo_reachable)

lemma demo_scheduled_row:
  "w_env demo_scheduled = demo_env" "w_tick demo_scheduled = 20"
  "map n_ID (notifications (w_db demo_scheduled)) = [15]"
  "scheduled_notifications (w_db demo_scheduled) = [\<lparr>s_ID = 20, s_NotificationID = 15, s_ScheduledAt = 2000000000000,
      s_Fired = False, s_CreatedAt = 1900000000000\<rparr>]"
  by (rule demo_step3; simp add: demo_scheduled_def demo_step1 demo_step2)+

lemma demo_published_reachable: "reachable bit_libs mem_redis (\<lambda>_. None) demo_published"
  unfolding demo_published_def by (rule demo_reachable(3) [OF demo_scheduled_reachable])

lemma demo_published_record:
  obtains rec where "w_topics demo_published = w_topics demo_scheduled @ [rec]" and "kr_key rec = uuid_String bit_libs 15"
proof -
  have ok: "stored_ok (w_db demo_scheduled)"
    by (rule stored.inv_reachable [OF demo_scheduled_reachable stored_ok_empty])
  have calm: "\<not> fails_at demo_scheduled i" for i by (simp add: fails_at_def demo_scheduled_row demo_env_def)
  have due: "due_rows_at (now_at demo_scheduled 0) (w_db demo_scheduled) = [\<lparr>s_ID = 20, s_NotificationID = 15,
      s_ScheduledAt = 2000000000000, s_Fired = False, s_CreatedAt = 1900000000000\<rparr>]"
    by (simp add: due_rows_at_def demo_scheduled_row order_by_def due_unfired_def now_at_def demo_env_def
        sched_batchSize_def)
  have prod: "scheduler_producer demo_config = Object ()"
    by (simp add: scheduler_producer_def main_prod_def box_def demo_config_def)
  from tickOnce_fires [OF ok calm, of bit_libs] obtain w' recs where
    "Scheduler_tickOnce bit_libs (Object ()) demo_scheduled = (Val (), w')"
    "w_topics w' = w_topics demo_scheduled @ recs" "map kr_key recs = [uuid_String bit_libs 15]"
    by (auto simp: due)
  with that show thesis
    by (auto simp: demo_published_def perform_def prod bnd_def ret_def)
qed

end
