(* ===== verification/Fanout.thy ===== *)
theory Fanout
  imports Prelude "HOL-Library.Multiset"
begin

text \<open>
  The loop that Batch (\<open>handlers/notification.go\<close>), the scheduler (\<open>scheduler.go\<close>) and the replayer
  (\<open>replayer.go\<close>) share: one goroutine per item, a buffered channel as a semaphore, results written
  to the item's own slot, and a \<open>WaitGroup\<close> at the end.

  A state counts the items started, and holds the indices of the goroutines under way, the slots and the
  world.  Starting an item takes a place in the semaphore and waits while it is full.  A goroutine's body
  runs in one step, at any moment between its start and its end: the goroutines finish in any
  order.  \<open>fn_order\<close> records that order.
\<close>

record ('w, 'a) fan =
  fn_next :: nat
  fn_running :: "nat list"
  fn_slots :: "'a option list"
  fn_world :: 'w
  fn_order :: "nat list"

definition fan_init :: "('w, 'a) prog list \<Rightarrow> 'w \<Rightarrow> ('w, 'a) fan" where
  "fan_init jobs w = \<lparr>fn_next = 0, fn_running = [], fn_slots = replicate (length jobs) None, fn_world = w, fn_order = []\<rparr>"

inductive fan_step :: "nat \<Rightarrow> ('w, 'a) prog list \<Rightarrow> ('w, 'a) fan \<Rightarrow> ('w, 'a) fan \<Rightarrow> bool"
  for k :: nat and jobs :: "('w, 'a) prog list" where
  spawn: "fn_next s < length jobs \<Longrightarrow> length (fn_running s) < k \<Longrightarrow>
    fan_step k jobs s (s\<lparr>fn_next := Suc (fn_next s), fn_running := fn_running s @ [fn_next s]\<rparr>)"
| finish: "j \<in> set (fn_running s) \<Longrightarrow> (jobs ! j) (fn_world s) = (Val x, w') \<Longrightarrow>
    fan_step k jobs s (s\<lparr>fn_running := remove1 j (fn_running s), fn_slots := (fn_slots s)[j := Some x],
      fn_world := w', fn_order := fn_order s @ [j]\<rparr>)"

inductive_cases fan_stepE: "fan_step k jobs s s'"

text \<open>\<open>wg.Wait()\<close> returns.\<close>

definition fan_done :: "('w, 'a) prog list \<Rightarrow> ('w, 'a) fan \<Rightarrow> bool" where
  "fan_done jobs s \<longleftrightarrow> fn_next s = length jobs \<and> fn_running s = []"

section \<open>Running jobs one after the other\<close>

fun run_all :: "('w, 'a) prog list \<Rightarrow> ('w, 'a list) prog" where
  "run_all [] = ret []"
| "run_all (m # ms) = bnd m (\<lambda>x. bnd (run_all ms) (\<lambda>xs. ret (x # xs)))"

lemma run_all_append: "run_all (ms @ ns) = bnd (run_all ms) (\<lambda>xs. bnd (run_all ns) (\<lambda>ys. ret (xs @ ys)))"
  by (induction ms) (simp_all add: bnd_assoc)

lemma run_all_snoc:
  assumes "run_all ms w = (Val xs, w1)" and "m w1 = (Val x, w')"
  shows "run_all (ms @ [m]) w = (Val (xs @ [x]), w')"
  using assms by (simp add: run_all_append bnd_def ret_def)

lemma length_run_all: "run_all ms w = (Val xs, w') \<Longrightarrow> length xs = length ms"
  by (induction ms arbitrary: w xs w') (auto simp: ret_def elim!: bnd_ValE)

lemma for_each_run_all: "for_each xs f = bnd (run_all (map f xs)) (\<lambda>_. ret ())"
  by (induction xs) (simp_all add: bnd_assoc)

section \<open>The invariant of the loop\<close>

definition fan_ok :: "nat \<Rightarrow> ('w, 'a) prog list \<Rightarrow> 'w \<Rightarrow> ('w, 'a) fan \<Rightarrow> bool" where
  "fan_ok k jobs w s \<longleftrightarrow>
     distinct (fn_running s @ fn_order s) \<and> set (fn_running s @ fn_order s) = {..<fn_next s}
     \<and> fn_next s \<le> length jobs \<and> length (fn_running s) \<le> k \<and> length (fn_slots s) = length jobs
     \<and> (\<exists>xs. run_all (map (nth jobs) (fn_order s)) w = (Val xs, fn_world s)
          \<and> (\<forall>i<length (fn_order s). fn_slots s ! (fn_order s ! i) = Some (xs ! i)))
     \<and> (\<forall>j<length jobs. j \<notin> set (fn_order s) \<longrightarrow> fn_slots s ! j = None)"

lemma fan_ok_init: "fan_ok k jobs w (fan_init jobs w)"
  by (simp add: fan_ok_def fan_init_def ret_def)

lemma fan_ok_spawn:
  assumes "fan_ok k jobs w s" and "fn_next s < length jobs" and "length (fn_running s) < k"
  shows "fan_ok k jobs w (s\<lparr>fn_next := Suc (fn_next s), fn_running := fn_running s @ [fn_next s]\<rparr>)"
  using assms by (auto simp: fan_ok_def lessThan_Suc)

lemma fan_ok_finish:
  assumes ok: "fan_ok k jobs w s" and j: "j \<in> set (fn_running s)" and run: "(jobs ! j) (fn_world s) = (Val x, w')"
  shows "fan_ok k jobs w (s\<lparr>fn_running := remove1 j (fn_running s), fn_slots := (fn_slots s)[j := Some x],
      fn_world := w', fn_order := fn_order s @ [j]\<rparr>)"
proof -
  have dist: "distinct (fn_running s @ fn_order s)" and set: "set (fn_running s @ fn_order s) = {..<fn_next s}"
    and lens: "fn_next s \<le> length jobs" "length (fn_running s) \<le> k" "length (fn_slots s) = length jobs"
    and none: "\<And>j. j < length jobs \<Longrightarrow> j \<notin> set (fn_order s) \<Longrightarrow> fn_slots s ! j = None"
    using ok by (auto simp: fan_ok_def)
  from ok obtain xs where xs: "run_all (map (nth jobs) (fn_order s)) w = (Val xs, fn_world s)"
    and slots: "\<And>i. i < length (fn_order s) \<Longrightarrow> fn_slots s ! (fn_order s ! i) = Some (xs ! i)"
    by (auto simp: fan_ok_def)
  have len: "length xs = length (fn_order s)" using length_run_all [OF xs] by simp
  have jl: "j < length jobs" using j set lens(1) by (metis Un_iff lessThan_iff order_less_le_trans set_append)
  have jo: "j \<notin> set (fn_order s)" using dist j by auto
  have "run_all (map (nth jobs) (fn_order s @ [j])) w = (Val (xs @ [x]), w')"
    using run_all_snoc [OF xs, of "jobs ! j"] run by simp
  moreover have "(fn_slots s)[j := Some x] ! ((fn_order s @ [j]) ! i) = Some ((xs @ [x]) ! i)"
    if "i < Suc (length (fn_order s))" for i
    using that slots jo jl len lens(3)
    by (cases "i < length (fn_order s)") (auto simp: nth_append nth_list_update less_Suc_eq)
  moreover have "length (remove1 j (fn_running s)) \<le> k" using lens(2) j by (simp add: length_remove1)
  moreover have "distinct (remove1 j (fn_running s) @ fn_order s @ [j])"
    and "set (remove1 j (fn_running s) @ fn_order s @ [j]) = {..<fn_next s}"
    using dist set j by auto
  ultimately show ?thesis
    using lens none by (auto simp: fan_ok_def nth_list_update)
qed

lemma fan_ok_reachable:
  assumes "(fan_step k jobs)\<^sup>*\<^sup>* (fan_init jobs w) s"
  shows "fan_ok k jobs w s"
  using assms
  by (induction rule: rtranclp_induct) (auto simp: fan_ok_init elim!: fan_stepE intro: fan_ok_spawn fan_ok_finish)

text \<open>What every job keeps holds throughout.\<close>

lemma fan_keeps:
  assumes "(fan_step k jobs)\<^sup>*\<^sup>* (fan_init jobs w) s" and "\<And>j. j < length jobs \<Longrightarrow> pres I (jobs ! j)" and "I w"
  shows "I (fn_world s)"
  using assms(1)
proof (induction rule: rtranclp_induct)
  case base
  show ?case using assms(3) by (simp add: fan_init_def)
next
  case (step s t)
  from fan_ok_reachable [OF step(1)] have "j < length jobs" if "j \<in> set (fn_running s)" for j
    using that by (auto simp: fan_ok_def dest!: equalityD1)
  then have "I w'" if "j \<in> set (fn_running s)" "(jobs ! j) (fn_world s) = (Val x, w')" for j x w'
    using that presE [OF assms(2)] step(3) by blast
  with step(2,3) show ?case by (auto elim!: fan_stepE)
qed

section \<open>Every run ends, with every slot filled\<close>

definition fan_left :: "('w, 'a) prog list \<Rightarrow> ('w, 'a) fan \<Rightarrow> nat" where
  "fan_left jobs s = 2 * (length jobs - fn_next s) + length (fn_running s)"

lemma fan_step_left: "fan_step k jobs s s' \<Longrightarrow> fan_left jobs s = Suc (fan_left jobs s')"
  by (erule fan_stepE) (auto simp: fan_left_def length_remove1 Suc_diff_Suc dest: length_pos_if_in_set)

lemma fan_steps_left: "(fan_step k jobs ^^ m) s s' \<Longrightarrow> fan_left jobs s = m + fan_left jobs s'"
  by (induction m arbitrary: s') (auto dest: fan_step_left)

lemma fan_stuck_done:
  assumes "fan_ok k jobs w s" and "0 < k" and "\<And>j v. j < length jobs \<Longrightarrow> fst ((jobs ! j) v) \<noteq> Panic"
    and "\<And>s'. \<not> fan_step k jobs s s'"
  shows "fan_done jobs s"
proof (rule ccontr)
  assume "\<not> fan_done jobs s"
  with assms(1) consider (run) j where "j \<in> set (fn_running s)" | (start) "fn_running s = []" "fn_next s < length jobs"
    by (fastforce simp: fan_done_def fan_ok_def)
  then show False
  proof cases
    case run
    then have "j < length jobs" using assms(1) by (auto simp: fan_ok_def dest!: equalityD1)
    from assms(3) [OF this] obtain x w' where "(jobs ! j) (fn_world s) = (Val x, w')"
      by (metis fst_conv outcome.exhaust surj_pair)
    with fan_step.finish [OF run] assms(4) show False by blast
  next
    case start
    then show False using fan_step.spawn [of s jobs k] assms(2,4) by auto
  qed
qed

text \<open>When the loop ends, the world is that of running the jobs in the order they finished, which is a
  permutation of all of them, and each slot holds its own job's result.\<close>

lemma fan_result:
  assumes "fan_ok k jobs w s" and "fan_done jobs s"
  obtains xs where "run_all (map (nth jobs) (fn_order s)) w = (Val xs, fn_world s)"
    and "mset (fn_order s) = mset [0..<length jobs]"
    and "\<And>i. i < length jobs \<Longrightarrow> fn_slots s ! (fn_order s ! i) = Some (xs ! i)"
    and "length (fn_order s) = length jobs" and "length (fn_slots s) = length jobs"
proof -
  have d: "distinct (fn_order s)" "set (fn_order s) = {..<length jobs}"
    using assms by (auto simp: fan_ok_def fan_done_def)
  then have m: "mset (fn_order s) = mset [0..<length jobs]"
    by (intro set_eq_iff_mset_eq_distinct [THEN iffD1]) (auto simp: atLeast0LessThan)
  then have len: "length (fn_order s) = length jobs" by (metis diff_zero length_upt size_mset)
  from assms(1) len that d m show thesis by (auto simp: fan_ok_def)
qed

section \<open>Starting the next item only when the last is done\<close>

text \<open>The sequential loop is one of the schedules.\<close>

lemma run_all_prefix:
  assumes "run_all (ms @ [m]) w = (Val xs, w')"
  obtains ys x w1 where "run_all ms w = (Val ys, w1)" and "m w1 = (Val x, w')" and "xs = ys @ [x]"
  using assms by (auto simp: run_all_append ret_def elim!: bnd_ValE)

lemma fan_sequential:
  assumes "0 < k" and "run_all (take i jobs) w = (Val xs, w')" and "i \<le> length jobs"
  shows "(fan_step k jobs)\<^sup>*\<^sup>* (fan_init jobs w) \<lparr>fn_next = i, fn_running = [],
    fn_slots = map Some xs @ replicate (length jobs - i) None, fn_world = w', fn_order = [0..<i]\<rparr>"
  using assms(2,3)
proof (induction i arbitrary: xs w')
  case 0
  then show ?case by (simp add: fan_init_def ret_def)
next
  case (Suc i)
  then have take: "take (Suc i) jobs = take i jobs @ [jobs ! i]" by (simp add: take_Suc_conv_app_nth)
  from Suc.prems(1) [unfolded take] obtain ys x w1 where ys: "run_all (take i jobs) w = (Val ys, w1)"
    and x: "(jobs ! i) w1 = (Val x, w')" and xs: "xs = ys @ [x]" by (rule run_all_prefix)
  have len: "length ys = i" using length_run_all [OF ys] Suc.prems(2) by simp
  let ?s = "\<lparr>fn_next = i, fn_running = [], fn_slots = map Some ys @ replicate (length jobs - i) None,
    fn_world = w1, fn_order = [0..<i]\<rparr>"
  let ?t = "?s\<lparr>fn_next := Suc (fn_next ?s), fn_running := fn_running ?s @ [fn_next ?s]\<rparr>"
  have "fan_step k jobs ?s ?t" by (rule fan_step.spawn) (use assms(1) Suc.prems(2) in simp_all)
  moreover have "fan_step k jobs ?t (?t\<lparr>fn_running := remove1 i (fn_running ?t), fn_slots := (fn_slots ?t)[i := Some x],
      fn_world := w', fn_order := fn_order ?t @ [i]\<rparr>)"
    by (rule fan_step.finish) (simp_all add: x)
  moreover have rep: "replicate (length jobs - i) c = c # replicate (length jobs - Suc i) c" for c
    using Suc.prems(2) by (simp add: Suc_diff_Suc flip: replicate_Suc)
  have "?t\<lparr>fn_running := remove1 i (fn_running ?t), fn_slots := (fn_slots ?t)[i := Some x],
      fn_world := w', fn_order := fn_order ?t @ [i]\<rparr>
    = \<lparr>fn_next = Suc i, fn_running = [], fn_slots = map Some xs @ replicate (length jobs - Suc i) None,
        fn_world = w', fn_order = [0..<Suc i]\<rparr>"
    by (simp add: xs len list_update_append rep)
  ultimately show ?case
    using Suc.IH [OF ys] Suc.prems(2) by (auto intro: rtranclp.rtrancl_into_rtrancl)
qed

end
