(* ===== verification/Concurrency.thy ===== *)
theory Concurrency
  imports Fanout Outbound Delivery Totality
begin

text \<open>
  The goroutines of a batch and of a scheduler tick, in any order of completion (\<open>Fanout\<close>).
\<close>

section \<open>Batch\<close>

definition maxConcurrent :: nat where
  "maxConcurrent = 16"

text \<open>The body of one goroutine.\<close>

definition batch_job :: "libs \<Rightarrow> 'r redis \<Rightarrow> service \<Rightarrow> string \<Rightarrow> (uuid \<Rightarrow> batchRecipient \<Rightarrow> CreateNotificationParams)
    \<Rightarrow> nat \<Rightarrow> batchRecipient \<Rightarrow> ('r world, batchResult) prog" where
  "batch_job L R sv key params i rec =
     bnd external (\<lambda>c.
     bnd (NotificationHandler_processSend L R sv (if key = [] then [] else key @ '':'' @ dec_digits i)
           (params (c_uuid c) rec)) (\<lambda>r. ret (case r of
       Inl errMsg \<Rightarrow> \<lparr>br_Index = i, br_NotificationID = [], br_Error = errMsg\<rparr>
     | Inr s \<Rightarrow> \<lparr>br_Index = i, br_NotificationID = sr_notificationID s, br_Error = []\<rparr>)))"

definition batch_jobs :: "libs \<Rightarrow> 'r redis \<Rightarrow> service \<Rightarrow> string \<Rightarrow> (uuid \<Rightarrow> batchRecipient \<Rightarrow> CreateNotificationParams)
    \<Rightarrow> batchRecipient list \<Rightarrow> ('r world, batchResult) prog list" where
  "batch_jobs L R sv key params recs = map (\<lambda>(i, rec). batch_job L R sv key params i rec) (enumerate 0 recs)"

lemma length_batch_jobs [simp]: "length (batch_jobs L R sv key params recs) = length recs"
  by (simp add: batch_jobs_def)

lemma nth_batch_jobs:
  "i < length recs \<Longrightarrow> batch_jobs L R sv key params recs ! i = batch_job L R sv key params i (recs ! i)"
  by (simp add: batch_jobs_def nth_enumerate_eq)

lemma batch_loop_run_all:
  "batch_loop L R sv key params i recs
     = run_all (map (\<lambda>(i, rec). batch_job L R sv key params i rec) (enumerate i recs))"
  by (induction recs arbitrary: i) (simp_all add: batch_job_def bnd_assoc Let_def)

lemma batch_job_index: "batch_job L R sv key params i rec w = (Val r, w') \<Longrightarrow> br_Index r = i"
  by (auto simp: batch_job_def ret_def elim!: bnd_ValE split: sum.splits)

lemma batch_job_total: "full_service sv \<Longrightarrow> fst (batch_job L R sv key params i rec w) \<noteq> Panic"
proof -
  assume "full_service sv"
  then have "total_prog (batch_job L R sv key params i rec)"
    unfolding batch_job_def by (intro nopanic)
  then show ?thesis by (simp add: total_prog_def)
qed

lemma slot_indices:
  assumes "(fan_step k (batch_jobs L R sv key params recs))\<^sup>*\<^sup>* (fan_init (batch_jobs L R sv key params recs) w) s"
    and "i < length recs" and "fn_slots s ! i = Some r"
  shows "br_Index r = i"
  using assms(1,3)
proof (induction arbitrary: r rule: rtranclp_induct)
  case base
  then show ?case using assms(2) by (simp add: fan_init_def)
next
  case (step s t)
  note ok = fan_ok_reachable [OF step(1)]
  from step(2) show ?case
  proof cases
    case spawn
    then show ?thesis using step by simp
  next
    case (finish j x w')
    then have "j < length recs" using ok by (auto simp: fan_ok_def dest!: equalityD1)
    with finish have "br_Index x = j" using batch_job_index by (metis nth_batch_jobs)
    with finish step(3,4) assms(2) ok show ?thesis
      by (cases "i = j") (auto simp: fan_ok_def)
  qed
qed



section \<open>The scheduler\<close>

definition maxConcurrentFires :: nat where
  "maxConcurrentFires = 16"

lemma run_all_for_each:
  "run_all (map f xs) w = (Val ys, w') \<Longrightarrow> for_each xs f w = (Val (), w')"
  by (simp add: for_each_run_all bnd_def ret_def)

text \<open>A scheduler tick whose goroutines finish in any order: while nothing fails, one message is
  published for each due row, and exactly the due rows are marked fired.\<close>

theorem scheduler_goroutines_fire_due:
  fixes w :: "'r world"
  assumes "stored_ok (w_db w)" and "\<And>i. \<not> fails_at w i" and "due = due_rows_at now (w_db w)"
    and "(fan_step maxConcurrentFires (map (Scheduler_fireOne L (Object ())) due))\<^sup>*\<^sup>*
           (fan_init (map (Scheduler_fireOne L (Object ())) due) w) s"
    and "fan_done (map (Scheduler_fireOne L (Object ())) due) s"
  shows "\<exists>recs. w_topics (fn_world s) = w_topics w @ recs
    \<and> mset (map kr_key recs) = mset (map (\<lambda>sn. uuid_String L (s_NotificationID sn)) due)
    \<and> scheduled_notifications (w_db (fn_world s))
        = upd_where (\<lambda>r. s_ID r \<in> s_ID ` set due) (\<lambda>r. r\<lparr>s_Fired := True\<rparr>) (scheduled_notifications (w_db w))"
proof -
  let ?jobs = "map (Scheduler_fireOne L (Object ())) due :: ('r world, unit) prog list"
  obtain xs where run: "run_all (map (nth ?jobs) (fn_order s)) w = (Val xs, fn_world s)"
    and perm: "mset (fn_order s) = mset [0..<length ?jobs]"
    using fan_result [OF fan_ok_reachable [OF assms(4)] assms(5)] by blast
  define sns where "sns = map (nth due) (fn_order s)"
  have idx: "set (fn_order s) = {0..<length due}" using arg_cong [OF perm, of set_mset] by simp
  have "map (nth ?jobs) (fn_order s) = map (Scheduler_fireOne L (Object ())) sns"
    using idx by (auto simp: sns_def)
  with run have "for_each sns (Scheduler_fireOne L (Object ())) w = (Val (), fn_world s)"
    using run_all_for_each by metis
  moreover have msns: "mset sns = mset due"
  proof -
    have "mset sns = mset (map (nth due) [0..<length due])"
      unfolding sns_def mset_map using perm by (simp only: length_map)
    then show ?thesis by (simp only: map_nth)
  qed
  then have "set sns = set due" by (metis set_mset_mset)
  moreover have "s_NotificationID ` set due \<subseteq> notification_ids (w_db w)"
    using assms(1,3) by (auto simp: stored_ok_def db_ok_defs due_rows_at_def dest!: in_set_takeD)
  ultimately obtain recs where recs: "w_topics (fn_world s) = w_topics w @ recs"
      "map kr_key recs = map (\<lambda>sn. uuid_String L (s_NotificationID sn)) sns"
      "scheduled_notifications (w_db (fn_world s))
         = upd_where (\<lambda>r. s_ID r \<in> s_ID ` set due) (\<lambda>r. r\<lparr>s_Fired := True\<rparr>) (scheduled_notifications (w_db w))"
    using fire_all [OF assms(1,2), of sns L] by auto
  have "mset (map kr_key recs) = mset (map (\<lambda>sn. uuid_String L (s_NotificationID sn)) due)"
    unfolding recs(2) unfolding mset_map msns ..
  with recs(1,3) show ?thesis by blast
qed

section \<open>The replayer, and the invariant\<close>

definition maxConcurrentReplays :: nat where
  "maxConcurrentReplays = 16"


section \<open>Witnesses\<close>

definition demo_recipient :: batchRecipient where
  "demo_recipient = \<lparr>bt_RecipientID = [], bt_RecipientEmail = [], bt_RecipientPhone = ''5550100'', bt_RecipientToken = []\<rparr>"

definition demo_jobs :: "(keyspace world, batchResult) prog list" where
  "demo_jobs = batch_jobs bit_libs mem_redis (main_service demo_config) ''k''
     (\<lambda>u rec. sms_params\<lparr>p_ID := u, p_RecipientPhone := bt_RecipientPhone rec\<rparr>) [demo_recipient, demo_recipient]"

lemma demo_service: "full_service (main_service demo_config)"
  by (simp add: full_service_def main_service_def main_prod_def main_limiter_def main_deduplicator_def box_def
      demo_config_def)

lemma demo_loop:
  "\<exists>results w'. batch_loop bit_libs mem_redis (main_service demo_config) ''k''
     (\<lambda>u rec. sms_params\<lparr>p_ID := u, p_RecipientPhone := bt_RecipientPhone rec\<rparr>) 0
     [demo_recipient, demo_recipient] (calm_world sms_db) = (Val results, w')"
proof -
  have "total_prog (batch_loop bit_libs mem_redis (main_service demo_config) ''k''
     (\<lambda>u rec. sms_params\<lparr>p_ID := u, p_RecipientPhone := bt_RecipientPhone rec\<rparr>) 0 [demo_recipient, demo_recipient])"
    by (rule nopanic_batch_loop [OF demo_service])
  then show ?thesis by (metis total_progE)
qed


lemma done_stuck: "fan_done jobs s \<Longrightarrow> \<not> fan_step k jobs s s'"
  by (auto simp: fan_done_def elim: fan_stepE)


lemma due_stored_ok: "stored_ok (w_db (calm_world due_db))"
  by (simp add: stored_ok_def due_db_ok)
     (simp add: due_defs notification_ok_def isValidChannel_def isValidPriority_def validateRecipientFields_def)

lemma due_goroutines:
  obtains s :: "(keyspace world, unit) fan" where
    "(fan_step maxConcurrentFires (map (Scheduler_fireOne bit_libs (Object ())) [due_row]))\<^sup>*\<^sup>*
       (fan_init (map (Scheduler_fireOne bit_libs (Object ())) [due_row]) (calm_world due_db)) s"
    and "fan_done (map (Scheduler_fireOne bit_libs (Object ())) [due_row]) s"
proof -
  let ?w = "calm_world due_db" and ?jobs = "map (Scheduler_fireOne bit_libs (Object ())) [due_row]"
  have "\<exists>w'. Scheduler_fireOne bit_libs (Object ()) due_row ?w = (Val (), w')"
    using fireOne_run [of ?w due_row due_notification due_delivery "[]" bit_libs] by (auto simp: due_defs order_by_def)
  then obtain w' where "run_all (take (length ?jobs) ?jobs) ?w = (Val [()], w')"
    by (auto simp: bnd_def ret_def)
  from fan_sequential [OF _ this, of maxConcurrentFires] that show thesis
    by (force simp: maxConcurrentFires_def fan_done_def)
qed

theorem scheduler_goroutines_fire_due_witness:
  "\<exists>(s :: (keyspace world, unit) fan) recs. fan_done [Scheduler_fireOne bit_libs (Object ()) due_row] s
     \<and> w_topics (fn_world s) = recs \<and> map kr_key recs = [uuid_String bit_libs 2]
     \<and> map s_Fired (scheduled_notifications (w_db (fn_world s))) = [True]"
proof -
  let ?w = "calm_world due_db" and ?jobs = "map (Scheduler_fireOne bit_libs (Object ())) [due_row]"
  have due: "[due_row] = due_rows_at 5 (w_db ?w)"
    by (simp add: due_rows_at_def due_defs order_by_def due_unfired_def sched_batchSize_def)
  obtain s where s: "(fan_step maxConcurrentFires ?jobs)\<^sup>*\<^sup>* (fan_init ?jobs ?w) s" "fan_done ?jobs s"
    by (rule due_goroutines)
  obtain recs where "w_topics (fn_world s) = recs" and keys: "mset (map kr_key recs) = {#uuid_String bit_libs 2#}"
    and "map s_Fired (scheduled_notifications (w_db (fn_world s))) = [True]"
    using scheduler_goroutines_fire_due [OF due_stored_ok _ due s] by (auto simp: due_defs simp del: mset_map)
  moreover from keys have "map kr_key recs = [uuid_String bit_libs 2]" by (simp only: mset_single_iff)
  moreover from s(2) have "fan_done [Scheduler_fireOne bit_libs (Object ()) due_row] s" by simp
  ultimately show ?thesis by (intro exI [of _ s] exI [of _ recs] conjI)
qed



end
