(* ===== verification/Http.thy ===== *)
theory Http
  imports Totality
begin

text \<open>
  The global middleware of \<open>routes.Setup\<close>: the request log (\<open>middleware/request_logger.go\<close>), panic recovery, the latency
  histogram (\<open>metrics.EchoMiddleware\<close>) and CORS, around the routed handlers of \<open>Wiring\<close>.

  A handler takes the request's context and returns its error, if any, with the context as it left it; the context holds
  the response's status, which reads 200 until something is written, and whether the response has been sent.
  Echo's own pieces (\<open>c.Error\<close>, \<open>Recover\<close>, \<open>CORSWithConfig\<close>) are parameters; locale \<open>echo_framework\<close> states what
  the code relies on.  \<open>RequestID\<close> has set \<open>cx_request_id\<close> when the chain is entered.
\<close>

section \<open>Contexts and handlers\<close>

datatype echo_error = HTTPError int string | OtherError string

fun error_text :: "echo_error \<Rightarrow> string" where
  "error_text (HTTPError code msg) = msg"
| "error_text (OtherError msg) = msg"

record echo_context =
  cx_method :: string
  cx_path :: string        \<comment> \<open>\<open>c.Request().URL.Path\<close>\<close>
  cx_route :: string       \<comment> \<open>\<open>c.Path()\<close>, the route's pattern\<close>
  cx_request_id :: string
  cx_status :: int
  cx_committed :: bool

type_synonym 'r handler = "echo_context \<Rightarrow> ('r world, echo_error option \<times> echo_context) prog"

text \<open>The routes, as \<open>Setup\<close> registers them: method and pattern.\<close>

fun admin_pattern :: "admin_request \<Rightarrow> string \<times> string" where
  "admin_pattern (CreateTenant b) = (''POST'', ''/api/v1/tenants'')"
| "admin_pattern ListTenants = (''GET'', ''/api/v1/tenants'')"
| "admin_pattern (GetTenant i) = (''GET'', ''/api/v1/tenants/:id'')"
| "admin_pattern (UpdateTenant i b) = (''PUT'', ''/api/v1/tenants/:id'')"
| "admin_pattern (DeleteTenant i) = (''DELETE'', ''/api/v1/tenants/:id'')"
| "admin_pattern (UpdateChannels i b) = (''PUT'', ''/api/v1/tenants/:id/channels'')"
| "admin_pattern (GetChannels i) = (''GET'', ''/api/v1/tenants/:id/channels'')"
| "admin_pattern (UpdateRateLimits i b) = (''PUT'', ''/api/v1/tenants/:id/rate-limits'')"
| "admin_pattern (GetRateLimits i) = (''GET'', ''/api/v1/tenants/:id/rate-limits'')"
| "admin_pattern (GetAnalytics i q) = (''GET'', ''/api/v1/tenants/:id/analytics'')"
| "admin_pattern (CreateKey i) = (''POST'', ''/api/v1/tenants/:id/keys'')"
| "admin_pattern (ListKeys i) = (''GET'', ''/api/v1/tenants/:id/keys'')"
| "admin_pattern (DeleteKey i k) = (''DELETE'', ''/api/v1/tenants/:id/keys/:key_id'')"

fun tenant_pattern :: "tenant_request \<Rightarrow> string \<times> string" where
  "tenant_pattern (SendNotification b) = (''POST'', ''/api/v1/notifications/send'')"
| "tenant_pattern (ScheduleNotification b) = (''POST'', ''/api/v1/notifications/schedule'')"
| "tenant_pattern (BatchNotifications b) = (''POST'', ''/api/v1/notifications/batch'')"
| "tenant_pattern (NotificationHistory q) = (''GET'', ''/api/v1/notifications/history'')"
| "tenant_pattern (GetNotification i) = (''GET'', ''/api/v1/notifications/:id'')"
| "tenant_pattern (CreateTemplate b) = (''POST'', ''/api/v1/templates'')"
| "tenant_pattern ListTemplates = (''GET'', ''/api/v1/templates'')"
| "tenant_pattern (GetTemplate i) = (''GET'', ''/api/v1/templates/:id'')"
| "tenant_pattern (UpdateTemplate i b) = (''PUT'', ''/api/v1/templates/:id'')"
| "tenant_pattern (DeleteTemplate i) = (''DELETE'', ''/api/v1/templates/:id'')"

fun route_pattern :: "request \<Rightarrow> string \<times> string" where
  "route_pattern Health = (''GET'', ''/health'')"
| "route_pattern (Admin a) = admin_pattern a"
| "route_pattern (Authenticated key t) = tenant_pattern t"

text \<open>What the router finds: a route, or its own error (404, 405), which no handler sees.\<close>

datatype target = Routed request | Unrouted int string

definition new_context :: "string \<Rightarrow> string \<Rightarrow> string \<Rightarrow> string \<Rightarrow> echo_context" where
  "new_context mth path pattern rid = \<lparr>cx_method = mth, cx_path = path, cx_route = pattern, cx_request_id = rid,
     cx_status = 200, cx_committed = False\<rparr>"

definition endpoint :: "libs \<Rightarrow> 'r redis \<Rightarrow> config \<Rightarrow> target \<Rightarrow> 'r handler" where
  "endpoint L R cfg tgt cx =
     (case tgt of
        Routed req \<Rightarrow> bnd (route L R cfg req) (\<lambda>resp.
          ret (None, cx\<lparr>cx_status := resp_status resp, cx_committed := True\<rparr>))
      | Unrouted code msg \<Rightarrow> ret (Some (HTTPError code msg), cx))"

section \<open>The middleware\<close>

text \<open>\<open>latency.Milliseconds()\<close>: Go's division truncates towards zero.\<close>

definition milliseconds :: "time \<Rightarrow> int" where
  "milliseconds d = (if d < 0 then - (- d div 1000000) else d div 1000000)"

definition RequestLogger :: "(echo_error \<Rightarrow> echo_context \<Rightarrow> echo_context) \<Rightarrow> 'r handler \<Rightarrow> 'r handler" where
  "RequestLogger c_Error handler cx =
     bnd external (\<lambda>start.
     bnd (handler cx) (\<lambda>(err, cx).
     let cx = (case err of None \<Rightarrow> cx | Some e \<Rightarrow> c_Error e cx) in
     bnd external (\<lambda>now.
     bnd (emit (LoggedRequest \<lparr>hl_method = cx_method cx, hl_path = cx_path cx, hl_status = cx_status cx,
            hl_latency_ms = milliseconds (c_now now - c_now start), hl_request_id = cx_request_id cx,
            hl_error = map_option error_text err\<rparr>)) (\<lambda>_.
     ret (err, cx)))))"

definition EchoMiddleware :: "'r handler \<Rightarrow> 'r handler" where
  "EchoMiddleware handler cx =
     bnd external (\<lambda>start.
     bnd (handler cx) (\<lambda>(err, cx).
     bnd external (\<lambda>now.
     bnd (emit (Observed ''notifyx_http_request_duration_seconds'' [cx_method cx, cx_route cx, dec_string_of_int (cx_status cx)]
            (c_now now - c_now start))) (\<lambda>_.
     ret (err, cx)))))"

record cors_config =
  co_AllowOrigins :: "string list"
  co_AllowMethods :: "string list option"  \<comment> \<open>\<open>None\<close>: the framework's default\<close>
  co_AllowHeaders :: "string list"

definition cors_config_for :: "string \<Rightarrow> cors_config" where
  "cors_config_for env =
     (if env = ''development''
      then \<lparr>co_AllowOrigins = [''*''], co_AllowMethods = Some [''GET'', ''HEAD'', ''PUT'', ''PATCH'', ''POST'', ''DELETE'', ''OPTIONS''],
            co_AllowHeaders = [''*'']\<rparr>
      else \<lparr>co_AllowOrigins = [''*''], co_AllowMethods = None,
            co_AllowHeaders = [''Origin'', ''Content-Type'', ''Accept'', ''X-API-Key'']\<rparr>)"

definition Setup_chain :: "(echo_error \<Rightarrow> echo_context \<Rightarrow> echo_context) \<Rightarrow> ('r handler \<Rightarrow> 'r handler)
    \<Rightarrow> (cors_config \<Rightarrow> 'r handler \<Rightarrow> 'r handler) \<Rightarrow> libs \<Rightarrow> 'r redis \<Rightarrow> config \<Rightarrow> target \<Rightarrow> 'r handler" where
  "Setup_chain c_Error recov cors L R cfg tgt =
     RequestLogger c_Error (recov (EchoMiddleware (cors (cors_config_for (cf_Env cfg)) (endpoint L R cfg tgt))))"

section \<open>What the code relies on of the framework\<close>

text \<open>
  \<open>c.Error\<close> does nothing to a response that was sent and otherwise sends the error's status; \<open>Recover\<close> passes returns
  through and answers a panic with a 500, returning no error; CORS passes on every request but a preflight.
\<close>

locale echo_framework =
  fixes c_Error :: "echo_error \<Rightarrow> echo_context \<Rightarrow> echo_context"
    and recov :: "'r handler \<Rightarrow> 'r handler"
    and cors :: "cors_config \<Rightarrow> 'r handler \<Rightarrow> 'r handler"
  assumes error_sent: "cx_committed cx \<Longrightarrow> c_Error e cx = cx"
    and error_pending: "\<not> cx_committed cx \<Longrightarrow> c_Error (HTTPError code msg) cx = cx\<lparr>cx_status := code, cx_committed := True\<rparr>"
    and recover_return: "h cx w = (Val r, w') \<Longrightarrow> recov h cx w = (Val r, w')"
    and recover_panic: "h cx w = (Panic, w') \<Longrightarrow> \<not> cx_committed cx \<Longrightarrow>
      recov h cx w = (Val (None, cx\<lparr>cx_status := 500, cx_committed := True\<rparr>), w')"
    and cors_passes: "cx_method cx \<noteq> ''OPTIONS'' \<Longrightarrow> cors cc h cx = h cx"
begin

lemma chain_unrouted:
  assumes "\<not> cx_committed cx" and "cx_method cx \<noteq> ''OPTIONS''"
  shows "Setup_chain c_Error recov cors L R cfg (Unrouted code msg) cx w
    = (Val (Some (HTTPError code msg), cx\<lparr>cx_status := code, cx_committed := True\<rparr>), w\<lparr>w_tick := w_tick w + 4,
        w_events := w_events w @ [
          Observed ''notifyx_http_request_duration_seconds'' [cx_method cx, cx_route cx, dec_string_of_int (cx_status cx)]
            (now_at w 2 - now_at w 1),
          LoggedRequest \<lparr>hl_method = cx_method cx, hl_path = cx_path cx, hl_status = code,
            hl_latency_ms = milliseconds (now_at w 3 - now_at w 0), hl_request_id = cx_request_id cx, hl_error = Some msg\<rparr>]\<rparr>)"
proof -
  let ?h = "EchoMiddleware (cors (cors_config_for (cf_Env cfg)) (endpoint L R cfg (Unrouted code msg)))"
  let ?w = "w\<lparr>w_tick := w_tick w + 3, w_events := w_events w @ [Observed ''notifyx_http_request_duration_seconds''
    [cx_method cx, cx_route cx, dec_string_of_int (cx_status cx)] (now_at w 2 - now_at w 1)]\<rparr>"
  have "?h cx (w\<lparr>w_tick := Suc (w_tick w)\<rparr>) = (Val (Some (HTTPError code msg), cx), ?w)"
    using assms(2)
    by (simp add: EchoMiddleware_def endpoint_def cors_passes go_defs external_def emit_def now_at_def eval_nat_numeral)
  from recover_return [of ?h, OF this] show ?thesis
    by (simp add: Setup_chain_def RequestLogger_def Let_def error_pending [OF assms(1)] bnd_def ret_def external_def
        emit_def writes_def now_at_def eval_nat_numeral)
qed

lemma chain_routed:
  assumes "\<not> cx_committed cx" and "cx_method cx \<noteq> ''OPTIONS''"
    and "route L R cfg req (w\<lparr>w_tick := w_tick w + 2\<rparr>) = (Val resp, w2)"
  shows "Setup_chain c_Error recov cors L R cfg (Routed req) cx w
    = (Val (None, cx\<lparr>cx_status := resp_status resp, cx_committed := True\<rparr>), w2\<lparr>w_tick := w_tick w2 + 2,
        w_events := w_events w2 @ [
          Observed ''notifyx_http_request_duration_seconds'' [cx_method cx, cx_route cx, dec_string_of_int (resp_status resp)]
            (now_at w2 0 - now_at w 1),
          LoggedRequest \<lparr>hl_method = cx_method cx, hl_path = cx_path cx, hl_status = resp_status resp,
            hl_latency_ms = milliseconds (now_at w2 1 - now_at w 0), hl_request_id = cx_request_id cx, hl_error = None\<rparr>]\<rparr>)"
proof -
  let ?h = "EchoMiddleware (cors (cors_config_for (cf_Env cfg)) (endpoint L R cfg (Routed req)))"
  let ?cx = "cx\<lparr>cx_status := resp_status resp, cx_committed := True\<rparr>"
  let ?w = "w2\<lparr>w_tick := Suc (w_tick w2), w_events := w_events w2 @ [Observed ''notifyx_http_request_duration_seconds''
    [cx_method cx, cx_route cx, dec_string_of_int (resp_status resp)] (now_at w2 0 - now_at w 1)]\<rparr>"
  have "?h cx (w\<lparr>w_tick := Suc (w_tick w)\<rparr>) = (Val (None, ?cx), ?w)"
    using assms(2,3)
    by (simp add: EchoMiddleware_def endpoint_def cors_passes go_defs external_def emit_def now_at_def)
  from recover_return [of ?h, OF this] show ?thesis
    by (simp add: Setup_chain_def RequestLogger_def Let_def bnd_def ret_def external_def
        emit_def writes_def now_at_def)
qed

lemma chain_panics:
  assumes "\<not> cx_committed cx" and "cx_method cx \<noteq> ''OPTIONS''"
    and "route L R cfg req (w\<lparr>w_tick := w_tick w + 2\<rparr>) = (Panic, w2)"
  shows "Setup_chain c_Error recov cors L R cfg (Routed req) cx w
    = (Val (None, cx\<lparr>cx_status := 500, cx_committed := True\<rparr>), w2\<lparr>w_tick := w_tick w2 + 1,
        w_events := w_events w2 @ [
          LoggedRequest \<lparr>hl_method = cx_method cx, hl_path = cx_path cx, hl_status = 500,
            hl_latency_ms = milliseconds (now_at w2 0 - now_at w 0), hl_request_id = cx_request_id cx, hl_error = None\<rparr>]\<rparr>)"
proof -
  let ?h = "EchoMiddleware (cors (cors_config_for (cf_Env cfg)) (endpoint L R cfg (Routed req)))"
  have "?h cx (w\<lparr>w_tick := Suc (w_tick w)\<rparr>) = (Panic, w2)"
    using assms(2,3)
    by (simp add: EchoMiddleware_def endpoint_def cors_passes go_defs external_def)
  from recover_panic [of ?h, OF this assms(1)] show ?thesis
    by (simp add: Setup_chain_def RequestLogger_def Let_def bnd_def ret_def external_def
        emit_def writes_def now_at_def)
qed

end

text \<open>An instance.\<close>

definition default_Error :: "echo_error \<Rightarrow> echo_context \<Rightarrow> echo_context" where
  "default_Error e cx = (if cx_committed cx then cx
     else cx\<lparr>cx_status := (case e of HTTPError code _ \<Rightarrow> code | OtherError _ \<Rightarrow> 500), cx_committed := True\<rparr>)"

definition default_recover :: "'r handler \<Rightarrow> 'r handler" where
  "default_recover h cx w =
     (case h cx w of (Val r, w') \<Rightarrow> (Val r, w') | (Panic, w') \<Rightarrow> (Val (None, default_Error (OtherError ''panic'') cx), w'))"

definition default_cors :: "cors_config \<Rightarrow> 'r handler \<Rightarrow> 'r handler" where
  "default_cors cc h cx = (if cx_method cx = ''OPTIONS'' then ret (None, cx\<lparr>cx_status := 204, cx_committed := True\<rparr>) else h cx)"

interpretation default: echo_framework default_Error default_recover default_cors
  by unfold_locales (simp_all add: default_Error_def default_recover_def default_cors_def)

section \<open>Properties\<close>

lemma pattern_method: "fst (route_pattern req) \<noteq> ''OPTIONS''"
proof (cases req)
  case (Admin a)
  then show ?thesis by (cases a) simp_all
next
  case (Authenticated key t)
  then show ?thesis by (cases t) simp_all
qed simp


text \<open>A request the router itself turns down is answered and logged with the router's status, 404 or 405, but
  measured as a 200: the histogram reads the response's status before the request log has sent the error.\<close>

theorem unrouted_measured_as_200:
  fixes R :: "'r redis"
  assumes "echo_framework c_Error recov cors" and "mth \<noteq> ''OPTIONS''"
  shows "\<exists>w' ms d. Setup_chain c_Error recov cors L R cfg (Unrouted code msg) (new_context mth path pattern rid) w
      = (Val (Some (HTTPError code msg), (new_context mth path pattern rid)\<lparr>cx_status := code, cx_committed := True\<rparr>), w')
    \<and> w_events w' = w_events w
        @ [Observed ''notifyx_http_request_duration_seconds'' [mth, pattern, ''200''] d,
           LoggedRequest \<lparr>hl_method = mth, hl_path = path, hl_status = code, hl_latency_ms = ms, hl_request_id = rid,
             hl_error = Some msg\<rparr>]"
proof -
  have "dec_string_of_int 200 = ''200''" by code_simp
  with echo_framework.chain_unrouted [OF assms(1), of "new_context mth path pattern rid"] assms(2) show ?thesis
    by (simp add: new_context_def)
qed

section \<open>Witnesses\<close>

lemma demo_health:
  "\<exists>w2. serve bit_libs mem_redis demo_config Health ((calm_world empty_db)\<lparr>w_tick := w_tick (calm_world empty_db) + 2\<rparr>)
     = (Val (Responded (JSON 200 (PHealth ''ok'' [(''database'', ''ok''), (''redis'', ''ok''), (''kafka'', ''configured'')]))), w2)
     \<and> w_events w2 = []"
  by (simp add: serve_def route_def HealthHandler_Check_def redisHealthPinger_def demo_config_def go_defs external_def
      calm_world_def calm_env_def)


theorem unrouted_measured_as_200_witness:
  "\<exists>w' d ms. Setup_chain default_Error default_recover default_cors bit_libs mem_redis demo_config (Unrouted 404 ''Not Found'')
       (new_context ''GET'' ''/nowhere'' [] ''r1'') (calm_world empty_db)
     = (Val (Some (HTTPError 404 ''Not Found''),
         (new_context ''GET'' ''/nowhere'' [] ''r1'')\<lparr>cx_status := 404, cx_committed := True\<rparr>), w')
     \<and> w_events w' = [Observed ''notifyx_http_request_duration_seconds'' [''GET'', [], ''200''] d,
         LoggedRequest \<lparr>hl_method = ''GET'', hl_path = ''/nowhere'', hl_status = 404, hl_latency_ms = ms,
           hl_request_id = ''r1'', hl_error = Some ''Not Found''\<rparr>]"
  using unrouted_measured_as_200 [OF default.echo_framework_axioms, of "''GET''" bit_libs mem_redis demo_config 404
      "''Not Found''" "''/nowhere''" "[]" "''r1''" "calm_world empty_db"]
  by auto

end
