(* ===== verification/Startup.thy ===== *)
theory Startup
  imports Wiring
begin

text \<open>
  \<open>backend/cmd/server/main.go\<close> as a whole, with the constructors it calls: \<open>pkg/logger\<close>, \<open>internal/tracing\<close>,
  \<open>NewPool\<close>, the Redis client, the Kafka writer and readers.  The process is a \<open>host\<close>: what the driver calls
  answer (an error or none, call by call) and the trace of resources opened and released and of
  goroutines spawned and drained.  The parsers of the drivers are the record \<open>drivers\<close>.

  \<open>log.Fatal\<close> ends the process at once, without the deferred calls: it is the value \<open>Inl\<close> of \<open>main\<close>.
\<close>

section \<open>The process\<close>

datatype resource = TraceFile | Tracing | Pool | RedisClient | KafkaWriter | KafkaReader string | HttpServer

datatype job = ConsumerJob string | ReplayerJob | SchedulerJob | CleanupJob

datatype lifecycle =
    Opened resource
  | Released resource
  | Spawned job
  | Cancelled              \<comment> \<open>\<open>cancelBg()\<close>\<close>
  | Drained "job list"     \<comment> \<open>\<open>bgWg.Wait()\<close> has returned: these goroutines have ended\<close>

record host =
  hs_fail :: "nat \<Rightarrow> string option"
  hs_tick :: nat
  hs_trace :: "lifecycle list"

text \<open>What the drivers' parsers return: an error text, or the level, the host, the address; and whether SCRAM
  accepts the credentials.\<close>

record drivers =
  dr_level :: "string \<Rightarrow> string + int"
  dr_pg :: "string \<Rightarrow> string + string"
  dr_redis :: "string \<Rightarrow> string + string"
  dr_scram :: "string \<Rightarrow> string \<Rightarrow> string option"

definition attempt :: "(host, string option) prog" where
  "attempt h = (Val (hs_fail h (hs_tick h)), h\<lparr>hs_tick := Suc (hs_tick h)\<rparr>)"

definition trace :: "lifecycle \<Rightarrow> (host, unit) prog" where
  "trace e = writes (\<lambda>h. h\<lparr>hs_trace := hs_trace h @ [e]\<rparr>)"

text \<open>\<open>if err != nil { return nil, fmt.Errorf("...: %w", err) }\<close> after a driver call.\<close>

definition checked :: "string \<Rightarrow> (host, string + 'a) prog \<Rightarrow> (host, string + 'a) prog" where
  "checked prefix rest = bnd attempt (\<lambda>f. case f of Some e \<Rightarrow> ret (Inl (prefix @ e)) | None \<Rightarrow> rest)"

text \<open>\<open>if err != nil { log.Fatal("...", "error", err) }\<close>.\<close>

datatype main_exit = ConfigError config_error | LoggerError string | Fatal string string

definition or_exit :: "(string \<Rightarrow> main_exit) \<Rightarrow> (host, string + 'a) prog \<Rightarrow> ('a \<Rightarrow> (host, main_exit + 'b) prog)
    \<Rightarrow> (host, main_exit + 'b) prog" where
  "or_exit ex m f = bnd m (\<lambda>r. case r of Inl e \<Rightarrow> ret (Inl (ex e)) | Inr x \<Rightarrow> f x)"

section \<open>Constructors\<close>

text \<open>The encoder settings of the two presets only change how lines look; \<open>lg_level\<close> is the override, if any.\<close>

datatype zap_preset = Production | Development

record logger =
  lg_preset :: zap_preset
  lg_level :: "int option"

definition logger_New :: "drivers \<Rightarrow> string \<Rightarrow> string \<Rightarrow> (host, string + logger) prog" where
  "logger_New D env levelOverride =
     (let cfg = \<lparr>lg_preset = (if env = ''production'' then Production else Development), lg_level = None\<rparr>;
          build = (\<lambda>cfg. checked [] (ret (Inr cfg))) in
      if levelOverride \<noteq> [] then
        (case dr_level D levelOverride of
           Inl e \<Rightarrow> ret (Inl (''invalid LOG_LEVEL '' @ quoted levelOverride @ '': '' @ e))
         | Inr level \<Rightarrow> build (cfg\<lparr>lg_level := Some level\<rparr>))
      else build cfg)"

record tracer_provider =
  tp_service :: string
  tp_environment :: string

definition tracing_Init :: "string \<Rightarrow> (host, string + tracer_provider) prog" where
  "tracing_Init env =
     checked [] (bnd (trace (Opened Tracing)) (\<lambda>_. ret (Inr \<lparr>tp_service = ''notifyx'', tp_environment = env\<rparr>)))"

definition int32 :: "int \<Rightarrow> int" where
  "int32 x = (x + 2 ^ 31) mod 2 ^ 32 - 2 ^ 31"

lemma int32_range: "int4 (int32 x)"
proof -
  have "0 \<le> (x + 2 ^ 31) mod 2 ^ 32" and "(x + 2 ^ 31) mod 2 ^ 32 < (2 ^ 32 :: int)" by simp_all
  then show ?thesis by (simp add: int32_def int4_def)
qed

lemma int32_id: "int4 x \<Longrightarrow> int32 x = x"
  by (simp add: int32_def int4_def)

record pool =
  pl_host :: string
  pl_MaxConns :: int
  pl_MinConns :: int

definition NewPool :: "drivers \<Rightarrow> string \<Rightarrow> int \<Rightarrow> int \<Rightarrow> (host, string + pool) prog" where
  "NewPool D databaseURL maxConns minConns =
     (if databaseURL = [] then ret (Inl ''DATABASE_URL is required'')
      else case dr_pg D databaseURL of
        Inl e \<Rightarrow> ret (Inl (''parse database URL: '' @ e))
      | Inr hst \<Rightarrow>
          checked ''create connection pool: '' (
          bnd (trace (Opened Pool)) (\<lambda>_.
          bnd attempt (\<lambda>f. case f of
            Some e \<Rightarrow> bnd (trace (Released Pool)) (\<lambda>_. ret (Inl (''ping database: '' @ e)))
          | None \<Rightarrow> ret (Inr \<lparr>pl_host = hst, pl_MaxConns = maxConns, pl_MinConns = minConns\<rparr>)))))"

definition Redis_NewClient :: "drivers \<Rightarrow> string \<Rightarrow> (host, string + string) prog" where
  "Redis_NewClient D redisURL =
     (if redisURL = [] then ret (Inl ''REDIS_URL is required'')
      else case dr_redis D redisURL of
        Inl e \<Rightarrow> ret (Inl (''parse redis URL: '' @ e))
      | Inr addr \<Rightarrow>
          bnd (trace (Opened RedisClient)) (\<lambda>_.
          bnd attempt (\<lambda>f. case f of
            Some e \<Rightarrow> bnd (trace (Released RedisClient)) (\<lambda>_. ret (Inl (''ping redis: '' @ e)))
          | None \<Rightarrow> ret (Inr addr))))"

datatype acks = RequireNone | RequireOne | RequireAll

record kafka_writer =
  kw_Addr :: string
  kw_SASL :: "string \<times> string"
  kw_RequiredAcks :: acks
  kw_Async :: bool

definition Producer_New :: "drivers \<Rightarrow> string \<Rightarrow> string \<Rightarrow> string \<Rightarrow> (host, string + kafka_writer) prog" where
  "Producer_New D bootstrapServers apiKey apiSecret =
     (if bootstrapServers = [] then ret (Inl ''KAFKA_BOOTSTRAP_SERVERS is required'')
      else case dr_scram D apiKey apiSecret of
        Some e \<Rightarrow> ret (Inl (''failed to create scram mechanism: '' @ e))
      | None \<Rightarrow> bnd (trace (Opened KafkaWriter)) (\<lambda>_.
          ret (Inr \<lparr>kw_Addr = bootstrapServers, kw_SASL = (apiKey, apiSecret), kw_RequiredAcks = RequireAll,
            kw_Async = False\<rparr>)))"

text \<open>An error of the writer is only logged.\<close>

definition Producer_Close :: "(host, unit) prog" where
  "Producer_Close = bnd attempt (\<lambda>_. trace (Released KafkaWriter))"

record consumer_config =
  cc_BootstrapServers :: string
  cc_APIKey :: string
  cc_APISecret :: string

record kafka_reader =
  rd_Brokers :: "string list"
  rd_Topic :: string
  rd_GroupID :: string
  rd_CommitInterval :: int
  rd_MinBytes :: int
  rd_MaxBytes :: int

definition Consumer_New :: "drivers \<Rightarrow> consumer_config \<Rightarrow> string \<Rightarrow> string \<Rightarrow> (host, string + kafka_reader) prog" where
  "Consumer_New D cc groupID topic =
     (if cc_BootstrapServers cc = [] then ret (Inl ''KAFKA_BOOTSTRAP_SERVERS is required'')
      else case dr_scram D (cc_APIKey cc) (cc_APISecret cc) of
        Some e \<Rightarrow> ret (Inl (''failed to create scram mechanism: '' @ e))
      | None \<Rightarrow> bnd (trace (Opened (KafkaReader topic))) (\<lambda>_.
          ret (Inr \<lparr>rd_Brokers = [cc_BootstrapServers cc], rd_Topic = topic, rd_GroupID = groupID,
            rd_CommitInterval = 0, rd_MinBytes = 1, rd_MaxBytes = 10000000\<rparr>)))"

section \<open>Starting\<close>

text \<open>The constructors \<open>startConsumers\<close> collects, as name, group and topic; the FCM client is
  built while they are collected.\<close>

definition consumer_ctors :: "libs \<Rightarrow> (string \<Rightarrow> json option) \<Rightarrow> config \<Rightarrow> string + (string \<times> string \<times> string) list" where
  "consumer_ctors L decode cfg =
     (let always = [(''inapp'', ''notifyx-inapp'', TopicInApp), (''dlq'', ''notifyx-dlq'', TopicDLQ)];
          email = (if cf_ResendAPIKey cfg \<noteq> [] then [(''email'', ''notifyx-email'', TopicEmail)] else []);
          sms = (if cf_Fast2SMSAPIKey cfg \<noteq> [] then [(''sms'', ''notifyx-sms'', TopicSMS)] else []) in
      if cf_FirebaseCredentialsJSON cfg \<noteq> [] then
        (case Fcm_NewClient L (decode (cf_FirebaseCredentialsJSON cfg)) of
           Inl e \<Rightarrow> Inl e
         | Inr _ \<Rightarrow> Inr (always @ email @ sms @ [(''push'', ''notifyx-push'', TopicPush)]))
      else Inr (always @ email @ sms))"

fun run_ctors :: "drivers \<Rightarrow> consumer_config \<Rightarrow> (string \<times> string \<times> string) list \<Rightarrow> (host, main_exit + kafka_reader list) prog" where
  "run_ctors D cc [] = ret (Inr [])"
| "run_ctors D cc ((name, groupID, topic) # ctors) =
     or_exit (Fatal (''create consumer failed: '' @ name)) (Consumer_New D cc groupID topic) (\<lambda>rd.
     bnd (trace (Spawned (ConsumerJob topic))) (\<lambda>_.
     bnd (run_ctors D cc ctors) (\<lambda>r. ret (case r of Inl e \<Rightarrow> Inl e | Inr rds \<Rightarrow> Inr (rd # rds)))))"

definition main_base :: "drivers \<Rightarrow> config \<Rightarrow> (host, main_exit + logger \<times> pool) prog" where
  "main_base D cfg =
     or_exit LoggerError (logger_New D (cf_Env cfg) (cf_LogLevel cfg)) (\<lambda>lg.
     or_exit (Fatal ''open trace file failed'')
       (checked [] (bnd (trace (Opened TraceFile)) (\<lambda>_. ret (Inr ())))) (\<lambda>_.
     or_exit (Fatal ''tracing init failed'') (tracing_Init (cf_Env cfg)) (\<lambda>_.
     or_exit (Fatal ''database connection failed'')
       (NewPool D (cf_DatabaseURL cfg) (int32 (cf_DBMaxConns cfg)) (int32 (cf_DBMinConns cfg))) (\<lambda>pl.
     ret (Inr (lg, pl))))))"

definition main_redis :: "drivers \<Rightarrow> config \<Rightarrow> (host, main_exit + string option) prog" where
  "main_redis D cfg =
     (if cf_RedisURL cfg \<noteq> []
      then or_exit (Fatal ''create redis client failed'') (Redis_NewClient D (cf_RedisURL cfg)) (\<lambda>addr. ret (Inr (Some addr)))
      else ret (Inr None))"

definition main_kafka :: "drivers \<Rightarrow> libs \<Rightarrow> (string \<Rightarrow> json option) \<Rightarrow> config
    \<Rightarrow> (host, main_exit + (kafka_writer \<times> kafka_reader list) option) prog" where
  "main_kafka D L decode cfg =
     (if cf_KafkaBootstrapServers cfg \<noteq> [] then
        or_exit (Fatal ''create kafka producer failed'')
          (Producer_New D (cf_KafkaBootstrapServers cfg) (cf_KafkaAPIKey cfg) (cf_KafkaAPISecret cfg)) (\<lambda>kw.
        let cc = \<lparr>cc_BootstrapServers = cf_KafkaBootstrapServers cfg, cc_APIKey = cf_KafkaAPIKey cfg,
                  cc_APISecret = cf_KafkaAPISecret cfg\<rparr> in
        or_exit (Fatal ''create fcm client failed'') (ret (consumer_ctors L decode cfg)) (\<lambda>ctors.
        bnd (run_ctors D cc ctors) (\<lambda>r. ret (case r of Inl e \<Rightarrow> Inl e | Inr rds \<Rightarrow> Inr (Some (kw, rds))))))
      else ret (Inr None))"

text \<open>The replayer, the scheduler and the cleanup.\<close>

definition main_jobs :: "string option \<Rightarrow> job list" where
  "main_jobs redisClient = (if redisClient \<noteq> None then [ReplayerJob] else []) @ [SchedulerJob, CleanupJob]"

record running =
  rn_logger :: logger
  rn_pool :: pool
  rn_redis :: "string option"
  rn_kafka :: "(kafka_writer \<times> kafka_reader list) option"

definition consumer_topics :: "running \<Rightarrow> string list" where
  "consumer_topics rn = (case rn_kafka rn of None \<Rightarrow> [] | Some (_, rds) \<Rightarrow> map rd_Topic rds)"

definition main_start :: "drivers \<Rightarrow> libs \<Rightarrow> (string \<Rightarrow> json option) \<Rightarrow> config \<Rightarrow> (host, main_exit + running) prog" where
  "main_start D L decode cfg =
     bnd (main_base D cfg) (\<lambda>r. case r of Inl e \<Rightarrow> ret (Inl e) | Inr (lg, pl) \<Rightarrow>
     bnd (main_redis D cfg) (\<lambda>r. case r of Inl e \<Rightarrow> ret (Inl e) | Inr redisClient \<Rightarrow>
     bnd (main_kafka D L decode cfg) (\<lambda>r. case r of Inl e \<Rightarrow> ret (Inl e) | Inr kafka \<Rightarrow>
     bnd (for_each (main_jobs redisClient) (\<lambda>j. trace (Spawned j))) (\<lambda>_.
     bnd (trace (Opened HttpServer)) (\<lambda>_.
     ret (Inr \<lparr>rn_logger = lg, rn_pool = pl, rn_redis = redisClient, rn_kafka = kafka\<rparr>))))))"

section \<open>Stopping\<close>

text \<open>
  Every background goroutine returns once its context is cancelled; a consumer closes its reader
  then.  The wait ends when all have.  Errors of the shutdown calls are logged only.  The last lines are the
  deferred calls, in reverse order of their \<open>defer\<close>.
\<close>

definition main_shutdown :: "running \<Rightarrow> (host, unit) prog" where
  "main_shutdown rn =
     bnd (trace Cancelled) (\<lambda>_.
     bnd (for_each (consumer_topics rn) (\<lambda>t. trace (Released (KafkaReader t)))) (\<lambda>_.
     bnd (trace (Drained (map ConsumerJob (consumer_topics rn) @ main_jobs (rn_redis rn)))) (\<lambda>_.
     bnd (if rn_kafka rn \<noteq> None then Producer_Close else ret ()) (\<lambda>_.
     bnd attempt (\<lambda>_.
     bnd (trace (Released HttpServer)) (\<lambda>_.
     bnd attempt (\<lambda>_.
     bnd (trace (Released Tracing)) (\<lambda>_.
     bnd (if rn_redis rn \<noteq> None then trace (Released RedisClient) else ret ()) (\<lambda>_.
     bnd (trace (Released Pool)) (\<lambda>_.
     trace (Released TraceFile)))))))))))"

text \<open>Between start and shutdown \<open>main\<close> waits for a signal; the server failing first is fatal.\<close>

definition main :: "drivers \<Rightarrow> libs \<Rightarrow> (string \<Rightarrow> json option) \<Rightarrow> (string \<Rightarrow> string) \<Rightarrow> (host, main_exit + running) prog" where
  "main D L decode env =
     (case Config_Load env of
        Inl e \<Rightarrow> ret (Inl (ConfigError e))
      | Inr cfg \<Rightarrow>
          bnd (main_start D L decode cfg) (\<lambda>r. case r of Inl e \<Rightarrow> ret (Inl e) | Inr rn \<Rightarrow>
          bnd attempt (\<lambda>f. case f of
            Some e \<Rightarrow> ret (Inl (Fatal ''server error'' e))
          | None \<Rightarrow> bnd (main_shutdown rn) (\<lambda>_. ret (Inr rn)))))"

section \<open>What a run leaves in the trace\<close>

lemmas host_defs = go_defs attempt_def trace_def checked_def or_exit_def

lemma trace_run: "trace e h = (Val (), h\<lparr>hs_trace := hs_trace h @ [e]\<rparr>)"
  by (simp add: host_defs)

lemma for_each_trace: "for_each xs (\<lambda>x. trace (f x)) h = (Val (), h\<lparr>hs_trace := hs_trace h @ map f xs\<rparr>)"
  by (induction xs arbitrary: h) (simp_all add: host_defs)

lemma main_base_success:
  assumes "main_base D cfg h = (Val (Inr (lg, pl)), h')"
  shows "hs_trace h' = hs_trace h @ [Opened TraceFile, Opened Tracing, Opened Pool]"
    and "pl_MaxConns pl = int32 (cf_DBMaxConns cfg)" and "pl_MinConns pl = int32 (cf_DBMinConns cfg)"
  using assms
  by (auto simp: main_base_def logger_New_def tracing_Init_def NewPool_def host_defs Let_def
      split: if_splits sum.splits option.splits)

lemma main_redis_success:
  assumes "main_redis D cfg h = (Val (Inr r), h')"
  shows "r \<noteq> None \<longleftrightarrow> cf_RedisURL cfg \<noteq> []"
    and "hs_trace h' = hs_trace h @ (if r \<noteq> None then [Opened RedisClient] else [])"
  using assms
  by (auto simp: main_redis_def Redis_NewClient_def host_defs split: if_splits sum.splits option.splits)

lemma run_ctors_success:
  "run_ctors D cc ctors h = (Val (Inr rds), h') \<Longrightarrow>
     map rd_Topic rds = map (snd \<circ> snd) ctors
     \<and> hs_trace h' = hs_trace h @ concat (map (\<lambda>rd. [Opened (KafkaReader (rd_Topic rd)), Spawned (ConsumerJob (rd_Topic rd))]) rds)"
proof (induction D cc ctors arbitrary: h rds h' rule: run_ctors.induct)
  case (2 D cc name groupID topic ctors)
  from 2(2) obtain rd rds' h1 where
    new: "Consumer_New D cc groupID topic h = (Val (Inr rd), h1)" and rds: "rds = rd # rds'"
    and rest: "run_ctors D cc ctors (h1\<lparr>hs_trace := hs_trace h1 @ [Spawned (ConsumerJob topic)]\<rparr>) = (Val (Inr rds'), h')"
    by (auto simp: or_exit_def ret_def trace_def writes_def elim!: bnd_ValE split: sum.splits)
  from new have "rd_Topic rd = topic" and "hs_trace h1 = hs_trace h @ [Opened (KafkaReader topic)]"
    by (auto simp: Consumer_New_def host_defs split: if_splits option.splits)
  with 2(1) [OF rest] rds show ?case by simp
qed (simp add: ret_def)

text \<open>The constructors are those of the consumers.\<close>

lemma consumer_ctors_topics:
  "consumer_ctors L decode cfg = Inr ctors \<Longrightarrow>
     \<exists>cs. startConsumers L R decode cfg = Inr cs \<and> map cs_topic cs = map (snd \<circ> snd) ctors"
  by (auto simp: consumer_ctors_def startConsumers_def Let_def NewInAppConsumer_def NewDLQConsumer_def
      NewEmailConsumer_def NewSMSConsumer_def NewPushConsumer_def split: if_splits sum.splits)

lemma main_kafka_success:
  assumes "main_kafka D L decode cfg h = (Val (Inr k), h')"
  defines "topics \<equiv> (case k of None \<Rightarrow> [] | Some (_, rds) \<Rightarrow> map rd_Topic rds)"
  shows "k \<noteq> None \<longleftrightarrow> cf_KafkaBootstrapServers cfg \<noteq> []"
    and "topics = map cs_topic (main_consumers L R decode cfg)"
    and "hs_trace h' = hs_trace h @ (if k \<noteq> None then [Opened KafkaWriter] else [])
           @ concat (map (\<lambda>t. [Opened (KafkaReader t), Spawned (ConsumerJob t)]) topics)"
proof -
  consider (off) "cf_KafkaBootstrapServers cfg = []" "k = None" "h' = h"
    | (on) kw rds ctors cc where "cf_KafkaBootstrapServers cfg \<noteq> []" "k = Some (kw, rds)"
        "consumer_ctors L decode cfg = Inr ctors"
        "run_ctors D cc ctors (h\<lparr>hs_trace := hs_trace h @ [Opened KafkaWriter]\<rparr>) = (Val (Inr rds), h')"
    using assms(1)
    by (auto simp: main_kafka_def Producer_New_def or_exit_def Let_def ret_def trace_def writes_def
        elim!: bnd_ValE split: if_splits option.splits sum.splits)
  note cases = this
  show "k \<noteq> None \<longleftrightarrow> cf_KafkaBootstrapServers cfg \<noteq> []" using cases by cases simp_all
  from cases show "topics = map cs_topic (main_consumers L R decode cfg)"
  proof cases
    case on
    then show ?thesis
      using run_ctors_success [OF on(4)] consumer_ctors_topics [OF on(3), of R]
      by (auto simp: topics_def main_consumers_def)
  qed (simp add: topics_def main_consumers_def)
  from cases show "hs_trace h' = hs_trace h @ (if k \<noteq> None then [Opened KafkaWriter] else [])
           @ concat (map (\<lambda>t. [Opened (KafkaReader t), Spawned (ConsumerJob t)]) topics)"
  proof cases
    case on
    then show ?thesis using conjunct2 [OF run_ctors_success [OF on(4)]] by (simp add: topics_def comp_def)
  qed (simp add: topics_def)
qed

definition start_trace :: "bool \<Rightarrow> bool \<Rightarrow> string list \<Rightarrow> lifecycle list" where
  "start_trace redis kafka topics =
     [Opened TraceFile, Opened Tracing, Opened Pool] @ (if redis then [Opened RedisClient] else [])
     @ (if kafka then [Opened KafkaWriter] else [])
     @ concat (map (\<lambda>t. [Opened (KafkaReader t), Spawned (ConsumerJob t)]) topics)
     @ (if redis then [Spawned ReplayerJob] else []) @ [Spawned SchedulerJob, Spawned CleanupJob, Opened HttpServer]"

definition stop_trace :: "bool \<Rightarrow> bool \<Rightarrow> string list \<Rightarrow> lifecycle list" where
  "stop_trace redis kafka topics =
     [Cancelled] @ map (\<lambda>t. Released (KafkaReader t)) topics
     @ [Drained (map ConsumerJob topics @ (if redis then [ReplayerJob] else []) @ [SchedulerJob, CleanupJob])]
     @ (if kafka then [Released KafkaWriter] else []) @ [Released HttpServer, Released Tracing]
     @ (if redis then [Released RedisClient] else []) @ [Released Pool, Released TraceFile]"

lemma main_start_success:
  assumes "main_start D L decode cfg h = (Val (Inr rn), h')"
  shows "rn_redis rn \<noteq> None \<longleftrightarrow> cf_RedisURL cfg \<noteq> []"
    and "rn_kafka rn \<noteq> None \<longleftrightarrow> cf_KafkaBootstrapServers cfg \<noteq> []"
    and "consumer_topics rn = map cs_topic (main_consumers L R decode cfg)"
    and "pl_MaxConns (rn_pool rn) = int32 (cf_DBMaxConns cfg)"
    and "hs_trace h' = hs_trace h @ start_trace (rn_redis rn \<noteq> None) (rn_kafka rn \<noteq> None) (consumer_topics rn)"
proof -
  from assms obtain lg pl h1 r h2 k h3 where
    base: "main_base D cfg h = (Val (Inr (lg, pl)), h1)" and redis: "main_redis D cfg h1 = (Val (Inr r), h2)"
    and kafka: "main_kafka D L decode cfg h2 = (Val (Inr k), h3)"
    and rn: "rn = \<lparr>rn_logger = lg, rn_pool = pl, rn_redis = r, rn_kafka = k\<rparr>"
    and h': "h' = h3\<lparr>hs_trace := hs_trace h3 @ map Spawned (main_jobs r) @ [Opened HttpServer]\<rparr>"
    by (auto simp: main_start_def for_each_trace ret_def trace_run elim!: bnd_ValE split: sum.splits)
  note facts = main_base_success [OF base] main_redis_success [OF redis] main_kafka_success(1,3) [OF kafka]
    main_kafka_success(2) [OF kafka, of R]
  show "rn_redis rn \<noteq> None \<longleftrightarrow> cf_RedisURL cfg \<noteq> []" "rn_kafka rn \<noteq> None \<longleftrightarrow> cf_KafkaBootstrapServers cfg \<noteq> []"
    "consumer_topics rn = map cs_topic (main_consumers L R decode cfg)"
    "pl_MaxConns (rn_pool rn) = int32 (cf_DBMaxConns cfg)"
    using facts by (simp_all add: rn consumer_topics_def)
  show "hs_trace h' = hs_trace h @ start_trace (rn_redis rn \<noteq> None) (rn_kafka rn \<noteq> None) (consumer_topics rn)"
    using facts(1,5,7) by (simp add: rn h' start_trace_def main_jobs_def consumer_topics_def)
qed

lemma main_shutdown_run:
  "fst (main_shutdown rn h) = Val ()"
  "hs_trace (snd (main_shutdown rn h))
     = hs_trace h @ stop_trace (rn_redis rn \<noteq> None) (rn_kafka rn \<noteq> None) (consumer_topics rn)"
  by (simp_all add: main_shutdown_def for_each_trace stop_trace_def main_jobs_def Producer_Close_def go_defs attempt_def trace_run)

lemma main_success:
  assumes "main D L decode env h = (Val (Inr rn), h')"
  obtains cfg where "Config_Load env = Inr cfg"
    and "rn_redis rn \<noteq> None \<longleftrightarrow> cf_RedisURL cfg \<noteq> []" and "rn_kafka rn \<noteq> None \<longleftrightarrow> cf_KafkaBootstrapServers cfg \<noteq> []"
    and "consumer_topics rn = map cs_topic (main_consumers L R decode cfg)"
    and "hs_trace h' = hs_trace h @ start_trace (rn_redis rn \<noteq> None) (rn_kafka rn \<noteq> None) (consumer_topics rn)
      @ stop_trace (rn_redis rn \<noteq> None) (rn_kafka rn \<noteq> None) (consumer_topics rn)"
proof -
  from assms obtain cfg h1 where cfg: "Config_Load env = Inr cfg"
    and start: "main_start D L decode cfg h = (Val (Inr rn), h1)"
    and h': "h' = snd (main_shutdown rn (h1\<lparr>hs_tick := Suc (hs_tick h1)\<rparr>))"
    by (auto simp: main_def ret_def attempt_def elim!: bnd_ValE split: sum.splits option.splits)
  from main_start_success(1,2,5) [OF start] main_start_success(3) [OF start, of R] that cfg show thesis
    by (simp add: h' main_shutdown_run)
qed

section \<open>The discipline of a run\<close>

text \<open>
  What an orderly run must respect, as an automaton over the open resources and the running goroutines:
  nothing is opened twice or released when it is not open; goroutines start once the pool is there and
  the wait collects exactly those that were started; the pool, the Redis client and the writer go only when no
  goroutine runs any more, the pool and the Redis client only when the HTTP server is down; nothing stays open.
\<close>

fun orderly :: "resource list \<Rightarrow> job list \<Rightarrow> lifecycle list \<Rightarrow> bool" where
  "orderly held jobs [] \<longleftrightarrow> held = [] \<and> jobs = []"
| "orderly held jobs (Opened r # es) \<longleftrightarrow> r \<notin> set held \<and> orderly (r # held) jobs es"
| "orderly held jobs (Spawned j # es) \<longleftrightarrow> Pool \<in> set held \<and> j \<notin> set jobs \<and> orderly held (j # jobs) es"
| "orderly held jobs (Cancelled # es) \<longleftrightarrow> orderly held jobs es"
| "orderly held jobs (Drained js # es) \<longleftrightarrow> mset js = mset jobs \<and> orderly held [] es"
| "orderly held jobs (Released r # es) \<longleftrightarrow>
     r \<in> set held \<and> (r \<in> {Pool, RedisClient, KafkaWriter} \<longrightarrow> jobs = [])
     \<and> (r \<in> {Pool, RedisClient} \<longrightarrow> HttpServer \<notin> set held) \<and> orderly (remove1 r held) jobs es"

lemma orderly_readers:
  "distinct topics \<Longrightarrow> KafkaReader ` set topics \<inter> set held = {} \<Longrightarrow> ConsumerJob ` set topics \<inter> set jobs = {} \<Longrightarrow> Pool \<in> set held \<Longrightarrow>
   orderly held jobs (concat (map (\<lambda>t. [Opened (KafkaReader t), Spawned (ConsumerJob t)]) topics) @ es)
     \<longleftrightarrow> orderly (rev (map KafkaReader topics) @ held) (rev (map ConsumerJob topics) @ jobs) es"
proof (induction topics arbitrary: held jobs)
  case (Cons t topics)
  then have "KafkaReader ` set topics \<inter> set (KafkaReader t # held) = {}"
    and "ConsumerJob ` set topics \<inter> set (ConsumerJob t # jobs) = {}" by auto
  with Cons.IH [of "KafkaReader t # held" "ConsumerJob t # jobs"] Cons.prems show ?case by auto
qed simp

lemma remove1_readers:
  "distinct topics \<Longrightarrow> (\<And>t. KafkaReader t \<notin> set xs) \<Longrightarrow>
   orderly (xs @ rev (map KafkaReader topics) @ ys) jobs (map (\<lambda>t. Released (KafkaReader t)) topics @ es)
     \<longleftrightarrow> orderly (xs @ ys) jobs es"
proof (induction topics arbitrary: ys)
  case (Cons t topics)
  then have "remove1 (KafkaReader t) (xs @ rev (map KafkaReader topics) @ KafkaReader t # ys)
      = xs @ rev (map KafkaReader topics) @ ys"
    by (auto simp: remove1_append)
  with Cons show ?case by (simp add: Cons.IH)
qed simp

lemma topics_distinct: "distinct (map cs_topic (main_consumers L R decode cfg))"
  by (auto simp: main_consumers_def startConsumers_def Let_def NewInAppConsumer_def NewDLQConsumer_def
      NewEmailConsumer_def NewSMSConsumer_def NewPushConsumer_def TopicInApp_def TopicDLQ_def TopicEmail_def
      TopicSMS_def TopicPush_def split: sum.splits)

lemma orderly_run:
  assumes "distinct topics" and "topics \<noteq> [] \<longrightarrow> kafka"
  shows "orderly [] [] (start_trace redis kafka topics @ stop_trace redis kafka topics)"
  using assms
  by (cases redis; cases kafka)
     (simp_all add: start_trace_def stop_trace_def orderly_readers
       remove1_readers [of _ "[HttpServer]", simplified] image_iff)


fun spawned :: "lifecycle list \<Rightarrow> job list" where
  "spawned [] = []"
| "spawned (Spawned j # es) = j # spawned es"
| "spawned (e # es) = spawned es"

lemma spawned_append [simp]: "spawned (es @ es') = spawned es @ spawned es'"
  by (induction es rule: spawned.induct) simp_all

lemma spawned_consumers [simp]:
  "spawned (concat (map (\<lambda>t. [Opened (KafkaReader t), Spawned (ConsumerJob t)]) topics)) = map ConsumerJob topics"
  "spawned (map (\<lambda>t. Released (KafkaReader t)) topics) = []"
  by (induction topics) simp_all

lemma spawned_run:
  "spawned (start_trace redis kafka topics @ stop_trace redis kafka topics)
     = map ConsumerJob topics @ (if redis then [ReplayerJob] else []) @ [SchedulerJob, CleanupJob]"
  by (simp add: start_trace_def stop_trace_def)

lemma run_ctors_calm:
  assumes "dr_scram D (cc_APIKey cc) (cc_APISecret cc) = None" and "cc_BootstrapServers cc \<noteq> []"
  shows "\<exists>rds h'. run_ctors D cc ctors h = (Val (Inr rds), h') \<and> hs_fail h' = hs_fail h"
  using assms
proof (induction ctors arbitrary: h)
  case (Cons c ctors)
  obtain name groupID topic where "c = (name, groupID, topic)" by (cases c)
  moreover from Cons obtain rds h' where
    "run_ctors D cc ctors (h\<lparr>hs_trace := hs_trace h @ [Opened (KafkaReader topic), Spawned (ConsumerJob topic)]\<rparr>)
       = (Val (Inr rds), h')" "hs_fail h' = hs_fail h" by fastforce
  ultimately show ?case using Cons.prems by (simp add: Consumer_New_def host_defs)
qed (simp add: ret_def)

definition settings_ok :: "drivers \<Rightarrow> libs \<Rightarrow> (string \<Rightarrow> json option) \<Rightarrow> config \<Rightarrow> bool" where
  "settings_ok D L decode cfg \<longleftrightarrow>
     (cf_LogLevel cfg \<noteq> [] \<longrightarrow> \<not> isl (dr_level D (cf_LogLevel cfg))) \<and> \<not> isl (dr_pg D (cf_DatabaseURL cfg))
     \<and> (cf_RedisURL cfg \<noteq> [] \<longrightarrow> \<not> isl (dr_redis D (cf_RedisURL cfg)))
     \<and> (cf_KafkaBootstrapServers cfg \<noteq> [] \<longrightarrow>
          dr_scram D (cf_KafkaAPIKey cfg) (cf_KafkaAPISecret cfg) = None
          \<and> (cf_FirebaseCredentialsJSON cfg \<noteq> [] \<longrightarrow> \<not> isl (Fcm_NewClient L (decode (cf_FirebaseCredentialsJSON cfg)))))"

lemma main_base_calm:
  assumes "\<And>n. hs_fail h n = None" and "settings_ok D L decode cfg" and "cf_DatabaseURL cfg \<noteq> []"
  shows "\<exists>lg pl h'. main_base D cfg h = (Val (Inr (lg, pl)), h') \<and> hs_fail h' = hs_fail h"
  using assms
  by (auto simp: main_base_def logger_New_def tracing_Init_def NewPool_def host_defs Let_def settings_ok_def isl_def
      split: sum.splits)

lemma main_redis_calm:
  assumes "\<And>n. hs_fail h n = None" and "settings_ok D L decode cfg"
  shows "\<exists>r h'. main_redis D cfg h = (Val (Inr r), h') \<and> hs_fail h' = hs_fail h"
  using assms by (auto simp: main_redis_def Redis_NewClient_def host_defs settings_ok_def isl_def split: sum.splits)

lemma main_kafka_calm:
  assumes "settings_ok D L decode cfg"
  shows "\<exists>k h'. main_kafka D L decode cfg h = (Val (Inr k), h') \<and> hs_fail h' = hs_fail h"
proof (cases "cf_KafkaBootstrapServers cfg = []")
  case False
  with assms have scram: "dr_scram D (cf_KafkaAPIKey cfg) (cf_KafkaAPISecret cfg) = None" by (simp add: settings_ok_def)
  have "\<exists>ctors. consumer_ctors L decode cfg = Inr ctors"
    using False assms
    by (cases "Fcm_NewClient L (decode (cf_FirebaseCredentialsJSON cfg))")
       (simp_all add: settings_ok_def consumer_ctors_def Let_def)
  then obtain ctors where ctors: "consumer_ctors L decode cfg = Inr ctors" by blast
  let ?cc = "\<lparr>cc_BootstrapServers = cf_KafkaBootstrapServers cfg, cc_APIKey = cf_KafkaAPIKey cfg,
    cc_APISecret = cf_KafkaAPISecret cfg\<rparr>"
  from run_ctors_calm [of D ?cc ctors "h\<lparr>hs_trace := hs_trace h @ [Opened KafkaWriter]\<rparr>"] False scram obtain rds h'
    where "run_ctors D ?cc ctors (h\<lparr>hs_trace := hs_trace h @ [Opened KafkaWriter]\<rparr>) = (Val (Inr rds), h')"
      "hs_fail h' = hs_fail h" by auto
  with False scram ctors show ?thesis by (auto simp: main_kafka_def Producer_New_def host_defs)
qed (simp add: main_kafka_def ret_def)

lemma main_start_calm:
  assumes "\<And>n. hs_fail h n = None" and "settings_ok D L decode cfg" and "cf_DatabaseURL cfg \<noteq> []"
  shows "\<exists>rn h'. main_start D L decode cfg h = (Val (Inr rn), h') \<and> hs_fail h' = hs_fail h"
proof -
  obtain lg pl h1 where 1: "main_base D cfg h = (Val (Inr (lg, pl)), h1)" "hs_fail h1 = hs_fail h"
    using main_base_calm [OF assms] by blast
  obtain r h2 where 2: "main_redis D cfg h1 = (Val (Inr r), h2)" "hs_fail h2 = hs_fail h"
    using main_redis_calm [OF _ assms(2), of h1] assms(1) 1(2) by auto
  obtain k h3 where 3: "main_kafka D L decode cfg h2 = (Val (Inr k), h3)" "hs_fail h3 = hs_fail h"
    using main_kafka_calm [OF assms(2), of h2] 2(2) by auto
  show ?thesis using 1 2 3 by (simp add: main_start_def bnd_def ret_def for_each_trace trace_run)
qed

lemma main_calm:
  assumes "Config_Load env = Inr cfg" and "settings_ok D L decode cfg" and "\<And>n. hs_fail h n = None"
  shows "\<exists>rn h'. main D L decode env h = (Val (Inr rn), h')"
proof -
  have "cf_DatabaseURL cfg \<noteq> []"
    using assms(1) by (auto simp: Config_Load_def Let_def Config_Validate_def split: option.splits if_splits)
  from main_start_calm [OF assms(3,2) this] obtain rn h1 where
    start: "main_start D L decode cfg h = (Val (Inr rn), h1)" "hs_fail h1 = hs_fail h" by blast
  obtain h' where "main_shutdown rn (h1\<lparr>hs_tick := Suc (hs_tick h1)\<rparr>) = (Val (), h')"
    using main_shutdown_run(1) by (metis prod.collapse)
  with assms(1,3) start show ?thesis by (simp add: main_def bnd_def ret_def attempt_def)
qed

text \<open>With valid settings the server starts and runs until it is told to stop, while no driver call fails;
  and the goroutines it starts are those the rest of the development runs: one per consumer of the
  configuration, the replayer exactly when there is a limiter, the scheduler and the cleanup.\<close>

theorem main_starts_configured_jobs:
  fixes R :: "'r redis"
  assumes "Config_Load env = Inr cfg" and "settings_ok D L decode cfg" and "\<And>n. hs_fail h n = None"
    and "hs_trace h = []"
  shows "\<exists>rn h'. main D L decode env h = (Val (Inr rn), h')
    \<and> spawned (hs_trace h') = map (ConsumerJob \<circ> cs_topic) (main_consumers L R decode cfg)
        @ (if main_limiter cfg \<noteq> None then [ReplayerJob] else []) @ [SchedulerJob, CleanupJob]"
proof -
  from main_calm [OF assms(1-3)] obtain rn h' where main: "main D L decode env h = (Val (Inr rn), h')" by blast
  from main_success [OF main, of R] assms(1) have
    "rn_redis rn \<noteq> None \<longleftrightarrow> cf_RedisURL cfg \<noteq> []" "consumer_topics rn = map cs_topic (main_consumers L R decode cfg)"
    and trace: "hs_trace h' = start_trace (rn_redis rn \<noteq> None) (rn_kafka rn \<noteq> None) (consumer_topics rn)
      @ stop_trace (rn_redis rn \<noteq> None) (rn_kafka rn \<noteq> None) (consumer_topics rn)"
    by (metis sum.inject(2), metis sum.inject(2), metis append_Nil assms(4))
  from this(1,2) have "spawned (hs_trace h') = map (ConsumerJob \<circ> cs_topic) (main_consumers L R decode cfg)
        @ (if main_limiter cfg \<noteq> None then [ReplayerJob] else []) @ [SchedulerJob, CleanupJob]"
    unfolding trace spawned_run by (simp add: main_limiter_def)
  with main show ?thesis by blast
qed

text \<open>In every orderly run with Kafka the writer is closed while the HTTP server still answers: there is
  a moment after which the writer is closed, the server is open, and the server's shutdown is yet to come.
  Requests in flight, which the shutdown gives ten seconds, can no longer publish.\<close>

theorem writer_closed_before_server:
  assumes "main D L decode env h = (Val (Inr rn), h')" and "hs_trace h = []" and "rn_kafka rn \<noteq> None"
  shows "\<exists>before after. hs_trace h' = before @ [Released KafkaWriter] @ [Released HttpServer] @ after
    \<and> Opened HttpServer \<in> set before \<and> Released HttpServer \<notin> set before"
proof -
  let ?r = "rn_redis rn \<noteq> None" and ?ts = "consumer_topics rn"
  have "hs_trace h' = start_trace ?r True ?ts @ stop_trace ?r True ?ts"
    by (rule main_success [OF assms(1)]) (use assms(2,3) in simp)
  moreover define before where "before = start_trace ?r True ?ts @ [Cancelled] @ map (\<lambda>t. Released (KafkaReader t)) ?ts
    @ [Drained (map ConsumerJob ?ts @ (if ?r then [ReplayerJob] else []) @ [SchedulerJob, CleanupJob])]"
  ultimately have "hs_trace h' = before @ [Released KafkaWriter] @ [Released HttpServer] @ [Released Tracing]
      @ (if ?r then [Released RedisClient] else []) @ [Released Pool, Released TraceFile]"
    by (simp add: stop_trace_def)
  moreover have "Opened HttpServer \<in> set before" "Released HttpServer \<notin> set before"
    by (auto simp: before_def start_trace_def)
  ultimately show ?thesis by blast
qed

text \<open>\<open>DB_MAX_CONNS\<close> is checked as a 64-bit integer and then cut to 32 bits: the value is accepted, and the pool
  gets its remainder, which is the setting itself exactly when that fits.\<close>

theorem pool_size_truncated:
  assumes "main_start D L decode cfg h = (Val (Inr rn), h')"
  shows "pl_MaxConns (rn_pool rn) = (cf_DBMaxConns cfg + 2 ^ 31) mod 2 ^ 32 - 2 ^ 31
    \<and> (pl_MaxConns (rn_pool rn) = cf_DBMaxConns cfg \<longleftrightarrow> int4 (cf_DBMaxConns cfg))"
proof -
  have "int32 x = x \<longleftrightarrow> int4 x" for x using int32_range [of x] int32_id [of x] by auto
  with main_start_success(4) [OF assms] show ?thesis by (simp add: int32_def)
qed

section \<open>Witnesses\<close>

definition demo_settings :: "string \<Rightarrow> string" where
  "demo_settings k =
     (if k = ''DATABASE_URL'' then ''postgres://db'' else if k = ''DB_MAX_CONNS'' then ''4294967297''
      else if k = ''KAFKA_BOOTSTRAP_SERVERS'' then ''kafka:9092'' else if k = ''FAST2SMS_API_KEY'' then ''k'' else [])"

definition demo_drivers :: drivers where
  "demo_drivers = \<lparr>dr_level = (\<lambda>_. Inr 0), dr_pg = (\<lambda>_. Inr ''db''), dr_redis = (\<lambda>_. Inr ''redis''),
     dr_scram = (\<lambda>_ _. None)\<rparr>"

definition demo_host :: host where
  "demo_host = \<lparr>hs_fail = (\<lambda>_. None), hs_tick = 0, hs_trace = []\<rparr>"

lemma demo_settings_load:
  "\<exists>cfg. Config_Load demo_settings = Inr cfg \<and> settings_ok demo_drivers bit_libs (\<lambda>_. None) cfg
     \<and> cf_DBMaxConns cfg = 4294967297 \<and> cf_DatabaseURL cfg \<noteq> [] \<and> cf_KafkaBootstrapServers cfg \<noteq> []
     \<and> map cs_topic (main_consumers bit_libs mem_redis (\<lambda>_. None) cfg) = [TopicInApp, TopicDLQ, TopicSMS]
     \<and> main_limiter cfg = None"
  by (simp add: Config_Load_def Config_Validate_def getEnv_def getEnvInt_def demo_settings_def atoi_def parse_digits_def
      is_digit_def digits_value_def in_int64_def int64_def hour_def Let_def settings_ok_def demo_drivers_def
      main_consumers_def startConsumers_def NewInAppConsumer_def NewDLQConsumer_def NewSMSConsumer_def main_limiter_def)

theorem main_starts_configured_jobs_witness:
  "\<exists>rn h'. main demo_drivers bit_libs (\<lambda>_. None) demo_settings demo_host = (Val (Inr rn), h')
     \<and> spawned (hs_trace h') = [ConsumerJob TopicInApp, ConsumerJob TopicDLQ, ConsumerJob TopicSMS, SchedulerJob, CleanupJob]"
proof -
  obtain cfg where cfg: "Config_Load demo_settings = Inr cfg" "settings_ok demo_drivers bit_libs (\<lambda>_. None) cfg"
    "map cs_topic (main_consumers bit_libs mem_redis (\<lambda>_. None) cfg) = [TopicInApp, TopicDLQ, TopicSMS]"
    "main_limiter cfg = None" using demo_settings_load by (elim exE conjE) (rule that)
  have "map (ConsumerJob \<circ> cs_topic) (main_consumers bit_libs mem_redis (\<lambda>_. None) cfg)
      = [ConsumerJob TopicInApp, ConsumerJob TopicDLQ, ConsumerJob TopicSMS]"
    unfolding map_map [symmetric] cfg(3) by simp
  with main_starts_configured_jobs [OF cfg(1,2), of demo_host mem_redis] cfg(4) show ?thesis
    by (simp add: demo_host_def)
qed

lemma demo_main:
  obtains rn h' where "main demo_drivers bit_libs (\<lambda>_. None) demo_settings demo_host = (Val (Inr rn), h')"
    and "rn_kafka rn \<noteq> None"
proof -
  obtain cfg where cfg: "Config_Load demo_settings = Inr cfg" "settings_ok demo_drivers bit_libs (\<lambda>_. None) cfg"
    "cf_KafkaBootstrapServers cfg \<noteq> []" using demo_settings_load by (elim exE conjE) (rule that)
  from main_calm [OF cfg(1,2), of demo_host] obtain rn h' where
    main: "main demo_drivers bit_libs (\<lambda>_. None) demo_settings demo_host = (Val (Inr rn), h')"
    by (auto simp: demo_host_def)
  moreover from main_success [OF main] cfg(1,3) have "rn_kafka rn \<noteq> None" by (metis sum.inject(2))
  ultimately show thesis by (rule that)
qed


theorem writer_closed_before_server_witness:
  "\<exists>rn h' before after. main demo_drivers bit_libs (\<lambda>_. None) demo_settings demo_host = (Val (Inr rn), h')
     \<and> hs_trace h' = before @ [Released KafkaWriter] @ [Released HttpServer] @ after"
proof -
  obtain rn h' where main: "main demo_drivers bit_libs (\<lambda>_. None) demo_settings demo_host = (Val (Inr rn), h')"
    and "rn_kafka rn \<noteq> None" by (rule demo_main)
  with writer_closed_before_server [OF main] show ?thesis by (simp add: demo_host_def) blast
qed

theorem pool_size_truncated_witness:
  "\<exists>cfg rn h'. Config_Load demo_settings = Inr cfg \<and> cf_DBMaxConns cfg = 4294967297
     \<and> main_start demo_drivers bit_libs (\<lambda>_. None) cfg demo_host = (Val (Inr rn), h') \<and> pl_MaxConns (rn_pool rn) = 1"
proof -
  obtain cfg where cfg: "Config_Load demo_settings = Inr cfg" "settings_ok demo_drivers bit_libs (\<lambda>_. None) cfg"
    "cf_DBMaxConns cfg = 4294967297" "cf_DatabaseURL cfg \<noteq> []" using demo_settings_load by (elim exE conjE) (rule that)
  have "\<And>n. hs_fail demo_host n = None" by (simp add: demo_host_def)
  from main_start_calm [OF this cfg(2,4)] obtain rn h' where
    start: "main_start demo_drivers bit_libs (\<lambda>_. None) cfg demo_host = (Val (Inr rn), h')" by blast
  moreover have "pl_MaxConns (rn_pool rn) = 1" using pool_size_truncated [OF start] cfg(3) by simp
  ultimately show ?thesis using cfg(1,3) by blast
qed

end
