(* ===== verification/Migrations.thy ===== *)
theory Migrations
  imports Startup
begin

text \<open>
  \<open>repository/postgres/migrate.go\<close> and \<open>cmd/migrate/main.go\<close>.  The migration library is a parameter: \<open>mg_New\<close> opens the source
  directory and the database (an error or none), \<open>mg_Up\<close> applies what is pending to a schema of type \<open>'s\<close>.  Locale
  \<open>migration_library\<close> states what it documents: after \<open>Up\<close> nothing is pending, and \<open>ErrNoChange\<close> changes nothing.
  It is interpreted on the one migration the repository has, which turns a database without tables into \<open>empty_db\<close>.
\<close>

datatype up_result = UpDone | ErrNoChange | UpFailed string

record 's migrator =
  mg_New :: "string \<Rightarrow> string \<Rightarrow> string option"
  mg_Up :: "string \<Rightarrow> 's \<Rightarrow> up_result \<times> 's"

definition HasPrefix :: "string \<Rightarrow> string \<Rightarrow> bool" where
  "HasPrefix s p \<longleftrightarrow> take (length p) s = p"

definition migrate_url :: "string \<Rightarrow> string" where
  "migrate_url databaseURL =
     (if HasPrefix databaseURL ''postgresql://'' then ''pgx5://'' @ drop (length ''postgresql://'') databaseURL
      else if HasPrefix databaseURL ''postgres://'' then ''pgx5://'' @ drop (length ''postgres://'') databaseURL
      else databaseURL)"

definition RunMigrations :: "'s migrator \<Rightarrow> string \<Rightarrow> string \<Rightarrow> 's \<Rightarrow> (string + unit) \<times> 's" where
  "RunMigrations M databaseURL migrationsPath s =
     (if databaseURL = [] then (Inl ''DATABASE_URL is required for migrations'', s)
      else let connStr = migrate_url databaseURL in
        case mg_New M (''file://'' @ migrationsPath) connStr of
          Some e \<Rightarrow> (Inl (''init migrations: '' @ e), s)
        | None \<Rightarrow>
            (case mg_Up M connStr s of
               (UpFailed e, s') \<Rightarrow> (Inl (''run migrations: '' @ e), s')
             | (ErrNoChange, s') \<Rightarrow> (Inr (), s')
             | (UpDone, s') \<Rightarrow> (Inr (), s')))"

text \<open>\<open>cmd/migrate\<close>: the settings, the logger, then the migrations; it exits with an error if any of them fails.\<close>

definition migrate_main :: "drivers \<Rightarrow> 's migrator \<Rightarrow> (string \<Rightarrow> string) \<Rightarrow> (host \<times> 's, main_exit + unit) prog" where
  "migrate_main D M env = (\<lambda>(h, s).
     case Config_Load env of
       Inl e \<Rightarrow> (Val (Inl (ConfigError e)), (h, s))
     | Inr cfg \<Rightarrow>
         (case logger_New D (cf_Env cfg) (cf_LogLevel cfg) h of
            (Panic, h') \<Rightarrow> (Panic, (h', s))
          | (Val (Inl e), h') \<Rightarrow> (Val (Inl (LoggerError e)), (h', s))
          | (Val (Inr _), h') \<Rightarrow>
              (case RunMigrations M (cf_DatabaseURL cfg) ''migrations'' s of
                 (Inl e, s') \<Rightarrow> (Val (Inl (Fatal ''migration failed'' e)), (h', s'))
               | (Inr _, s') \<Rightarrow> (Val (Inr ()), (h', s')))))"

section \<open>The migration library\<close>

locale migration_library =
  fixes M :: "'s migrator"
  assumes up_settles: "mg_Up M conn s = (r, s') \<Longrightarrow> r = UpDone \<or> r = ErrNoChange \<Longrightarrow> mg_Up M conn s' = (ErrNoChange, s')"
begin

lemma RunMigrations_again:
  assumes "RunMigrations M url path s = (Inr (), s')"
  shows "RunMigrations M url path s' = (Inr (), s')"
proof -
  from assms have url: "url \<noteq> []" and new: "mg_New M (''file://'' @ path) (migrate_url url) = None"
    and "\<exists>r. mg_Up M (migrate_url url) s = (r, s') \<and> (r = UpDone \<or> r = ErrNoChange)"
    by (auto simp: RunMigrations_def Let_def split: if_splits option.splits prod.splits up_result.splits)
  then have "mg_Up M (migrate_url url) s' = (ErrNoChange, s')" using up_settles by blast
  with url new show ?thesis by (simp add: RunMigrations_def)
qed

end

text \<open>The repository's migration: \<open>None\<close> is a database without the tables.\<close>

definition initial_schema :: "db option migrator" where
  "initial_schema = \<lparr>mg_New = (\<lambda>_ _. None),
     mg_Up = (\<lambda>_ s. case s of None \<Rightarrow> (UpDone, Some empty_db) | Some d \<Rightarrow> (ErrNoChange, Some d))\<rparr>"

interpretation initial: migration_library initial_schema
  by unfold_locales (auto simp: initial_schema_def split: option.splits)

lemma migrate_url_scheme:
  "migrate_url (''postgres://'' @ rest) = ''pgx5://'' @ rest"
  "migrate_url (''postgresql://'' @ rest) = ''pgx5://'' @ rest"
  by (simp_all add: migrate_url_def HasPrefix_def)

text \<open>A migration run that has succeeded may be repeated, through either spelling of the URL's
  scheme: it succeeds again and changes nothing.\<close>

theorem migrations_repeatable:
  assumes "migration_library M" and "RunMigrations M (''postgres://'' @ rest) path s = (Inr (), s')"
  shows "RunMigrations M (''postgres://'' @ rest) path s' = (Inr (), s')
    \<and> RunMigrations M (''postgresql://'' @ rest) path s' = (Inr (), s')"
proof -
  have "RunMigrations M (''postgresql://'' @ rest) path = RunMigrations M (''postgres://'' @ rest) path"
    by (rule ext) (simp only: RunMigrations_def migrate_url_scheme, simp)
  with migration_library.RunMigrations_again [OF assms] show ?thesis by simp
qed

theorem migrations_repeatable_witness:
  "RunMigrations initial_schema ''postgres://db'' ''migrations'' None = (Inr (), Some empty_db)
   \<and> RunMigrations initial_schema ''postgresql://db'' ''migrations'' (Some empty_db) = (Inr (), Some empty_db)"
proof -
  have "RunMigrations initial_schema (''postgres://'' @ ''db'') ''migrations'' None = (Inr (), Some empty_db)"
    by (simp add: RunMigrations_def initial_schema_def)
  with migrations_repeatable [OF initial.migration_library_axioms this] show ?thesis by simp
qed

end
