(* ===== verification/Wire.thy ===== *)
theory Wire
  imports Totality "HOL-Library.AList"
begin

text \<open>
  The HTTP bodies: the JSON that \<open>c.JSON\<close> writes for every response and the requests that \<open>c.Bind\<close> reads,
  by the struct tags of \<open>backend/internal/domain\<close> and \<open>backend/internal/api/handlers\<close>.  A nil slice is written as
  \<open>null\<close>: the repositories collect rows in a slice that starts as nil, so an empty result is nil.  A pointer is
  left out by \<open>omitempty\<close> when it is nil.  Reading follows \<open>encoding/json\<close>: keys match tags without regard to
  ASCII case, the last occurrence counts, unknown keys are skipped, and a value of the wrong type is an error.
\<close>

section \<open>Responses\<close>

definition uuid_json :: "libs \<Rightarrow> uuid \<Rightarrow> json" where
  "uuid_json L u = JString (uuid_String L u)"

definition time_json :: "libs \<Rightarrow> time \<Rightarrow> json" where
  "time_json L t = JString (time_Text L t)"

definition int_json :: "int \<Rightarrow> json" where
  "int_json n = JNum (of_int n)"

definition rows_json :: "('a \<Rightarrow> json) \<Rightarrow> 'a list \<Rightarrow> json" where
  "rows_json f xs = (if xs = [] then JNull else JArray (map f xs))"

definition omit_nil :: "string \<Rightarrow> ('a \<Rightarrow> json) \<Rightarrow> 'a option \<Rightarrow> (string \<times> json) list" where
  "omit_nil k f p = (case p of None \<Rightarrow> [] | Some x \<Rightarrow> [(k, f x)])"

text \<open>A map is written with its keys in order.\<close>

definition map_json :: "(string \<times> json) list \<Rightarrow> json" where
  "map_json kvs = JObject (sort_key fst kvs)"

definition notification_json :: "libs \<Rightarrow> notification \<Rightarrow> json" where
  "notification_json L n = JObject (
     [(''id'', uuid_json L (n_ID n)), (''tenant_id'', uuid_json L (n_TenantID n)),
      (''channel'', JString (n_Channel n)), (''priority'', JString (n_Priority n)),
      (''status'', JString (n_Status n))] @
     omitempty ''recipient_id'' (n_RecipientID n) @ omitempty ''recipient_email'' (n_RecipientEmail n) @
     omitempty ''recipient_phone'' (n_RecipientPhone n) @ omitempty ''recipient_token'' (n_RecipientToken n) @
     omit_nil ''template_id'' (uuid_json L) (n_TemplateID n) @ omitempty ''subject'' (n_Subject n) @
     [(''body'', JString (n_Body n))] @ omitempty_map ''metadata'' (n_Metadata n) @
     omitempty ''idempotency_key'' (n_IdempotencyKey n) @
     omit_nil ''scheduled_at'' (time_json L) (n_ScheduledAt n) @
     [(''created_at'', time_json L (n_CreatedAt n)), (''expires_at'', time_json L (n_ExpiresAt n))])"

definition notification_delivery_json :: "libs \<Rightarrow> notification_delivery \<Rightarrow> json" where
  "notification_delivery_json L d = JObject (
     [(''id'', uuid_json L (d_ID d)), (''notification_id'', uuid_json L (d_NotificationID d)),
      (''channel'', JString (d_Channel d)), (''status'', JString (d_Status d)),
      (''attempts'', int_json (d_Attempts d))] @
     omitempty ''error_message'' (d_ErrorMessage d) @
     omit_nil ''delivered_at'' (time_json L) (d_DeliveredAt d) @
     [(''created_at'', time_json L (d_CreatedAt d))])"

definition notification_template_json :: "libs \<Rightarrow> notification_template \<Rightarrow> json" where
  "notification_template_json L t = JObject (
     [(''id'', uuid_json L (m_ID t)), (''tenant_id'', uuid_json L (m_TenantID t)),
      (''name'', JString (m_Name t)), (''channel'', JString (m_Channel t))] @
     omitempty ''subject'' (m_Subject t) @
     [(''body'', JString (m_Body t)), (''created_at'', time_json L (m_CreatedAt t)),
      (''updated_at'', time_json L (m_UpdatedAt t))])"

definition tenant_json :: "libs \<Rightarrow> tenant \<Rightarrow> json" where
  "tenant_json L t = JObject
     [(''id'', uuid_json L (t_ID t)), (''name'', JString (t_Name t)),
      (''global_rate_cap'', int_json (t_GlobalRateCap t)), (''created_at'', time_json L (t_CreatedAt t))]"

definition tenant_channel_json :: "libs \<Rightarrow> tenant_channel \<Rightarrow> json" where
  "tenant_channel_json L c = JObject
     [(''id'', uuid_json L (tc_ID c)), (''tenant_id'', uuid_json L (tc_TenantID c)),
      (''channel'', JString (tc_Channel c)), (''enabled'', JBool (tc_Enabled c)),
      (''created_at'', time_json L (tc_CreatedAt c))]"

definition tenant_rate_limit_json :: "libs \<Rightarrow> tenant_rate_limit \<Rightarrow> json" where
  "tenant_rate_limit_json L r = JObject
     [(''id'', uuid_json L (rl_ID r)), (''tenant_id'', uuid_json L (rl_TenantID r)),
      (''channel'', JString (rl_Channel r)), (''max_per_min'', int_json (rl_MaxPerMin r)),
      (''created_at'', time_json L (rl_CreatedAt r))]"

text \<open>The hash of a key is not written: its tag is a dash.\<close>

definition api_key_json :: "libs \<Rightarrow> api_key \<Rightarrow> json" where
  "api_key_json L k = JObject
     [(''id'', uuid_json L (k_ID k)), (''tenant_id'', uuid_json L (k_TenantID k)),
      (''created_at'', time_json L (k_CreatedAt k))]"

definition analytics_summary_json :: "analytics_summary \<Rightarrow> json" where
  "analytics_summary_json s = JObject
     [(''total_sent'', int_json (int (TotalSent s))), (''total_delivered'', int_json (int (TotalDelivered s))),
      (''total_failed'', int_json (int (TotalFailed s)))]"

definition channel_breakdown_json :: "channel_breakdown \<Rightarrow> json" where
  "channel_breakdown_json b = JObject
     [(''channel'', JString (b_Channel b)), (''sent'', int_json (int (b_Sent b))),
      (''delivered'', int_json (int (b_Delivered b))), (''failed'', int_json (int (b_Failed b))),
      (''delivery_rate'', JNum (b_DeliveryRate b))]"

definition dlq_point_json :: "libs \<Rightarrow> dlq_point \<Rightarrow> json" where
  "dlq_point_json L p = JObject [(''date'', time_json L (dp_Date p)), (''count'', int_json (int (dp_Count p)))]"

definition batchResult_json :: "batchResult \<Rightarrow> json" where
  "batchResult_json r = JObject ([(''index'', int_json (int (br_Index r)))] @
     omitempty ''notification_id'' (br_NotificationID r) @ omitempty ''error'' (br_Error r))"

definition ErrorResponse_json :: "string \<Rightarrow> string \<Rightarrow> json" where
  "ErrorResponse_json e code = JObject ([(''error'', JString e)] @ omitempty ''code'' code)"

definition sendNotificationResponse_json :: "string \<Rightarrow> status \<Rightarrow> json" where
  "sendNotificationResponse_json nid st = JObject [(''notification_id'', JString nid), (''status'', JString st)]"

definition scheduleNotificationResponse_json :: "libs \<Rightarrow> string \<Rightarrow> status \<Rightarrow> time \<Rightarrow> json" where
  "scheduleNotificationResponse_json L nid st t =
     JObject [(''notification_id'', JString nid), (''status'', JString st), (''scheduled_at'', time_json L t)]"

definition batchSendResponse_json :: "batchResult list \<Rightarrow> json" where
  "batchSendResponse_json rs = JObject [(''results'', JArray (map batchResult_json rs))]"

definition notificationHistoryResponse_json :: "libs \<Rightarrow> notification list \<Rightarrow> nat \<Rightarrow> int \<Rightarrow> int \<Rightarrow> json" where
  "notificationHistoryResponse_json L ns cnt page limit =
     JObject [(''notifications'', rows_json (notification_json L) ns), (''total'', int_json (int cnt)),
              (''page'', int_json page), (''limit'', int_json limit)]"

definition notificationDetailResponse_json :: "libs \<Rightarrow> notification \<Rightarrow> notification_delivery list \<Rightarrow> json" where
  "notificationDetailResponse_json L n ds =
     JObject [(''notification'', notification_json L n),
              (''deliveries'', rows_json (notification_delivery_json L) ds)]"

definition templateListResponse_json :: "libs \<Rightarrow> notification_template list \<Rightarrow> json" where
  "templateListResponse_json L ts = JObject [(''templates'', rows_json (notification_template_json L) ts)]"

definition createTenantResponse_json :: "string \<Rightarrow> string \<Rightarrow> string \<Rightarrow> json" where
  "createTenantResponse_json tid name key =
     JObject [(''id'', JString tid), (''name'', JString name), (''api_key'', JString key)]"

definition createAPIKeyResponse_json :: "string \<Rightarrow> string \<Rightarrow> json" where
  "createAPIKeyResponse_json kid key = JObject [(''id'', JString kid), (''api_key'', JString key)]"

definition rateLimitsResponse_json :: "libs \<Rightarrow> int \<Rightarrow> tenant_rate_limit list \<Rightarrow> json" where
  "rateLimitsResponse_json L cap rls =
     JObject [(''global_cap'', int_json cap), (''rate_limits'', rows_json (tenant_rate_limit_json L) rls)]"

definition analyticsResponse_json ::
    "libs \<Rightarrow> analytics_summary \<Rightarrow> channel_breakdown list \<Rightarrow> dlq_point list \<Rightarrow> time \<Rightarrow> time \<Rightarrow> json" where
  "analyticsResponse_json L s cs trend from_t to_t =
     JObject [(''summary'', analytics_summary_json s), (''channels'', rows_json channel_breakdown_json cs),
              (''dlq_trend'', rows_json (dlq_point_json L) trend), (''from'', time_json L from_t),
              (''to'', time_json L to_t)]"

definition health_json :: "string \<Rightarrow> (string \<times> string) list \<Rightarrow> json" where
  "health_json overall checks =
     map_json [(''status'', JString overall), (''checks'', map_json (map (\<lambda>(k, s). (k, JString s)) checks))]"

fun payload_json :: "libs \<Rightarrow> payload \<Rightarrow> json" where
  "payload_json L (PError m) = ErrorResponse_json m []"
| "payload_json L (PHealth overall checks) = health_json overall checks"
| "payload_json L (PSend nid st) = sendNotificationResponse_json nid st"
| "payload_json L (PSchedule nid st t) = scheduleNotificationResponse_json L nid st t"
| "payload_json L (PBatch rs) = batchSendResponse_json rs"
| "payload_json L (PHistory ns cnt page limit) = notificationHistoryResponse_json L ns cnt page limit"
| "payload_json L (PDetail n ds) = notificationDetailResponse_json L n ds"
| "payload_json L (PTemplate t) = notification_template_json L t"
| "payload_json L (PTemplates ts) = templateListResponse_json L ts"
| "payload_json L (PTenantCreated tid name key) = createTenantResponse_json tid name key"
| "payload_json L (PTenant t) = tenant_json L t"
| "payload_json L (PTenants ts) = rows_json (tenant_json L) ts"
| "payload_json L (PKeyCreated kid key) = createAPIKeyResponse_json kid key"
| "payload_json L (PKeys ks) = rows_json (api_key_json L) ks"
| "payload_json L (PChannels cs) = rows_json (tenant_channel_json L) cs"
| "payload_json L (PRateLimits cap rls) = rateLimitsResponse_json L cap rls"
| "payload_json L (PAnalytics s cs trend from_t to_t) = analyticsResponse_json L s cs trend from_t to_t"

text \<open>What the client sees: the status and the body, if there is one.\<close>

fun written :: "libs \<Rightarrow> response \<Rightarrow> int \<times> json option" where
  "written L (JSON n p) = (n, Some (payload_json L p))"
| "written L (NoContent n) = (n, None)"

text \<open>A list without rows is written as \<open>null\<close>: the first request of a new installation for its tenants.\<close>

lemma no_tenants_is_null:
  assumes "tenants (w_db w) = []" and "\<not> fails_at w 0"
  shows "\<exists>resp w'. route L R cfg (Admin ListTenants) w = (Val resp, w') \<and> written L resp = (200, Some JNull)"
  using assms
  by (simp add: route_def TenantHandler_List_def TenantRepository_GetAll_def go_defs query_def external_def run_stmt_def
      select_def wrap_def order_by_desc_def fails_at_def rows_json_def)

section \<open>Requests\<close>

text \<open>
  \<open>c.Bind\<close> leaves the zero request for an empty body and fails on a body that is not JSON or has another content
  type.  \<open>bind_field\<close> decodes one field, starting from its zero value; the decoder also gets the value so far.
\<close>

datatype body = EmptyBody | Unreadable | JsonText json

fun bind_field :: "(json \<Rightarrow> 'a \<Rightarrow> 'a option) \<Rightarrow> string \<Rightarrow> 'a \<Rightarrow> (string \<times> json) list \<Rightarrow> 'a option" where
  "bind_field dec tag x [] = Some x"
| "bind_field dec tag x ((k, v) # kvs) =
     (if map to_lower k = tag then (case dec v x of None \<Rightarrow> None | Some y \<Rightarrow> bind_field dec tag y kvs)
      else bind_field dec tag x kvs)"

text \<open>\<open>null\<close> leaves a scalar and a struct as they are, and makes a pointer, a slice or a map nil.\<close>

definition into_scalar :: "(json \<Rightarrow> 'a option) \<Rightarrow> json \<Rightarrow> 'a \<Rightarrow> 'a option" where
  "into_scalar dec v x = (if v = JNull then Some x else dec v)"

definition into_pointer :: "(json \<Rightarrow> 'a option) \<Rightarrow> json \<Rightarrow> 'a option \<Rightarrow> 'a option option" where
  "into_pointer dec v x = (if v = JNull then Some None else map_option Some (dec v))"

definition into_slice :: "(json \<Rightarrow> 'a option) \<Rightarrow> json \<Rightarrow> 'a list \<Rightarrow> 'a list option" where
  "into_slice dec v x = (case v of JNull \<Rightarrow> Some [] | JArray vs \<Rightarrow> those (map dec vs) | _ \<Rightarrow> None)"

definition put_all :: "(string \<times> 'a) list \<Rightarrow> (string \<times> 'a) list \<Rightarrow> (string \<times> 'a) list" where
  "put_all es m = foldl (\<lambda>m (k, v). AList.update k v m) m es"

text \<open>An object is merged into a \<open>map[string]any\<close> or a \<open>map[string]string\<close>.\<close>

definition into_any_map :: "json \<Rightarrow> metadata \<Rightarrow> metadata option" where
  "into_any_map v m = (case v of
       JNull \<Rightarrow> Some None
     | JObject es \<Rightarrow> Some (Some (put_all es (case m of None \<Rightarrow> [] | Some kvs \<Rightarrow> kvs)))
     | _ \<Rightarrow> None)"

definition string_entry :: "string \<times> json \<Rightarrow> (string \<times> string) option" where
  "string_entry kv = map_option (Pair (fst kv)) (into_scalar json_string (snd kv) [])"

definition into_string_map :: "json \<Rightarrow> (string \<times> string) list \<Rightarrow> (string \<times> string) list option" where
  "into_string_map v m = (case v of
       JNull \<Rightarrow> Some []
     | JObject es \<Rightarrow> map_option (\<lambda>es. put_all es m) (those (map string_entry es))
     | _ \<Rightarrow> None)"

definition text_field :: "string \<Rightarrow> (string \<times> json) list \<Rightarrow> string option" where
  "text_field tag kvs = bind_field (into_scalar json_string) tag [] kvs"

text \<open>Decoding a struct, a member of a slice or the whole body.\<close>

definition into_struct :: "((string \<times> json) list \<Rightarrow> 'a option) \<Rightarrow> json \<Rightarrow> 'a option" where
  "into_struct dec v = Option.bind (members v) dec"

definition bind_body :: "((string \<times> json) list \<Rightarrow> 'a option) \<Rightarrow> body \<Rightarrow> 'a option" where
  "bind_body dec b = (case b of EmptyBody \<Rightarrow> dec [] | Unreadable \<Rightarrow> None | JsonText j \<Rightarrow> into_struct dec j)"

definition bind_name :: "(string \<times> json) list \<Rightarrow> string option" where
  "bind_name kvs = text_field ''name'' kvs"

definition bind_channel :: "(string \<times> json) list \<Rightarrow> (string \<times> bool) option" where
  "bind_channel kvs =
     Option.bind (text_field ''channel'' kvs) (\<lambda>ch.
     Option.bind (bind_field (into_scalar json_bool) ''enabled'' False kvs) (\<lambda>en. Some (ch, en)))"

definition bind_channels :: "(string \<times> json) list \<Rightarrow> (string \<times> bool) list option" where
  "bind_channels kvs = bind_field (into_slice (into_struct bind_channel)) ''channels'' [] kvs"

definition bind_rate_limit :: "(string \<times> json) list \<Rightarrow> (string \<times> int) option" where
  "bind_rate_limit kvs =
     Option.bind (text_field ''channel'' kvs) (\<lambda>ch.
     Option.bind (bind_field (into_scalar json_int) ''max_per_min'' 0 kvs) (\<lambda>mx. Some (ch, mx)))"

definition bind_rate_limits :: "(string \<times> json) list \<Rightarrow> updateRateLimitsRequest option" where
  "bind_rate_limits kvs =
     Option.bind (bind_field (into_pointer json_int) ''global_cap'' None kvs) (\<lambda>cap.
     Option.bind (bind_field (into_slice (into_struct bind_rate_limit)) ''rate_limits'' [] kvs) (\<lambda>rls.
     Some \<lparr>rq_GlobalCap = cap, rq_RateLimits = rls\<rparr>))"

definition bind_send :: "(string \<times> json) list \<Rightarrow> sendNotificationRequest option" where
  "bind_send kvs =
     Option.bind (text_field ''channel'' kvs) (\<lambda>ch.
     Option.bind (text_field ''priority'' kvs) (\<lambda>pr.
     Option.bind (text_field ''recipient_id'' kvs) (\<lambda>rid.
     Option.bind (text_field ''recipient_email'' kvs) (\<lambda>em.
     Option.bind (text_field ''recipient_phone'' kvs) (\<lambda>ph.
     Option.bind (text_field ''recipient_token'' kvs) (\<lambda>tok.
     Option.bind (text_field ''template_id'' kvs) (\<lambda>tm.
     Option.bind (bind_field into_string_map ''variables'' [] kvs) (\<lambda>vs.
     Option.bind (text_field ''subject'' kvs) (\<lambda>su.
     Option.bind (text_field ''body'' kvs) (\<lambda>bo.
     Option.bind (bind_field into_any_map ''metadata'' None kvs) (\<lambda>md.
     Option.bind (text_field ''idempotency_key'' kvs) (\<lambda>ik.
     Some \<lparr>sq_Channel = ch, sq_Priority = pr, sq_RecipientID = rid, sq_RecipientEmail = em,
           sq_RecipientPhone = ph, sq_RecipientToken = tok, sq_TemplateID = tm, sq_Variables = vs,
           sq_Subject = su, sq_Body = bo, sq_Metadata = md, sq_IdempotencyKey = ik\<rparr>))))))))))))"

text \<open>The fields of the embedded struct are promoted.\<close>

definition bind_schedule :: "(string \<times> json) list \<Rightarrow> scheduleNotificationRequest option" where
  "bind_schedule kvs =
     Option.bind (bind_send kvs) (\<lambda>r.
     Option.bind (text_field ''scheduled_at'' kvs) (\<lambda>t. Some \<lparr>cq_send = r, cq_ScheduledAt = t\<rparr>))"

definition bind_recipient :: "(string \<times> json) list \<Rightarrow> batchRecipient option" where
  "bind_recipient kvs =
     Option.bind (text_field ''recipient_id'' kvs) (\<lambda>rid.
     Option.bind (text_field ''recipient_email'' kvs) (\<lambda>em.
     Option.bind (text_field ''recipient_phone'' kvs) (\<lambda>ph.
     Option.bind (text_field ''recipient_token'' kvs) (\<lambda>tok.
     Some \<lparr>bt_RecipientID = rid, bt_RecipientEmail = em, bt_RecipientPhone = ph, bt_RecipientToken = tok\<rparr>))))"

definition bind_batch :: "(string \<times> json) list \<Rightarrow> batchSendRequest option" where
  "bind_batch kvs =
     Option.bind (text_field ''channel'' kvs) (\<lambda>ch.
     Option.bind (text_field ''priority'' kvs) (\<lambda>pr.
     Option.bind (text_field ''template_id'' kvs) (\<lambda>tm.
     Option.bind (bind_field into_string_map ''variables'' [] kvs) (\<lambda>vs.
     Option.bind (text_field ''subject'' kvs) (\<lambda>su.
     Option.bind (text_field ''body'' kvs) (\<lambda>bo.
     Option.bind (bind_field into_any_map ''metadata'' None kvs) (\<lambda>md.
     Option.bind (bind_field (into_slice (into_struct bind_recipient)) ''recipients'' [] kvs) (\<lambda>rs.
     Option.bind (text_field ''idempotency_key'' kvs) (\<lambda>ik.
     Some \<lparr>bq_Channel = ch, bq_Priority = pr, bq_TemplateID = tm, bq_Variables = vs, bq_Subject = su,
           bq_Body = bo, bq_Metadata = md, bq_Recipients = rs, bq_IdempotencyKey = ik\<rparr>)))))))))"

definition bind_template :: "(string \<times> json) list \<Rightarrow> templateRequest option" where
  "bind_template kvs =
     Option.bind (text_field ''name'' kvs) (\<lambda>nm.
     Option.bind (text_field ''channel'' kvs) (\<lambda>ch.
     Option.bind (text_field ''subject'' kvs) (\<lambda>su.
     Option.bind (text_field ''body'' kvs) (\<lambda>bo.
     Some \<lparr>tq_Name = nm, tq_Channel = ch, tq_Subject = su, tq_Body = bo\<rparr>))))"

text \<open>The routes that take a body, and the request the handler works on.\<close>

datatype endpoint =
    PostTenant
  | PutTenant string
  | PutChannels string
  | PutRateLimits string
  | PostSend string
  | PostSchedule string
  | PostBatch string
  | PostTemplate string
  | PutTemplate string string

fun bind_request :: "endpoint \<Rightarrow> body \<Rightarrow> request" where
  "bind_request PostTenant b = Admin (CreateTenant (bind_body bind_name b))"
| "bind_request (PutTenant i) b = Admin (UpdateTenant i (bind_body bind_name b))"
| "bind_request (PutChannels i) b = Admin (UpdateChannels i (bind_body bind_channels b))"
| "bind_request (PutRateLimits i) b = Admin (UpdateRateLimits i (bind_body bind_rate_limits b))"
| "bind_request (PostSend key) b = Authenticated key (SendNotification (bind_body bind_send b))"
| "bind_request (PostSchedule key) b = Authenticated key (ScheduleNotification (bind_body bind_schedule b))"
| "bind_request (PostBatch key) b = Authenticated key (BatchNotifications (bind_body bind_batch b))"
| "bind_request (PostTemplate key) b = Authenticated key (CreateTemplate (bind_body bind_template b))"
| "bind_request (PutTemplate key i) b = Authenticated key (UpdateTemplate i (bind_body bind_template b))"

definition serve_body :: "libs \<Rightarrow> 'r redis \<Rightarrow> config \<Rightarrow> endpoint \<Rightarrow> body \<Rightarrow> ('r world, served) prog" where
  "serve_body L R cfg ep b = serve L R cfg (bind_request ep b)"

section \<open>Every request can be sent\<close>

text \<open>The body \<open>json.Marshal\<close> gives a request, by the same tags.\<close>

definition omitempty_vars :: "string \<Rightarrow> (string \<times> string) list \<Rightarrow> (string \<times> json) list" where
  "omitempty_vars k vs = (if vs = [] then [] else [(k, JObject (map (\<lambda>(n, s). (n, JString s)) vs))])"

definition send_members :: "sendNotificationRequest \<Rightarrow> (string \<times> json) list" where
  "send_members r =
     [(''channel'', JString (sq_Channel r))] @ omitempty ''priority'' (sq_Priority r) @
     omitempty ''recipient_id'' (sq_RecipientID r) @ omitempty ''recipient_email'' (sq_RecipientEmail r) @
     omitempty ''recipient_phone'' (sq_RecipientPhone r) @ omitempty ''recipient_token'' (sq_RecipientToken r) @
     omitempty ''template_id'' (sq_TemplateID r) @ omitempty_vars ''variables'' (sq_Variables r) @
     omitempty ''subject'' (sq_Subject r) @ [(''body'', JString (sq_Body r))] @
     omitempty_map ''metadata'' (sq_Metadata r) @ omitempty ''idempotency_key'' (sq_IdempotencyKey r)"

definition recipient_members :: "batchRecipient \<Rightarrow> (string \<times> json) list" where
  "recipient_members r =
     omitempty ''recipient_id'' (bt_RecipientID r) @ omitempty ''recipient_email'' (bt_RecipientEmail r) @
     omitempty ''recipient_phone'' (bt_RecipientPhone r) @ omitempty ''recipient_token'' (bt_RecipientToken r)"

definition batch_members :: "batchSendRequest \<Rightarrow> (string \<times> json) list" where
  "batch_members r =
     [(''channel'', JString (bq_Channel r))] @ omitempty ''priority'' (bq_Priority r) @
     omitempty ''template_id'' (bq_TemplateID r) @ omitempty_vars ''variables'' (bq_Variables r) @
     omitempty ''subject'' (bq_Subject r) @ [(''body'', JString (bq_Body r))] @
     omitempty_map ''metadata'' (bq_Metadata r) @
     [(''recipients'', rows_json (\<lambda>q. JObject (recipient_members q)) (bq_Recipients r))] @
     omitempty ''idempotency_key'' (bq_IdempotencyKey r)"

definition template_members :: "templateRequest \<Rightarrow> (string \<times> json) list" where
  "template_members r =
     [(''name'', JString (tq_Name r)), (''channel'', JString (tq_Channel r))] @
     omitempty ''subject'' (tq_Subject r) @ [(''body'', JString (tq_Body r))]"

definition rate_limits_members :: "updateRateLimitsRequest \<Rightarrow> (string \<times> json) list" where
  "rate_limits_members r =
     omit_nil ''global_cap'' int_json (rq_GlobalCap r) @
     [(''rate_limits'', rows_json (\<lambda>(ch, mx). JObject [(''channel'', JString ch), (''max_per_min'', int_json mx)])
        (rq_RateLimits r))]"

fun request_body :: "request \<Rightarrow> (endpoint \<times> (string \<times> json) list) option" where
  "request_body (Admin (CreateTenant (Some name))) = Some (PostTenant, [(''name'', JString name)])"
| "request_body (Admin (UpdateTenant i (Some name))) = Some (PutTenant i, [(''name'', JString name)])"
| "request_body (Admin (UpdateChannels i (Some cs))) = Some (PutChannels i,
     [(''channels'', rows_json (\<lambda>(ch, en). JObject [(''channel'', JString ch), (''enabled'', JBool en)]) cs)])"
| "request_body (Admin (UpdateRateLimits i (Some r))) = Some (PutRateLimits i, rate_limits_members r)"
| "request_body (Authenticated key (SendNotification (Some r))) = Some (PostSend key, send_members r)"
| "request_body (Authenticated key (ScheduleNotification (Some r))) =
     Some (PostSchedule key, send_members (cq_send r) @ [(''scheduled_at'', JString (cq_ScheduledAt r))])"
| "request_body (Authenticated key (BatchNotifications (Some r))) = Some (PostBatch key, batch_members r)"
| "request_body (Authenticated key (CreateTemplate (Some r))) = Some (PostTemplate key, template_members r)"
| "request_body (Authenticated key (UpdateTemplate i (Some r))) = Some (PutTemplate key i, template_members r)"
| "request_body _ = None"

text \<open>What a Go value of the request's type satisfies: a map has each key once, a number fits its 64 bits.  An
  empty map is not distinguished from nil.\<close>

definition map_ok :: "(string \<times> 'a) list \<Rightarrow> bool" where
  "map_ok m \<longleftrightarrow> distinct (map fst m)"

definition metadata_ok :: "metadata \<Rightarrow> bool" where
  "metadata_ok m \<longleftrightarrow> (case m of None \<Rightarrow> True | Some kvs \<Rightarrow> kvs \<noteq> [] \<and> map_ok kvs)"

fun request_ok :: "request \<Rightarrow> bool" where
  "request_ok (Admin (UpdateRateLimits i (Some r))) \<longleftrightarrow>
     (case rq_GlobalCap r of None \<Rightarrow> True | Some cap \<Rightarrow> in_int64 cap) \<and> list_all (\<lambda>(ch, mx). in_int64 mx) (rq_RateLimits r)"
| "request_ok (Authenticated key (SendNotification (Some r))) \<longleftrightarrow>
     map_ok (sq_Variables r) \<and> metadata_ok (sq_Metadata r)"
| "request_ok (Authenticated key (ScheduleNotification (Some r))) \<longleftrightarrow>
     map_ok (sq_Variables (cq_send r)) \<and> metadata_ok (sq_Metadata (cq_send r))"
| "request_ok (Authenticated key (BatchNotifications (Some r))) \<longleftrightarrow>
     map_ok (bq_Variables r) \<and> metadata_ok (bq_Metadata r)"
| "request_ok _ \<longleftrightarrow> True"

lemma lower_chars [simp]:
  "to_lower CHR ''a'' = CHR ''a''" "to_lower CHR ''b'' = CHR ''b''" "to_lower CHR ''c'' = CHR ''c''" "to_lower CHR ''d'' = CHR ''d''"
  "to_lower CHR ''e'' = CHR ''e''" "to_lower CHR ''f'' = CHR ''f''" "to_lower CHR ''g'' = CHR ''g''" "to_lower CHR ''h'' = CHR ''h''"
  "to_lower CHR ''i'' = CHR ''i''" "to_lower CHR ''j'' = CHR ''j''" "to_lower CHR ''k'' = CHR ''k''" "to_lower CHR ''l'' = CHR ''l''"
  "to_lower CHR ''m'' = CHR ''m''" "to_lower CHR ''n'' = CHR ''n''" "to_lower CHR ''o'' = CHR ''o''" "to_lower CHR ''p'' = CHR ''p''"
  "to_lower CHR ''q'' = CHR ''q''" "to_lower CHR ''r'' = CHR ''r''" "to_lower CHR ''s'' = CHR ''s''" "to_lower CHR ''t'' = CHR ''t''"
  "to_lower CHR ''u'' = CHR ''u''" "to_lower CHR ''v'' = CHR ''v''" "to_lower CHR ''w'' = CHR ''w''" "to_lower CHR ''x'' = CHR ''x''"
  "to_lower CHR ''y'' = CHR ''y''" "to_lower CHR ''z'' = CHR ''z''" "to_lower CHR ''_'' = CHR ''_''"
  by (simp_all add: to_lower_def)

lemma those_map: "(\<And>x. x \<in> set xs \<Longrightarrow> f (g x) = Some x) \<Longrightarrow> those (map f (map g xs)) = Some xs"
  by (induction xs) auto

lemma update_fresh: "k \<notin> fst ` set m \<Longrightarrow> AList.update k v m = m @ [(k, v)]"
  by (induction m) auto

lemma put_all_fresh: "distinct (map fst m @ map fst es) \<Longrightarrow> put_all es m = m @ es"
proof (induction es arbitrary: m)
  case (Cons e es)
  then show ?case
    using Cons.IH [of "m @ [e]"] by (cases e) (auto simp: put_all_def update_fresh)
qed (simp add: put_all_def)

text \<open>Decoding walks over the encoded members: one with another tag is passed over, and the field's own gives its
  value back, also when \<open>omitempty\<close> left it out.\<close>

lemma bind_skip [simp]:
  "map to_lower k \<noteq> tag \<Longrightarrow> bind_field dec tag x (omitempty k v @ kvs) = bind_field dec tag x kvs"
  "map to_lower k \<noteq> tag \<Longrightarrow> bind_field dec tag x (omitempty_map k m @ kvs) = bind_field dec tag x kvs"
  "map to_lower k \<noteq> tag \<Longrightarrow> bind_field dec tag x (omitempty_vars k vs @ kvs) = bind_field dec tag x kvs"
  "map to_lower k \<noteq> tag \<Longrightarrow> bind_field dec tag x (omit_nil k f p @ kvs) = bind_field dec tag x kvs"
  by (auto simp: omitempty_def omitempty_map_def omitempty_vars_def omit_nil_def split: option.split list.split)

lemma bind_skip_last [simp]:
  "map to_lower k \<noteq> tag \<Longrightarrow> bind_field dec tag x (omitempty k v) = Some x"
  using bind_skip(1) [of k tag dec x v "[]"] by simp

lemma bind_text [simp]:
  "map to_lower tag = tag \<Longrightarrow>
   bind_field (into_scalar json_string) tag [] (omitempty tag v @ kvs) = bind_field (into_scalar json_string) tag v kvs"
  "map to_lower tag = tag \<Longrightarrow> bind_field (into_scalar json_string) tag [] (omitempty tag v) = Some v"
  by (simp_all add: omitempty_def into_scalar_def json_string_def)

lemma bind_scalars [simp]:
  "into_scalar json_string (JString s) x = Some s" "into_scalar json_bool (JBool b) y = Some b"
  by (simp_all add: into_scalar_def json_string_def json_bool_def)

lemma bind_ints [simp]:
  "in_int64 i \<Longrightarrow> json_int (int_json i) = Some i" "in_int64 i \<Longrightarrow> into_scalar json_int (int_json i) z = Some i"
  by (simp_all add: into_scalar_def json_int_def int_json_def)

lemma bind_metadata [simp]:
  "metadata_ok m \<Longrightarrow> bind_field into_any_map ''metadata'' None (omitempty_map ''metadata'' m @ kvs)
     = bind_field into_any_map ''metadata'' m kvs"
  by (auto simp: metadata_ok_def map_ok_def omitempty_map_def into_any_map_def put_all_fresh
      split: option.splits list.splits)

lemma bind_variables [simp]:
  assumes "map_ok vs"
  shows "bind_field into_string_map ''variables'' [] (omitempty_vars ''variables'' vs @ kvs)
     = bind_field into_string_map ''variables'' vs kvs"
proof -
  have "those (map string_entry (map (\<lambda>(n, s). (n, JString s)) vs)) = Some vs"
    by (rule those_map) (auto simp: string_entry_def)
  with assms show ?thesis
    by (simp add: omitempty_vars_def into_string_map_def put_all_fresh map_ok_def)
qed

lemma bind_rows:
  assumes "\<And>x. x \<in> set xs \<Longrightarrow> dec (f x) = Some x"
  shows "into_slice dec (rows_json f xs) ys = Some xs"
  using those_map [of xs dec f, OF assms] by (simp add: into_slice_def rows_json_def)

lemma bind_struct [simp]: "into_struct dec (JObject kvs) = dec kvs"
  by (simp add: into_struct_def members_def)

lemma bind_send_members:
  assumes "map_ok (sq_Variables r)" and "metadata_ok (sq_Metadata r)" and "kvs = [] \<or> kvs = [(''scheduled_at'', JString t)]"
  shows "bind_send (send_members r @ kvs) = Some r"
  using assms by (auto simp: bind_send_def send_members_def text_field_def)

lemma bind_recipient_members: "bind_recipient (recipient_members r) = Some r"
  by (simp add: bind_recipient_def recipient_members_def text_field_def)

lemma bind_batch_members:
  assumes "map_ok (bq_Variables r)" and "metadata_ok (bq_Metadata r)"
  shows "bind_batch (batch_members r) = Some r"
  using assms by (simp add: bind_batch_def batch_members_def text_field_def bind_rows bind_recipient_members)

lemma bind_schedule_members:
  assumes "map_ok (sq_Variables (cq_send r))" and "metadata_ok (sq_Metadata (cq_send r))"
  shows "bind_schedule (send_members (cq_send r) @ [(''scheduled_at'', JString (cq_ScheduledAt r))]) = Some r"
proof -
  have "text_field ''scheduled_at'' (send_members (cq_send r) @ [(''scheduled_at'', JString (cq_ScheduledAt r))])
      = Some (cq_ScheduledAt r)"
    by (simp add: text_field_def send_members_def)
  with bind_send_members [OF assms] show ?thesis by (simp add: bind_schedule_def)
qed

lemma bind_template_members: "bind_template (template_members r) = Some r"
  by (simp add: bind_template_def template_members_def text_field_def)

lemma bind_rate_limits_members:
  assumes "case rq_GlobalCap r of None \<Rightarrow> True | Some cap \<Rightarrow> in_int64 cap"
    and "list_all (\<lambda>(ch, mx). in_int64 mx) (rq_RateLimits r)"
  shows "bind_rate_limits (rate_limits_members r) = Some r"
proof -
  have "bind_field (into_pointer json_int) ''global_cap'' None (rate_limits_members r) = Some (rq_GlobalCap r)"
    using assms(1) by (auto simp: rate_limits_members_def omit_nil_def into_pointer_def int_json_def [symmetric]
        split: option.splits) (simp_all add: int_json_def)
  moreover have "into_slice (into_struct bind_rate_limit)
      (rows_json (\<lambda>(ch, mx). JObject [(''channel'', JString ch), (''max_per_min'', int_json mx)]) (rq_RateLimits r)) []
      = Some (rq_RateLimits r)"
    using assms(2) by (intro bind_rows) (auto simp: list_all_iff bind_rate_limit_def text_field_def)
  then have "bind_field (into_slice (into_struct bind_rate_limit)) ''rate_limits'' [] (rate_limits_members r)
      = Some (rq_RateLimits r)"
    by (simp add: rate_limits_members_def)
  ultimately show ?thesis by (simp add: bind_rate_limits_def)
qed

lemma bind_channels_members:
  "bind_channels [(''channels'', rows_json (\<lambda>(ch, en). JObject [(''channel'', JString ch), (''enabled'', JBool en)]) cs)]
     = Some cs"
proof -
  have "into_slice (into_struct bind_channel)
      (rows_json (\<lambda>(ch, en). JObject [(''channel'', JString ch), (''enabled'', JBool en)]) cs) [] = Some cs"
    by (rule bind_rows) (auto simp: bind_channel_def text_field_def)
  then show ?thesis by (simp add: bind_channels_def)
qed



text \<open>A batch for two recipients, with a variable and metadata.\<close>

definition demo_batch :: batchSendRequest where
  "demo_batch = \<lparr>bq_Channel = ''email'', bq_Priority = ''high'', bq_TemplateID = [], bq_Variables = [(''name'', ''Ann'')],
     bq_Subject = ''hi'', bq_Body = ''hello'', bq_Metadata = Some [(''k'', JBool True)],
     bq_Recipients = [\<lparr>bt_RecipientID = [], bt_RecipientEmail = ''a@x'', bt_RecipientPhone = [], bt_RecipientToken = []\<rparr>,
       \<lparr>bt_RecipientID = ''u'', bt_RecipientEmail = ''b@x'', bt_RecipientPhone = [], bt_RecipientToken = []\<rparr>],
     bq_IdempotencyKey = []\<rparr>"


section \<open>Bodies that do not bind\<close>

fun unbound :: "request \<Rightarrow> bool" where
  "unbound (Admin (CreateTenant None)) = True"
| "unbound (Admin (UpdateTenant i None)) = True"
| "unbound (Admin (UpdateChannels i None)) = True"
| "unbound (Admin (UpdateRateLimits i None)) = True"
| "unbound (Authenticated key (SendNotification None)) = True"
| "unbound (Authenticated key (ScheduleNotification None)) = True"
| "unbound (Authenticated key (BatchNotifications None)) = True"
| "unbound (Authenticated key (CreateTemplate None)) = True"
| "unbound (Authenticated key (UpdateTemplate i None)) = True"
| "unbound _ = False"

fun endpoint_key :: "endpoint \<Rightarrow> string option" where
  "endpoint_key (PostSend key) = Some key"
| "endpoint_key (PostSchedule key) = Some key"
| "endpoint_key (PostBatch key) = Some key"
| "endpoint_key (PostTemplate key) = Some key"
| "endpoint_key (PutTemplate key i) = Some key"
| "endpoint_key _ = None"

text \<open>The answer is an error, and only the calls the authentication made have gone by.\<close>

definition refused :: "int set \<Rightarrow> 'r world \<Rightarrow> response outcome \<times> 'r world \<Rightarrow> bool" where
  "refused ns w z \<longleftrightarrow> (\<exists>n m k. n \<in> ns \<and> z = (Val (JSON n (PError m)), w\<lparr>w_tick := w_tick w + k\<rparr>))"

lemma refused_here: "n \<in> ns \<Longrightarrow> refused ns w (errResponse n m w)"
  unfolding refused_def errResponse_def ret_def by (intro exI [of _ n] exI [of _ m] exI [of _ 0]) simp

lemma refused_parse_id: "400 \<in> ns \<Longrightarrow> (\<And>u. refused ns w (k u w)) \<Longrightarrow> refused ns w (parse_id L p what k w)"
  unfolding parse_id_def by (auto intro: refused_here split: option.split)

lemma refused_Auth:
  assumes "\<And>t v. refused {400} v (h (Some t) v)"
  shows "refused {400, 401, 500} w (Auth L key h w)"
proof -
  let ?w = "w\<lparr>w_tick := Suc (w_tick w)\<rparr>"
  have later: "refused {400, 401, 500} w (h (Some t) ?w)" for t
  proof -
    obtain m k where "h (Some t) ?w = (Val (JSON 400 (PError m)), ?w\<lparr>w_tick := w_tick ?w + k\<rparr>)"
      using assms [of ?w t] by (auto simp: refused_def)
    then show ?thesis unfolding refused_def by (intro exI [of _ 400] exI [of _ m] exI [of _ "Suc k"]) simp
  qed
  have err: "refused {400, 401, 500} w (Val (JSON n (PError m)), w\<lparr>w_tick := w_tick w + k\<rparr>)" if "n \<in> {401, 500}" for n m k
    using that by (auto simp: refused_def)
  show ?thesis
    using later err [of 401 _ 0] err [of _ _ 1]
    by (auto simp: Auth_def APIKeyRepository_GetTenantByKeyHash_def query_def bnd_def external_def ret_def run_stmt_def
        select_one_def wrap_not_found_def split: option.split sum.split repo_error.split)
qed

lemma unbound_tenant_refused:
  "unbound (Authenticated key t) \<Longrightarrow> refused {400} w (tenant_route L R sv t (Some ten) w)"
  by (cases "Authenticated key t" rule: unbound.cases)
     (auto simp: NotificationHandler_Send_def NotificationHandler_Schedule_def NotificationHandler_Batch_def
       TemplateHandler_Create_def TemplateHandler_Update_def RequireTenant_def intro!: refused_here refused_parse_id)

lemma unbound_admin_refused: "unbound (Admin a) \<Longrightarrow> refused {400} w (admin_route L cfg a w)"
  by (cases "Admin a" rule: unbound.cases)
     (auto simp: TenantHandler_Create_def TenantHandler_Update_def TenantHandler_UpdateChannels_def
       TenantHandler_UpdateRateLimits_def intro!: refused_here refused_parse_id)

text \<open>C26. A body that does not bind (not JSON, not an object, or a field of the wrong type) is answered with an error
  body and changes nothing: no row, no record, no key, no event.  The status is 400, or 401 or 500 from the
  authentication where the route needs a key.\<close>

theorem unbound_body_refused:
  assumes "unbound (bind_request ep b)"
  shows "\<exists>n m k. serve_body L R cfg ep b w
      = (Val (Responded (JSON n (PError m))), w\<lparr>w_tick := w_tick w + k\<rparr>)
    \<and> (n = 400 \<or> endpoint_key ep \<noteq> None \<and> n \<in> {401, 500})"
proof -
  let ?z = "route L R cfg (bind_request ep b) w"
  consider (admin) a where "bind_request ep b = Admin a" "endpoint_key ep = None"
    | (tenant) key t where "bind_request ep b = Authenticated key t" "endpoint_key ep = Some key"
    by (cases ep) auto
  then have "refused (if endpoint_key ep = None then {400} else {400, 401, 500}) w ?z"
    by cases (use assms in \<open>auto simp: route_def intro!: refused_Auth unbound_tenant_refused unbound_admin_refused\<close>)
  then obtain n m k where "?z = (Val (JSON n (PError m)), w\<lparr>w_tick := w_tick w + k\<rparr>)"
    and "n = 400 \<or> endpoint_key ep \<noteq> None \<and> n \<in> {401, 500}"
    by (auto simp: refused_def split: if_splits)
  then show ?thesis by (auto simp: serve_body_def serve_def)
qed

theorem unbound_body_refused_witness:
  "unbound (bind_request (PutRateLimits (uuid_String bit_libs 1)) (JsonText (JObject [(''global_cap'', JString ''9'')])))
   \<and> (\<exists>n m k. serve_body bit_libs mem_redis demo_config (PutRateLimits (uuid_String bit_libs 1))
       (JsonText (JObject [(''global_cap'', JString ''9'')])) (calm_world sms_db)
      = (Val (Responded (JSON n (PError m))), (calm_world sms_db)\<lparr>w_tick := w_tick (calm_world sms_db) + k\<rparr>) \<and> n = 400)"
proof
  show u: "unbound (bind_request (PutRateLimits (uuid_String bit_libs 1)) (JsonText (JObject [(''global_cap'', JString ''9'')])))"
    by (simp add: bind_body_def bind_rate_limits_def into_pointer_def json_int_def)
  from unbound_body_refused [OF u, of bit_libs mem_redis demo_config "calm_world sms_db"]
  show "\<exists>n m k. serve_body bit_libs mem_redis demo_config (PutRateLimits (uuid_String bit_libs 1))
       (JsonText (JObject [(''global_cap'', JString ''9'')])) (calm_world sms_db)
      = (Val (Responded (JSON n (PError m))), (calm_world sms_db)\<lparr>w_tick := w_tick (calm_world sms_db) + k\<rparr>) \<and> n = 400"
    by simp
qed

end
