(* ===== verification/Privacy.thy ===== *)
theory Privacy
  imports Wire
begin

text \<open>
  The comment on \<open>domain.APIKey\<close> says that nothing should ever return a key's hash over the API.  \<open>hide\<close> blanks the
  stored hashes.  A computation is \<open>blind\<close> when it runs the same with the hashes blanked; the admin handlers are,
  except the two that create keys (a unique index on the hashes decides whether the insert succeeds) and the list of
  keys, whose rows carry the hash up to the encoding of the response.
\<close>

definition hide :: "db \<Rightarrow> db" where
  "hide d = d\<lparr>api_keys := map (\<lambda>k. k\<lparr>k_KeyHash := []\<rparr>) (api_keys d)\<rparr>"

definition hidden :: "'r world \<Rightarrow> 'r world" where
  "hidden w = w\<lparr>w_db := hide (w_db w)\<rparr>"

definition blind :: "('r world, 'a) prog \<Rightarrow> bool" where
  "blind m \<longleftrightarrow> (\<forall>w. m (hidden w) = apsnd hidden (m w))"

definition blind_stmt :: "(db \<Rightarrow> 'a \<times> db) \<Rightarrow> bool" where
  "blind_stmt s \<longleftrightarrow> (\<forall>d. s (hide d) = apsnd hide (s d))"

named_theorems blinds \<open>computations that do not look at key hashes\<close>

section \<open>Rules\<close>

lemma hide_tables [simp]:
  "tenants (hide d) = tenants d" "tenant_channels (hide d) = tenant_channels d"
  "tenant_rate_limits (hide d) = tenant_rate_limits d" "notifications (hide d) = notifications d"
  "notification_templates (hide d) = notification_templates d"
  "notification_deliveries (hide d) = notification_deliveries d"
  "scheduled_notifications (hide d) = scheduled_notifications d" "dlq_messages (hide d) = dlq_messages d"
  by (simp_all add: hide_def)

lemma hidden_parts [simp]:
  "w_db (hidden w) = hide (w_db w)" "w_env (hidden w) = w_env w" "w_tick (hidden w) = w_tick w"
  "(hidden w)\<lparr>w_tick := n\<rparr> = hidden (w\<lparr>w_tick := n\<rparr>)" "(hidden w)\<lparr>w_db := hide d\<rparr> = hidden (w\<lparr>w_db := d\<rparr>)"
  by (simp_all add: hidden_def)

lemma blind_result: "blind m \<Longrightarrow> fst (m (hidden w)) = fst (m w)"
  by (simp add: blind_def)

lemma blind_ret [blinds]: "blind (ret x)"
  by (simp add: blind_def ret_def)

lemma blind_bnd [blinds]: "blind m \<Longrightarrow> (\<And>x. blind (f x)) \<Longrightarrow> blind (bnd m f)"
  unfolding blind_def bnd_def by (auto split: prod.split outcome.split)

lemma blind_external [blinds]: "blind external"
  by (simp add: blind_def external_def)

lemma blind_cases [blinds]:
  "(\<And>x. blind (f x)) \<Longrightarrow> (\<And>y. blind (g y)) \<Longrightarrow> blind (case s of Inl x \<Rightarrow> f x | Inr y \<Rightarrow> g y)"
  "blind a \<Longrightarrow> (\<And>x. blind (h x)) \<Longrightarrow> blind (case p of None \<Rightarrow> a | Some x \<Rightarrow> h x)"
  "blind a \<Longrightarrow> blind b \<Longrightarrow> blind (if c then a else b)"
  "(\<And>x y. blind (q x y)) \<Longrightarrow> blind (case z of (x, y) \<Rightarrow> q x y)"
  by (auto split: sum.split option.split prod.split)

lemma blind_query [blinds]: "(\<And>c. blind_stmt (s c)) \<Longrightarrow> blind (query s)"
  unfolding query_def
  by (intro blinds) (auto simp: blind_def blind_stmt_def run_stmt_def split: prod.split)

lemma blind_WithTx [blinds]:
  assumes "blind fn"
  shows "blind (WithTx fn)"
proof -
  have "blind (tx_body fn)"
    using assms by (auto simp: blind_def tx_body_def external_def Let_def
        split: prod.split outcome.split sum.split option.split)
  then show ?thesis unfolding WithTx_def by (intro blinds)
qed

lemma blind_for_err [blinds]: "(\<And>x. blind (f x)) \<Longrightarrow> blind (for_err xs f)"
  by (induction xs) (auto intro!: blinds)

lemma blind_helpers [blinds]:
  "blind (errResponse n m)" "(\<And>u. blind (k u)) \<Longrightarrow> blind (parse_id L p what k)"
  unfolding errResponse_def parse_id_def by (intro blinds; assumption)+

section \<open>Statements\<close>

lemma blind_reads [blinds]:
  "(\<And>d. g (hide d) = g d) \<Longrightarrow> blind_stmt (select g)" "(\<And>d. h (hide d) = h d) \<Longrightarrow> blind_stmt (select_one h)"
  by (simp_all add: blind_stmt_def select_def select_one_def split: option.split)

lemma hide_writes:
  "(hide d)\<lparr>tenants := ts\<rparr> = hide (d\<lparr>tenants := ts\<rparr>)"
  "(hide d)\<lparr>tenant_channels := cs\<rparr> = hide (d\<lparr>tenant_channels := cs\<rparr>)"
  "(hide d)\<lparr>tenant_rate_limits := rs\<rparr> = hide (d\<lparr>tenant_rate_limits := rs\<rparr>)"
  by (simp_all add: hide_def)

lemma blind_updates:
  "blind_stmt (update_tenant_returning u f)" "blind_stmt (upsert_channel c)" "blind_stmt (upsert_rate_limit r)"
  by (auto simp: blind_stmt_def update_tenant_returning_def update_tenants_def upsert_channel_def upsert_rate_limit_def ins_def
      hide_writes Let_def split: option.split)

lemma hide_delete_keys:
  "(hide d)\<lparr>api_keys := del_where P (api_keys (hide d))\<rparr> = hide (d\<lparr>api_keys := del_where P (api_keys d)\<rparr>)"
  if "\<And>k. P (k\<lparr>k_KeyHash := []\<rparr>) = P k" for P :: "api_key \<Rightarrow> bool"
  using that by (simp add: hide_def del_where_def filter_map comp_def)

lemma hide_cascade:
  "delete_notifications p (hide d) = hide (delete_notifications p d)"
  "delete_templates q (hide d) = hide (delete_templates q d)"
  by (simp_all add: delete_notifications_def delete_templates_def hide_def Let_def)

lemma hide_delete_tenants: "delete_tenants u (hide d) = hide (delete_tenants u d)"
  by (simp add: delete_tenants_def hide_cascade Let_def) (simp add: hide_def del_where_def filter_map comp_def)

lemma blind_deletes:
  "blind_stmt (tagged (\<lambda>d. (count_where p (tenants d), delete_tenants u d)))"
  "blind_stmt (tagged (delete_api_key u))"
  by (simp_all add: blind_stmt_def tagged_def hide_delete_tenants delete_api_key_def hide_delete_keys)
     (simp add: hide_def count_where_def filter_map comp_def)

lemma blind_guarded: "blind_stmt s \<Longrightarrow> blind_stmt (\<lambda>d. if c then s d else (Inl PgFailure, d))"
  by (simp add: blind_stmt_def)

section \<open>The admin routes\<close>

lemma blind_repositories [blinds]:
  "blind (TenantRepository_GetByID u)" "blind TenantRepository_GetAll" "blind (TenantRepository_Update u name)"
  "blind (TenantRepository_UpdateGlobalRateCap u cap)" "blind (TenantRepository_Delete u)"
  "blind (TenantChannelRepository_Upsert u ch en)" "blind (TenantChannelRepository_GetByTenantID u)"
  "blind (TenantRateLimitRepository_Upsert u ch mx)" "blind (TenantRateLimitRepository_GetByTenantID u)"
  "blind (APIKeyRepository_Delete u)"
  "blind (AnalyticsRepository_Summary u a b)" "blind (AnalyticsRepository_ChannelBreakdown u a b)"
  "blind (AnalyticsRepository_DLQTrend u a b)"
  unfolding TenantRepository_GetByID_def TenantRepository_GetAll_def TenantRepository_Update_def
    TenantRepository_UpdateGlobalRateCap_def TenantRepository_Delete_def TenantChannelRepository_Upsert_def
    TenantChannelRepository_GetByTenantID_def TenantRateLimitRepository_Upsert_def
    TenantRateLimitRepository_GetByTenantID_def APIKeyRepository_Delete_def AnalyticsRepository_Summary_def
    AnalyticsRepository_ChannelBreakdown_def AnalyticsRepository_DLQTrend_def
  by (intro blinds blind_updates blind_deletes blind_guarded; simp add: dlq_trend_def)+

lemma blind_with_tenant [blinds]: "(\<And>t. blind (k t)) \<Longrightarrow> blind (with_tenant u k)"
  unfolding with_tenant_def by (intro blinds; assumption)

fun looks_at_keys :: "admin_request \<Rightarrow> bool" where
  "looks_at_keys (CreateTenant b) = True"
| "looks_at_keys (CreateKey i) = True"
| "looks_at_keys (ListKeys i) = True"
| "looks_at_keys _ = False"

lemma blind_admin_route:
  assumes "\<not> looks_at_keys a"
  shows "blind (admin_route L cfg a)"
  using assms
  by (cases a)
     (auto simp: TenantHandler_List_def TenantHandler_Get_def TenantHandler_Update_def TenantHandler_Delete_def
       TenantHandler_UpdateChannels_def TenantHandler_GetChannels_def TenantHandler_UpdateRateLimits_def
       update_rate_limits_tx_def TenantHandler_GetRateLimits_def TenantHandler_Analytics_def
       TenantHandler_DeleteKey_def intro!: blinds)

text \<open>What a client can see of a run: the status and the JSON body.\<close>

definition visible :: "libs \<Rightarrow> response outcome \<times> 'r world \<Rightarrow> (int \<times> json option) outcome" where
  "visible L z = map_outcome (written L) (fst z)"

lemma key_rows_hide:
  "rows_json (api_key_json L) (filter (\<lambda>k. k_TenantID k = u) (api_keys (hide d)))
     = rows_json (api_key_json L) (filter (\<lambda>k. k_TenantID k = u) (api_keys d))"
  by (simp add: hide_def rows_json_def filter_map comp_def api_key_json_def filter_empty_conv)

lemma ListKeys_hides:
  "visible L (TenantHandler_ListKeys L i (hidden w)) = visible L (TenantHandler_ListKeys L i w)"
  by (simp add: TenantHandler_ListKeys_def parse_id_def APIKeyRepository_GetByTenantID_def query_def bnd_def
      external_def ret_def run_stmt_def select_def wrap_def errResponse_def visible_def key_rows_hide
      split: option.split)

text \<open>C25. No answer of the admin API depends on the stored key hashes, except through the unique index when a key is
  created: two worlds that differ only in the hashes give the same status and the same JSON to every other request.\<close>

theorem admin_answers_hide_hashes:
  assumes "hidden w = hidden v" and "\<And>b. a \<noteq> CreateTenant b" and "\<And>i. a \<noteq> CreateKey i"
  shows "visible L (route L R cfg (Admin a) w) = visible L (route L R cfg (Admin a) v)"
proof (cases "\<exists>i. a = ListKeys i")
  case True
  then obtain i where "a = ListKeys i" by blast
  then show ?thesis
    using ListKeys_hides [of L i w] ListKeys_hides [of L i v] assms(1) by (simp add: route_def)
next
  case False
  with assms(2,3) have "blind (admin_route L cfg a :: ('a world, response) prog)" by (intro blind_admin_route) (cases a; auto)
  from blind_result [OF this, of w] blind_result [OF this, of v] show ?thesis
    using assms(1) by (simp add: route_def visible_def)
qed

text \<open>Two stores of one tenant with different hashes.\<close>

definition key_db :: "string \<Rightarrow> db" where
  "key_db h = empty_db\<lparr>tenants := [\<lparr>t_ID = 1, t_Name = ''a'', t_GlobalRateCap = 9, t_CreatedAt = 0\<rparr>],
     api_keys := [\<lparr>k_ID = 2, k_TenantID = 1, k_KeyHash = h, k_CreatedAt = 0\<rparr>]\<rparr>"

theorem admin_answers_hide_hashes_witness:
  "visible bit_libs (route bit_libs mem_redis demo_config (Admin (ListKeys (uuid_String bit_libs 1))) (calm_world (key_db ''x'')))
     = visible bit_libs (route bit_libs mem_redis demo_config (Admin (ListKeys (uuid_String bit_libs 1))) (calm_world (key_db ''y'')))"
  by (rule admin_answers_hide_hashes) (simp_all add: hidden_def hide_def key_db_def calm_world_def)

end
