(* ===== verification/Retry.thy ===== *)
theory Retry
  imports Notifications
begin

text \<open>
  A client that repeats a send with the same idempotency key: \<open>processSend\<close> of
  \<open>backend/internal/api/handlers/notification.go\<close> with the deduplicator of \<open>backend/internal/dedup/dedup.go\<close> and the
  limiter of \<open>backend/internal/ratelimit/limiter.go\<close> on one Redis server.  The keys of the two components do not
  collide, so the limiter leaves a reservation alone, and the transaction does not touch Redis at all.
\<close>

section \<open>Invariants of the Redis state\<close>

abbreviation (input) redis_inv :: "('r \<Rightarrow> bool) \<Rightarrow> 'r world \<Rightarrow> bool" where
  "redis_inv K w \<equiv> K (w_redis w)"

lemma redis_external [pres]: "pres (redis_inv K) external"
  by (rule pres_external) simp

lemma redis_emit [pres]: "pres (redis_inv K) (emit e)"
  by (simp add: emit_def pres_writes)

lemma redis_count_status [pres]: "pres (redis_inv K) (count_status ch st)"
  unfolding count_status_def by (rule redis_emit)

lemma redis_run_stmt [pres]: "pres (redis_inv K) (run_stmt s)"
  by (simp add: pres_def run_stmt_def split: prod.split)

lemma redis_query [pres]: "pres (redis_inv K) (query s)"
  unfolding query_def by (intro pres)

lemma redis_Publish [pres]: "pres (redis_inv K) (Producer_Publish L p topic m)"
  unfolding Producer_Publish_def by (cases p) (auto intro!: pres pres_writes)

lemma redis_WithTx [pres]:
  assumes "pres (redis_inv K) fn"
  shows "pres (redis_inv K) (WithTx fn)"
proof -
  have "pres (redis_inv K) (tx_body fn)"
    using assms unfolding pres_def
    by (fastforce simp: tx_body_def Let_def external_def split: prod.splits outcome.splits sum.splits option.splits)
  then show ?thesis unfolding WithTx_def by (intro pres)
qed

lemma redis_redis_call:
  assumes "\<And>t r. K r \<Longrightarrow> K (snd (f t r))"
  shows "pres (redis_inv K) (redis_call f)"
  unfolding redis_call_def
  by (intro pres) (auto simp: pres_def split: prod.splits, metis assms snd_conv)

lemma redis_createAndQueue [pres]: "pres (redis_inv K) (NotificationHandler_createAndQueue L sv p b)"
  unfolding NotificationHandler_createAndQueue_def create_and_queue_tx_def NotificationRepository_Create_def
    NotificationDeliveryRepository_Create_def
  by (intro pres)

section \<open>The limiter leaves reservations alone\<close>

lemma rate_key_not_dedup [simp]:
  "channelKey L tid ch \<noteq> redisKey L' key" "globalKey L tid \<noteq> redisKey L' key"
  "redisKey L' key \<noteq> channelKey L tid ch" "redisKey L' key \<noteq> globalKey L tid"
  by (simp_all add: channelKey_def globalKey_def redisKey_def)

context redis_server
begin

lemma script_other_key:
  assumes "k \<noteq> k1" and "k \<noteq> k2"
  shows "keys (snd (slidingWindowScript R t k1 k2 a1 a2 a3 a4 m r)) k = keys r k"
  using assms by (simp add: slidingWindowScript_def Let_def effects)

lemma limiter_keeps_reservation:
  "pres (redis_inv (\<lambda>r. keys r (redisKey L' key) = v)) (Limiter_Allow L R i tid ch)"
  unfolding Limiter_Allow_def Limiter_resolveLimits_def TenantRepository_GetByID_def
    TenantRateLimitRepository_GetByChannel_def
  by (cases i) (auto intro!: pres redis_redis_call simp: script_other_key)

end

section \<open>A first send and its retry\<close>

lemma send_fresh_keeps_reservation:
  assumes "redis_server R keys" and "send_fresh L R sv key p w = (Val (Inr s), w1)"
  shows "sr_notificationID s = uuid_String L (p_ID p)"
    and "keys (w_redis w1) (redisKey L key) = keys (w_redis w) (redisKey L key)"
proof -
  let ?I = "redis_inv (\<lambda>r. keys r (redisKey L key) = keys (w_redis w) (redisKey L key))"
  from send_fresh_success [OF assms(2)] obtain allowed wb n dv where
    a: "limit_answer L R sv p w = (Val (Inr allowed), wb)"
    and c: "NotificationHandler_createAndQueue L sv (admitted allowed key p) allowed wb = (Val (Inr (n, dv)), w1)"
    and s: "s = \<lparr>sr_notificationID = uuid_String L (n_ID n), sr_status = n_Status n, sr_duplicate = False\<rparr>" .
  show "sr_notificationID s = uuid_String L (p_ID p)"
    using createAndQueue_done(1) [OF c] s by (auto simp: notification_row_def admitted_def)
  have "pres ?I (limit_answer L R sv p)"
    unfolding limit_answer_def by (intro pres redis_server.limiter_keeps_reservation [OF assms(1)])
  from presE [OF this a] have "?I wb" by simp
  from presE [OF redis_createAndQueue [of "\<lambda>r. keys r (redisKey L key) = keys (w_redis w) (redisKey L key)"] c this]
  show "keys (w_redis w1) (redisKey L key) = keys (w_redis w) (redisKey L key)" .
qed

text \<open>A send that reports a fresh notification has reserved the key for it.\<close>

lemma fresh_send_holds_key:
  assumes "uuid_library L" and "redis_server R keys" and "sv_Dedup sv = Object dd" and "key \<noteq> []"
    and "NotificationHandler_processSend L R sv key p w = (Val (Inr s), w1)" and "\<not> sr_duplicate s"
  shows "sr_notificationID s = uuid_String L (p_ID p)"
    and "holds_claim L key (p_ID p) (now_at w 0 + ttl_seconds dd * 1000000000) (keys (w_redis w1))"
proof -
  have svc: "dedup_service L R keys" using assms(1,2) by (simp add: dedup_service_def)
  from assms(3-6) obtain x wa where
    res: "Deduplicator_Reserve L R dd key (p_ID p) w = (Val (Inr (True, x)), wa)"
    and fresh: "send_fresh L R sv key p wa = (Val (Inr s), w1)"
    by (auto simp: NotificationHandler_processSend_def Dedup_Reserve_def ret_def elim!: bnd_ValE
        split: sum.splits if_splits)
  from res have st: "dedup_step L R dd (DReserve (now_at w 0) key (p_ID p)) (w_redis w)
      = (Some (Inr (True, x)), w_redis wa)"
    by (auto simp: Deduplicator_Reserve_def redis_call_def external_def ret_def now_at_def elim!: bnd_ValE
        split: sum.splits option.splits prod.splits)
  note free = dedup_service.reserve_claimed [OF svc st]
  from dedup_service.reserve_free(2) [OF svc free st]
  have "holds_claim L key (p_ID p) (now_at w 0 + ttl_seconds dd * 1000000000) (keys (w_redis wa))" .
  with send_fresh_keeps_reservation [OF assms(2) fresh]
  show "sr_notificationID s = uuid_String L (p_ID p)"
    and "holds_claim L key (p_ID p) (now_at w 0 + ttl_seconds dd * 1000000000) (keys (w_redis w1))"
    by (simp_all add: holds_claim_def)
qed

text \<open>C2. A retried send is answered with the first one's notification: after a send with an idempotency key has
  created a notification, a send with the same key before the key's lifetime ends (whatever happened in between, as
  long as the key's entry and the notification are still there) returns the same notification ID, as a duplicate
  with the notification's present status, and stores and publishes nothing.\<close>

theorem retried_send_is_idempotent:
  assumes "uuid_library L" and "redis_server R keys" and "sv_Dedup sv = Object dd" and "key \<noteq> []"
    and "NotificationHandler_processSend L R sv key p w = (Val (Inr s), w1)" and "\<not> sr_duplicate s"
    and "keys (w_redis w2) (redisKey L key) = keys (w_redis w1) (redisKey L key)"
    and "find (\<lambda>n. n_ID n = p_ID p) (notifications (w_db w2)) = Some n"
    and "now_at w2 0 < now_at w 0 + ttl_seconds dd * 1000000000" and "\<not> fails_at w2 0" and "\<not> fails_at w2 1"
  shows "\<exists>w3. NotificationHandler_processSend L R sv key q w2
      = (Val (Inr \<lparr>sr_notificationID = sr_notificationID s, sr_status = n_Status n, sr_duplicate = True\<rparr>), w3)
    \<and> w_db w3 = w_db w2 \<and> w_topics w3 = w_topics w2"
proof -
  note first = fresh_send_holds_key [OF assms(1-6)]
  have "holds_claim L key (p_ID p) (now_at w 0 + ttl_seconds dd * 1000000000) (keys (w_redis w2))"
    using first(2) assms(7) by (simp add: holds_claim_def)
  from held_key_is_duplicate [OF assms(1-4) this assms(9-11,8), of q] first(1) find_SomeD(1) [OF assms(8)]
  show ?thesis by simp
qed

text \<open>A first send that runs through.\<close>

definition keyed_service :: service where
  "keyed_service = kafka_service\<lparr>sv_Dedup := Object \<lparr>dd_ttl = 86400000000000\<rparr>\<rparr>"

lemma keyed_send_runs:
  "\<exists>s w1 n. NotificationHandler_processSend bit_libs mem_redis keyed_service ''order-1'' sms_params (calm_world sms_db)
       = (Val (Inr s), w1) \<and> \<not> sr_duplicate s \<and> w_env w1 = calm_env \<and> w_tick w1 < 9
     \<and> find (\<lambda>n. n_ID n = p_ID sms_params) (notifications (w_db w1)) = Some n"
  by (simp add: NotificationHandler_processSend_def keyed_service_def Dedup_Reserve_def Deduplicator_Reserve_def
      redis_call_def reserveScript_def reserve_reply_def mem_redis_def ks_setnx_def live_def send_fresh_def Let_def
      NotificationHandler_createAndQueue_def WithTx_def tx_body_def create_and_queue_tx_def
      NotificationRepository_Create_def notification_row_def NotificationDeliveryRepository_Create_def
      delivery_row_def Producer_Publish_def count_status_def emit_def run_defs calm_world_def calm_env_def sms_defs)

theorem retried_send_is_idempotent_witness:
  "\<exists>s w1 (n :: notification) w3. NotificationHandler_processSend bit_libs mem_redis keyed_service ''order-1'' sms_params (calm_world sms_db)
       = (Val (Inr s), w1)
     \<and> NotificationHandler_processSend bit_libs mem_redis keyed_service ''order-1'' (sms_params\<lparr>p_ID := 78\<rparr>) w1
       = (Val (Inr \<lparr>sr_notificationID = sr_notificationID s, sr_status = n_Status n, sr_duplicate = True\<rparr>), w3)
     \<and> w_db w3 = w_db w1 \<and> w_topics w3 = w_topics w1"
proof -
  obtain s w1 n where run: "NotificationHandler_processSend bit_libs mem_redis keyed_service ''order-1'' sms_params
      (calm_world sms_db) = (Val (Inr s), w1)" "\<not> sr_duplicate s"
    and env: "w_env w1 = calm_env" "w_tick w1 < 9" and n: "find (\<lambda>n. n_ID n = p_ID sms_params) (notifications (w_db w1)) = Some n"
    using keyed_send_runs by blast
  have "sv_Dedup keyed_service = Object \<lparr>dd_ttl = 86400000000000\<rparr>" by (simp add: keyed_service_def)
  from retried_send_is_idempotent [OF bit_uuid.uuid_library_axioms mem.redis_server_axioms this _ run refl n,
      of "sms_params\<lparr>p_ID := 78\<rparr>"] env
  obtain w3 where "NotificationHandler_processSend bit_libs mem_redis keyed_service ''order-1'' (sms_params\<lparr>p_ID := 78\<rparr>) w1
       = (Val (Inr \<lparr>sr_notificationID = sr_notificationID s, sr_status = n_Status n, sr_duplicate = True\<rparr>), w3)"
    "w_db w3 = w_db w1" "w_topics w3 = w_topics w1"
    by (auto simp: now_at_def fails_at_def calm_env_def ttl_seconds_def calm_world_def)
  with run(1) show ?thesis by (intro exI [of _ s] exI [of _ w1] exI [of _ n] exI [of _ w3]) simp
qed

end
