(* ===== verification/Replay.thy ===== *)
theory Replay
  imports Notifications
begin

text \<open>
  What becomes of a send that the rate limiter turned down: \<open>backend/internal/ratelimit/replayer.go\<close> picks up the
  notifications that \<open>createAndQueue\<close> stored as \<open>queued_rate_limited\<close>.  None is lost, whatever calls fail, and the
  message it publishes is the one an immediate send would have published.
\<close>

section \<open>Parked notifications\<close>

definition parked :: "uuid \<Rightarrow> db \<Rightarrow> bool" where
  "parked i d \<longleftrightarrow> (\<exists>m\<in>set (notifications d). n_ID m = i \<and> n_Status m = StatusQueuedRateLimited)"

definition kept :: "libs \<Rightarrow> uuid \<Rightarrow> 'r world \<Rightarrow> bool" where
  "kept L i w \<longleftrightarrow> published L i w \<or> parked i (w_db w)"

abbreviation note_frame :: "('r world, 'a) prog \<Rightarrow> bool" where
  "note_frame \<equiv> topic_frame notifications"

lemma note_frame_repositories [frames]:
  "note_frame (TenantRepository_GetByID u)" "note_frame (TenantRateLimitRepository_GetByChannel u ch)"
  "note_frame (NotificationRepository_GetByStatus st k)" "note_frame (NotificationDeliveryRepository_GetByNotificationID u)"
  "note_frame (NotificationDeliveryRepository_SetStatus u st)"
  unfolding TenantRepository_GetByID_def TenantRateLimitRepository_GetByChannel_def
    NotificationRepository_GetByStatus_def NotificationDeliveryRepository_GetByNotificationID_def
    NotificationDeliveryRepository_SetStatus_def
  by (intro frames topic_frame_query; simp add: update_deliveries_def)+

lemma note_frame_Allow [frames]: "note_frame (Limiter_Allow L R (Object l) tid ch)"
  unfolding Limiter_Allow_def Limiter_resolveLimits_def by (simp, intro frames)

lemma note_pres:
  fixes m :: "('r world, 'a) prog"
  assumes "note_frame m"
  shows "pres (\<lambda>w. kept L i w \<and> (b \<longrightarrow> published L nid w)) m"
proof (rule presI)
  fix w :: "'r world" assume "kept L i w \<and> (b \<longrightarrow> published L nid w)"
  moreover have "notifications (w_db (snd (m w))) = notifications (w_db w)"
    and "\<And>x. published L x w \<Longrightarrow> published L x (snd (m w))"
    using assms published_mono [of w "snd (m w)"] by (auto simp: topic_frame_def)
  ultimately show "kept L i (snd (m w)) \<and> (b \<longrightarrow> published L nid (snd (m w)))"
    by (auto simp: kept_def parked_def)
qed

lemma note_hoare:
  "note_frame m \<Longrightarrow> hoare (\<lambda>w. kept L i w) m (\<lambda>_ w. kept L i w) (\<lambda>w. kept L i w)"
  using note_pres [of m L i False] by (simp add: hoare_pres)

lemma publish_kept:
  "hoare (\<lambda>w. kept L i w) (Producer_Publish L (Object ()) topic m)
     (\<lambda>r w. kept L i w \<and> (\<not> isl r \<longrightarrow> published L (msg_NotificationID m) w)) (\<lambda>w. kept L i w)"
  by (auto simp: hoare_def Producer_Publish_def go_defs external_def kept_def published_def parked_def
      split: option.split)

lemma status_kept:
  "hoare (\<lambda>w. kept L i w \<and> published L nid w) (NotificationRepository_UpdateStatus nid StatusQueued)
     (\<lambda>_ w. kept L i w) (\<lambda>w. kept L i w)"
proof -
  have "parked i (snd (update_notifications (\<lambda>n. n_ID n = nid) f d))" if "parked i d" "i \<noteq> nid" for f d
    using that by (force simp: parked_def update_notifications_def in_upd_where)
  then show ?thesis
    by (auto simp: hoare_def NotificationRepository_UpdateStatus_def go_defs query_def external_def run_stmt_def
        tagged_def kept_def published_def case_prod_beta split: option.split)
qed

lemma replayOne_kept: "pres (kept L i) (Replayer_replayOne L R l (Object ()) n)"
  unfolding hoare_pres [symmetric] Replayer_replayOne_def
  apply (rule hoare_bnd [OF note_hoare [OF note_frame_Allow]])
  apply (intro hoare_case_sum hoare_if hoare_ret; simp?)
  apply (rule hoare_bnd [OF note_hoare [OF note_frame_repositories(4)]])
  apply (intro hoare_case_sum hoare_case_list hoare_ret; simp?)
  apply (rule hoare_bnd [OF publish_kept])
  apply (intro hoare_case_sum hoare_ret; simp add: stored_message_def)
  apply (rule hoare_bnd [OF status_kept])
  apply (rule hoare_bnd [OF note_hoare [OF note_frame_repositories(5)]])
  apply (rule hoare_ret, simp)
  done

text \<open>C11. The replayer loses nothing: whatever calls fail during any number of its ticks, with Kafka configured, a
  notification that was parked by the rate limiter before is parked still, or a message for it has been published.\<close>

theorem replayer_loses_nothing:
  assumes "parked i (w_db w)" and "Replayer_Run L R l (Object ()) ticks w = (r, w')"
  shows "published L i w' \<or> parked i (w_db w')"
proof -
  have once: "pres (kept L i) (Replayer_replayOnce L R l (Object ()))"
    unfolding hoare_pres [symmetric] Replayer_replayOnce_def
    by (rule hoare_bnd [OF note_hoare [OF note_frame_repositories(3)]])
       (auto simp: hoare_pres split: sum.split intro: pres_ret pres_for_each_set replayOne_kept)
  have "pres (kept L i) (Replayer_Run L R l (Object ()) ticks)"
    by (induction ticks) (auto intro!: pres once)
  from presE [OF this assms(2)] assms(1) show ?thesis by (simp add: kept_def)
qed

section \<open>The replayed message is the one of the send\<close>

text \<open>The stored row gives the same bytes as the request: an absent metadata map is stored as an empty one, and both
  are left out of the message.\<close>

lemma replayed_bytes:
  assumes "n = notification_row t p"
  shows "Message_Marshal L (stored_message n dv) = Message_Marshal L (fresh_message p n dv)"
proof -
  have "omitempty_map k (n_Metadata n) = omitempty_map k (p_Metadata p)" for k
    using assms by (simp add: notification_row_def omitempty_map_def split: option.split)
  then show ?thesis
    using assms by (simp add: Message_Marshal_def stored_message_def fresh_message_def)
       (simp add: notification_row_def)
qed

lemma replayOne_run:
  assumes "Limiter_Allow L R (Object l) (n_TenantID n) (n_Channel n) w = (Val (Inr True), w1)"
    and "order_by d_CreatedAt (filter (\<lambda>r. d_NotificationID r = n_ID n) (notification_deliveries (w_db w1))) = delivery # others"
    and "\<And>i. i < 4 \<Longrightarrow> \<not> fails_at w1 i"
  shows "\<exists>w'. Replayer_replayOne L R l (Object ()) n w = (Val (), w')
    \<and> w_topics w' = w_topics w1 @ [topic_record L (stored_message n delivery)]
    \<and> notifications (w_db w') = upd_where (\<lambda>r. n_ID r = n_ID n) (\<lambda>r. r\<lparr>n_Status := StatusQueued\<rparr>) (notifications (w_db w1))
    \<and> notification_deliveries (w_db w') = upd_where (\<lambda>r. d_ID r = d_ID delivery) (\<lambda>r. r\<lparr>d_Status := StatusQueued\<rparr>)
        (notification_deliveries (w_db w1))"
proof -
  have env: "c_fail (w_env w1 (w_tick w1)) = None" "c_fail (w_env w1 (Suc (w_tick w1))) = None"
    "c_fail (w_env w1 (Suc (Suc (w_tick w1)))) = None" "c_fail (w_env w1 (Suc (Suc (Suc (w_tick w1))))) = None"
    using assms(3) [of 0] assms(3) [of 1] assms(3) [of 2] assms(3) [of 3]
    by (simp_all add: fails_at_def eval_nat_numeral)
  show ?thesis
    using assms(1,2)
    by (simp add: Replayer_replayOne_def bnd_def NotificationDeliveryRepository_GetByNotificationID_def
        NotificationRepository_UpdateStatus_def NotificationDeliveryRepository_SetStatus_def Producer_Publish_def
        ret_def writes_def query_def external_def run_stmt_def select_def tagged_def wrap_def rows_affected_def env
        update_notifications_def update_deliveries_def topic_record_def stored_message_def)
qed

text \<open>C12. A parked send is published unchanged: when the limiter lets a parked notification through and no call
  fails, the replayer appends exactly the record that the original send would have published had it been
  allowed, and sets the notification and its delivery to queued.\<close>

theorem replay_publishes_the_send:
  assumes "NotificationHandler_createAndQueue L sv p False w0 = (Val (Inr (n, dv)), w0')"
    and "Limiter_Allow L R (Object l) (n_TenantID n) (n_Channel n) w = (Val (Inr True), w1)"
    and "order_by d_CreatedAt (filter (\<lambda>r. d_NotificationID r = n_ID n) (notification_deliveries (w_db w1))) = dv # others"
    and "\<And>i. i < 4 \<Longrightarrow> \<not> fails_at w1 i"
  shows "\<exists>w'. Replayer_replayOne L R l (Object ()) n w = (Val (), w')
    \<and> w_topics w' = w_topics w1 @ [topic_record L (fresh_message p n dv)]
    \<and> notifications (w_db w') = upd_where (\<lambda>r. n_ID r = n_ID n) (\<lambda>r. r\<lparr>n_Status := StatusQueued\<rparr>) (notifications (w_db w1))
    \<and> notification_deliveries (w_db w') = upd_where (\<lambda>r. d_ID r = d_ID dv) (\<lambda>r. r\<lparr>d_Status := StatusQueued\<rparr>)
        (notification_deliveries (w_db w1))"
proof -
  obtain t where n: "n = notification_row t p" using createAndQueue_done(1) [OF assms(1)] by blast
  have "topic_record L (stored_message n dv) = topic_record L (fresh_message p n dv)"
    using replayed_bytes [OF n, of L dv] n
    by (simp add: topic_record_def stored_message_def fresh_message_def) (simp add: notification_row_def)
  with replayOne_run [OF assms(2-4)] show ?thesis by simp
qed

section \<open>Witnesses\<close>

definition parked_db :: db where
  "parked_db = due_db\<lparr>notifications := [due_notification\<lparr>n_Status := StatusQueuedRateLimited\<rparr>]\<rparr>"

theorem replayer_loses_nothing_witness:
  "published bit_libs 2 (snd (Replayer_Run bit_libs mem_redis \<lparr>lim_defaultMax = 5\<rparr> (Object ()) [True, True] (calm_world parked_db)))
   \<or> parked 2 (w_db (snd (Replayer_Run bit_libs mem_redis \<lparr>lim_defaultMax = 5\<rparr> (Object ()) [True, True] (calm_world parked_db))))"
proof -
  have "parked 2 (w_db (calm_world parked_db))"
    by (simp add: parked_def parked_db_def due_notification_def notification_row_def)
  from replayer_loses_nothing [OF this surjective_pairing] show ?thesis .
qed

lemma open_limiter:
  fixes w :: "keyspace world"
  assumes "w_env w = calm_env" and "w_tick w < 1000" and "w_redis w = Map.empty"
    and "tenants (w_db w) = [due_tenant]" and "tenant_rate_limits (w_db w) = []"
  shows "\<exists>w1. Limiter_Allow bit_libs mem_redis (Object \<lparr>lim_defaultMax = 5\<rparr>) 1 ch w = (Val (Inr True), w1)
    \<and> w_env w1 = calm_env \<and> w_db w1 = w_db w \<and> w_topics w1 = w_topics w"
proof -
  have lim: "lua_num 5 = 5" "lua_num 10 = 10" by (simp_all add: lua_num_exact)
  have zs: "zset t k (ks_zremrangebyscore t k' 0 c (ks_zremrangebyscore t k'' 0 c Map.empty)) = []" for t k k' k'' c
    by (simp add: zset_def ks_zremrangebyscore_def live_def)
  show ?thesis
    using assms lim
    by (simp add: Limiter_Allow_def Limiter_resolveLimits_def TenantRepository_GetByID_def
        TenantRateLimitRepository_GetByChannel_def run_defs calm_env_def due_tenant_def redis_call_def
        slidingWindowScript_def mem.replies mem.effects zs Let_def)
qed

theorem replay_publishes_the_send_witness:
  "\<exists>n dv w1 w'. NotificationHandler_createAndQueue bit_libs kafka_service (sms_params\<lparr>p_Status := StatusQueuedRateLimited\<rparr>)
       False (calm_world sms_db) = (Val (Inr (n, dv)), w1)
     \<and> Replayer_replayOne bit_libs mem_redis \<lparr>lim_defaultMax = 5\<rparr> (Object ()) n w1 = (Val (), w')
     \<and> w_topics w' = [topic_record bit_libs (fresh_message (sms_params\<lparr>p_Status := StatusQueuedRateLimited\<rparr>) n dv)]"
proof -
  let ?p = "sms_params\<lparr>p_Status := StatusQueuedRateLimited\<rparr>"
  obtain n dv w1 where run: "NotificationHandler_createAndQueue bit_libs kafka_service ?p False (calm_world sms_db)
      = (Val (Inr (n, dv)), w1)" and w1: "w_env w1 = calm_env" "w_tick w1 < 1000" "w_redis w1 = Map.empty"
    by (simp add: NotificationHandler_createAndQueue_def WithTx_def tx_body_def create_and_queue_tx_def Let_def
      NotificationRepository_Create_def notification_row_def NotificationDeliveryRepository_Create_def
      delivery_row_def count_status_def emit_def run_defs calm_world_def calm_env_def sms_defs)
  note e = createAndQueue_done [OF run]
  have n: "n_TenantID n = 1" "n_Channel n = ChannelSMS" "n_ID n = p_ID ?p"
    using e(1) by (auto simp: notification_row_def sms_params_def)
  have db: "tenants (w_db w1) = [due_tenant]" "tenant_rate_limits (w_db w1) = []" "notification_deliveries (w_db w1) = [dv]"
    "w_topics w1 = []"
    using e(3,4) by (simp_all add: sms_db_def empty_db_def calm_world_def)
  obtain w2 where lim: "Limiter_Allow bit_libs mem_redis (Object \<lparr>lim_defaultMax = 5\<rparr>) (n_TenantID n) (n_Channel n) w1
      = (Val (Inr True), w2)" and w2: "w_env w2 = calm_env" "w_db w2 = w_db w1" "w_topics w2 = w_topics w1"
    using open_limiter [OF w1 db(1,2)] n(1) by auto
  have "order_by d_CreatedAt (filter (\<lambda>r. d_NotificationID r = n_ID n) (notification_deliveries (w_db w2))) = dv # []"
    using e(2) db(3) w2(2) n(3) by (simp add: order_by_def)
  moreover have "\<not> fails_at w2 i" for i using w2(1) by (simp add: fails_at_def calm_env_def)
  ultimately obtain w' where "Replayer_replayOne bit_libs mem_redis \<lparr>lim_defaultMax = 5\<rparr> (Object ()) n w1 = (Val (), w')"
    "w_topics w' = w_topics w2 @ [topic_record bit_libs (fresh_message ?p n dv)]"
    using replay_publishes_the_send [OF run lim] by blast
  with run w2(3) db(4) show ?thesis by (intro exI [of _ n] exI [of _ dv] exI [of _ w1] exI [of _ w']) simp
qed

end
