(* ===== verification/EndToEnd.thy ===== *)
theory EndToEnd
  imports Outbound Delivery
begin

text \<open>
  From the HTTP request to the recipient: what \<open>Send\<close> of \<open>backend/internal/api/handlers/notification.go\<close> stores and
  publishes, read back by the SMS consumer of \<open>backend/internal/kafka/consumers/sms.go\<close>.
\<close>

section \<open>What a successful send has done\<close>

text \<open>A send that reports a fresh pending notification went through createAndQueue, which published it; up to there
  nothing was stored or published.\<close>

lemma fresh_pending_send:
  fixes w :: "'r world"
  assumes "NotificationHandler_processSend L R sv key p w = (Val (Inr s), w1)"
    and "\<not> sr_duplicate s" and "sr_status s = StatusPending"
  obtains n dv w0 where "NotificationHandler_createAndQueue L sv (admitted True key p) True w0 = (Val (Inr (n, dv)), w1)"
    and "sr_notificationID s = uuid_String L (n_ID n)" and "w_db w0 = w_db w" and "w_topics w0 = w_topics w"
proof -
  let ?I = "\<lambda>v :: 'r world. w_db v = w_db w" and ?O = "\<lambda>v :: 'r world. w_topics v = w_topics w"
  have start: "\<exists>wa. ?I wa \<and> ?O wa \<and> send_fresh L R sv key p wa = (Val (Inr s), w1)"
  proof (cases "key \<noteq> [] \<and> \<not> is_nil (sv_Dedup sv)")
    case False
    with assms(1) show ?thesis by (auto simp: NotificationHandler_processSend_def)
  next
    case True
    with assms(1,2) obtain c wa where res: "Dedup_Reserve L R (sv_Dedup sv) key (p_ID p) w = (Val c, wa)"
      and fresh: "send_fresh L R sv key p wa = (Val (Inr s), w1)"
      by (auto simp: NotificationHandler_processSend_def ret_def elim!: bnd_ValE split: sum.splits if_splits)
    from presE [OF db_Dedup(1) [of "\<lambda>d. d = w_db w"] res]
      presE [OF quiet_limits(2) [of "\<lambda>ts h. ts = w_topics w"] res] fresh
    show ?thesis by blast
  qed
  then obtain wa where wa: "?I wa" "?O wa" and fresh: "send_fresh L R sv key p wa = (Val (Inr s), w1)" by blast
  from send_fresh_success [OF fresh] obtain allowed w0 n dv where a: "limit_answer L R sv p wa = (Val (Inr allowed), w0)"
    and c: "NotificationHandler_createAndQueue L sv (admitted allowed key p) allowed w0 = (Val (Inr (n, dv)), w1)"
    and s: "s = \<lparr>sr_notificationID = uuid_String L (n_ID n), sr_status = n_Status n, sr_duplicate = False\<rparr>" .
  have "allowed" using createAndQueue_done(1) [OF c] s assms(3)
    by (auto simp: notification_row_def admitted_def split: if_splits)
  moreover have "pres ?I (limit_answer L R sv p)" unfolding limit_answer_def by (intro pres)
  from presE [OF this a wa(1)] have "w_db w0 = w_db w" .
  moreover have "pres ?O (limit_answer L R sv p)" unfolding limit_answer_def by (intro pres quiet)
  from presE [OF this a wa(2)] have "w_topics w0 = w_topics w" .
  ultimately show thesis using that c s by simp
qed

text \<open>The same through the handler, for a request without a template.\<close>

definition send_params :: "tenant \<Rightarrow> sendNotificationRequest \<Rightarrow> uuid \<Rightarrow> CreateNotificationParams" where
  "send_params tenant req uid = \<lparr>p_ID = uid, p_TenantID = t_ID tenant, p_Channel = sq_Channel req,
     p_Priority = default_priority (sq_Priority req), p_Status = [],
     p_RecipientID = sq_RecipientID req, p_RecipientEmail = sq_RecipientEmail req,
     p_RecipientPhone = sq_RecipientPhone req, p_RecipientToken = sq_RecipientToken req,
     p_TemplateID = None, p_Subject = sq_Subject req, p_Body = sq_Body req,
     p_Metadata = sq_Metadata req, p_IdempotencyKey = [], p_ScheduledAt = None\<rparr>"

lemma Send_reaches_processSend:
  fixes w :: "'r world"
  assumes "NotificationHandler_Send L R sv (Some req) (Some tenant) w = (Val (JSON 201 (PSend nid st)), w1)"
    and "sq_TemplateID req = []"
  obtains uid s w0 where "NotificationHandler_processSend L R sv (sq_IdempotencyKey req) (send_params tenant req uid) w0
      = (Val (Inr s), w1)"
    and "\<not> sr_duplicate s" and "sr_notificationID s = nid" and "sr_status s = st"
    and "w_db w0 = w_db w" and "w_topics w0 = w_topics w" and "sendNotificationRequest_Validate req = None"
proof -
  let ?I = "\<lambda>v :: 'r world. w_db v = w_db w" and ?O = "\<lambda>v :: 'r world. w_topics v = w_topics w"
  from assms obtain b wa c w0 s where val: "sendNotificationRequest_Validate req = None"
    and en: "TenantChannelRepository_IsEnabled (t_ID tenant) (sq_Channel req) w = (Val b, wa)"
    and ext: "external wa = (Val c, w0)"
    and run: "NotificationHandler_processSend L R sv (sq_IdempotencyKey req) (send_params tenant req (c_uuid c)) w0
      = (Val (Inr s), w1)" "\<not> sr_duplicate s" "sr_notificationID s = nid" "sr_status s = st"
    by (auto simp: NotificationHandler_Send_def RequireTenant_def deref_def with_enabled_channel_def with_content_def
        errResponse_def ret_def send_params_def elim!: bnd_ValE split: option.splits sum.splits if_splits)
  have "pres ?I (TenantChannelRepository_IsEnabled (t_ID tenant) (sq_Channel req))"
    and "pres ?O (TenantChannelRepository_IsEnabled (t_ID tenant) (sq_Channel req))" by (intro pres quiet)+
  with en have "w_db wa = w_db w" "w_topics wa = w_topics w" by (auto dest: presE)
  with ext have "w_db w0 = w_db w" "w_topics w0 = w_topics w" by (auto simp: external_def)
  with that run val show thesis by blast
qed

section \<open>An SMS reaches its recipient\<close>


lemma sms_send_runs:
  "\<exists>nid w1. NotificationHandler_Send bit_libs mem_redis kafka_service (Some sms_request) (Some due_tenant) (calm_world sms_db)
     = (Val (JSON 201 (PSend nid StatusPending)), w1)"
  by (simp add: NotificationHandler_Send_def RequireTenant_def deref_def sendNotificationRequest_Validate_def
      isValidChannel_def validateRecipientFields_def with_enabled_channel_def with_content_def
      TenantChannelRepository_IsEnabled_def NotificationHandler_processSend_def send_fresh_def Let_def
      NotificationHandler_createAndQueue_def WithTx_def tx_body_def create_and_queue_tx_def
      NotificationRepository_Create_def notification_row_def NotificationDeliveryRepository_Create_def
      delivery_row_def Producer_Publish_def count_status_def emit_def run_defs calm_world_def calm_env_def sms_defs)


end
