(* ===== verification/Spec2Isabelle.thy ===== *)
theory Spec2Isabelle
  imports Scenario Concurrency Http Migrations Privacy Retry Replay EndToEnd
begin

text \<open>
  Notifyx is a multi-tenant notification service written in Go (\<open>src/backend\<close>).  A tenant's client asks over HTTP
  for a notification to be sent by e-mail, SMS, push or in the application, now or at a given time; the request
  is validated, deduplicated, rate limited, stored in Postgres and published to Kafka; a consumer
  per channel hands it to the provider, retries, and dead-letters what keeps failing; cron jobs replay
  rate-limited notifications, fire scheduled ones and delete expired ones; in-app messages go through a
  WebSocket hub or an offline queue in Redis.  This development models that code and proves what it promises.

  \<^bold>\<open>How programs are modelled.\<close>  A function that does I/O is a computation \<open>'w \<Rightarrow> outcome \<times> 'w\<close> (\<open>Prelude\<close>): it
  returns a value or panics, and leaves a new world either way.  Go's \<open>(T, error)\<close> is a sum with the error on
  the left, a pointer an option, an interface value \<open>iface\<close> (nil, a nil pointer inside a non-nil
  interface, or an object).  The world (\<open>World\<close>) holds the database, the Redis server's state, the
  Kafka records, the hub, the cached FCM token and the log of counters, durations, waits, commits, request-log
  lines and outgoing requests.  What the outside answers is the function \<open>w_env\<close> from call numbers to answers: whether the call failed, its
  UUID, its clock reading, the HTTP reply.  Theorems quantify over it, so they hold for every pattern of
  failures unless they say otherwise.  A failed statement, publish or Redis call has no effect.

  \<^bold>\<open>The theories, from the bottom.\<close>
  \<^item> \<open>Prelude\<close>: sequencing, the invariant rules (\<open>pres\<close>) and triples (\<open>hoare\<close>), tables as lists, 64-bit integers,
    decimal printing.
  \<^item> \<open>Domain\<close>: \<open>internal/domain\<close> and \<open>internal/kafka/message.go\<close>: the structs, the constants, the topics and the
    JSON form of the Kafka envelope with its round trip.  JSON is a tree; the text form and the other
    libraries (\<open>libs\<close>: SHA-256, UUID text, the parsing and the JSON text of times, URL syntax, the RSA key) are parameters; locale
    \<open>uuid_library\<close> states that parsing inverts printing.
  \<^item> \<open>Tables\<close>: the schema of \<open>migrations/001_initial_schema.up.sql\<close>: rows, INSERT, UPSERT, UPDATE, DELETE with primary
    keys, UNIQUE constraints, foreign keys and cascades; \<open>db_ok\<close> says they hold and every statement keeps it.
  \<^item> \<open>Hub\<close>: \<open>internal/ws/hub.go\<close>; connections are heap cells with a bounded, closable channel.  The stream a user
    gets is in order; a replaced connection's pump drains and stops; a peer that answers pings stays
    connected; a send after a replacement panics.
  \<^item> \<open>Repos\<close>: \<open>internal/repository/postgres\<close>, every method.  Locale \<open>db_statements\<close> collects what an invariant of the
    database must satisfy statement by statement; its lemmas lift it to every method, handler and
    worker.  It is interpreted for \<open>db_ok\<close> (\<open>schema\<close>), for \<open>never_delivered\<close> and, in \<open>System\<close>, for \<open>stored_ok\<close>.
  \<^item> \<open>Redis\<close>: the commands the code sends, as the locale \<open>redis_server\<close> (any state whose keyspace behaves as Redis documents),
    interpreted on the keyspace itself.
  \<^item> \<open>Dedup\<close>, \<open>RateLimit\<close>, \<open>Template\<close>, \<open>Offline\<close>: \<open>internal/dedup\<close>, \<open>internal/ratelimit/limiter.go\<close>, \<open>internal/template\<close>,
    \<open>internal/offlinequeue\<close> and \<open>internal/presence\<close>.  The Lua scripts are modelled command by command; the limiter's
    numbers are IEEE doubles.  Claims are exclusive, the limiter refines a 60-second window and never lets more
    through than the limits, rendering is a single pass, the queue is first in first out.
  \<^item> \<open>Jwt\<close>, \<open>Channels\<close>: \<open>internal/channels\<close>: one HTTP request per send, and how its answer is read; the FCM token cache, and
    the signed assertion with its base64 form, which decodes again.
  \<^item> \<open>Workers\<close>: \<open>internal/scheduler\<close> and \<open>ratelimit/replayer.go\<close>.  A row is marked fired only after it was published.
  \<^item> \<open>Consumers\<close>: \<open>internal/kafka/consumers\<close>: fetch loop, three attempts with their backoff, the dead-letter hand-off, the five
    handlers.  An acknowledged message was handled or dead-lettered, except for the gap proved there.
  \<^item> \<open>Api\<close>, \<open>Notifications\<close>, \<open>TenantApi\<close>, \<open>WsHandler\<close>: \<open>internal/api/handlers\<close>, \<open>internal/api/middleware/auth.go\<close> and
    \<open>internal/ws/handler.go\<close>: every handler with its validation and its error answers.  Sends are all or nothing in the
    database; reads are scoped to the tenant; pages tile the history; keys authenticate until they are
    revoked; rate-limit updates are all or nothing.  Locale \<open>db_service\<close> is what the send path needs of an
    invariant.
  \<^item> \<open>Retry\<close>: a send repeated with its idempotency key is answered with the first one's notification; the limiter and the
    transaction leave the reservation alone.
  \<^item> \<open>Replay\<close>: what becomes of rate-limited sends: the replayer loses none, and publishes the record the send would have.
  \<^item> \<open>Configuration\<close>, \<open>Wiring\<close>: \<open>config/config.go\<close>, \<open>cmd/server/main.go\<close> and \<open>internal/api/routes/routes.go\<close>: settings, which
    dependencies are nil, the consumers and jobs started, the routes, and the \<open>Recover\<close> middleware.
  \<^item> \<open>Startup\<close>, \<open>Migrations\<close>: the whole of \<open>main\<close> with the constructors it calls (\<open>pkg/logger\<close>, \<open>internal/tracing\<close>, \<open>NewPool\<close>,
    \<open>repository/redis\<close>, the Kafka writer and readers) and \<open>cmd/migrate\<close>.  The state is the process: the answers of the
    drivers and a trace of resources and goroutines.  A run that is not cut short is orderly, and it starts
    the consumers and jobs of \<open>Wiring\<close>; locale \<open>migration_library\<close> makes migrations repeatable.
  \<^item> \<open>Http\<close>: the global middleware around the routes (\<open>request_logger.go\<close>, \<open>metrics.EchoMiddleware\<close>); locale \<open>echo_framework\<close> is what
    it relies on.  Every request is logged once, with the status sent.
  \<^item> \<open>Totality\<close>: rules for computations that cannot panic; with Redis and Kafka no request panics, without
    them the nil pointers inside interfaces do.
  \<^item> \<open>Wire\<close>, \<open>Privacy\<close>: the HTTP bodies: the JSON of every response and the binding of every request body, by the struct
    tags of \<open>internal/domain\<close> and \<open>internal/api/handlers\<close>.  Every request can be expressed, a body that does not bind changes
    nothing, and no answer of the admin API depends on the stored key hashes.
  \<^item> \<open>System\<close>: all actions of the running process and the inductive predicate \<open>reachable\<close>; \<open>stored_ok\<close>, the
    well-formedness of what is stored.
  \<^item> \<open>Delivery\<close>: a scheduler tick fires what is due; what the SMS and in-app consumers have done when they succeed.
  \<^item> \<open>Outbound\<close>: every record the system has published can be handled, and the hub is in order, in every reachable state.
  \<^item> \<open>EndToEnd\<close>: from the request of \<open>Send\<close> through Kafka and the consumer to the provider and the delivery row.
  \<^item> \<open>Fanout\<close>, \<open>Concurrency\<close>: the semaphore-bounded goroutines of Batch, the replayer and the scheduler as a step relation in
    which they finish in any order: they end, fill every slot, keep the invariants, and the sequential loops of the
    handlers' models are one of their schedules.
  \<^item> \<open>Scenario\<close>: a run of the whole system from the empty database, for the witnesses.

  This theory holds the properties of the whole system.

  \<^bold>\<open>Bounds.\<close>  Loops of the code are structural recursions: over attempts (\<open>maxRetries = 3\<close>, three look-ups of a
  duplicate's original), over the rows of a batch of 100, over the list of ticks or fetches a run sees.
  There is no fuel.  Integers that reach SQL or a duration keep their width (\<open>int4\<close>, \<open>int64\<close>); counters and
  clock readings are unbounded.

  \<^bold>\<open>Simplifications.\<close>  In the handlers' models the goroutines of Batch, of the replayer and of the scheduler run one after the
  other, and each action of \<open>System\<close> runs to completion; \<open>Concurrency\<close> lets the goroutines' bodies finish in any order, each
  body in one step, and the races that matter inside a body are modelled as separate steps where they occur (the
  hub's look-up and send, the two round trips of a flush).  Texts that \<open>encoding/json\<close>, \<open>net/url\<close> and the
  drivers append to errors are left out, and \<open>%q\<close> is that of printable ASCII.  A NULL text column is the empty string, as
  the repositories scan it.

  \<^bold>\<open>Not modelled.\<close>  Log lines other than the request log and trace spans: they are output and influence no state.  The
  binding of query parameters, request IDs and the router's matching of paths belong to the framework: a request is given as
  its route with the bound parameters and, in \<open>Wire\<close>, its JSON body; a body of another content type counts as unreadable.  In
  a JSON object that repeats a slice's key the last slice counts, as \<open>encoding/json\<close> documents.  The interfaces, service structs and constructors that only store their arguments have
  no definition of their own: the operations take what they hold as arguments.
\<close>

section \<open>Every reachable database is well formed\<close>

text \<open>C5. Whatever requests, consumers and cron jobs run, in whatever order, whatever fails, panics or is
  restarted in between: the schema's constraints hold, and every stored notification has a valid
  channel and priority, the recipient field its channel needs, one of the four statuses the code
  writes, and a delivery row.\<close>

theorem reachable_stored_ok:
  assumes "reachable L R decode w"
  shows "stored_ok (w_db w)"
  by (rule stored.inv_reachable [OF assms stored_ok_empty])

text \<open>C40. Nothing ever sets a notification to delivered (the consumers record deliveries on the
  delivery row only), so the analytics endpoint reports no delivered notification and a delivery
  rate of zero for every channel, in every reachable state.\<close>

theorem analytics_reports_nothing_delivered:
  assumes "reachable L R decode w"
    and "serve L R cfg (Admin (GetAnalytics i q)) w
           = (Val (Responded (JSON 200 (PAnalytics summary channels trend a b))), w')"
  shows "TotalDelivered summary = 0 \<and> list_all (\<lambda>c. b_Delivered c = 0 \<and> b_DeliveryRate c = 0) channels"
proof -
  from stored.inv_reachable [OF assms(1) stored_ok_empty]
  have none: "n_Status n \<noteq> StatusDelivered" if "n \<in> set (notifications (w_db w))" for n
    using that by (auto simp: stored_ok_def notification_ok_def status_defs)
  have "TenantHandler_Analytics L i q w = (Val (JSON 200 (PAnalytics summary channels trend a b)), w')"
    using assms(2) by (auto simp: serve_def route_def split: prod.splits outcome.splits)
  then obtain tid where "summary = summary_of (filter (in_period tid a b) (notifications (w_db w)))"
    and "channels = map (breakdown_of (filter (in_period tid a b) (notifications (w_db w))))
      (channels_of (filter (in_period tid a b) (notifications (w_db w))))"
    by (rule analytics_run) (rule that)
  moreover have "count_where (\<lambda>n. n_Status n = StatusDelivered) ns = 0"
    if "set ns \<subseteq> set (notifications (w_db w))" for ns
    using that none by (auto simp: count_where_def filter_empty_conv)
  ultimately show ?thesis
    by (auto simp: summary_of_def breakdown_of_def Let_def list_all_iff)
qed


text \<open>C6. Everything this process has put into Kafka in a reachable state can be handled: the record's value
  decodes to a message with a valid channel and priority and the recipient field that channel needs, it lies on
  the topic of its channel or on the dead-letter topic, and its key is the notification's ID.\<close>

theorem reachable_records_deliverable:
  assumes "uuid_library L" and "reachable L R decode w" and "rec \<in> set (w_topics w)"
  shows "\<exists>m. Message_Unmarshal L (kr_value rec) = Some m \<and> message_ok m
    \<and> kr_topic rec \<in> {TopicForChannel (msg_Channel m), TopicDLQ} \<and> kr_key rec = uuid_String L (msg_NotificationID m)"
  using outbound_reachable [OF assms(1,2)] assms(3) record_decodes [OF assms(1)]
  by (auto simp: outbound_ok_def list_all_iff)

text \<open>In every reachable state the hub maps each user to an open connection of its own, so that
  whoever sends to a user from there does not hit a closed channel.\<close>

theorem reachable_hub_ok:
  assumes "uuid_library L" and "reachable L R decode w"
  shows "hub_ok (w_hub w) \<and> fst (Hub_SendToUser t u p (w_hub w)) \<noteq> Panic"
  using outbound_reachable [OF assms] hub_ok_send(2) by (auto simp: outbound_ok_def)

section \<open>Witnesses\<close>

definition demo_world :: "keyspace world" where
  "demo_world = snd (perform bit_libs mem_redis (\<lambda>_. None) demo_config
     (Serve (Admin (CreateTenant (Some ''acme'')))) (calm_world empty_db))"

lemma demo_world_tenant: "w_env demo_world = calm_env \<and> (\<exists>n. w_tick demo_world = n) \<and> tenants (w_db demo_world) = [\<lparr>t_ID = 4, t_Name = ''acme'', t_GlobalRateCap = 300, t_CreatedAt = 3000000000\<rparr>]"
  by (simp add: demo_world_def perform_def serve_def route_def TenantHandler_Create_def createTenantRequest_Validate_def generateAPIKey_def
      create_tenant_tx_def TenantRepository_Create_def APIKeyRepository_Create_def WithTx_def tx_body_def
      go_defs external_def query_def run_stmt_def insert_tenant_def insert_api_key_def ins_def Let_def wrap_def
      demo_config_def empty_db_def calm_env_def wrap_unique_def int4_def)

lemma demo_world_reachable: "reachable bit_libs mem_redis (\<lambda>_. None) demo_world"
  unfolding demo_world_def
  by (rule reachable.act [OF reachable.start]) (simp_all add: calm_world_def enabled_def)

lemma demo_analytics:
  "\<exists>summary channels trend a b w'. serve bit_libs mem_redis demo_config
     (Admin (GetAnalytics (uuid_String bit_libs 4) (Some ([], [])))) demo_world
     = (Val (Responded (JSON 200 (PAnalytics summary channels trend a b))), w')"
proof -
  have "uuid_Parse bit_libs (uuid_String bit_libs 4) = Some 4" by (rule bit_uuid.parse_string)
  then show ?thesis
    using demo_world_tenant
    by (simp add: serve_def route_def TenantHandler_Analytics_def parse_id_def with_tenant_def
        TenantRepository_GetByID_def AnalyticsRepository_Summary_def AnalyticsRepository_ChannelBreakdown_def
        AnalyticsRepository_DLQTrend_def go_defs query_def external_def run_stmt_def select_def select_one_def
        wrap_def wrap_not_found_def time_or_def)
qed

theorem reachable_stored_ok_witness:
  "stored_ok (w_db demo_scheduled) \<and> map n_ID (notifications (w_db demo_scheduled)) = [15]"
  using reachable_stored_ok [OF demo_scheduled_reachable] demo_scheduled_row(3) by simp

theorem reachable_records_deliverable_witness:
  "\<exists>rec m. rec \<in> set (w_topics demo_published) \<and> Message_Unmarshal bit_libs (kr_value rec) = Some m \<and> message_ok m"
proof -
  obtain rec where "w_topics demo_published = w_topics demo_scheduled @ [rec]" by (rule demo_published_record)
  then have "rec \<in> set (w_topics demo_published)" by simp
  with reachable_records_deliverable [OF bit_uuid.uuid_library_axioms demo_published_reachable this]
  show ?thesis by blast
qed

theorem reachable_hub_ok_witness: "hub_ok (w_hub demo_published)"
  using reachable_hub_ok [OF bit_uuid.uuid_library_axioms demo_published_reachable] by blast

theorem analytics_reports_nothing_delivered_witness:
  "\<exists>summary channels trend a b w'. serve bit_libs mem_redis demo_config
     (Admin (GetAnalytics (uuid_String bit_libs 4) (Some ([], [])))) demo_world
     = (Val (Responded (JSON 200 (PAnalytics summary channels trend a b))), w') \<and> TotalDelivered summary = 0"
  using demo_analytics analytics_reports_nothing_delivered [OF demo_world_reachable] by blast


end
